(* ===== verification/Osha_Prelude.thy ===== *)
theory Osha_Prelude
  imports Main "HOL-Library.Word"
begin

text \<open>
  Shared ground of the development: the types that stand for Go's machine integers, the
  outcome of a Go call (a value, an error value or a panic), the errors the source builds with
  \<open>fmt.Errorf\<close>, and the generic lemmas on maps, lists and words the components share.
\<close>

section \<open>Machine integers\<close>

type_synonym u8 = "8 word"
type_synonym u16 = "16 word"
type_synonym u64 = "64 word"
type_synonym i64 = int \<comment> \<open>an \<open>int64\<close> the code never overflows, as its value\<close>

text \<open>
  Pointers to heap objects are addresses. A pointer that may be nil is an \<open>addr option\<close>, with
  \<open>None\<close> for nil; a Go map lookup of a pointer value that finds nothing is then literally the
  lookup of the Isabelle map.
\<close>

type_synonym addr = nat
type_synonym ptr = "addr option"

section \<open>Errors and outcomes\<close>

text \<open>
  \<open>Errorf fmt args\<close> is the value \<open>fmt.Errorf(fmt, args...)\<close>; \<open>Wrapf fmt args e\<close> is the same with
  a wrapped (\<open>%w\<close> or \<open>%v\<close>) error as its last argument. \<open>NumError\<close> is the error of package
  \<open>strconv\<close>: the function, the text it was given and the reason. \<open>External\<close> is an error that code
  outside the repository returned.
\<close>

datatype num_err = ErrSyntax | ErrRange

datatype error =
    Errorf string "string list"
  | Wrapf string "string list" error
  | NumError string string num_err
  | External string

datatype panic = NilDereference | IndexOutOfRange | MakeSliceCapOutOfRange | NilMapWrite | UnhashableKey

datatype 'a outcome = Ok 'a | Err error | Panic panic

definition is_ok :: "'a outcome \<Rightarrow> bool" where
  "is_ok r \<longleftrightarrow> (\<exists>x. r = Ok x)"

definition panics :: "'a outcome \<Rightarrow> bool" where
  "panics r \<longleftrightarrow> (\<exists>p. r = Panic p)"

lemma is_ok_simps [simp]: "is_ok (Ok x)" "\<not> is_ok (Err e)" "\<not> is_ok (Panic p)"
  by (simp_all add: is_ok_def)

lemma panics_simps [simp]: "\<not> panics (Ok x)" "\<not> panics (Err e)" "panics (Panic p)"
  by (simp_all add: panics_def)

text \<open>The first element of a slice: \<open>xs[0]\<close>, which panics on an empty one.\<close>

definition slice_head :: "'a list \<Rightarrow> 'a outcome" where
  "slice_head xs = (case xs of [] \<Rightarrow> Panic IndexOutOfRange | x # _ \<Rightarrow> Ok x)"

lemma slice_head_simps [simp]:
  "slice_head [] = Panic IndexOutOfRange" "slice_head (x # xs) = Ok x"
  by (simp_all add: slice_head_def)

section \<open>Collections of rules\<close>

named_theorems heap_simps \<open>what a heap operation leaves of the heap's other cells\<close>
named_theorems abs_simps \<open>the abstraction of a state after an operation\<close>
named_theorems wf_intros \<open>operations keep the well-formedness invariants\<close>

section \<open>Generic lemmas\<close>

lemma map_cong_fresh:
  assumes "\<And>x. x \<in> set xs \<Longrightarrow> x < n" and "\<And>x. x < n \<Longrightarrow> g x = f x"
  shows "map g xs = map f xs"
  using assms by (auto intro: map_cong)

lemma map_upd_notin [simp]: "a \<notin> set xs \<Longrightarrow> map (f(a := v)) xs = map f xs"
  by (auto intro: map_cong)

lemma map_upd_nth:
  assumes "distinct xs" and "i < length xs"
  shows "map (f(xs ! i := v)) xs = (map f xs)[i := v]"
  using assms by (intro nth_equalityI) (auto simp: nth_eq_iff_index_eq nth_list_update)

lemma empty_map_add [simp]: "Map.empty ++ m = m"
  by (simp add: map_add_def fun_eq_iff split: option.splits)

lemma unat_of_nat_u64: "n < 2 ^ 64 \<Longrightarrow> unat (of_nat n :: u64) = n"
  by (simp add: unat_of_nat take_bit_nat_eq_self)

lemma unat_u64_bound: "unat (x :: u64) < 2 ^ 64"
  using unsigned_less [of x, where ?'a = nat] by simp

lemma unat_succ_u64: "unat (x :: u64) < 2 ^ 64 - 1 \<Longrightarrow> unat (x + 1) = unat x + 1"
  by (simp add: unat_word_ariths)

end
