(* ===== verification/Go_Strings.thy ===== *)
theory Go_Strings
  imports Osha_Prelude
begin

text \<open>
  The functions of Go's packages \<open>strings\<close> and \<open>strconv\<close> that the source calls, on byte strings:
  \<open>HasPrefix\<close>, \<open>TrimPrefix\<close>, \<open>Split\<close> at a one-byte separator, \<open>Join\<close>, \<open>TrimSpace\<close>, \<open>FormatUint\<close> and
  \<open>ParseUint\<close> in base ten and \<open>ParseBool\<close>, with the laws the components use: printing and
  parsing an index are inverse, and splitting inverts joining.
\<close>

section \<open>Package strings\<close>

definition HasPrefix :: "string \<Rightarrow> string \<Rightarrow> bool" where
  "HasPrefix s p \<longleftrightarrow> take (length p) s = p"

definition TrimPrefix :: "string \<Rightarrow> string \<Rightarrow> string" where
  "TrimPrefix s p = (if HasPrefix s p then drop (length p) s else s)"

lemma HasPrefix_append [simp]: "HasPrefix (p @ s) p"
  by (simp add: HasPrefix_def)

lemma TrimPrefix_append [simp]: "TrimPrefix (p @ s) p = s"
  by (simp add: TrimPrefix_def)

fun Split :: "string \<Rightarrow> char \<Rightarrow> string list" where
  "Split [] c = [[]]"
| "Split (x # s) c =
     (if x = c then [] # Split s c
      else (case Split s c of [] \<Rightarrow> [[x]] | w # ws \<Rightarrow> (x # w) # ws))"

fun Join :: "string list \<Rightarrow> string \<Rightarrow> string" where
  "Join [] sep = []"
| "Join [w] sep = w"
| "Join (w # ws) sep = w @ sep @ Join ws sep"

lemma Split_nonempty [simp]: "Split s c \<noteq> []"
  by (induction s) (auto split: list.splits)

lemma Split_elem_no_sep: "w \<in> set (Split s c) \<Longrightarrow> c \<notin> set w"
proof (induction s arbitrary: w)
  case Nil
  then show ?case by simp
next
  case (Cons x s)
  then show ?case by (auto split: if_splits list.splits)
qed

lemma Split_no_sep: "c \<notin> set s \<Longrightarrow> Split s c = [s]"
  by (induction s) auto

lemma Split_append_sep: "c \<notin> set w \<Longrightarrow> Split (w @ c # s) c = w # Split s c"
  by (induction w) auto

lemma Split_Join:
  assumes "ws \<noteq> []" and "\<forall>w \<in> set ws. c \<notin> set w"
  shows "Split (Join ws [c]) c = ws"
  using assms
proof (induction ws "[c]" rule: Join.induct)
  case 1
  then show ?case by simp
next
  case (2 w)
  then show ?case by (simp add: Split_no_sep)
next
  case (3 w v va)
  then show ?case by (simp add: Split_append_sep)
qed

text \<open>
  \<open>TrimSpace\<close> removes leading and trailing Unicode white space: the six ASCII characters and
  the UTF-8 encodings of the code points \<open>unicode.IsSpace\<close> accepts beyond ASCII.
\<close>

definition ascii_spaces :: "string list" where
  "ascii_spaces = map (\<lambda>n. [char_of (n :: nat)]) [9, 10, 11, 12, 13, 32]"

definition wide_spaces :: "string list" where
  "wide_spaces = map (map (\<lambda>n. char_of (n :: nat)))
     ([[194, 133], [194, 160], [225, 154, 128]]
      @ map (\<lambda>n. [226, 128, n]) [128, 129, 130, 131, 132, 133, 134, 135, 136, 137, 138, 168, 169, 175]
      @ [[226, 129, 159], [227, 128, 128]])"

definition spaces :: "string list" where
  "spaces = ascii_spaces @ wide_spaces"

function trim_with :: "string list \<Rightarrow> string \<Rightarrow> string" where
  "trim_with ps s =
     (case find (\<lambda>p. p \<noteq> [] \<and> HasPrefix s p) ps of
        None \<Rightarrow> s
      | Some p \<Rightarrow> trim_with ps (drop (length p) s))"
  by pat_completeness auto
termination
proof (relation "measure (\<lambda>(ps, s). length s)", goal_cases)
  case 1
  show ?case by simp
next
  case (2 ps s p)
  then have "p \<noteq> []" and "take (length p) s = p"
    by (auto simp: find_Some_iff HasPrefix_def)
  then have "s \<noteq> []" by auto
  with \<open>p \<noteq> []\<close> show ?case by simp
qed

declare trim_with.simps [simp del]

definition TrimLeftSpace :: "string \<Rightarrow> string" where
  "TrimLeftSpace s = trim_with spaces s"

definition TrimRightSpace :: "string \<Rightarrow> string" where
  "TrimRightSpace s = rev (trim_with (map rev spaces) (rev s))"

definition TrimSpace :: "string \<Rightarrow> string" where
  "TrimSpace s = TrimRightSpace (TrimLeftSpace s)"

lemma trim_with_suffix: "\<exists>xs. s = xs @ trim_with ps s"
proof (induction ps s rule: trim_with.induct)
  case (1 ps s)
  show ?case
  proof (cases "find (\<lambda>p. p \<noteq> [] \<and> HasPrefix s p) ps")
    case None
    then show ?thesis by (simp add: trim_with.simps [of ps s])
  next
    case (Some p)
    from "1" [OF Some] obtain xs where
      "drop (length p) s = xs @ trim_with ps (drop (length p) s)" by blast
    then have "s = (take (length p) s @ xs) @ trim_with ps (drop (length p) s)"
      by (metis append.assoc append_take_drop_id)
    then have "\<exists>ys. s = ys @ trim_with ps (drop (length p) s)" ..
    with Some show ?thesis by (simp add: trim_with.simps [of ps s])
  qed
qed

lemma set_trim_with: "set (trim_with ps s) \<subseteq> set s"
  using trim_with_suffix [of s ps] by (metis set_append Un_upper2)

lemma set_TrimSpace: "set (TrimSpace s) \<subseteq> set s"
  using set_trim_with [of spaces s] set_trim_with [of "map rev spaces" "rev (trim_with spaces s)"]
  by (auto simp: TrimSpace_def TrimLeftSpace_def TrimRightSpace_def)

lemma trim_with_id:
  assumes "\<And>p. p \<in> set ps \<Longrightarrow> p \<noteq> [] \<Longrightarrow> \<not> HasPrefix s p"
  shows "trim_with ps s = s"
proof -
  have "find (\<lambda>p. p \<noteq> [] \<and> HasPrefix s p) ps = None"
    using assms by (auto simp: find_None_iff)
  then show ?thesis by (simp add: trim_with.simps)
qed

definition plain_char :: "char \<Rightarrow> bool" where
  \<comment> \<open>a printable ASCII character other than the blank\<close>
  "plain_char c \<longleftrightarrow> 32 < (of_char c :: nat) \<and> (of_char c :: nat) < 127"

lemma space_ends:
  assumes "p \<in> set spaces"
  shows "p \<noteq> [] \<and> \<not> plain_char (hd p) \<and> \<not> plain_char (last p)"
  using assms
  by (auto simp: spaces_def ascii_spaces_def wide_spaces_def plain_char_def)

lemma TrimSpace_plain:
  assumes "list_all plain_char s"
  shows "TrimSpace s = s"
proof -
  have "\<not> HasPrefix s p" if "p \<in> set spaces" for p
  proof
    assume "HasPrefix s p"
    with space_ends [OF that] have "hd p \<in> set s"
      by (metis HasPrefix_def hd_in_set in_set_takeD)
    with assms space_ends [OF that] show False by (auto simp: list_all_iff)
  qed
  moreover have "\<not> HasPrefix (rev s) p" if "p \<in> set (map rev spaces)" for p
  proof
    from that obtain q where q: "q \<in> set spaces" "p = rev q" by auto
    assume "HasPrefix (rev s) p"
    with q space_ends [OF q(1)] have "last q \<in> set (rev s)"
      by (metis HasPrefix_def hd_in_set hd_rev in_set_takeD rev_is_Nil_conv)
    with assms space_ends [OF q(1)] show False by (auto simp: list_all_iff)
  qed
  ultimately have "trim_with spaces s = s" and "trim_with (map rev spaces) (rev s) = rev s"
    by (auto intro!: trim_with_id simp del: set_map)
  then show ?thesis
    by (simp add: TrimSpace_def TrimLeftSpace_def TrimRightSpace_def)
qed

section \<open>Package strconv\<close>

definition digit_char :: "nat \<Rightarrow> char" where
  "digit_char d = char_of (48 + d)"

definition is_digit :: "char \<Rightarrow> bool" where
  "is_digit c \<longleftrightarrow> 48 \<le> (of_char c :: nat) \<and> (of_char c :: nat) \<le> 57"

definition digit_val :: "char \<Rightarrow> nat" where
  "digit_val c = of_char c - 48"

lemma of_char_digit_char: "d < 10 \<Longrightarrow> of_char (digit_char d) = 48 + d"
  by (simp add: digit_char_def)

lemma digit_char_simps [simp]:
  "d < 10 \<Longrightarrow> is_digit (digit_char d)"
  "d < 10 \<Longrightarrow> digit_val (digit_char d) = d"
  "d < 10 \<Longrightarrow> plain_char (digit_char d)"
  by (simp_all add: is_digit_def digit_val_def plain_char_def of_char_digit_char)

fun FormatUint :: "nat \<Rightarrow> string" where
  "FormatUint n =
     (if n < 10 then [digit_char n] else FormatUint (n div 10) @ [digit_char (n mod 10)])"

declare FormatUint.simps [simp del]

fun parse_digits :: "nat \<Rightarrow> nat \<Rightarrow> string \<Rightarrow> num_err + nat" where
  "parse_digits maxVal n [] = Inr n"
| "parse_digits maxVal n (c # cs) =
     (if \<not> is_digit c then Inl ErrSyntax
      else let n1 = n * 10 + digit_val c
           in if maxVal < n1 then Inl ErrRange else parse_digits maxVal n1 cs)"

text \<open>\<open>strconv.ParseUint(s, 10, bitSize)\<close>: left to right, the first bad byte or overflow decides.\<close>

definition ParseUint :: "string \<Rightarrow> nat \<Rightarrow> error + nat" where
  "ParseUint s bitSize =
     (if s = [] then Inl (NumError ''ParseUint'' s ErrSyntax)
      else case parse_digits (2 ^ bitSize - 1) 0 s of
             Inl e \<Rightarrow> Inl (NumError ''ParseUint'' s e)
           | Inr n \<Rightarrow> Inr n)"

definition ParseBool :: "string \<Rightarrow> error + bool" where
  "ParseBool s =
     (if s \<in> {''1'', ''t'', ''T'', ''true'', ''TRUE'', ''True''} then Inr True
      else if s \<in> {''0'', ''f'', ''F'', ''false'', ''FALSE'', ''False''} then Inr False
      else Inl (NumError ''ParseBool'' s ErrSyntax))"

lemma parse_digits_bound: "parse_digits m n s = Inr k \<Longrightarrow> n \<le> m \<Longrightarrow> k \<le> m"
  by (induction m n s rule: parse_digits.induct) (auto simp: Let_def split: if_splits)

lemma ParseUint_bound:
  assumes "ParseUint s b = Inr n"
  shows "n < 2 ^ b"
proof -
  from assms have "parse_digits (2 ^ b - 1) 0 s = Inr n"
    by (auto simp: ParseUint_def split: if_splits sum.splits)
  then have "n \<le> 2 ^ b - 1" by (rule parse_digits_bound) simp
  moreover have "(0::nat) < 2 ^ b" by simp
  ultimately show ?thesis by linarith
qed

lemma parse_digits_append:
  "parse_digits m n (xs @ ys) =
     (case parse_digits m n xs of Inl e \<Rightarrow> Inl e | Inr k \<Rightarrow> parse_digits m k ys)"
  by (induction m n xs rule: parse_digits.induct) (auto simp: Let_def)

lemma FormatUint_nonempty [simp]: "FormatUint n \<noteq> []"
  by (subst FormatUint.simps) simp

lemma FormatUint_plain: "list_all is_digit (FormatUint n) \<and> list_all plain_char (FormatUint n)"
proof (induction n rule: FormatUint.induct)
  case (1 n)
  then show ?case by (subst (1 2) FormatUint.simps) (auto simp: list_all_iff)
qed

lemma parse_digits_FormatUint: "n \<le> m \<Longrightarrow> parse_digits m 0 (FormatUint n) = Inr n"
proof (induction n rule: FormatUint.induct)
  case (1 n)
  show ?case
  proof (cases "n < 10")
    case True
    with "1.prems" show ?thesis by (simp add: FormatUint.simps [of n])
  next
    case False
    with "1" have "parse_digits m 0 (FormatUint (n div 10)) = Inr (n div 10)"
      by (meson div_le_dividend order_trans)
    with False "1.prems" show ?thesis
      by (simp add: FormatUint.simps [of n] parse_digits_append)
  qed
qed

lemma ParseUint_FormatUint: "n < 2 ^ b \<Longrightarrow> ParseUint (FormatUint n) b = Inr n"
  by (simp add: ParseUint_def parse_digits_FormatUint less_eq_Suc_le le_diff_conv2)

lemma FormatUint_inject [simp]: "FormatUint m = FormatUint n \<longleftrightarrow> m = n"
proof
  assume "FormatUint m = FormatUint n"
  then have "parse_digits (max m n) 0 (FormatUint m) = parse_digits (max m n) 0 (FormatUint n)"
    by simp
  then show "m = n" by (simp add: parse_digits_FormatUint)
qed simp

lemma FormatUint_not_hex: "\<not> HasPrefix (FormatUint n) ''0x''"
proof
  assume "HasPrefix (FormatUint n) ''0x''"
  then have "CHR ''x'' \<in> set (FormatUint n)"
    by (metis HasPrefix_def in_set_takeD list.set_intros(1,2))
  with FormatUint_plain [of n] show False
    by (auto simp: list_all_iff is_digit_def)
qed

lemma length_FormatUint: "n < 10 ^ k \<Longrightarrow> 0 < k \<Longrightarrow> length (FormatUint n) \<le> k"
proof (induction n arbitrary: k rule: FormatUint.induct)
  case (1 n)
  show ?case
  proof (cases "n < 10")
    case True
    with "1.prems" show ?thesis by (simp add: FormatUint.simps [of n])
  next
    case False
    obtain j where j: "k = Suc j" using "1.prems" by (cases k) auto
    with False "1.prems" have "0 < j" by (cases j) auto
    note j = j this
    with "1.prems" have "n div 10 < 10 ^ j" by (simp add: less_mult_imp_div_less mult.commute)
    with "1.IH" False j have "length (FormatUint (n div 10)) \<le> j" by blast
    with False j show ?thesis by (simp add: FormatUint.simps [of n])
  qed
qed

lemma ParseBool_cases:
  "ParseBool ''true'' = Inr True" "ParseBool ''false'' = Inr False"
  "ParseBool ''1'' = Inr True" "ParseBool ''0'' = Inr False"
  by (simp_all add: ParseBool_def)

end
