(* ===== verification/Beacon_Validator.thy ===== *)
theory Beacon_Validator
  imports Go_Strings
begin

text \<open>
  \<open>beacon/db/settings.go\<close>, \<open>validator.go\<close> and \<open>deposit.go\<close>: the validator and deposit records and
  their methods. Balances, indices, epochs and slots are \<open>uint64\<close> and wrap. What the code takes
  from \<open>node-manager-core\<close> and \<open>go-ethereum\<close> is collected in the record \<open>beacon_lib\<close>, a parameter
  of the definitions that use it.
\<close>

section \<open>Types and constants from the libraries\<close>

type_synonym ValidatorPubkey = "u8 list"
type_synonym Hash = "u8 list"
type_synonym Address = "u8 list"
type_synonym ByteArray = "u8 list"

text \<open>
  \<open>beacon.ValidatorState\<close> is a string type; its four constants the code uses are parameters, as
  are the length and the two conversions of public keys, and \<open>common.HexToHash\<close>.
\<close>

record beacon_lib =
  ValidatorPubkeyLength :: nat
  HexToValidatorPubkey :: "string \<Rightarrow> error + ValidatorPubkey"
  HexWithPrefix :: "ValidatorPubkey \<Rightarrow> string"
  HexToHash :: "string \<Rightarrow> Hash"
  PendingInitialized :: string
  ActiveOngoing :: string
  ActiveExiting :: string
  ActiveSlashed :: string

definition FarFutureEpoch :: u64 where
  "FarFutureEpoch = 0xffffffffffffffff"

definition StartingBalance :: u64 where
  "StartingBalance = 32000000000"

section \<open>Validators\<close>

record Validator =
  Pubkey :: ValidatorPubkey
  Index :: u64
  WithdrawalCredentials :: Hash
  Balance :: u64
  Status :: string
  EffectiveBalance :: u64
  Slashed :: bool
  ActivationEligibilityEpoch :: u64
  ActivationEpoch :: u64
  ExitEpoch :: u64
  WithdrawableEpoch :: u64

definition NewValidator :: "beacon_lib \<Rightarrow> ValidatorPubkey \<Rightarrow> Hash \<Rightarrow> u64 \<Rightarrow> Validator" where
  "NewValidator lib pubkey withdrawalCredentials index =
     \<lparr> Pubkey = pubkey,
       Index = index,
       WithdrawalCredentials = withdrawalCredentials,
       Balance = StartingBalance,
       Status = PendingInitialized lib,
       EffectiveBalance = StartingBalance,
       Slashed = False,
       ActivationEligibilityEpoch = FarFutureEpoch,
       ActivationEpoch = FarFutureEpoch,
       ExitEpoch = FarFutureEpoch,
       WithdrawableEpoch = FarFutureEpoch \<rparr>"

text \<open>
  The two comparisons of \<open>SetBalance\<close> are separate statements: the second reads the effective
  balance the first may have decremented, and all of the arithmetic is on \<open>uint64\<close>.
\<close>

definition SetBalance :: "u64 \<Rightarrow> Validator \<Rightarrow> Validator" where
  "SetBalance balanceGwei v =
     (let v1 = v\<lparr>Balance := balanceGwei\<rparr>;
          v2 = (if balanceGwei < EffectiveBalance v1 - 250000000
                then v1\<lparr>EffectiveBalance := EffectiveBalance v1 - 1\<rparr> else v1)
      in if balanceGwei > EffectiveBalance v2 + 1250000000
         then v2\<lparr>EffectiveBalance := EffectiveBalance v2 + 1\<rparr> else v2)"

definition SetStatus :: "string \<Rightarrow> Validator \<Rightarrow> Validator" where
  "SetStatus status v = v\<lparr>Status := status\<rparr>"

definition Slash :: "beacon_lib \<Rightarrow> u64 \<Rightarrow> Validator \<Rightarrow> unit outcome \<times> Validator" where
  "Slash lib penaltyGwei v =
     (if Status v \<noteq> ActiveOngoing lib \<and> Status v \<noteq> ActiveExiting lib
      then (Err (Errorf ''validator with pubkey %s is not in a slashable state''
                   [HexWithPrefix lib (Pubkey v)]), v)
      else let v1 = v\<lparr>Slashed := True\<rparr>;
               v2 = SetBalance (Balance v1 - penaltyGwei) v1
           in (Ok (), v2\<lparr>Status := ActiveSlashed lib\<rparr>))"

text \<open>\<open>client.Validator\<close>, the form the Beacon API reports; \<open>utils.Uinteger\<close> is a \<open>uint64\<close>.\<close>

record ClientValidator =
  cIndex :: string
  cBalance :: u64
  cStatus :: string
  cPubkey :: ByteArray
  cWithdrawalCredentials :: ByteArray
  cEffectiveBalance :: u64
  cSlashed :: bool
  cActivationEligibilityEpoch :: u64
  cActivationEpoch :: u64
  cExitEpoch :: u64
  cWithdrawableEpoch :: u64

definition GetValidatorMeta :: "Validator \<Rightarrow> ClientValidator" where
  "GetValidatorMeta v =
     \<lparr> cIndex = FormatUint (unat (Index v)),
       cBalance = Balance v,
       cStatus = Status v,
       cPubkey = Pubkey v,
       cWithdrawalCredentials = WithdrawalCredentials v,
       cEffectiveBalance = EffectiveBalance v,
       cSlashed = Slashed v,
       cActivationEligibilityEpoch = ActivationEligibilityEpoch v,
       cActivationEpoch = ActivationEpoch v,
       cExitEpoch = ExitEpoch v,
       cWithdrawableEpoch = WithdrawableEpoch v \<rparr>"

definition ValidatorClone :: "Validator \<Rightarrow> Validator" where
  "ValidatorClone v =
     \<lparr> Pubkey = Pubkey v,
       Index = Index v,
       WithdrawalCredentials = WithdrawalCredentials v,
       Balance = Balance v,
       Status = Status v,
       EffectiveBalance = EffectiveBalance v,
       Slashed = Slashed v,
       ActivationEligibilityEpoch = ActivationEligibilityEpoch v,
       ActivationEpoch = ActivationEpoch v,
       ExitEpoch = ExitEpoch v,
       WithdrawableEpoch = WithdrawableEpoch v \<rparr>"

section \<open>Deposits\<close>

record Deposit =
  dPubkey :: ValidatorPubkey
  dWithdrawalCredentials :: Hash
  dAmount :: u64
  dSignature :: "u8 list"
  dSlot :: u64

record PendingDeposit =
  pdPubkey :: ByteArray
  pdWithdrawalCredentials :: ByteArray
  pdAmount :: u64
  pdSignature :: ByteArray
  pdSlot :: u64

definition ConvertToNativeFormat :: "Deposit \<Rightarrow> PendingDeposit" where
  "ConvertToNativeFormat d =
     \<lparr> pdPubkey = dPubkey d,
       pdWithdrawalCredentials = dWithdrawalCredentials d,
       pdAmount = dAmount d,
       pdSignature = dSignature d,
       pdSlot = dSlot d \<rparr>"

section \<open>Lemmas\<close>

lemma NewValidator_sel [simp]:
  "Pubkey (NewValidator lib pk wc i) = pk"
  "Index (NewValidator lib pk wc i) = i"
  "WithdrawalCredentials (NewValidator lib pk wc i) = wc"
  "Balance (NewValidator lib pk wc i) = StartingBalance"
  "EffectiveBalance (NewValidator lib pk wc i) = StartingBalance"
  "Status (NewValidator lib pk wc i) = PendingInitialized lib"
  "Slashed (NewValidator lib pk wc i) = False"
  by (simp_all add: NewValidator_def)

lemma ValidatorClone_id [simp]: "ValidatorClone v = v"
  by (simp add: ValidatorClone_def)

text \<open>No method of a validator changes its identity: the key, the index or the credentials.\<close>

definition same_identity :: "Validator \<Rightarrow> Validator \<Rightarrow> bool" where
  "same_identity v w \<longleftrightarrow> Pubkey w = Pubkey v \<and> Index w = Index v
     \<and> WithdrawalCredentials w = WithdrawalCredentials v"

lemma same_identity_refl [simp]: "same_identity v v"
  by (simp add: same_identity_def)

lemma same_identity_trans: "same_identity u v \<Longrightarrow> same_identity v w \<Longrightarrow> same_identity u w"
  by (simp add: same_identity_def)

lemma SetBalance_identity [simp]: "same_identity v (SetBalance b v)"
  by (simp add: SetBalance_def same_identity_def Let_def)

lemma SetBalance_sel [simp]:
  "Balance (SetBalance b v) = b" "Status (SetBalance b v) = Status v"
  "Slashed (SetBalance b v) = Slashed v" "Pubkey (SetBalance b v) = Pubkey v"
  "Index (SetBalance b v) = Index v"
  by (simp_all add: SetBalance_def Let_def)

lemma SetStatus_identity [simp]: "same_identity v (SetStatus s v)"
  by (simp add: SetStatus_def same_identity_def)

lemma Slash_identity [simp]: "same_identity v (snd (Slash lib p v))"
  by (simp add: Slash_def same_identity_def Let_def SetBalance_def)

lemma GetValidatorMeta_inject:
  "GetValidatorMeta v = GetValidatorMeta w \<longleftrightarrow> v = w"
  by (cases v; cases w) (auto simp: GetValidatorMeta_def simp flip: word_unat_eq_iff)

text \<open>Where the two thresholds do not wrap, they are the numbers the comparisons mean.\<close>

lemma threshold_down:
  "250000000 \<le> unat (e :: u64) \<Longrightarrow> unat (e - 250000000) = unat e - 250000000"
  by (subst unat_sub) (simp_all add: word_le_nat_alt)

lemma threshold_up:
  "unat (e :: u64) + 1250000000 < 2 ^ 64 \<Longrightarrow> unat (e + 1250000000) = unat e + 1250000000"
  by (simp add: unat_word_ariths)

lemma EffectiveBalance_SetBalance:
  "EffectiveBalance (SetBalance b v) =
     (let e = EffectiveBalance v; e' = (if b < e - 250000000 then e - 1 else e)
      in if b > e' + 1250000000 then e' + 1 else e')"
  by (simp add: SetBalance_def Let_def)

end
