(* ===== verification/Beacon_Database.thy ===== *)
theory Beacon_Database
  imports Beacon_Validator
begin

text \<open>
  \<open>beacon/db/database.go\<close>: the Beacon mock's database. Validators and deposits are shared by
  pointer (a validator is reached through the slice and through the public-key map, and the
  server's handlers change it through the pointer they looked up), so the model has an explicit
  heap of validators, deposits and databases, and an allocation counter. Every method holds the
  database's mutex for its whole body, so each is one atomic step here.
\<close>

section \<open>The heap\<close>

record Database =
  validators :: "addr list"
  pendingDeposits :: "ptr list"
  validatorPubkeyMap :: "ValidatorPubkey \<rightharpoonup> addr"
  executionBlockMap :: "u64 \<rightharpoonup> u64"
  currentSlot :: u64
  highestSlot :: u64
  nextExecutionBlockIndex :: u64

record heap =
  validator_at :: "addr \<Rightarrow> Validator"
  deposit_at :: "addr \<Rightarrow> Deposit"
  database_at :: "addr \<Rightarrow> Database"
  next_addr :: addr

definition alloc_validator :: "Validator \<Rightarrow> heap \<Rightarrow> addr \<times> heap" where
  "alloc_validator v h =
     (next_addr h, h\<lparr>validator_at := (validator_at h)(next_addr h := v),
                     next_addr := next_addr h + 1\<rparr>)"

definition alloc_deposit :: "Deposit \<Rightarrow> heap \<Rightarrow> addr \<times> heap" where
  "alloc_deposit v h =
     (next_addr h, h\<lparr>deposit_at := (deposit_at h)(next_addr h := v),
                     next_addr := next_addr h + 1\<rparr>)"

definition alloc_database :: "Database \<Rightarrow> heap \<Rightarrow> addr \<times> heap" where
  "alloc_database v h =
     (next_addr h, h\<lparr>database_at := (database_at h)(next_addr h := v),
                     next_addr := next_addr h + 1\<rparr>)"

definition put_database :: "addr \<Rightarrow> Database \<Rightarrow> heap \<Rightarrow> heap" where
  "put_database d db h = h\<lparr>database_at := (database_at h)(d := db)\<rparr>"

text \<open>A method called through a validator pointer changes the one cell the pointer names.\<close>

definition put_validator :: "addr \<Rightarrow> Validator \<Rightarrow> heap \<Rightarrow> heap" where
  "put_validator a v h = h\<lparr>validator_at := (validator_at h)(a := v)\<rparr>"

lemma heap_ops_sel [simp]:
  "fst (alloc_validator v h) = next_addr h"
  "validator_at (snd (alloc_validator v h)) = (validator_at h)(next_addr h := v)"
  "database_at (snd (alloc_validator v h)) = database_at h"
  "deposit_at (snd (alloc_validator v h)) = deposit_at h"
  "next_addr (snd (alloc_validator v h)) = next_addr h + 1"
  "fst (alloc_database db h) = next_addr h"
  "database_at (snd (alloc_database db h)) = (database_at h)(next_addr h := db)"
  "validator_at (snd (alloc_database db h)) = validator_at h"
  "deposit_at (snd (alloc_database db h)) = deposit_at h"
  "next_addr (snd (alloc_database db h)) = next_addr h + 1"
  "database_at (put_database d db h) = (database_at h)(d := db)"
  "validator_at (put_database d db h) = validator_at h"
  "deposit_at (put_database d db h) = deposit_at h"
  "next_addr (put_database d db h) = next_addr h"
  "validator_at (put_validator a v h) = (validator_at h)(a := v)"
  "database_at (put_validator a v h) = database_at h"
  "deposit_at (put_validator a v h) = deposit_at h"
  "next_addr (put_validator a v h) = next_addr h"
  by (simp_all add: alloc_validator_def alloc_database_def put_database_def put_validator_def)

section \<open>The operations\<close>

definition NewDatabase :: "u64 \<Rightarrow> heap \<Rightarrow> addr \<times> heap" where
  "NewDatabase firstExecutionBlockIndex h =
     alloc_database
       \<lparr> validators = [],
         pendingDeposits = [],
         validatorPubkeyMap = Map.empty,
         executionBlockMap = Map.empty,
         currentSlot = 0,
         highestSlot = 0,
         nextExecutionBlockIndex = firstExecutionBlockIndex \<rparr> h"

definition AddValidator ::
  "beacon_lib \<Rightarrow> addr \<Rightarrow> ValidatorPubkey \<Rightarrow> Hash \<Rightarrow> heap \<Rightarrow> addr outcome \<times> heap" where
  "AddValidator lib d pubkey withdrawalCredentials h =
     (let db = database_at h d in
      case validatorPubkeyMap db pubkey of
        Some _ \<Rightarrow> (Err (Errorf ''validator with pubkey %s already exists''
                          [HexWithPrefix lib pubkey]), h)
      | None \<Rightarrow>
          let index = length (validators db);
              (a, h1) = alloc_validator
                          (NewValidator lib pubkey withdrawalCredentials (of_nat index)) h;
              db1 = db\<lparr>validators := validators db @ [a]\<rparr>;
              db2 = db1\<lparr>validatorPubkeyMap := (validatorPubkeyMap db1)(pubkey \<mapsto> a)\<rparr>
          in (Ok a, put_database d db2 h1))"

definition GetValidatorByIndex :: "addr \<Rightarrow> u64 \<Rightarrow> heap \<Rightarrow> ptr" where
  "GetValidatorByIndex d index h =
     (let db = database_at h d; dbLength = length (validators db) in
      if index \<ge> of_nat dbLength then None else Some (validators db ! unat index))"

definition GetValidatorByPubkey :: "addr \<Rightarrow> ValidatorPubkey \<Rightarrow> heap \<Rightarrow> ptr" where
  "GetValidatorByPubkey d pubkey h = validatorPubkeyMap (database_at h d) pubkey"

definition GetAllValidators :: "addr \<Rightarrow> heap \<Rightarrow> addr list" where
  "GetAllValidators d h = validators (database_at h d)"

definition GetCurrentSlot :: "addr \<Rightarrow> heap \<Rightarrow> u64" where
  "GetCurrentSlot d h = currentSlot (database_at h d)"

definition GetHighestSlot :: "addr \<Rightarrow> heap \<Rightarrow> u64" where
  "GetHighestSlot d h = highestSlot (database_at h d)"

definition AddPendingDeposit :: "addr \<Rightarrow> ptr \<Rightarrow> heap \<Rightarrow> heap" where
  "AddPendingDeposit d deposit h =
     (let db = database_at h d in
      put_database d (db\<lparr>pendingDeposits := pendingDeposits db @ [deposit]\<rparr>) h)"

definition GetPendingDeposits :: "addr \<Rightarrow> heap \<Rightarrow> ptr list" where
  "GetPendingDeposits d h = pendingDeposits (database_at h d)"

text \<open>
  \<open>RemovePendingDeposit\<close> first makes a slice of capacity \<open>len(db.pendingDeposits)-1\<close>, and
  \<open>make\<close> panics on a negative capacity.
\<close>

fun keep_deposits :: "ptr \<Rightarrow> ptr list \<Rightarrow> ptr list \<Rightarrow> ptr list" where
  "keep_deposits deposit [] newDeposits = newDeposits"
| "keep_deposits deposit (p # ps) newDeposits =
     (if p = deposit then keep_deposits deposit ps newDeposits
      else keep_deposits deposit ps (newDeposits @ [p]))"

definition RemovePendingDeposit :: "addr \<Rightarrow> ptr \<Rightarrow> heap \<Rightarrow> unit outcome \<times> heap" where
  "RemovePendingDeposit d deposit h =
     (let db = database_at h d in
      if int (length (pendingDeposits db)) - 1 < 0 then (Panic MakeSliceCapOutOfRange, h)
      else (Ok (), put_database d
              (db\<lparr>pendingDeposits := keep_deposits deposit (pendingDeposits db) []\<rparr>) h))"

definition CommitBlock :: "addr \<Rightarrow> bool \<Rightarrow> heap \<Rightarrow> heap" where
  "CommitBlock d slotValidated h =
     (let db = database_at h d;
          db1 = (if slotValidated
                 then db\<lparr>executionBlockMap :=
                           (executionBlockMap db)(currentSlot db \<mapsto> nextExecutionBlockIndex db),
                         nextExecutionBlockIndex := nextExecutionBlockIndex db + 1\<rparr>
                 else db);
          db2 = db1\<lparr>currentSlot := currentSlot db1 + 1\<rparr>;
          db3 = (if currentSlot db2 > highestSlot db2
                 then db2\<lparr>highestSlot := currentSlot db2\<rparr> else db2)
      in put_database d db3 h)"

definition SetHighestSlot :: "addr \<Rightarrow> u64 \<Rightarrow> heap \<Rightarrow> heap" where
  "SetHighestSlot d slot h =
     (let db = database_at h d in
      put_database d (if slot > highestSlot db then db\<lparr>highestSlot := slot\<rparr> else db) h)"

fun clone_validators ::
  "addr list \<Rightarrow> addr list \<Rightarrow> (ValidatorPubkey \<rightharpoonup> addr) \<Rightarrow> heap
   \<Rightarrow> (addr list \<times> (ValidatorPubkey \<rightharpoonup> addr)) \<times> heap" where
  "clone_validators [] cloneValidators m h = ((cloneValidators, m), h)"
| "clone_validators (a # as) cloneValidators m h =
     (let v = validator_at h a;
          (c, h1) = alloc_validator (ValidatorClone v) h
      in clone_validators as (cloneValidators @ [c]) (m(Pubkey v \<mapsto> c)) h1)"

text \<open>
  \<open>Clone\<close> starts from \<open>NewDatabase\<close>, so what it does not copy has its initial value: the pending
  deposits are such a field. The loop over the block map writes every entry into an empty map.
\<close>

definition Clone :: "addr \<Rightarrow> heap \<Rightarrow> addr \<times> heap" where
  "Clone d h =
     (let db = database_at h d;
          (c, h1) = NewDatabase (nextExecutionBlockIndex db) h;
          clone = (database_at h1 c)\<lparr>currentSlot := currentSlot db, highestSlot := highestSlot db\<rparr>;
          ((vs, m), h2) = clone_validators (validators db) [] (validatorPubkeyMap clone) h1;
          clone1 = clone\<lparr>validatorPubkeyMap := m, validators := vs\<rparr>;
          clone2 = clone1\<lparr>executionBlockMap := executionBlockMap clone1 ++ executionBlockMap db\<rparr>
      in (c, put_database c clone2 h2))"

end
