(* ===== verification/Beacon_Database_Spec.thy ===== *)
theory Beacon_Database_Spec
  imports Beacon_Database
begin

text \<open>
  What the database promises: an abstract database that owns its validators by value, the
  abstraction of a heap and a database address to it, the well-formedness invariant of the
  concrete one, and, per operation, preservation of the invariant, a refinement of the abstract
  operation, and the frame (what stays of the other databases of the heap). \<open>Clone\<close> is a deep
  copy: its validators are fresh cells.
\<close>

section \<open>The abstract database\<close>

record adb =
  aValidators :: "Validator list"
  aPending :: "ptr list"
  aBlocks :: "u64 \<rightharpoonup> u64"
  aCurrent :: u64
  aHighest :: u64
  aNext :: u64

definition abs_db :: "heap \<Rightarrow> addr \<Rightarrow> adb" where
  "abs_db h d =
     (let db = database_at h d in
      \<lparr> aValidators = map (validator_at h) (validators db),
        aPending = pendingDeposits db,
        aBlocks = executionBlockMap db,
        aCurrent = currentSlot db,
        aHighest = highestSlot db,
        aNext = nextExecutionBlockIndex db \<rparr>)"

lemma abs_db_sel [simp]:
  "aValidators (abs_db h d) = map (validator_at h) (validators (database_at h d))"
  "aPending (abs_db h d) = pendingDeposits (database_at h d)"
  "aBlocks (abs_db h d) = executionBlockMap (database_at h d)"
  "aCurrent (abs_db h d) = currentSlot (database_at h d)"
  "aHighest (abs_db h d) = highestSlot (database_at h d)"
  "aNext (abs_db h d) = nextExecutionBlockIndex (database_at h d)"
  by (simp_all add: abs_db_def Let_def)

definition spec_lookup :: "ValidatorPubkey \<Rightarrow> adb \<Rightarrow> Validator option" where
  "spec_lookup pk s = find (\<lambda>v. Pubkey v = pk) (aValidators s)"

definition spec_add :: "beacon_lib \<Rightarrow> ValidatorPubkey \<Rightarrow> Hash \<Rightarrow> adb \<Rightarrow> adb option" where
  "spec_add lib pk wc s =
     (if pk \<in> Pubkey ` set (aValidators s) then None
      else Some (s\<lparr>aValidators :=
             aValidators s @ [NewValidator lib pk wc (of_nat (length (aValidators s)))]\<rparr>))"

definition spec_update :: "nat \<Rightarrow> (Validator \<Rightarrow> Validator) \<Rightarrow> adb \<Rightarrow> adb" where
  "spec_update i f s = s\<lparr>aValidators := (aValidators s)[i := f (aValidators s ! i)]\<rparr>"

definition spec_commit :: "bool \<Rightarrow> adb \<Rightarrow> adb" where
  "spec_commit b s =
     s\<lparr>aBlocks := (if b then (aBlocks s)(aCurrent s \<mapsto> aNext s) else aBlocks s),
       aNext := (if b then aNext s + 1 else aNext s),
       aCurrent := aCurrent s + 1,
       aHighest := max (aHighest s) (aCurrent s + 1)\<rparr>"

definition spec_set_highest :: "u64 \<Rightarrow> adb \<Rightarrow> adb" where
  "spec_set_highest slot s = s\<lparr>aHighest := max (aHighest s) slot\<rparr>"

definition spec_add_deposit :: "ptr \<Rightarrow> adb \<Rightarrow> adb" where
  "spec_add_deposit p s = s\<lparr>aPending := aPending s @ [p]\<rparr>"

definition spec_remove_deposit :: "ptr \<Rightarrow> adb \<Rightarrow> adb" where
  "spec_remove_deposit p s = s\<lparr>aPending := filter (\<lambda>q. q \<noteq> p) (aPending s)\<rparr>"

definition without_deposits :: "adb \<Rightarrow> adb" where
  "without_deposits s = s\<lparr>aPending := []\<rparr>"

section \<open>The invariant\<close>

definition index_inv :: "heap \<Rightarrow> addr \<Rightarrow> bool" where
  "index_inv h d \<longleftrightarrow>
     (\<forall>i < length (validators (database_at h d)).
        Index (validator_at h (validators (database_at h d) ! i)) = of_nat i)"

definition lookup_inv :: "heap \<Rightarrow> addr \<Rightarrow> bool" where
  "lookup_inv h d \<longleftrightarrow>
     (\<forall>pk a. validatorPubkeyMap (database_at h d) pk = Some a \<longleftrightarrow>
        a \<in> set (validators (database_at h d)) \<and> Pubkey (validator_at h a) = pk)"

definition db_inv :: "heap \<Rightarrow> addr \<Rightarrow> bool" where
  "db_inv h d \<longleftrightarrow>
     d < next_addr h
     \<and> (\<forall>a \<in> set (validators (database_at h d)). a < next_addr h)
     \<and> distinct (validators (database_at h d))
     \<and> lookup_inv h d
     \<and> index_inv h d
     \<and> currentSlot (database_at h d) \<le> highestSlot (database_at h d)"

definition separate :: "heap \<Rightarrow> addr \<Rightarrow> addr \<Rightarrow> bool" where
  "separate h d e \<longleftrightarrow> d \<noteq> e
     \<and> set (validators (database_at h d)) \<inter> set (validators (database_at h e)) = {}"

lemma separate_sym: "separate h d e \<longleftrightarrow> separate h e d"
  by (auto simp: separate_def)

lemma db_inv_allocated:
  "db_inv h d \<Longrightarrow> d < next_addr h"
  "db_inv h d \<Longrightarrow> a \<in> set (validators (database_at h d)) \<Longrightarrow> a < next_addr h"
  by (simp_all add: db_inv_def)

lemma lookup_invD:
  "lookup_inv h d \<Longrightarrow> validatorPubkeyMap (database_at h d) pk = Some a \<longleftrightarrow>
     a \<in> set (validators (database_at h d)) \<and> Pubkey (validator_at h a) = pk"
  by (simp add: lookup_inv_def)

lemma lookup_inv_keys:
  assumes "lookup_inv h d" and "distinct (validators (database_at h d))"
  shows "distinct (map Pubkey (map (validator_at h) (validators (database_at h d))))"
proof -
  have "a = b"
    if "a \<in> set (validators (database_at h d))" "b \<in> set (validators (database_at h d))"
      "Pubkey (validator_at h a) = Pubkey (validator_at h b)" for a b
    using lookup_invD [OF assms(1)] that by (metis option.inject)
  with assms(2) show ?thesis by (auto simp: distinct_map inj_on_def)
qed

lemma lookup_inv_None:
  assumes "lookup_inv h d"
  shows "validatorPubkeyMap (database_at h d) pk = None \<longleftrightarrow>
     pk \<notin> Pubkey ` validator_at h ` set (validators (database_at h d))"
proof (cases "validatorPubkeyMap (database_at h d) pk")
  case None
  then show ?thesis using lookup_invD [OF assms, of pk] by auto
next
  case (Some a)
  then have "a \<in> set (validators (database_at h d))" and "pk = Pubkey (validator_at h a)"
    using lookup_invD [OF assms, of pk a] by auto
  with Some show ?thesis by auto
qed

section \<open>Frame lemmas\<close>

lemma abs_db_frame:
  assumes "database_at h' d = database_at h d"
    and "\<And>a. a \<in> set (validators (database_at h d)) \<Longrightarrow> validator_at h' a = validator_at h a"
  shows "abs_db h' d = abs_db h d"
  using assms by (auto simp: abs_db_def Let_def)

lemma db_inv_frame:
  assumes "db_inv h d" and "database_at h' d = database_at h d" and "next_addr h \<le> next_addr h'"
    and "\<And>a. a \<in> set (validators (database_at h d)) \<Longrightarrow>
           same_identity (validator_at h a) (validator_at h' a)"
  shows "db_inv h' d"
proof -
  from assms(1) have map: "\<And>pk a. validatorPubkeyMap (database_at h d) pk = Some a \<longleftrightarrow>
      a \<in> set (validators (database_at h d)) \<and> Pubkey (validator_at h a) = pk"
    by (simp add: db_inv_def lookup_inv_def)
  from assms(4) have "lookup_inv h' d"
    by (auto simp: lookup_inv_def assms(2) map same_identity_def)
  moreover from assms(1,4) have "index_inv h' d"
    by (simp add: index_inv_def db_inv_def assms(2) same_identity_def)
  ultimately show ?thesis
    using assms(1,2,3) by (auto simp: db_inv_def)
qed

text \<open>A heap changed only in fresh cells, or only in another database, looks the same from here.\<close>

definition untouched :: "addr \<Rightarrow> heap \<Rightarrow> heap \<Rightarrow> bool" where
  "untouched e h h' \<longleftrightarrow> database_at h' e = database_at h e \<and> next_addr h \<le> next_addr h'
     \<and> (\<forall>a \<in> set (validators (database_at h e)). validator_at h' a = validator_at h a)"

lemma untouched_refl [simp]: "untouched e h h"
  by (simp add: untouched_def)

lemma untouched_trans: "untouched e h h' \<Longrightarrow> untouched e h' h'' \<Longrightarrow> untouched e h h''"
  by (auto simp: untouched_def)

lemma untouched_abs: "untouched e h h' \<Longrightarrow> abs_db h' e = abs_db h e"
  by (rule abs_db_frame) (auto simp: untouched_def)

lemma untouched_inv: "untouched e h h' \<Longrightarrow> db_inv h e \<Longrightarrow> db_inv h' e"
  by (rule db_inv_frame) (auto simp: untouched_def)

lemma untouched_separate:
  "untouched d h h' \<Longrightarrow> untouched e h h' \<Longrightarrow> separate h d e \<Longrightarrow> separate h' d e"
  by (simp add: untouched_def separate_def)

end
