(* ===== verification/Beacon_Database_Refine.thy ===== *)
theory Beacon_Database_Refine
  imports Beacon_Database_Spec
begin

text \<open>
  The operations of the database against its specification: each keeps the invariant of its
  database, implements the abstract operation, and leaves every other database of the heap
  untouched.
\<close>

section \<open>Writing a database cell\<close>

lemma put_database_untouched [wf_intros]: "e \<noteq> d \<Longrightarrow> untouched e h (put_database d db h)"
  by (simp add: untouched_def)

lemma put_database_inv:
  assumes "db_inv h d"
    and "validators db = validators (database_at h d)"
    and "validatorPubkeyMap db = validatorPubkeyMap (database_at h d)"
    and "currentSlot db \<le> highestSlot db"
  shows "db_inv (put_database d db h) d"
  using assms by (simp add: db_inv_def lookup_inv_def index_inv_def)

lemma put_database_separate:
  "separate h d e \<Longrightarrow> validators db = validators (database_at h d)
   \<Longrightarrow> separate (put_database d db h) d e"
  by (auto simp: separate_def)

lemma abs_put_database:
  "abs_db (put_database d db h) d =
     \<lparr>aValidators = map (validator_at h) (validators db), aPending = pendingDeposits db,
      aBlocks = executionBlockMap db, aCurrent = currentSlot db, aHighest = highestSlot db,
      aNext = nextExecutionBlockIndex db\<rparr>"
  by (simp add: abs_db_def Let_def)

section \<open>Slots and blocks\<close>

lemma CommitBlock_inv [wf_intros]: "db_inv h d \<Longrightarrow> db_inv (CommitBlock d b h) d"
  unfolding CommitBlock_def Let_def by (rule put_database_inv) auto

lemma CommitBlock_refines [abs_simps]:
  "abs_db (CommitBlock d b h) d = spec_commit b (abs_db h d)"
  by (auto simp: CommitBlock_def Let_def abs_put_database spec_commit_def abs_db_def max_def)

lemma CommitBlock_untouched [wf_intros]: "e \<noteq> d \<Longrightarrow> untouched e h (CommitBlock d b h)"
  by (simp add: CommitBlock_def Let_def put_database_untouched)

lemma CommitBlock_separate [wf_intros]: "separate h d e \<Longrightarrow> separate (CommitBlock d b h) d e"
  by (auto simp: CommitBlock_def Let_def intro!: put_database_separate)

lemma SetHighestSlot_inv [wf_intros]: "db_inv h d \<Longrightarrow> db_inv (SetHighestSlot d s h) d"
  unfolding SetHighestSlot_def Let_def by (rule put_database_inv) (auto simp: db_inv_def)

lemma SetHighestSlot_refines [abs_simps]:
  "abs_db (SetHighestSlot d s h) d = spec_set_highest s (abs_db h d)"
  by (auto simp: SetHighestSlot_def Let_def abs_put_database spec_set_highest_def abs_db_def max_def)

lemma SetHighestSlot_untouched [wf_intros]: "e \<noteq> d \<Longrightarrow> untouched e h (SetHighestSlot d s h)"
  by (simp add: SetHighestSlot_def Let_def put_database_untouched)

lemma SetHighestSlot_separate [wf_intros]:
  "separate h d e \<Longrightarrow> separate (SetHighestSlot d s h) d e"
  by (auto simp: SetHighestSlot_def Let_def intro!: put_database_separate)

section \<open>Pending deposits\<close>

lemma keep_deposits_filter:
  "keep_deposits p ps acc = acc @ filter (\<lambda>q. q \<noteq> p) ps"
  by (induction p ps acc rule: keep_deposits.induct) auto

lemma AddPendingDeposit_inv [wf_intros]: "db_inv h d \<Longrightarrow> db_inv (AddPendingDeposit d p h) d"
  unfolding AddPendingDeposit_def Let_def by (rule put_database_inv) (auto simp: db_inv_def)

lemma AddPendingDeposit_refines [abs_simps]:
  "abs_db (AddPendingDeposit d p h) d = spec_add_deposit p (abs_db h d)"
  by (simp add: AddPendingDeposit_def Let_def abs_put_database spec_add_deposit_def abs_db_def)

lemma AddPendingDeposit_untouched [wf_intros]:
  "e \<noteq> d \<Longrightarrow> untouched e h (AddPendingDeposit d p h)"
  by (simp add: AddPendingDeposit_def Let_def put_database_untouched)

lemma AddPendingDeposit_separate [wf_intros]:
  "separate h d e \<Longrightarrow> separate (AddPendingDeposit d p h) d e"
  by (auto simp: AddPendingDeposit_def Let_def intro!: put_database_separate)

lemma RemovePendingDeposit_inv [wf_intros]:
  "db_inv h d \<Longrightarrow> db_inv (snd (RemovePendingDeposit d p h)) d"
  by (auto simp: RemovePendingDeposit_def Let_def intro!: put_database_inv)
    (simp add: db_inv_def)

lemma RemovePendingDeposit_refines:
  "pendingDeposits (database_at h d) \<noteq> [] \<Longrightarrow>
     abs_db (snd (RemovePendingDeposit d p h)) d = spec_remove_deposit p (abs_db h d)"
  by (auto simp: RemovePendingDeposit_def Let_def abs_put_database spec_remove_deposit_def
      abs_db_def keep_deposits_filter Suc_le_eq)

lemma RemovePendingDeposit_untouched [wf_intros]:
  "e \<noteq> d \<Longrightarrow> untouched e h (snd (RemovePendingDeposit d p h))"
  by (simp add: RemovePendingDeposit_def Let_def put_database_untouched)

lemma RemovePendingDeposit_separate [wf_intros]:
  "separate h d e \<Longrightarrow> separate (snd (RemovePendingDeposit d p h)) d e"
  by (auto simp: RemovePendingDeposit_def Let_def intro!: put_database_separate)

section \<open>Validators through their pointers\<close>

lemma put_validator_inv [wf_intros]:
  "db_inv h d \<Longrightarrow> same_identity (validator_at h a) v \<Longrightarrow> db_inv (put_validator a v h) d"
  by (rule db_inv_frame) auto

lemma put_validator_untouched [wf_intros]:
  "separate h d e \<Longrightarrow> a \<in> set (validators (database_at h d)) \<Longrightarrow> untouched e h (put_validator a v h)"
  by (auto simp: untouched_def separate_def)

lemma put_validator_separate [wf_intros]:
  "separate h d e \<Longrightarrow> separate (put_validator a v h) d e"
  by (simp add: separate_def)

lemma put_validator_refines:
  assumes "db_inv h d" and "i < length (validators (database_at h d))"
  shows "abs_db (put_validator (validators (database_at h d) ! i)
            (f (validator_at h (validators (database_at h d) ! i))) h) d
         = spec_update i f (abs_db h d)"
proof -
  from assms(1) have "distinct (validators (database_at h d))" by (simp add: db_inv_def)
  then show ?thesis using assms(2)
    by (simp add: abs_db_def spec_update_def Let_def map_upd_nth)
qed

section \<open>Adding a validator\<close>

lemma find_unique:
  assumes "x \<in> set xs" and "P x" and uniq: "\<forall>y \<in> set xs. P y \<longrightarrow> y = x"
  shows "find P xs = Some x"
proof -
  obtain y where y: "find P xs = Some y" using assms(1,2) by (metis find_None_iff option.exhaust)
  then have "y \<in> set xs" "P y" by (auto simp: find_Some_iff)
  with uniq y show ?thesis by blast
qed

lemma spec_lookup_refines:
  assumes inv: "db_inv h d"
  shows "spec_lookup pk (abs_db h d) =
    map_option (validator_at h) (validatorPubkeyMap (database_at h d) pk)"
proof -
  from inv have look: "lookup_inv h d" by (simp add: db_inv_def)
  let ?vs = "map (validator_at h) (validators (database_at h d))"
  have "find (\<lambda>v. Pubkey v = pk) ?vs = map_option (validator_at h) (validatorPubkeyMap (database_at h d) pk)"
  proof (cases "validatorPubkeyMap (database_at h d) pk")
    case None
    then have "pk \<notin> Pubkey ` set ?vs" using lookup_inv_None [OF look, of pk] by simp
    then have "find (\<lambda>v. Pubkey v = pk) ?vs = None" unfolding find_None_iff by blast
    with None show ?thesis by simp
  next
    case (Some a)
    have "find (\<lambda>v. Pubkey v = pk) ?vs = Some (validator_at h a)"
    proof (rule find_unique)
      show "validator_at h a \<in> set ?vs" "Pubkey (validator_at h a) = pk"
        using lookup_invD [OF look, of pk a] Some by auto
      show "\<forall>v \<in> set ?vs. Pubkey v = pk \<longrightarrow> v = validator_at h a"
        using lookup_invD [OF look, of pk] Some by fastforce
    qed
    with Some show ?thesis by simp
  qed
  then show ?thesis by (simp add: spec_lookup_def)
qed

lemma AddValidator_new:
  assumes "validatorPubkeyMap (database_at h d) pk = None"
  shows "AddValidator lib d pk wc h =
    (Ok (next_addr h),
     put_database d ((database_at h d)
        \<lparr>validators := validators (database_at h d) @ [next_addr h],
         validatorPubkeyMap := (validatorPubkeyMap (database_at h d))(pk \<mapsto> next_addr h)\<rparr>)
       (snd (alloc_validator
          (NewValidator lib pk wc (of_nat (length (validators (database_at h d))))) h)))"
  using assms by (simp add: AddValidator_def Let_def alloc_validator_def)

lemma AddValidator_dup:
  assumes "validatorPubkeyMap (database_at h d) pk = Some a"
  shows "AddValidator lib d pk wc h =
    (Err (Errorf ''validator with pubkey %s already exists'' [HexWithPrefix lib pk]), h)"
  using assms by (simp add: AddValidator_def)

lemma AddValidator_inv [wf_intros]:
  assumes inv: "db_inv h d"
  shows "db_inv (snd (AddValidator lib d pk wc h)) d"
proof (cases "validatorPubkeyMap (database_at h d) pk")
  case (Some a)
  then show ?thesis using inv by (simp add: AddValidator_dup)
next
  case None
  let ?vs = "validators (database_at h d)" and ?n = "next_addr h"
  let ?h = "snd (AddValidator lib d pk wc h)"
  from inv have fresh: "?n \<notin> set ?vs" "\<And>a. a \<in> set ?vs \<Longrightarrow> a < ?n" "d < ?n"
    by (auto simp: db_inv_def)
  from inv have look: "lookup_inv h d" and idx: "index_inv h d" by (simp_all add: db_inv_def)
  have no_key: "Pubkey (validator_at h a) \<noteq> pk" if "a \<in> set ?vs" for a
    using None lookup_inv_None [OF look] that by auto
  have "lookup_inv ?h d"
    using fresh no_key by (auto simp: lookup_inv_def AddValidator_new [OF None] lookup_invD [OF look])
  moreover have neq: "?vs ! i \<noteq> ?n" if "i < length ?vs" for i
    using fresh(1) that nth_mem by metis
  have "index_inv ?h d"
    using fresh(3) neq idx by (auto simp: index_inv_def AddValidator_new [OF None] nth_append less_Suc_eq)
  ultimately show ?thesis
    using inv fresh by (auto simp: db_inv_def AddValidator_new [OF None] less_Suc_eq)
qed

lemma AddValidator_refines:
  assumes inv: "db_inv h d"
  shows "spec_add lib pk wc (abs_db h d) =
    (case fst (AddValidator lib d pk wc h) of
       Ok _ \<Rightarrow> Some (abs_db (snd (AddValidator lib d pk wc h)) d) | _ \<Rightarrow> None)"
proof -
  from inv have look: "lookup_inv h d" by (simp add: db_inv_def)
  have keys: "validatorPubkeyMap (database_at h d) pk = None \<longleftrightarrow>
      pk \<notin> Pubkey ` set (aValidators (abs_db h d))"
    using lookup_inv_None [OF look] by simp
  show ?thesis
  proof (cases "validatorPubkeyMap (database_at h d) pk")
    case (Some a)
    with keys show ?thesis by (simp add: AddValidator_dup spec_add_def)
  next
    case None
    from inv have "next_addr h \<notin> set (validators (database_at h d))" by (auto simp: db_inv_def)
    with None keys show ?thesis
      by (simp add: AddValidator_new spec_add_def abs_db_def Let_def)
  qed
qed

lemma AddValidator_untouched [wf_intros]:
  assumes "db_inv h e" and "e \<noteq> d"
  shows "untouched e h (snd (AddValidator lib d pk wc h))"
proof (cases "validatorPubkeyMap (database_at h d) pk")
  case (Some a)
  then show ?thesis by (simp add: AddValidator_dup)
next
  case None
  with assms show ?thesis
    by (auto simp: AddValidator_new untouched_def db_inv_def)
qed

lemma AddValidator_separate [wf_intros]:
  assumes "db_inv h e" and "separate h d e"
  shows "separate (snd (AddValidator lib d pk wc h)) d e"
proof (cases "validatorPubkeyMap (database_at h d) pk")
  case (Some a)
  then show ?thesis using assms by (simp add: AddValidator_dup)
next
  case None
  with assms show ?thesis
    by (auto simp: AddValidator_new separate_def db_inv_def)
qed

section \<open>New databases and clones\<close>

lemma map_of_rev_distinct:
  "distinct (map fst xs) \<Longrightarrow> map_of (rev xs) = map_of xs"
  by (subst map_of_inject_set) (simp_all flip: rev_map)

lemma map_of_zip_map_key:
  assumes "distinct (map f xs)"
  shows "map_of (zip (map f xs) xs) k = Some x \<longleftrightarrow> x \<in> set xs \<and> f x = k"
proof -
  have eq: "zip (map f xs) xs = map (\<lambda>x. (f x, x)) xs"
    by (induction xs) auto
  from assms have "distinct (map fst (map (\<lambda>x. (f x, x)) xs))" by (simp add: comp_def)
  then have "map_of (map (\<lambda>x. (f x, x)) xs) k = Some x \<longleftrightarrow> (k, x) \<in> set (map (\<lambda>x. (f x, x)) xs)"
    by (rule map_of_eq_Some_iff)
  then show ?thesis by (auto simp: eq)
qed

lemma NewDatabase_inv [wf_intros]:
  "NewDatabase n h = (c, h') \<Longrightarrow> db_inv h' c"
  by (auto simp: NewDatabase_def alloc_database_def db_inv_def lookup_inv_def index_inv_def)

lemma NewDatabase_untouched [wf_intros]:
  "NewDatabase n h = (c, h') \<Longrightarrow> db_inv h e \<Longrightarrow> untouched e h h'"
  by (auto simp: NewDatabase_def alloc_database_def untouched_def db_inv_def)

lemma NewDatabase_separate:
  "NewDatabase n h = (c, h') \<Longrightarrow> db_inv h e \<Longrightarrow> separate h' c e"
  by (auto simp: NewDatabase_def alloc_database_def separate_def db_inv_def)

text \<open>
  The cloning loop, in closed form: it fills consecutive fresh cells with copies and maps each
  key to the copy of its last occurrence.
\<close>

definition copied_cells :: "heap \<Rightarrow> addr list \<Rightarrow> addr \<Rightarrow> Validator" where
  "copied_cells h as a =
     (if next_addr h \<le> a \<and> a < next_addr h + length as
      then validator_at h (as ! (a - next_addr h)) else validator_at h a)"

lemma clone_validators_closed:
  assumes "\<And>a. a \<in> set as \<Longrightarrow> a < next_addr h"
  shows "clone_validators as acc m h =
    ((acc @ [next_addr h ..< next_addr h + length as],
      m ++ map_of (rev (zip (map (\<lambda>a. Pubkey (validator_at h a)) as)
                            [next_addr h ..< next_addr h + length as]))),
     h\<lparr>validator_at := copied_cells h as, next_addr := next_addr h + length as\<rparr>)"
  using assms
proof (induction as arbitrary: acc m h)
  case Nil
  have "copied_cells h [] = validator_at h" by (auto simp: copied_cells_def fun_eq_iff)
  then show ?case by simp
next
  case (Cons x xs)
  define n where "n = next_addr h"
  define h1 where "h1 = snd (alloc_validator (ValidatorClone (validator_at h x)) h)"
  have h1: "next_addr h1 = n + 1" "validator_at h1 = (validator_at h)(n := validator_at h x)"
    by (simp_all add: h1_def n_def)
  have below: "a < next_addr h1" if "a \<in> set xs" for a
    using Cons.prems [of a] that by (simp add: h1 n_def)
  have same: "validator_at h1 a = validator_at h a" if "a \<in> set xs" for a
    using Cons.prems [of a] that by (simp add: h1 n_def)
  have keys: "map (\<lambda>a. Pubkey (validator_at h1 a)) xs = map (\<lambda>a. Pubkey (validator_at h a)) xs"
    using same by simp
  have old: "xs ! i \<noteq> n" if "i < length xs" for i
    using Cons.prems [of "xs ! i"] nth_mem [OF that] by (auto simp: n_def)
  have cells: "copied_cells h1 xs = copied_cells h (x # xs)"
  proof
    fix a
    have "a - Suc n < length xs" if "Suc n \<le> a" "a < Suc (n + length xs)"
      using that by linarith
    with old [of "a - Suc n"] show "copied_cells h1 xs a = copied_cells h (x # xs) a"
      by (cases "a = n") (auto simp: copied_cells_def h1 nth_Cons' simp flip: n_def)
  qed
  have step: "clone_validators (x # xs) acc m h
      = clone_validators xs (acc @ [n]) (m(Pubkey (validator_at h x) \<mapsto> n)) h1"
    by (simp add: Let_def alloc_validator_def h1_def n_def)
  have range: "[n ..< n + length (x # xs)] = n # [n + 1 ..< n + 1 + length xs]"
    by (simp add: upt_rec del: upt_Suc)
  have heap: "h1\<lparr>validator_at := v, next_addr := k\<rparr> = h\<lparr>validator_at := v, next_addr := k\<rparr>" for v k
    by (simp add: h1_def alloc_validator_def)
  show ?case
    unfolding step Cons.IH [of h1, OF below, simplified] n_def [symmetric] range
    by (simp add: keys cells heap h1(1) del: upt_Suc)
qed

definition clone_cells :: "heap \<Rightarrow> addr \<Rightarrow> addr list" where
  "clone_cells h d =
     [next_addr h + 1 ..< next_addr h + 1 + length (validators (database_at h d))]"

definition cloned_database :: "heap \<Rightarrow> addr \<Rightarrow> Database" where
  "cloned_database h d =
     (database_at h d)\<lparr>pendingDeposits := [], validators := clone_cells h d,
        validatorPubkeyMap := map_of (rev (zip
          (map (\<lambda>a. Pubkey (validator_at h a)) (validators (database_at h d))) (clone_cells h d)))\<rparr>"

lemma clone_cells_simps [simp]:
  "length (clone_cells h d) = length (validators (database_at h d))"
  "distinct (clone_cells h d)"
  "set (clone_cells h d) = {next_addr h + 1 ..< next_addr h + 1 + length (validators (database_at h d))}"
  "i < length (validators (database_at h d)) \<Longrightarrow> clone_cells h d ! i = next_addr h + 1 + i"
  by (simp_all add: clone_cells_def del: upt_Suc)

lemma Clone_eq:
  assumes inv: "db_inv h d"
  defines "h1 \<equiv> snd (NewDatabase (nextExecutionBlockIndex (database_at h d)) h)"
  shows "Clone d h = (next_addr h,
     put_database (next_addr h) (cloned_database h d)
       (h1\<lparr>validator_at := copied_cells h1 (validators (database_at h d)),
           next_addr := next_addr h + 1 + length (validators (database_at h d))\<rparr>))"
proof -
  let ?vs = "validators (database_at h d)"
  have new: "NewDatabase (nextExecutionBlockIndex (database_at h d)) h = (next_addr h, h1)"
    by (simp add: h1_def NewDatabase_def alloc_database_def)
  have next1: "next_addr h1 = next_addr h + 1" and vals1: "validator_at h1 = validator_at h"
    by (simp_all add: h1_def NewDatabase_def)
  have db1: "database_at h1 (next_addr h) = \<lparr>validators = [], pendingDeposits = [],
      validatorPubkeyMap = Map.empty, executionBlockMap = Map.empty, currentSlot = 0,
      highestSlot = 0, nextExecutionBlockIndex = nextExecutionBlockIndex (database_at h d)\<rparr>"
    by (simp add: h1_def NewDatabase_def)
  from inv have below: "a < next_addr h1" if "a \<in> set ?vs" for a
    using that by (auto simp: db_inv_def next1 less_Suc_eq)
  have cells: "[next_addr h1 ..< next_addr h1 + length ?vs] = clone_cells h d"
    by (simp only: next1 clone_cells_def)
  have "clone_validators ?vs [] Map.empty h1 =
      ((clone_cells h d, map_of (rev (zip (map (\<lambda>a. Pubkey (validator_at h a)) ?vs) (clone_cells h d)))),
       h1\<lparr>validator_at := copied_cells h1 ?vs, next_addr := next_addr h1 + length ?vs\<rparr>)"
    using clone_validators_closed [of ?vs h1 "[]" Map.empty, OF below]
    by (simp only: cells vals1 append_Nil empty_map_add)
  then show ?thesis
    by (simp add: Clone_def new db1 Let_def next1)
      (cases "database_at h d", simp add: cloned_database_def)
qed

lemma Clone_facts:
  assumes inv: "db_inv h d" and clone: "Clone d h = (c, h')"
  shows "c = next_addr h"
    and "next_addr h' = next_addr h + 1 + length (validators (database_at h d))"
    and "database_at h' = (database_at h)(c := cloned_database h d)"
    and "a \<le> next_addr h \<Longrightarrow> validator_at h' a = validator_at h a"
    and "map (validator_at h') (clone_cells h d) = map (validator_at h) (validators (database_at h d))"
proof -
  note eq = clone [unfolded Clone_eq [OF inv], symmetric, simplified prod.inject]
  from eq show "c = next_addr h" "next_addr h' = next_addr h + 1 + length (validators (database_at h d))"
    and "database_at h' = (database_at h)(c := cloned_database h d)"
    by (simp_all add: NewDatabase_def)
  from eq have vals: "validator_at h' =
      copied_cells (snd (NewDatabase (nextExecutionBlockIndex (database_at h d)) h))
        (validators (database_at h d))" by simp
  show "validator_at h' a = validator_at h a" if "a \<le> next_addr h"
    using that by (simp add: vals copied_cells_def NewDatabase_def)
  show "map (validator_at h') (clone_cells h d) = map (validator_at h) (validators (database_at h d))"
    by (rule nth_equalityI) (simp_all add: vals copied_cells_def NewDatabase_def)
qed

lemma Clone_refines:
  assumes "db_inv h d" and "Clone d h = (c, h')"
  shows "abs_db h' c = without_deposits (abs_db h d)"
  using Clone_facts [OF assms]
  by (simp add: abs_db_def without_deposits_def cloned_database_def Let_def)

lemma Clone_untouched:
  assumes "db_inv h d" and "Clone d h = (c, h')" and "db_inv h e"
  shows "untouched e h h'"
  using Clone_facts [OF assms(1,2)] assms(3)
  by (auto simp: untouched_def db_inv_def)

lemma Clone_separate:
  assumes "db_inv h d" and "Clone d h = (c, h')" and "db_inv h e"
  shows "separate h' c e"
  using Clone_facts [OF assms(1,2)] assms(3)
  by (fastforce simp: separate_def db_inv_def cloned_database_def)

lemma Clone_inv:
  assumes inv: "db_inv h d" and clone: "Clone d h = (c, h')"
  shows "db_inv h' c"
proof -
  let ?vs = "validators (database_at h d)" and ?cs = "clone_cells h d"
  note facts = Clone_facts [OF inv clone]
  have db: "database_at h' c = cloned_database h d" by (simp add: facts)
  from inv have look: "lookup_inv h d" and dist: "distinct ?vs" and idx: "index_inv h d"
    by (simp_all add: db_inv_def)
  have cell: "validator_at h' (?cs ! i) = validator_at h (?vs ! i)" if "i < length ?vs" for i
    using facts(5) that by (metis clone_cells_simps(1) nth_map)
  have keys: "map (\<lambda>a. Pubkey (validator_at h' a)) ?cs = map (\<lambda>a. Pubkey (validator_at h a)) ?vs"
    using arg_cong [OF facts(5), of "map Pubkey"] by (simp add: comp_def)
  have dist_keys: "distinct (map (\<lambda>a. Pubkey (validator_at h' a)) ?cs)"
    using lookup_inv_keys [OF look dist] by (simp add: keys comp_def)
  have "validatorPubkeyMap (cloned_database h d) =
      map_of (zip (map (\<lambda>a. Pubkey (validator_at h' a)) ?cs) ?cs)"
    using dist_keys by (simp add: cloned_database_def keys map_of_rev_distinct)
  then have "lookup_inv h' c"
    using map_of_zip_map_key [OF dist_keys]
    by (simp add: lookup_inv_def db) (simp add: cloned_database_def)
  moreover have "index_inv h' c"
    using idx cell by (simp add: index_inv_def db) (simp add: cloned_database_def)
  ultimately show ?thesis
    using inv facts by (auto simp: db_inv_def cloned_database_def)
qed

end
