(* ===== verification/Beacon_Config.thy ===== *)
theory Beacon_Config
  imports Beacon_Validator
begin

text \<open>
  \<open>beacon/db/config.go\<close>: the configuration record, its defaults, loading it from a file and
  cloning it. The conversions of \<open>go-ethereum\<close>, the JSON and YAML decoders and the operating
  system's answers are parameters; \<open>filepath.Ext\<close> and the truncation of the time are modelled. A
  \<open>time.Time\<close> is its number of nanoseconds since the Unix epoch.
\<close>

type_synonym time = int

definition zero_time :: time where
  \<comment> \<open>1 January of the year 1, UTC\<close>
  "zero_time = - 62135596800000000000"

definition IsZero :: "time \<Rightarrow> bool" where
  "IsZero t \<longleftrightarrow> t = zero_time"

definition TruncateSecond :: "time \<Rightarrow> time" where
  \<comment> \<open>\<open>t.Truncate(time.Second)\<close> counts from the zero time, a whole second\<close>
  "TruncateSecond t = t - (t - zero_time) mod 1000000000"

definition Unix :: "time \<Rightarrow> int" where
  "Unix t = t div 1000000000"

record Config =
  ChainID :: u64
  SecondsPerSlot :: u64
  SlotsPerEpoch :: u64
  EpochsPerSyncCommitteePeriod :: u64
  DepositContract :: Address
  GenesisTime :: time
  GenesisForkVersion :: ByteArray
  GenesisValidatorsRoot :: ByteArray
  AltairForkVersion :: ByteArray
  AltairForkEpoch :: u64
  BellatrixForkVersion :: ByteArray
  BellatrixForkEpoch :: u64
  CapellaForkVersion :: ByteArray
  CapellaForkEpoch :: u64
  DenebForkVersion :: ByteArray
  DenebForkEpoch :: u64
  FirstExecutionBlockIndex :: u64

definition zero_config :: Config where
  "zero_config =
     \<lparr> ChainID = 0, SecondsPerSlot = 0, SlotsPerEpoch = 0, EpochsPerSyncCommitteePeriod = 0,
       DepositContract = replicate 20 0, GenesisTime = zero_time, GenesisForkVersion = [],
       GenesisValidatorsRoot = [], AltairForkVersion = [], AltairForkEpoch = 0,
       BellatrixForkVersion = [], BellatrixForkEpoch = 0, CapellaForkVersion = [],
       CapellaForkEpoch = 0, DenebForkVersion = [], DenebForkEpoch = 0,
       FirstExecutionBlockIndex = 0 \<rparr>"

text \<open>What the code takes from outside the repository.\<close>

record config_lib =
  HexToAddress :: "string \<Rightarrow> Address"
  FromHex :: "string \<Rightarrow> ByteArray"
  json_Unmarshal_config :: "u8 list \<Rightarrow> error + Config"
  yaml_Unmarshal_config :: "u8 list \<Rightarrow> error + Config"

datatype stat_result = Exists | NotExist | StatError error

record file_env =
  Stat :: "string \<Rightarrow> stat_result"
  ReadFile :: "string \<Rightarrow> error + u8 list"
  Now :: time

definition DefaultChainID :: u64 where
  "DefaultChainID = 31337"

definition DefaultDepositContractAddressString :: string where
  "DefaultDepositContractAddressString = ''0xde905175eeeeeeeeeeeeeeeeeeeeeeeeeeeeeeee''"

definition NewDefaultConfig :: "config_lib \<Rightarrow> time \<Rightarrow> Config" where
  "NewDefaultConfig lib now =
     \<lparr> ChainID = DefaultChainID,
       SecondsPerSlot = 12,
       SlotsPerEpoch = 32,
       EpochsPerSyncCommitteePeriod = 256,
       DepositContract = HexToAddress lib DefaultDepositContractAddressString,
       GenesisTime = TruncateSecond now,
       GenesisForkVersion = FromHex lib ''0x90de5e70'',
       GenesisValidatorsRoot =
         FromHex lib ''0x90de5e70615a7f7115e2b6aac319c03529df8242ae705fba9df39b79c59fa8b0'',
       AltairForkVersion = FromHex lib ''0x90de5e71'',
       AltairForkEpoch = 0,
       BellatrixForkVersion = FromHex lib ''0x90de5e72'',
       BellatrixForkEpoch = 0,
       CapellaForkVersion = FromHex lib ''0x90de5e73'',
       CapellaForkEpoch = 0,
       DenebForkVersion = FromHex lib ''0x90de5e74'',
       DenebForkEpoch = 0,
       FirstExecutionBlockIndex = 0 \<rparr>"

text \<open>\<open>filepath.Ext\<close>: from the last dot of the last path element, read from the end.\<close>

fun ext_from_end :: "string \<Rightarrow> string \<Rightarrow> string" where
  "ext_from_end [] acc = []"
| "ext_from_end (c # cs) acc =
     (if c = CHR ''/'' then [] else if c = CHR ''.'' then c # acc else ext_from_end cs (c # acc))"

definition Ext :: "string \<Rightarrow> string" where
  "Ext path = ext_from_end (rev path) []"

definition LoadFromFile :: "config_lib \<Rightarrow> file_env \<Rightarrow> string \<Rightarrow> error + Config" where
  "LoadFromFile lib env path =
     (if Stat env path = NotExist
      then Inl (Errorf ''config file [%s] does not exist'' [path])
      else case ReadFile env path of
        Inl err \<Rightarrow> Inl (Wrapf ''error reading config file [%s]: %w'' [path] err)
      | Inr bytes \<Rightarrow>
          (case (if Ext path = ''.json'' then json_Unmarshal_config lib bytes
                 else if Ext path = ''.yaml'' \<or> Ext path = ''.yml''
                 then yaml_Unmarshal_config lib bytes
                 else Inr zero_config) of
             Inl err \<Rightarrow> Inl (Wrapf ''error unmarshalling config file [%s]: %w'' [path] err)
           | Inr config \<Rightarrow>
               Inr (if IsZero (GenesisTime config)
                    then config\<lparr>GenesisTime := TruncateSecond (Now env)\<rparr> else config)))"

text \<open>The clone names sixteen of the seventeen fields; the last keeps its zero value.\<close>

definition ConfigClone :: "Config \<Rightarrow> Config" where
  "ConfigClone c =
     zero_config
       \<lparr> ChainID := ChainID c,
         SecondsPerSlot := SecondsPerSlot c,
         SlotsPerEpoch := SlotsPerEpoch c,
         EpochsPerSyncCommitteePeriod := EpochsPerSyncCommitteePeriod c,
         DepositContract := DepositContract c,
         GenesisTime := GenesisTime c,
         GenesisForkVersion := GenesisForkVersion c,
         GenesisValidatorsRoot := GenesisValidatorsRoot c,
         AltairForkVersion := AltairForkVersion c,
         AltairForkEpoch := AltairForkEpoch c,
         BellatrixForkVersion := BellatrixForkVersion c,
         BellatrixForkEpoch := BellatrixForkEpoch c,
         CapellaForkVersion := CapellaForkVersion c,
         CapellaForkEpoch := CapellaForkEpoch c,
         DenebForkVersion := DenebForkVersion c,
         DenebForkEpoch := DenebForkEpoch c \<rparr>"

section \<open>Lemmas\<close>

lemma TruncateSecond_eq: "TruncateSecond t = t - t mod 1000000000"
proof -
  have "t - zero_time = t + 62135596800 * 1000000000" by (simp add: zero_time_def)
  then have "(t - zero_time) mod 1000000000 = t mod 1000000000" by (simp only: mod_mult_self1)
  then show ?thesis by (simp add: TruncateSecond_def)
qed

lemma TruncateSecond_whole: "TruncateSecond t mod 1000000000 = 0"
  by (simp add: TruncateSecond_eq minus_mod_eq_mult_div)

lemma Unix_TruncateSecond [simp]: "Unix (TruncateSecond t) = Unix t"
  by (simp add: TruncateSecond_eq Unix_def minus_mod_eq_mult_div)

lemma ConfigClone_eq: "ConfigClone c = c\<lparr>FirstExecutionBlockIndex := 0\<rparr>"
  by (cases c) (simp add: ConfigClone_def zero_config_def)

lemma ext_from_end_scan:
  "CHR ''.'' \<notin> set cs \<Longrightarrow> CHR ''/'' \<notin> set cs \<Longrightarrow>
     ext_from_end (cs @ CHR ''.'' # r) acc = CHR ''.'' # rev cs @ acc"
  by (induction cs arbitrary: acc) auto

lemma Ext_suffix:
  assumes "CHR ''.'' \<notin> set e" and "CHR ''/'' \<notin> set e"
  shows "Ext (p @ CHR ''.'' # e) = CHR ''.'' # e"
  using ext_from_end_scan [of "rev e" "rev p" "[]"] assms by (simp add: Ext_def)

end
