(* ===== verification/Snapshots.thy ===== *)
theory Snapshots
  imports Osha_Prelude
begin

text \<open>
  The interface the test manager relies on, and that the Beacon, Docker and filesystem managers
  share: a live state that clients change, named snapshots of it, and a revert. The locale
  states what each of them promises; its theorem is what a test relies on: whatever happens
  between a snapshot and the revert to it, the revert brings the snapshot's state back.
\<close>

text \<open>
  \<open>view\<close> is what a client can observe of the live state, \<open>saved s n\<close> what the snapshot \<open>n\<close> holds,
  \<open>norm\<close> the part of a view a snapshot keeps (the identity when it keeps everything), and
  \<open>live\<close> one step of a client on the live state. \<open>take\<close> and \<open>revert\<close> give \<open>None\<close> for an error.
\<close>

locale snapshotting =
  fixes inv :: "'s \<Rightarrow> bool"
    and view :: "'s \<Rightarrow> 'v"
    and saved :: "'s \<Rightarrow> string \<Rightarrow> 'v option"
    and take :: "string \<Rightarrow> 's \<Rightarrow> 's option"
    and revert :: "string \<Rightarrow> 's \<Rightarrow> 's option"
    and norm :: "'v \<Rightarrow> 'v"
    and live :: "'s \<Rightarrow> 's \<Rightarrow> bool"
  assumes take_inv: "inv s \<Longrightarrow> take n s = Some t \<Longrightarrow> inv t"
    and take_view: "inv s \<Longrightarrow> take n s = Some t \<Longrightarrow> view t = view s"
    and take_saved: "inv s \<Longrightarrow> take n s = Some t \<Longrightarrow> saved t = (saved s)(n \<mapsto> norm (view s))"
    and revert_ok: "inv s \<Longrightarrow> saved s n \<noteq> None \<Longrightarrow> revert n s \<noteq> None"
    and revert_inv: "inv s \<Longrightarrow> revert n s = Some t \<Longrightarrow> inv t"
    and revert_view: "inv s \<Longrightarrow> revert n s = Some t \<Longrightarrow> saved s n = Some v \<Longrightarrow> view t = norm v"
    and revert_saved: "inv s \<Longrightarrow> revert n s = Some t \<Longrightarrow> saved t = saved s"
    and live_inv: "inv s \<Longrightarrow> live s t \<Longrightarrow> inv t"
    and live_saved: "inv s \<Longrightarrow> live s t \<Longrightarrow> saved t = saved s"
    and norm_idem: "norm (norm v) = norm v"
begin

text \<open>A step that does not take the snapshot \<open>n\<close> again.\<close>

definition step :: "string \<Rightarrow> 's \<Rightarrow> 's \<Rightarrow> bool" where
  "step n s t \<longleftrightarrow> live s t \<or> (\<exists>k. k \<noteq> n \<and> take k s = Some t) \<or> (\<exists>k. revert k s = Some t)"

lemma step_inv: "inv s \<Longrightarrow> step n s t \<Longrightarrow> inv t"
  by (auto simp: step_def intro: live_inv take_inv revert_inv)

lemma step_saved: "inv s \<Longrightarrow> step n s t \<Longrightarrow> saved t n = saved s n"
  by (auto simp: step_def live_saved take_saved revert_saved)

lemma steps_keep: "(step n)\<^sup>*\<^sup>* s t \<Longrightarrow> inv s \<Longrightarrow> inv t \<and> saved t n = saved s n"
  by (induction rule: rtranclp_induct) (auto simp: step_saved intro: step_inv)

theorem restore:
  assumes "inv s" and "take n s = Some s0" and "(step n)\<^sup>*\<^sup>* s0 t"
  shows "\<exists>u. revert n t = Some u \<and> inv u \<and> view u = norm (view s)"
proof -
  from assms have "inv s0" and "saved s0 n = Some (norm (view s))"
    by (simp_all add: take_inv take_saved)
  with steps_keep [OF assms(3)] have t: "inv t" "saved t n = Some (norm (view s))" by simp_all
  then obtain u where u: "revert n t = Some u" using revert_ok [of t n] by auto
  with t show ?thesis by (auto simp: revert_view revert_inv norm_idem)
qed

text \<open>Reverting twice in a row gives the same view: a snapshot survives its own revert.\<close>

theorem revert_again:
  assumes "inv s" and "saved s n = Some v" and "revert n s = Some t" and "live\<^sup>*\<^sup>* t t'"
  shows "\<exists>u. revert n t' = Some u \<and> view u = view t"
proof -
  have t: "inv t" "saved t n = Some v" "view t = norm v"
    using assms(1-3) by (simp_all add: revert_inv revert_saved revert_view)
  from assms(4) t have "inv t' \<and> saved t' n = Some v"
    by (induction rule: rtranclp_induct) (auto simp: live_saved intro: live_inv)
  then show ?thesis using revert_ok [of t' n] t(3) by (auto simp: revert_view)
qed

end

end
