(* ===== verification/Beacon_Manager.thy ===== *)
theory Beacon_Manager
  imports Beacon_Database_Refine Beacon_Config Snapshots
begin

text \<open>
  \<open>beacon/manager/manager.go\<close> and \<open>beacon-interface.go\<close>: the Beacon mock manager, with its live
  database, its named snapshots (databases of their own, made by \<open>Clone\<close>) and the responses of
  the Beacon API. The state of the system is the manager together with the heap.
\<close>

section \<open>The manager\<close>

record BeaconMockManager =
  database :: addr
  config :: Config
  snapshots :: "string \<rightharpoonup> addr"

type_synonym bstate = "BeaconMockManager \<times> heap"

definition NewBeaconMockManager :: "Config \<Rightarrow> heap \<Rightarrow> bstate" where
  "NewBeaconMockManager cfg h =
     (let (d, h1) = NewDatabase (FirstExecutionBlockIndex cfg) h
      in (\<lparr> database = d, config = cfg, snapshots = Map.empty \<rparr>, h1))"

definition SetDatabase :: "addr \<Rightarrow> bstate \<Rightarrow> bstate" where
  "SetDatabase d s = ((fst s)\<lparr>database := d\<rparr>, snd s)"

definition TakeSnapshot :: "string \<Rightarrow> bstate \<Rightarrow> bstate" where
  "TakeSnapshot name s =
     (let (c, h1) = Clone (database (fst s)) (snd s)
      in ((fst s)\<lparr>snapshots := (snapshots (fst s))(name \<mapsto> c)\<rparr>, h1))"

definition RevertToSnapshot :: "string \<Rightarrow> bstate \<Rightarrow> unit outcome \<times> bstate" where
  "RevertToSnapshot name s =
     (case snapshots (fst s) name of
        None \<Rightarrow> (Err (Errorf ''snapshot with name [%s] does not exist'' [name]), s)
      | Some snapshot \<Rightarrow>
          let (c, h1) = Clone snapshot (snd s)
          in (Ok (), ((fst s)\<lparr>database := c\<rparr>, h1)))"

text \<open>The methods that pass their call on to the live database.\<close>

definition mgr_CommitBlock :: "bool \<Rightarrow> bstate \<Rightarrow> bstate" where
  "mgr_CommitBlock slotValidated s = (fst s, CommitBlock (database (fst s)) slotValidated (snd s))"

definition mgr_GetCurrentSlot :: "bstate \<Rightarrow> u64" where
  "mgr_GetCurrentSlot s = GetCurrentSlot (database (fst s)) (snd s)"

definition mgr_GetHighestSlot :: "bstate \<Rightarrow> u64" where
  "mgr_GetHighestSlot s = GetHighestSlot (database (fst s)) (snd s)"

definition mgr_SetHighestSlot :: "u64 \<Rightarrow> bstate \<Rightarrow> bstate" where
  "mgr_SetHighestSlot slot s = (fst s, SetHighestSlot (database (fst s)) slot (snd s))"

definition mgr_AddValidator ::
  "beacon_lib \<Rightarrow> ValidatorPubkey \<Rightarrow> Hash \<Rightarrow> bstate \<Rightarrow> addr outcome \<times> bstate" where
  "mgr_AddValidator lib pubkey withdrawalCredentials s =
     (let (r, h1) = AddValidator lib (database (fst s)) pubkey withdrawalCredentials (snd s)
      in (r, (fst s, h1)))"

definition GetValidator :: "beacon_lib \<Rightarrow> string \<Rightarrow> bstate \<Rightarrow> ptr outcome" where
  "GetValidator lib vid s =
     (if length vid = ValidatorPubkeyLength lib * 2 \<or> HasPrefix vid ''0x''
      then (case HexToValidatorPubkey lib vid of
              Inl err \<Rightarrow> Err (Wrapf ''error parsing pubkey [%s]: %v'' [vid] err)
            | Inr pubkey \<Rightarrow> Ok (GetValidatorByPubkey (database (fst s)) pubkey (snd s)))
      else (case ParseUint vid 32 of
              Inl err \<Rightarrow> Err (Wrapf ''error parsing index [%s]: %v'' [vid] err)
            | Inr index \<Rightarrow> Ok (GetValidatorByIndex (database (fst s)) (of_nat index) (snd s))))"

fun GetValidators_loop :: "beacon_lib \<Rightarrow> bstate \<Rightarrow> string list \<Rightarrow> addr list \<Rightarrow> addr list outcome" where
  "GetValidators_loop lib s [] vs = Ok vs"
| "GetValidators_loop lib s (vid # ids) vs =
     (case GetValidator lib vid s of
        Err err \<Rightarrow> Err err
      | Panic p \<Rightarrow> Panic p
      | Ok None \<Rightarrow> GetValidators_loop lib s ids vs
      | Ok (Some v) \<Rightarrow> GetValidators_loop lib s ids (vs @ [v]))"

definition GetValidators :: "beacon_lib \<Rightarrow> string list \<Rightarrow> bstate \<Rightarrow> addr list outcome" where
  "GetValidators lib ids s =
     (if length ids = 0 then Ok (GetAllValidators (database (fst s)) (snd s))
      else GetValidators_loop lib s ids [])"

definition mgr_GetPendingDeposits :: "bstate \<Rightarrow> ptr list" where
  "mgr_GetPendingDeposits s = GetPendingDeposits (database (fst s)) (snd s)"

definition mgr_AddPendingDeposit :: "ptr \<Rightarrow> bstate \<Rightarrow> bstate" where
  "mgr_AddPendingDeposit deposit s = (fst s, AddPendingDeposit (database (fst s)) deposit (snd s))"

definition mgr_RemovePendingDeposit :: "ptr \<Rightarrow> bstate \<Rightarrow> unit outcome \<times> bstate" where
  "mgr_RemovePendingDeposit deposit s =
     (let (r, h1) = RemovePendingDeposit (database (fst s)) deposit (snd s) in (r, (fst s, h1)))"

section \<open>The Beacon API\<close>

record FinalityCheckpoints =
  FinalizedEpoch :: u64
  CurrentJustifiedEpoch :: u64
  PreviousJustifiedEpoch :: u64

record GenesisData =
  gGenesisTime :: u64
  gGenesisValidatorsRoot :: ByteArray
  gGenesisForkVersion :: ByteArray

record DepositContractData =
  dcAddress :: Address
  dcChainID :: u64

record SpecData =
  spSecondsPerSlot :: u64
  spSlotsPerEpoch :: u64
  spEpochsPerSyncCommitteePeriod :: u64
  spCapellaForkVersion :: ByteArray

record SyncStatus =
  IsSyncing :: bool
  HeadSlot :: u64
  SyncDistance :: u64

text \<open>
  \<open>Beacon_FinalityCheckpoints\<close> and \<open>Node_Syncing\<close> take the database's lock once per value they
  read, so other calls may run between the reads: each takes one state per read. A call that
  nothing interrupts reads the same state every time, which is how the handlers use them.
\<close>

definition Beacon_FinalityCheckpoints ::
  "string \<Rightarrow> bstate \<Rightarrow> bstate \<Rightarrow> bstate \<Rightarrow> FinalityCheckpoints outcome" where
  "Beacon_FinalityCheckpoints stateId s1 s2 s3 =
     Ok \<lparr> FinalizedEpoch = GetCurrentSlot (database (fst s1)) (snd s1),
          CurrentJustifiedEpoch = GetCurrentSlot (database (fst s2)) (snd s2),
          PreviousJustifiedEpoch = GetCurrentSlot (database (fst s3)) (snd s3) \<rparr>"

definition Beacon_Genesis :: "bstate \<Rightarrow> GenesisData outcome" where
  "Beacon_Genesis s =
     Ok \<lparr> gGenesisTime = of_int (Unix (GenesisTime (config (fst s)))),
          gGenesisValidatorsRoot = GenesisValidatorsRoot (config (fst s)),
          gGenesisForkVersion = GenesisForkVersion (config (fst s)) \<rparr>"

definition Beacon_Validators ::
  "beacon_lib \<Rightarrow> string \<Rightarrow> string list \<Rightarrow> bstate \<Rightarrow> ClientValidator list outcome" where
  "Beacon_Validators lib stateId ids s =
     (case GetValidators lib ids s of
        Err err \<Rightarrow> Err err
      | Panic p \<Rightarrow> Panic p
      | Ok vs \<Rightarrow> Ok (map (\<lambda>v. GetValidatorMeta (validator_at (snd s) v)) vs))"

text \<open>\<open>ConvertToNativeFormat\<close> has a value receiver: calling it through a nil pointer panics.\<close>

fun convert_deposits :: "heap \<Rightarrow> ptr list \<Rightarrow> PendingDeposit list \<Rightarrow> PendingDeposit list outcome" where
  "convert_deposits h [] acc = Ok acc"
| "convert_deposits h (None # ps) acc = Panic NilDereference"
| "convert_deposits h (Some p # ps) acc =
     convert_deposits h ps (acc @ [ConvertToNativeFormat (deposit_at h p)])"

definition Beacon_PendingDeposits :: "string \<Rightarrow> bstate \<Rightarrow> PendingDeposit list outcome" where
  "Beacon_PendingDeposits stateID s = convert_deposits (snd s) (mgr_GetPendingDeposits s) []"

definition Config_DepositContract :: "bstate \<Rightarrow> DepositContractData outcome" where
  "Config_DepositContract s =
     Ok \<lparr> dcAddress = DepositContract (config (fst s)), dcChainID = ChainID (config (fst s)) \<rparr>"

definition Config_Spec :: "bstate \<Rightarrow> SpecData outcome" where
  "Config_Spec s =
     Ok \<lparr> spSecondsPerSlot = SecondsPerSlot (config (fst s)),
          spSlotsPerEpoch = SlotsPerEpoch (config (fst s)),
          spEpochsPerSyncCommitteePeriod = EpochsPerSyncCommitteePeriod (config (fst s)),
          spCapellaForkVersion = CapellaForkVersion (config (fst s)) \<rparr>"

text \<open>\<open>sync_response\<close> is what \<open>Node_Syncing\<close> makes of the two slots it has read.\<close>

definition sync_response :: "u64 \<Rightarrow> u64 \<Rightarrow> SyncStatus" where
  "sync_response current highest =
     \<lparr> IsSyncing = (current < highest), HeadSlot = highest, SyncDistance = highest - current \<rparr>"

definition Node_Syncing :: "bstate \<Rightarrow> bstate \<Rightarrow> SyncStatus outcome" where
  "Node_Syncing s1 s2 = Ok (sync_response (mgr_GetCurrentSlot s1) (mgr_GetHighestSlot s2))"

end
