(* ===== verification/Beacon_Server.thy ===== *)
theory Beacon_Server
  imports Beacon_Manager
begin

text \<open>
  \<open>beacon/server\<close> and \<open>beacon/api\<close>: the HTTP handlers of the Beacon mock, the responses they
  write and the table of routes. A handler takes the response writer, the request and the state
  of the Beacon manager, and returns how it ended (a panic is recovered by \<open>net/http\<close>, which drops
  the connection), the writer and the state. JSON encoding and decoding, and the path matching of
  \<open>gorilla/mux\<close>, are parameters; the query and the body arrive as \<open>net/url\<close> and \<open>io\<close> deliver them.
\<close>

section \<open>Requests and responses\<close>

record Request =
  Method :: string
  Path :: string
  Query :: "string \<rightharpoonup> string list"
  Body :: "error + u8 list"
  Vars :: "string \<rightharpoonup> string"

text \<open>
  Only the first \<open>WriteHeader\<close> sets the status line; every \<open>Write\<close> appends to the body.
\<close>

record ResponseWriter =
  wHeader :: "(string \<times> string) list"
  wStatus :: "nat option"
  wBody :: "u8 list"

definition WriteHeader :: "nat \<Rightarrow> ResponseWriter \<Rightarrow> ResponseWriter" where
  "WriteHeader code w = (if wStatus w = None then w\<lparr>wStatus := Some code\<rparr> else w)"

datatype message =
    ErrorResponse nat error
  | ValidatorsResponse "ClientValidator list"
  | ValidatorResponse ClientValidator
  | AddValidatorResponse u64
  | PendingDepositsResponse "PendingDeposit list"
  | SyncStatusResponse SyncStatus
  | FinalityCheckpointsResponse FinalityCheckpoints
  | GenesisResponse GenesisData
  | DepositContractResponse DepositContractData
  | ConfigSpecResponse SpecData

record ValidatorsRequest =
  IDs :: "string list"

record server_lib =
  json_Marshal :: "message \<Rightarrow> error + u8 list"
  json_Unmarshal_ids :: "u8 list \<Rightarrow> error + ValidatorsRequest"
  json_Unmarshal_any :: "u8 list \<Rightarrow> error option"
  mux_match :: "string \<Rightarrow> string \<Rightarrow> (string \<rightharpoonup> string) option"
  mux_NotFound :: "ResponseWriter \<Rightarrow> ResponseWriter"

definition StatusOK :: nat where "StatusOK = 200"
definition StatusBadRequest :: nat where "StatusBadRequest = 400"
definition StatusMethodNotAllowed :: nat where "StatusMethodNotAllowed = 405"
definition StatusInternalServerError :: nat where "StatusInternalServerError = 500"

section \<open>Writing responses\<close>

definition writeResponse :: "ResponseWriter \<Rightarrow> nat \<Rightarrow> u8 list \<Rightarrow> ResponseWriter" where
  "writeResponse w statusCode msg =
     (let w1 = w\<lparr>wHeader := wHeader w @ [(''Content-Type'', ''application/json'')]\<rparr>;
          w2 = WriteHeader statusCode w1
      in w2\<lparr>wBody := wBody w2 @ msg\<rparr>)"

definition formatError :: "server_lib \<Rightarrow> nat \<Rightarrow> error \<Rightarrow> u8 list" where
  "formatError slib code err =
     (case json_Marshal slib (ErrorResponse code err) of Inl _ \<Rightarrow> [] | Inr bytes \<Rightarrow> bytes)"

definition handleInvalidMethod :: "ResponseWriter \<Rightarrow> ResponseWriter" where
  "handleInvalidMethod w = writeResponse w StatusMethodNotAllowed []"

definition handleInputError :: "server_lib \<Rightarrow> ResponseWriter \<Rightarrow> error \<Rightarrow> ResponseWriter" where
  "handleInputError slib w err =
     writeResponse w StatusBadRequest (formatError slib StatusBadRequest err)"

definition handleServerError :: "server_lib \<Rightarrow> ResponseWriter \<Rightarrow> error \<Rightarrow> ResponseWriter" where
  "handleServerError slib w err =
     writeResponse w StatusInternalServerError (formatError slib StatusInternalServerError err)"

text \<open>After a failed \<open>json.Marshal\<close> the code goes on and writes its (nil) result with status 200.\<close>

definition handleSuccess :: "server_lib \<Rightarrow> ResponseWriter \<Rightarrow> message option \<Rightarrow> ResponseWriter" where
  "handleSuccess slib w msg =
     (case msg of
        None \<Rightarrow> writeResponse w StatusOK []
      | Some m \<Rightarrow>
          (case json_Marshal slib m of
             Inl err \<Rightarrow> writeResponse
                          (handleServerError slib w (Wrapf ''error serializing response: %w'' [] err))
                          StatusOK []
           | Inr bytes \<Rightarrow> writeResponse w StatusOK bytes))"

section \<open>Reading requests\<close>

type_synonym url_values = "string \<rightharpoonup> string list"

definition processApiRequest ::
  "server_lib \<Rightarrow> ResponseWriter \<Rightarrow> Request \<Rightarrow> bool \<Rightarrow> url_values option \<times> ResponseWriter" where
  "processApiRequest slib w r hasRequestBody =
     (let args = Query r in
      if hasRequestBody
      then (case Body r of
              Inl err \<Rightarrow> (None, handleInputError slib w (Wrapf ''error reading request body: %w'' [] err))
            | Inr bodyBytes \<Rightarrow>
                (case json_Unmarshal_any slib bodyBytes of
                   Some err \<Rightarrow> (None, handleInputError slib w
                                  (Wrapf ''error deserializing request body: %w'' [] err))
                 | None \<Rightarrow> (Some args, w)))
      else (Some args, w))"

text \<open>Indexing a nil map finds nothing.\<close>

definition arg :: "url_values option \<Rightarrow> string \<Rightarrow> string list option" where
  "arg args key = (case args of None \<Rightarrow> None | Some m \<Rightarrow> m key)"

fun split_ids :: "string list \<Rightarrow> string list \<Rightarrow> string list" where
  "split_ids [] fullIds = fullIds"
| "split_ids (element # elements) fullIds =
     (let trimmed = TrimSpace element in
      if trimmed = '''' then split_ids elements fullIds
      else split_ids elements (fullIds @ [trimmed]))"

fun getValidatorIDs_loop :: "string list \<Rightarrow> string list \<Rightarrow> string list" where
  "getValidatorIDs_loop [] fullIds = fullIds"
| "getValidatorIDs_loop (vid # ids) fullIds =
     getValidatorIDs_loop ids (split_ids (Split vid CHR '','') fullIds)"

definition getValidatorIDs :: "string list \<Rightarrow> string list" where
  "getValidatorIDs ids = (if length ids = 0 then [] else getValidatorIDs_loop ids [])"

definition getValidatorIDsFromRequestArgs :: "url_values option \<Rightarrow> string list" where
  "getValidatorIDsFromRequestArgs args =
     (case arg args ''id'' of None \<Rightarrow> getValidatorIDs [] | Some ids \<Rightarrow> getValidatorIDs ids)"

definition getValidatorIDsFromRequestBody ::
  "server_lib \<Rightarrow> ResponseWriter \<Rightarrow> Request \<Rightarrow> string list option \<times> ResponseWriter" where
  "getValidatorIDsFromRequestBody slib w r =
     (case Body r of
        Inl err \<Rightarrow> (None, handleInputError slib w (Wrapf ''error reading request body: %w'' [] err))
      | Inr bodyBytes \<Rightarrow>
          (case json_Unmarshal_ids slib bodyBytes of
             Inl err \<Rightarrow> (None, handleInputError slib w
                            (Wrapf ''error deserializing request body: %w'' [] err))
           | Inr requestBody \<Rightarrow> (Some (getValidatorIDs (IDs requestBody)), w)))"

section \<open>Handlers\<close>

text \<open>The names of the variables of the routes.\<close>

definition StateID :: string where [simp]: "StateID = ''state_id''"
definition ValidatorID :: string where [simp]: "ValidatorID = ''validator_id''"

type_synonym handled = "unit outcome \<times> ResponseWriter \<times> bstate"

text \<open>A handler's two ways to finish without a panic, and reading the first value of an argument.\<close>

definition bad_request :: "server_lib \<Rightarrow> ResponseWriter \<Rightarrow> error \<Rightarrow> bstate \<Rightarrow> handled" where
  "bad_request slib w err s = (Ok (), handleInputError slib w err, s)"

definition success :: "server_lib \<Rightarrow> ResponseWriter \<Rightarrow> message option \<Rightarrow> bstate \<Rightarrow> handled" where
  "success slib w msg s = (Ok (), handleSuccess slib w msg, s)"

definition with_head :: "string list \<Rightarrow> ResponseWriter \<Rightarrow> bstate \<Rightarrow> (string \<Rightarrow> handled) \<Rightarrow> handled" where
  "with_head xs w s k =
     (case slice_head xs of Ok x \<Rightarrow> k x | Err e \<Rightarrow> (Err e, w, s) | Panic p \<Rightarrow> (Panic p, w, s))"

definition addValidator ::
  "beacon_lib \<Rightarrow> server_lib \<Rightarrow> ResponseWriter \<Rightarrow> Request \<Rightarrow> bstate \<Rightarrow> handled" where
  "addValidator lib slib w r s =
     (let (args, w) = processApiRequest slib w r False in
      case arg args ''pubkey'' of
        None \<Rightarrow> bad_request slib w (Errorf ''missing pubkey'' []) s
      | Some pubkeyString \<Rightarrow>
      (case arg args ''creds'' of
        None \<Rightarrow> bad_request slib w (Errorf ''missing withdrawal creds'' []) s
      | Some withdrawalCredsString \<Rightarrow>
      with_head pubkeyString w s (\<lambda>pk.
      case HexToValidatorPubkey lib pk of
        Inl err \<Rightarrow> bad_request slib w (Wrapf ''invalid pubkey [%s]: %w'' [pk] err) s
      | Inr pubkey \<Rightarrow>
      with_head withdrawalCredsString w s (\<lambda>wc.
      case mgr_AddValidator lib pubkey (HexToHash lib wc) s of
        (Err err, s1) \<Rightarrow> bad_request slib w err s1
      | (Panic p, s1) \<Rightarrow> (Panic p, w, s1)
      | (Ok validator, s1) \<Rightarrow>
          success slib w (Some (AddValidatorResponse (Index (validator_at (snd s1) validator)))) s1))))"

definition commitBlock :: "server_lib \<Rightarrow> ResponseWriter \<Rightarrow> Request \<Rightarrow> bstate \<Rightarrow> handled" where
  "commitBlock slib w r s =
     (let (args, w) = processApiRequest slib w r False in
      case arg args ''validated'' of
        None \<Rightarrow> bad_request slib w (Errorf ''missing validated arg'' []) s
      | Some validatedString \<Rightarrow>
      with_head validatedString w s (\<lambda>v.
      case ParseBool v of
        Inl err \<Rightarrow> bad_request slib w (Wrapf ''error parsing validated arg [%s]: %w'' [v] err) s
      | Inr validated \<Rightarrow> success slib w None (mgr_CommitBlock validated s)))"

definition setHighestSlot :: "server_lib \<Rightarrow> ResponseWriter \<Rightarrow> Request \<Rightarrow> bstate \<Rightarrow> handled" where
  "setHighestSlot slib w r s =
     (let (args, w) = processApiRequest slib w r False in
      case arg args ''slot'' of
        None \<Rightarrow> bad_request slib w (Errorf ''missing slot'' []) s
      | Some slotString \<Rightarrow>
      with_head slotString w s (\<lambda>v.
      case ParseUint v 64 of
        Inl err \<Rightarrow> bad_request slib w (Wrapf ''invalid slot [%s]: %w'' [v] err) s
      | Inr slot \<Rightarrow> success slib w None (mgr_SetHighestSlot (of_nat slot) s)))"

text \<open>
  The three handlers that change a validator look it up first; a lookup that finds nothing gives
  the nil pointer and no error, and the method call then dereferences it.
\<close>

definition setBalance ::
  "beacon_lib \<Rightarrow> server_lib \<Rightarrow> ResponseWriter \<Rightarrow> Request \<Rightarrow> bstate \<Rightarrow> handled" where
  "setBalance lib slib w r s =
     (let (args, w) = processApiRequest slib w r False in
      case arg args ''id'' of
        None \<Rightarrow> bad_request slib w (Errorf ''missing validator ID'' []) s
      | Some vid \<Rightarrow>
      (case arg args ''balance'' of
        None \<Rightarrow> bad_request slib w (Errorf ''missing balance'' []) s
      | Some balanceString \<Rightarrow>
      with_head balanceString w s (\<lambda>v.
      case ParseUint v 64 of
        Inl err \<Rightarrow> bad_request slib w (Wrapf ''invalid balance [%s]: %w'' [v] err) s
      | Inr balance \<Rightarrow>
      with_head vid w s (\<lambda>i.
      case GetValidator lib i s of
        Err err \<Rightarrow> bad_request slib w err s
      | Panic p \<Rightarrow> (Panic p, w, s)
      | Ok None \<Rightarrow> (Panic NilDereference, w, s)
      | Ok (Some a) \<Rightarrow>
          success slib w None
            (fst s, put_validator a (SetBalance (of_nat balance) (validator_at (snd s) a)) (snd s))))))"

definition setStatus ::
  "beacon_lib \<Rightarrow> server_lib \<Rightarrow> ResponseWriter \<Rightarrow> Request \<Rightarrow> bstate \<Rightarrow> handled" where
  "setStatus lib slib w r s =
     (let (args, w) = processApiRequest slib w r False in
      case arg args ''id'' of
        None \<Rightarrow> bad_request slib w (Errorf ''missing validator ID'' []) s
      | Some vid \<Rightarrow>
      (case arg args ''status'' of
        None \<Rightarrow> bad_request slib w (Errorf ''missing status'' []) s
      | Some statusString \<Rightarrow>
      with_head statusString w s (\<lambda>status.
      if status = '''' then bad_request slib w (Errorf ''invalid status [%s]'' [status]) s
      else with_head vid w s (\<lambda>i.
      case GetValidator lib i s of
        Err err \<Rightarrow> bad_request slib w err s
      | Panic p \<Rightarrow> (Panic p, w, s)
      | Ok None \<Rightarrow> (Panic NilDereference, w, s)
      | Ok (Some a) \<Rightarrow>
          success slib w None
            (fst s, put_validator a (SetStatus status (validator_at (snd s) a)) (snd s))))))"

definition slash_handler ::
  "beacon_lib \<Rightarrow> server_lib \<Rightarrow> ResponseWriter \<Rightarrow> Request \<Rightarrow> bstate \<Rightarrow> handled" where
  "slash_handler lib slib w r s =
     (let (args, w) = processApiRequest slib w r False in
      case arg args ''id'' of
        None \<Rightarrow> bad_request slib w (Errorf ''missing validator ID'' []) s
      | Some vid \<Rightarrow>
      (case arg args ''penalty'' of
        None \<Rightarrow> bad_request slib w (Errorf ''missing penalty'' []) s
      | Some penaltyString \<Rightarrow>
      with_head penaltyString w s (\<lambda>v.
      case ParseUint v 64 of
        Inl err \<Rightarrow> bad_request slib w (Wrapf ''invalid penalty [%s]: %w'' [v] err) s
      | Inr penalty \<Rightarrow>
      with_head vid w s (\<lambda>i.
      case GetValidator lib i s of
        Err err \<Rightarrow> bad_request slib w err s
      | Panic p \<Rightarrow> (Panic p, w, s)
      | Ok None \<Rightarrow> (Panic NilDereference, w, s)
      | Ok (Some a) \<Rightarrow>
          (case Slash lib (of_nat penalty) (validator_at (snd s) a) of
             (Err err, v1) \<Rightarrow> bad_request slib w err (fst s, put_validator a v1 (snd s))
           | (Panic p, v1) \<Rightarrow> (Panic p, w, (fst s, put_validator a v1 (snd s)))
           | (Ok _, v1) \<Rightarrow> success slib w None (fst s, put_validator a v1 (snd s)))))))"

definition getValidator ::
  "beacon_lib \<Rightarrow> server_lib \<Rightarrow> ResponseWriter \<Rightarrow> Request \<Rightarrow> bstate \<Rightarrow> handled" where
  "getValidator lib slib w r s =
     (let (_, w) = processApiRequest slib w r False in
      case Vars r ValidatorID of
        None \<Rightarrow> bad_request slib w (Errorf ''missing validator ID'' []) s
      | Some vid \<Rightarrow>
      (case GetValidator lib vid s of
        Err err \<Rightarrow> bad_request slib w err s
      | Panic p \<Rightarrow> (Panic p, w, s)
      | Ok None \<Rightarrow> (Panic NilDereference, w, s)
      | Ok (Some a) \<Rightarrow>
          success slib w (Some (ValidatorResponse (GetValidatorMeta (validator_at (snd s) a)))) s))"

definition getValidators ::
  "beacon_lib \<Rightarrow> server_lib \<Rightarrow> ResponseWriter \<Rightarrow> Request \<Rightarrow> bstate \<Rightarrow> handled" where
  "getValidators lib slib w r s =
     (let (args, w) = processApiRequest slib w r False in
      case Vars r StateID of
        None \<Rightarrow> bad_request slib w (Errorf ''missing state ID'' []) s
      | Some state \<Rightarrow>
      (let respond = (\<lambda>w ids.
         case Beacon_Validators lib state ids s of
           Err err \<Rightarrow> bad_request slib w err s
         | Panic p \<Rightarrow> (Panic p, w, s)
         | Ok response \<Rightarrow> success slib w (Some (ValidatorsResponse response)) s)
       in if Method r = ''GET'' then respond w (getValidatorIDsFromRequestArgs args)
          else if Method r = ''POST''
          then (case getValidatorIDsFromRequestBody slib w r of
                  (None, w1) \<Rightarrow> (Ok (), w1, s)
                | (Some ids, w1) \<Rightarrow> respond w1 ids)
          else (Ok (), handleInvalidMethod w, s)))"

text \<open>A response of the manager's Beacon API, with the handler's treatment of its error.\<close>

definition respond_or ::
  "(ResponseWriter \<Rightarrow> error \<Rightarrow> ResponseWriter) \<Rightarrow> server_lib \<Rightarrow> ResponseWriter
   \<Rightarrow> message outcome \<Rightarrow> bstate \<Rightarrow> handled" where
  "respond_or onError slib w resp s =
     (case resp of
        Err err \<Rightarrow> (Ok (), onError w err, s)
      | Panic p \<Rightarrow> (Panic p, w, s)
      | Ok m \<Rightarrow> success slib w (Some m) s)"

definition getBeaconGenesis :: "server_lib \<Rightarrow> ResponseWriter \<Rightarrow> Request \<Rightarrow> bstate \<Rightarrow> handled" where
  "getBeaconGenesis slib w r s =
     (let (_, w) = processApiRequest slib w r False in
      respond_or (handleServerError slib) slib w (map_outcome GenesisResponse (Beacon_Genesis s)) s)"

definition getConfigSpec :: "server_lib \<Rightarrow> ResponseWriter \<Rightarrow> Request \<Rightarrow> bstate \<Rightarrow> handled" where
  "getConfigSpec slib w r s =
     (let (_, w) = processApiRequest slib w r False in
      respond_or (handleServerError slib) slib w (map_outcome ConfigSpecResponse (Config_Spec s)) s)"

definition getDepositContract :: "server_lib \<Rightarrow> ResponseWriter \<Rightarrow> Request \<Rightarrow> bstate \<Rightarrow> handled" where
  "getDepositContract slib w r s =
     (let (_, w) = processApiRequest slib w r False in
      respond_or (handleServerError slib) slib w
        (map_outcome DepositContractResponse (Config_DepositContract s)) s)"

definition getSyncStatus :: "server_lib \<Rightarrow> ResponseWriter \<Rightarrow> Request \<Rightarrow> bstate \<Rightarrow> handled" where
  "getSyncStatus slib w r s =
     (let (_, w) = processApiRequest slib w r False in
      respond_or (handleServerError slib) slib w (map_outcome SyncStatusResponse (Node_Syncing s s)) s)"

definition getFinalityCheckpoints :: "server_lib \<Rightarrow> ResponseWriter \<Rightarrow> Request \<Rightarrow> bstate \<Rightarrow> handled" where
  "getFinalityCheckpoints slib w r s =
     (case Vars r StateID of
        None \<Rightarrow> bad_request slib w (Errorf ''missing state ID'' []) s
      | Some state \<Rightarrow>
          respond_or (handleInputError slib) slib w
            (map_outcome FinalityCheckpointsResponse (Beacon_FinalityCheckpoints state s s s)) s)"

definition getPendingDeposits :: "server_lib \<Rightarrow> ResponseWriter \<Rightarrow> Request \<Rightarrow> bstate \<Rightarrow> handled" where
  "getPendingDeposits slib w r s =
     (let (args, w) = processApiRequest slib w r False in
      if args = None then (Ok (), w, s)
      else case Vars r StateID of
        None \<Rightarrow> bad_request slib w (Errorf ''missing state ID'' []) s
      | Some state \<Rightarrow>
          respond_or (handleInputError slib) slib w
            (map_outcome PendingDepositsResponse (Beacon_PendingDeposits state s)) s)"

section \<open>Routes\<close>

type_synonym handler = "ResponseWriter \<Rightarrow> Request \<Rightarrow> bstate \<Rightarrow> handled"

definition ValidatorsRoute :: string where
  "ValidatorsRoute = ''v1/beacon/states/{state_id}/validators''"
definition ValidatorRoute :: string where
  "ValidatorRoute = ''v1/beacon/states/{state_id}/validators/{validator_id}''"
definition SyncingRoute :: string where
  "SyncingRoute = ''v1/node/syncing''"
definition PendingDepositsRoute :: string where
  "PendingDepositsRoute = ''v1/beacon/states/{state_id}/pending_deposits''"
definition DepositContractRoute :: string where
  "DepositContractRoute = ''v1/config/deposit_contract''"
definition ConfigSpecRoute :: string where
  "ConfigSpecRoute = ''v1/config/spec''"
definition BeaconGenesisRoute :: string where
  "BeaconGenesisRoute = ''v1/beacon/genesis''"
definition FinalityCheckpointsRoute :: string where
  "FinalityCheckpointsRoute = ''v1/beacon/states/{state_id}/finality_checkpoints''"
definition AddValidatorRoute :: string where
  "AddValidatorRoute = ''add-validator''"
definition CommitBlockRoute :: string where
  "CommitBlockRoute = ''commit-block''"
definition SetBalanceRoute :: string where
  "SetBalanceRoute = ''set-balance''"
definition SetStatusRoute :: string where
  "SetStatusRoute = ''set-status''"
definition SetHighestSlotRoute :: string where
  "SetHighestSlotRoute = ''set-highest-slot''"
definition SlashRoute :: string where
  "SlashRoute = ''slash''"

definition get_only :: "handler \<Rightarrow> handler" where
  "get_only h w r s =
     (if Method r = ''GET'' then h w r s else (Ok (), handleInvalidMethod w, s))"

definition registerApiRoutes :: "beacon_lib \<Rightarrow> server_lib \<Rightarrow> (string \<times> handler) list" where
  "registerApiRoutes lib slib =
     [(''/'' @ ValidatorsRoute, getValidators lib slib),
      (''/'' @ ValidatorRoute, get_only (getValidator lib slib)),
      (''/'' @ SyncingRoute, get_only (getSyncStatus slib)),
      (''/'' @ DepositContractRoute, get_only (getDepositContract slib)),
      (''/'' @ BeaconGenesisRoute, get_only (getBeaconGenesis slib)),
      (''/'' @ ConfigSpecRoute, get_only (getConfigSpec slib)),
      (''/'' @ FinalityCheckpointsRoute, get_only (getFinalityCheckpoints slib)),
      (''/'' @ PendingDepositsRoute, get_only (getPendingDeposits slib))]"

definition registerAdminRoutes :: "beacon_lib \<Rightarrow> server_lib \<Rightarrow> (string \<times> handler) list" where
  "registerAdminRoutes lib slib =
     [(''/'' @ AddValidatorRoute, get_only (addValidator lib slib)),
      (''/'' @ CommitBlockRoute, get_only (commitBlock slib)),
      (''/'' @ SetBalanceRoute, get_only (setBalance lib slib)),
      (''/'' @ SetStatusRoute, get_only (setStatus lib slib)),
      (''/'' @ SlashRoute, get_only (slash_handler lib slib)),
      (''/'' @ SetHighestSlotRoute, get_only (setHighestSlot slib))]"

text \<open>\<open>NewBeaconMockServer\<close> registers both tables under their prefixes, in this order.\<close>

definition server_routes :: "beacon_lib \<Rightarrow> server_lib \<Rightarrow> (string \<times> handler) list" where
  "server_routes lib slib =
     map (\<lambda>(t, h). (''/eth'' @ t, h)) (registerApiRoutes lib slib)
     @ map (\<lambda>(t, h). (''/admin'' @ t, h)) (registerAdminRoutes lib slib)"

text \<open>\<open>mux\<close> tests the routes in the order of their registration; the first match handles.\<close>

fun dispatch :: "server_lib \<Rightarrow> (string \<times> handler) list \<Rightarrow> handler" where
  "dispatch slib [] w r s = (Ok (), mux_NotFound slib w, s)"
| "dispatch slib ((t, h) # routes) w r s =
     (case mux_match slib t (Path r) of
        None \<Rightarrow> dispatch slib routes w r s
      | Some vars \<Rightarrow> h w (r\<lparr>Vars := vars\<rparr>) s)"

definition ServeHTTP :: "beacon_lib \<Rightarrow> server_lib \<Rightarrow> Request \<Rightarrow> bstate \<Rightarrow> handled" where
  "ServeHTTP lib slib r s =
     dispatch slib (server_routes lib slib) \<lparr>wHeader = [], wStatus = None, wBody = []\<rparr> r s"

end
