(* ===== verification/Slot_Clock.thy ===== *)
theory Slot_Clock
  imports Osha_Prelude
begin

text \<open>
  What a reader of the two slots relies on when other clients run between its two reads: the
  local head never passes the chain head, and the chain head never goes back. Then a current
  slot read first is at most a highest slot read any number of steps later.
\<close>

locale slot_clock =
  fixes inv :: "'s \<Rightarrow> bool"
    and step :: "'s \<Rightarrow> 's \<Rightarrow> bool"
    and current :: "'s \<Rightarrow> u64"
    and highest :: "'s \<Rightarrow> u64"
  assumes inv_step: "inv s \<Longrightarrow> step s t \<Longrightarrow> inv t"
    and current_le_highest: "inv s \<Longrightarrow> current s \<le> highest s"
    and highest_mono: "inv s \<Longrightarrow> step s t \<Longrightarrow> highest s \<le> highest t"
begin

lemma steps_mono: "step\<^sup>*\<^sup>* s t \<Longrightarrow> inv s \<Longrightarrow> inv t \<and> highest s \<le> highest t"
  by (induction rule: rtranclp_induct) (auto intro: inv_step dest: highest_mono)

theorem read_apart:
  assumes "inv s" and "step\<^sup>*\<^sup>* s t"
  shows "current s \<le> highest t"
  using steps_mono [OF assms(2,1)] current_le_highest [OF assms(1)] by (meson order_trans)

theorem distance_exact:
  assumes "inv s" and "step\<^sup>*\<^sup>* s t"
  shows "unat (highest t - current s) = unat (highest t) - unat (current s)"
  using read_apart [OF assms] by (rule unat_sub)

end

end
