(* ===== verification/Beacon_Database_Steps.thy ===== *)
theory Beacon_Database_Steps
  imports Beacon_Database_Refine Slot_Clock
begin

text \<open>
  One step of a client of a database: a call of one of its methods, or of a method of one of its
  validators through the pointer. Every step keeps the database's invariant, leaves every
  separate database untouched, and never lowers the highest slot; the databases reachable from a
  new one satisfy the invariant.
\<close>

inductive db_step :: "beacon_lib \<Rightarrow> addr \<Rightarrow> heap \<Rightarrow> heap \<Rightarrow> bool" for lib d where
  add_validator: "db_step lib d h (snd (AddValidator lib d pk wc h))"
| commit_block: "db_step lib d h (CommitBlock d b h)"
| set_highest_slot: "db_step lib d h (SetHighestSlot d slot h)"
| add_pending_deposit: "db_step lib d h (AddPendingDeposit d p h)"
| remove_pending_deposit: "db_step lib d h (snd (RemovePendingDeposit d p h))"
| set_balance: "a \<in> set (validators (database_at h d)) \<Longrightarrow>
     db_step lib d h (put_validator a (SetBalance b (validator_at h a)) h)"
| set_status: "a \<in> set (validators (database_at h d)) \<Longrightarrow>
     db_step lib d h (put_validator a (SetStatus st (validator_at h a)) h)"
| slash: "a \<in> set (validators (database_at h d)) \<Longrightarrow>
     db_step lib d h (put_validator a (snd (Slash lib pen (validator_at h a))) h)"
| clone: "db_step lib d h (snd (Clone d h))"

inductive_cases db_stepE: "db_step lib d h h'"

lemma Clone_pair: "Clone d h = (fst (Clone d h), snd (Clone d h))"
  by simp

lemma db_step_inv: "db_step lib d h h' \<Longrightarrow> db_inv h d \<Longrightarrow> db_inv h' d"
proof (induction rule: db_step.induct)
  case (clone h)
  from Clone_untouched [OF clone Clone_pair clone] clone show ?case by (rule untouched_inv)
qed (auto intro: wf_intros)

lemma db_step_untouched:
  assumes "db_step lib d h h'" and "db_inv h d" and "db_inv h e" and "separate h d e"
  shows "untouched e h h'"
  using assms(1)
proof cases
  case clone
  then show ?thesis using Clone_untouched [OF assms(2) Clone_pair assms(3)] by simp
qed (use assms in \<open>auto intro: wf_intros simp: separate_def\<close>)

lemma db_step_separate:
  assumes "db_step lib d h h'" and "db_inv h d" and "db_inv h e" and "separate h d e"
  shows "separate h' d e"
  using assms(1)
proof cases
  case clone
  then show ?thesis
    using Clone_untouched [OF assms(2) Clone_pair assms(2)]
      Clone_untouched [OF assms(2) Clone_pair assms(3)] assms(4)
    by (auto intro: untouched_separate)
qed (use assms in \<open>auto intro: wf_intros\<close>)

text \<open>A database that is not separate keeps its invariant all the same.\<close>

lemma db_step_other_inv:
  assumes "db_step lib d h h'" and "db_inv h d" and "db_inv h e"
  shows "db_inv h' e"
proof (cases "e = d")
  case True
  with assms show ?thesis by (auto intro: db_step_inv)
next
  case False
  from assms(1) show ?thesis
  proof cases
    case clone
    then show ?thesis
      using untouched_inv [OF Clone_untouched [OF assms(2) Clone_pair assms(3)] assms(3)] by simp
  qed (use assms False in \<open>auto intro: wf_intros untouched_inv [OF _ assms(3)]\<close>)
qed

lemma db_step_other_database:
  assumes "db_step lib d h h'" and "db_inv h d" and "db_inv h e" and "e \<noteq> d"
  shows "database_at h' e = database_at h e"
  using assms(1)
proof cases
  case clone
  then show ?thesis using Clone_untouched [OF assms(2) Clone_pair assms(3)]
    by (simp add: untouched_def)
next
  case (add_validator pk wc)
  then show ?thesis using AddValidator_untouched [OF assms(3,4)] by (simp add: untouched_def)
qed (use assms(4) in \<open>auto simp: CommitBlock_def SetHighestSlot_def AddPendingDeposit_def
    RemovePendingDeposit_def Let_def\<close>)

lemma db_step_highest_mono:
  assumes "db_step lib d h h'" and "db_inv h d"
  shows "highestSlot (database_at h d) \<le> highestSlot (database_at h' d)"
  using assms(1)
proof cases
  case (add_validator pk wc)
  then show ?thesis
    by (cases "validatorPubkeyMap (database_at h d) pk")
      (simp_all add: AddValidator_new AddValidator_dup)
next
  case clone
  then show ?thesis using Clone_untouched [OF assms(2) Clone_pair assms(2)]
    by (simp add: untouched_def)
qed (auto simp: CommitBlock_def SetHighestSlot_def AddPendingDeposit_def
    RemovePendingDeposit_def Let_def)

lemma db_inv_slots: "db_inv h d \<Longrightarrow> currentSlot (database_at h d) \<le> highestSlot (database_at h d)"
  by (simp add: db_inv_def)

interpretation db_clock: slot_clock "\<lambda>h. db_inv h d" "db_step lib d" "GetCurrentSlot d" "GetHighestSlot d"
  for lib d
  by unfold_locales
    (auto simp: GetCurrentSlot_def GetHighestSlot_def
      intro: db_step_inv db_inv_slots dest: db_step_highest_mono)

section \<open>Reachable databases\<close>

inductive reachable_db :: "beacon_lib \<Rightarrow> u64 \<Rightarrow> addr \<Rightarrow> heap \<Rightarrow> bool" for lib first where
  new: "NewDatabase first h = (d, h') \<Longrightarrow> reachable_db lib first d h'"
| step: "reachable_db lib first d h \<Longrightarrow> db_step lib d h h' \<Longrightarrow> reachable_db lib first d h'"

inductive_simps db_step_simps: "db_step lib d h h'"

lemma reachable_db_inv: "reachable_db lib first d h \<Longrightarrow> db_inv h d"
  by (induction rule: reachable_db.induct) (auto intro: NewDatabase_inv db_step_inv)

section \<open>Effective balances\<close>

text \<open>
  The range in which the two thresholds of \<open>SetBalance\<close> do not wrap. \<open>SetBalance\<close> never leaves it:
  at either end the comparison that would is with the smallest or the greatest \<open>uint64\<close>.
\<close>

definition effective_ok :: "Validator \<Rightarrow> bool" where
  "effective_ok v \<longleftrightarrow> 250000000 \<le> unat (EffectiveBalance v)
     \<and> unat (EffectiveBalance v) + 1250000000 < 2 ^ 64"

lemma SetBalance_effective:
  assumes "effective_ok v"
  shows "unat (EffectiveBalance (SetBalance b v)) =
    (let e = unat (EffectiveBalance v) in
     if unat b + 250000000 < e then e - 1 else if e + 1250000000 < unat b then e + 1 else e)"
proof -
  let ?e = "EffectiveBalance v"
  have e: "250000000 \<le> unat ?e" "unat ?e + 1250000000 < 2 ^ 64"
    using assms by (simp_all add: effective_ok_def)
  have down: "b < ?e - 250000000 \<longleftrightarrow> unat b + 250000000 < unat ?e"
    using e(1) by (simp add: word_less_nat_alt threshold_down less_diff_conv)
  have up: "b > ?e + 1250000000 \<longleftrightarrow> unat ?e + 1250000000 < unat b"
    using e(2) by (simp add: word_less_nat_alt threshold_up)
  have e1: "unat (?e - 1) = unat ?e - 1" using e(1) by (subst unat_sub) (simp_all add: word_le_nat_alt)
  then have up1: "b > (?e - 1) + 1250000000 \<longleftrightarrow> unat ?e - 1 + 1250000000 < unat b"
    using e threshold_up [of "?e - 1"] by (simp add: word_less_nat_alt)
  have e2: "unat (?e + 1) = unat ?e + 1" using e(2) by (intro unat_succ_u64) simp
  show ?thesis
  proof (cases "unat b + 250000000 < unat ?e")
    case True
    then have "\<not> unat ?e - 1 + 1250000000 < unat b" by linarith
    with True show ?thesis
      unfolding EffectiveBalance_SetBalance Let_def by (simp only: down up1 e1 if_True if_False)
  next
    case False
    then show ?thesis
      unfolding EffectiveBalance_SetBalance Let_def
      by (simp only: down up if_False e2 split: if_split) simp
  qed
qed

lemma SetBalance_effective_ok: "effective_ok v \<Longrightarrow> effective_ok (SetBalance b v)"
  using SetBalance_effective [of v b] unat_u64_bound [of b]
  by (auto simp: effective_ok_def Let_def)

lemma Slash_effective_ok: "effective_ok v \<Longrightarrow> effective_ok (snd (Slash lib p v))"
proof -
  assume v: "effective_ok v"
  have "effective_ok (v\<lparr>Slashed := True\<rparr>)" using v by (simp add: effective_ok_def)
  from SetBalance_effective_ok [OF this] v show ?thesis
    by (simp add: Slash_def Let_def effective_ok_def)
qed

definition balances_ok :: "heap \<Rightarrow> addr \<Rightarrow> bool" where
  "balances_ok h d \<longleftrightarrow> (\<forall>a \<in> set (validators (database_at h d)). effective_ok (validator_at h a))"

lemma db_step_balances:
  assumes "db_step lib d h h'" and "db_inv h d" and "balances_ok h d"
  shows "balances_ok h' d"
  using assms(1)
proof cases
  case (add_validator pk wc)
  show ?thesis
  proof (cases "validatorPubkeyMap (database_at h d) pk")
    case None
    have "effective_ok (NewValidator lib pk wc i)" for i
      by (simp add: effective_ok_def StartingBalance_def)
    with assms(2,3) show ?thesis
      unfolding add_validator AddValidator_new [OF None] by (auto simp: balances_ok_def db_inv_def)
  next
    case (Some a)
    then show ?thesis using assms(3) add_validator by (simp add: AddValidator_dup)
  qed
next
  case clone
  then show ?thesis using Clone_untouched [OF assms(2) Clone_pair assms(2)] assms(3)
    by (simp add: balances_ok_def untouched_def)
next
  case (set_balance a b)
  then show ?thesis using assms(3) by (simp add: balances_ok_def SetBalance_effective_ok)
next
  case (set_status a st)
  then show ?thesis using assms(3) by (simp add: balances_ok_def SetStatus_def effective_ok_def)
next
  case (slash a pen)
  then show ?thesis using assms(3) by (simp add: balances_ok_def Slash_effective_ok)
qed (use assms(3) in \<open>auto simp: balances_ok_def CommitBlock_def SetHighestSlot_def
    AddPendingDeposit_def RemovePendingDeposit_def Let_def\<close>)

lemma reachable_db_balances: "reachable_db lib first d h \<Longrightarrow> balances_ok h d"
proof (induction rule: reachable_db.induct)
  case (new d h')
  then show ?case by (auto simp: NewDatabase_def alloc_database_def balances_ok_def)
next
  case (step d h h')
  then show ?case using db_step_balances reachable_db_inv by blast
qed

section \<open>Runs of committed blocks\<close>

text \<open>
  The block map after a run of commits on an abstract database: slot \<open>k\<close> of the run is linked
  exactly when it was validated, to the block whose index is the number of validated slots
  before it, counted from the first block.
\<close>

definition validated_before :: "nat \<Rightarrow> bool list \<Rightarrow> nat" where
  "validated_before k bs = length (filter (\<lambda>b. b) (take k bs))"

definition commit_run :: "addr \<Rightarrow> bool list \<Rightarrow> heap \<Rightarrow> heap" where
  "commit_run d bs h = fold (CommitBlock d) bs h"

lemma commit_run_snoc [simp]: "commit_run d (bs @ [b]) h = CommitBlock d b (commit_run d bs h)"
  by (simp add: commit_run_def)

lemma commit_run_Nil [simp]: "commit_run d [] h = h"
  by (simp add: commit_run_def)

lemma commit_run_inv: "db_inv h d \<Longrightarrow> db_inv (commit_run d bs h) d"
  by (induction bs rule: rev_induct) (auto intro: wf_intros)

lemma CommitBlock_fields:
  "currentSlot (database_at (CommitBlock d b h) d) = currentSlot (database_at h d) + 1"
  "nextExecutionBlockIndex (database_at (CommitBlock d b h) d) =
     nextExecutionBlockIndex (database_at h d) + (if b then 1 else 0)"
  "executionBlockMap (database_at (CommitBlock d b h) d) =
     (if b then (executionBlockMap (database_at h d))
        (currentSlot (database_at h d) \<mapsto> nextExecutionBlockIndex (database_at h d))
      else executionBlockMap (database_at h d))"
  by (simp_all add: CommitBlock_def Let_def)

lemma commit_run_slot:
  "currentSlot (database_at (commit_run d bs h) d) = currentSlot (database_at h d) + of_nat (length bs)"
  by (induction bs rule: rev_induct) (simp_all add: CommitBlock_fields)

lemma commit_run_next:
  "nextExecutionBlockIndex (database_at (commit_run d bs h) d) =
     nextExecutionBlockIndex (database_at h d) + of_nat (validated_before (length bs) bs)"
  by (induction bs rule: rev_induct) (simp_all add: CommitBlock_fields validated_before_def)

lemma validated_before_snoc:
  "k \<le> length bs \<Longrightarrow> validated_before k (bs @ [b]) = validated_before k bs"
  by (simp add: validated_before_def)

lemma slot_offset:
  assumes "n < 2 ^ 64"
  shows "x = c + of_nat n \<longleftrightarrow> unat (x - c :: u64) = n"
proof
  assume "x = c + of_nat n"
  then show "unat (x - c) = n" using unat_of_nat_u64 [OF assms] by simp
next
  assume "unat (x - c) = n"
  then show "x = c + of_nat n" by auto
qed

lemma commit_run_blocks:
  assumes "length bs \<le> 2 ^ 64"
  shows "executionBlockMap (database_at (commit_run d bs h) d) x =
    (let k = unat (x - currentSlot (database_at h d)) in
     if k < length bs \<and> bs ! k
     then Some (nextExecutionBlockIndex (database_at h d) + of_nat (validated_before k bs))
     else executionBlockMap (database_at h d) x)"
  using assms
proof (induction bs rule: rev_induct)
  case Nil
  then show ?case by simp
next
  case (snoc b bs)
  have eq: "x = currentSlot (database_at h d) + of_nat (length bs) \<longleftrightarrow>
      unat (x - currentSlot (database_at h d)) = length bs"
    using snoc.prems by (intro slot_offset) simp
  show ?case
    using snoc.IH snoc.prems eq
    by (auto simp: CommitBlock_fields commit_run_slot commit_run_next Let_def nth_append
        validated_before_snoc less_Suc_eq)
qed

end
