(* ===== verification/Beacon_Manager_Inv.thy ===== *)
theory Beacon_Manager_Inv
  imports Beacon_Manager Beacon_Database_Steps
begin

text \<open>
  The manager's invariant: the live database and every snapshot are well formed, and no two of
  the snapshots, nor a snapshot and the live database, share a cell. A client reaches the
  databases that are separate from every snapshot (the snapshots' addresses never leave the
  manager), and every call of its on one of them keeps the invariant and the snapshots' contents:
  the manager implements the interface of \<open>snapshotting\<close>.
\<close>

definition client_db :: "bstate \<Rightarrow> addr \<Rightarrow> bool" where
  \<comment> \<open>a database a client may hold a pointer to\<close>
  "client_db s d \<longleftrightarrow> db_inv (snd s) d
     \<and> (\<forall>n c. snapshots (fst s) n = Some c \<longrightarrow> separate (snd s) d c)"

definition mgr_inv :: "bstate \<Rightarrow> bool" where
  "mgr_inv s \<longleftrightarrow> client_db s (database (fst s))
     \<and> (\<forall>n c. snapshots (fst s) n = Some c \<longrightarrow> db_inv (snd s) c)
     \<and> (\<forall>n k c e. snapshots (fst s) n = Some c \<longrightarrow> snapshots (fst s) k = Some e \<longrightarrow> n \<noteq> k
          \<longrightarrow> separate (snd s) c e)"

definition mgr_view :: "bstate \<Rightarrow> adb" where
  "mgr_view s = abs_db (snd s) (database (fst s))"

definition mgr_saved :: "bstate \<Rightarrow> string \<Rightarrow> adb option" where
  "mgr_saved s n = map_option (abs_db (snd s)) (snapshots (fst s) n)"

text \<open>
  A client's step: a call on a database it can reach, making a database of its own, or handing
  one to the manager.
\<close>

inductive client_step :: "beacon_lib \<Rightarrow> bstate \<Rightarrow> bstate \<Rightarrow> bool" for lib where
  on_database: "client_db (m, h) d \<Longrightarrow> db_step lib d h h' \<Longrightarrow> client_step lib (m, h) (m, h')"
| new_database: "NewDatabase n h = (d, h') \<Longrightarrow> client_step lib (m, h) (m, h')"
| set_database: "client_db s d \<Longrightarrow> client_step lib s (SetDatabase d s)"

lemma mgr_invD:
  assumes "mgr_inv s"
  shows "client_db s (database (fst s))"
    and "snapshots (fst s) n = Some c \<Longrightarrow> db_inv (snd s) c"
    and "snapshots (fst s) n = Some c \<Longrightarrow> snapshots (fst s) k = Some e \<Longrightarrow> n \<noteq> k
           \<Longrightarrow> separate (snd s) c e"
    and "db_inv (snd s) (database (fst s))"
    and "snapshots (fst s) n = Some c \<Longrightarrow> separate (snd s) (database (fst s)) c"
  using assms unfolding mgr_inv_def client_db_def by blast+

text \<open>Steps that touch no snapshot keep what the manager has saved.\<close>

lemma saved_untouched:
  assumes "\<And>n c. snapshots m n = Some c \<Longrightarrow> untouched c h h'"
  shows "mgr_saved (m, h') = mgr_saved (m, h)"
proof
  fix n
  show "mgr_saved (m, h') n = mgr_saved (m, h) n"
    using assms [THEN untouched_abs] by (cases "snapshots m n") (auto simp: mgr_saved_def)
qed

lemma inv_untouched:
  assumes inv: "mgr_inv (m, h)"
    and snaps: "\<And>n c. snapshots m n = Some c \<Longrightarrow> untouched c h h'"
    and live: "db_inv h' (database m)"
    and sep: "\<And>n c. snapshots m n = Some c \<Longrightarrow> separate h' (database m) c"
  shows "mgr_inv (m, h')"
proof -
  note D = mgr_invD [OF inv, simplified]
  have "db_inv h' c" if "snapshots m n = Some c" for n c
    using untouched_inv [OF snaps [OF that]] D(2) [OF that] .
  moreover have "separate h' c e"
    if "snapshots m n = Some c" "snapshots m k = Some e" "n \<noteq> k" for n k c e
    using untouched_separate [OF snaps [OF that(1)] snaps [OF that(2)]] D(3) [OF that] .
  ultimately show ?thesis
    using live sep by (auto simp: mgr_inv_def client_db_def)
qed

lemma client_step_facts:
  assumes "client_step lib s t" and "mgr_inv s"
  shows "mgr_inv t \<and> mgr_saved t = mgr_saved s"
  using assms
proof (induction rule: client_step.induct)
  case (on_database m h d h')
  note D = mgr_invD [OF on_database.prems, simplified]
  from on_database.hyps(1) have d: "db_inv h d"
    and sep: "\<And>n c. snapshots m n = Some c \<Longrightarrow> separate h d c"
    by (auto simp: client_db_def)
  have snaps: "untouched c h h'" if "snapshots m n = Some c" for n c
    by (rule db_step_untouched [OF on_database.hyps(2) d D(2) [OF that] sep [OF that]])
  have live: "db_inv h' (database m)"
    by (rule db_step_other_inv [OF on_database.hyps(2) d D(4)])
  have sep': "separate h' (database m) c" if c: "snapshots m n = Some c" for n c
  proof (cases "database m = d")
    case True
    then show ?thesis
      using db_step_separate [OF on_database.hyps(2) d D(2) [OF c] sep [OF c]] by simp
  next
    case False
    then have "validators (database_at h' (database m)) = validators (database_at h (database m))"
      using db_step_other_database [OF on_database.hyps(2) d D(4)] by simp
    then show ?thesis using D(5) [OF c] snaps [OF c]
      by (simp add: separate_def untouched_def)
  qed
  show ?case
  proof
    show "mgr_inv (m, h')" using on_database.prems snaps live sep' by (rule inv_untouched)
    show "mgr_saved (m, h') = mgr_saved (m, h)" using snaps by (rule saved_untouched)
  qed
next
  case (new_database n h d h' m)
  note D = mgr_invD [OF new_database.prems, simplified]
  note un = NewDatabase_untouched [OF new_database.hyps]
  have snaps: "untouched c h h'" if "snapshots m k = Some c" for k c
    using un D(2) that by blast
  have sep: "separate h' (database m) c" if "snapshots m k = Some c" for k c
    using untouched_separate [OF un [OF D(4)] snaps [OF that] D(5) [OF that]] .
  show ?case
  proof
    show "mgr_inv (m, h')"
      using new_database.prems snaps untouched_inv [OF un [OF D(4)] D(4)] sep by (rule inv_untouched)
    show "mgr_saved (m, h') = mgr_saved (m, h)" using snaps by (rule saved_untouched)
  qed
next
  case (set_database s d)
  then show ?case
    by (auto simp: mgr_inv_def SetDatabase_def client_db_def mgr_saved_def fun_eq_iff)
qed

section \<open>Taking and reverting\<close>

lemma TakeSnapshot_facts:
  assumes inv: "mgr_inv s"
  shows "mgr_inv (TakeSnapshot n s)"
    and "mgr_view (TakeSnapshot n s) = mgr_view s"
    and "mgr_saved (TakeSnapshot n s) = (mgr_saved s)(n \<mapsto> without_deposits (mgr_view s))"
proof -
  obtain m h where s: "s = (m, h)" by (cases s)
  obtain c h' where clone: "Clone (database m) h = (c, h')" by fastforce
  have t: "TakeSnapshot n s = (m\<lparr>snapshots := (snapshots m)(n \<mapsto> c)\<rparr>, h')"
    by (simp add: TakeSnapshot_def s clone)
  note D = mgr_invD [OF inv, unfolded s, simplified]
  note un = Clone_untouched [OF D(4) clone]
  note new = Clone_inv [OF D(4) clone] Clone_separate [OF D(4) clone]
  have snaps: "untouched e h h'" if "snapshots m k = Some e" for k e
    using un D(2) that by blast
  show "mgr_view (TakeSnapshot n s) = mgr_view s"
    unfolding mgr_view_def t by (simp add: s untouched_abs [OF un [OF D(4)]])
  show "mgr_saved (TakeSnapshot n s) = (mgr_saved s)(n \<mapsto> without_deposits (mgr_view s))"
  proof
    fix k
    show "mgr_saved (TakeSnapshot n s) k = ((mgr_saved s)(n \<mapsto> without_deposits (mgr_view s))) k"
      using snaps [THEN untouched_abs] Clone_refines [OF D(4) clone]
      unfolding t by (cases "snapshots m k") (auto simp: mgr_saved_def mgr_view_def s)
  qed
  have "separate h' (database m) e" if "snapshots m k = Some e" for k e
    using untouched_separate [OF un [OF D(4)] snaps [OF that] D(5) [OF that]] .
  moreover have "separate h' e e'"
    if "snapshots m k = Some e" "snapshots m k' = Some e'" "k \<noteq> k'" for k k' e e'
    using untouched_separate [OF snaps [OF that(1)] snaps [OF that(2)] D(3) [OF that]] .
  moreover have "db_inv h' e" if "snapshots m k = Some e" for k e
    using untouched_inv [OF snaps [OF that] D(2) [OF that]] .
  moreover have "separate h' c e" "separate h' e c" if "snapshots m k = Some e" for k e
    using new(2) [OF D(2) [OF that]] by (simp_all add: separate_sym)
  moreover have "separate h' (database m) c"
    using new(2) [OF D(4)] by (simp add: separate_sym)
  ultimately show "mgr_inv (TakeSnapshot n s)"
    using new(1) untouched_inv [OF un [OF D(4)] D(4)]
    by (auto simp: mgr_inv_def client_db_def t split: if_splits)
qed

lemma RevertToSnapshot_missing:
  "snapshots (fst s) n = None \<Longrightarrow>
     RevertToSnapshot n s = (Err (Errorf ''snapshot with name [%s] does not exist'' [n]), s)"
  by (simp add: RevertToSnapshot_def)

lemma RevertToSnapshot_facts:
  assumes inv: "mgr_inv s" and c: "snapshots (fst s) n = Some c"
  shows "fst (RevertToSnapshot n s) = Ok ()"
    and "mgr_inv (snd (RevertToSnapshot n s))"
    and "mgr_view (snd (RevertToSnapshot n s)) = without_deposits (abs_db (snd s) c)"
    and "mgr_saved (snd (RevertToSnapshot n s)) = mgr_saved s"
proof -
  obtain m h where s: "s = (m, h)" by (cases s)
  with c have c: "snapshots m n = Some c" by simp
  obtain d h' where clone: "Clone c h = (d, h')" by fastforce
  have t: "RevertToSnapshot n s = (Ok (), (m\<lparr>database := d\<rparr>, h'))"
    by (simp add: RevertToSnapshot_def s clone c)
  note D = mgr_invD [OF inv, unfolded s, simplified]
  note cinv = D(2) [OF c]
  note un = Clone_untouched [OF cinv clone]
  have snaps: "untouched e h h'" if "snapshots m k = Some e" for k e
    using un D(2) that by blast
  show "fst (RevertToSnapshot n s) = Ok ()" by (simp add: t)
  show "mgr_view (snd (RevertToSnapshot n s)) = without_deposits (abs_db (snd s) c)"
    unfolding mgr_view_def t by (simp add: s Clone_refines [OF cinv clone])
  have "mgr_saved (m\<lparr>database := d\<rparr>, h') = mgr_saved (m, h')"
    by (simp add: mgr_saved_def fun_eq_iff)
  then show "mgr_saved (snd (RevertToSnapshot n s)) = mgr_saved s"
    using saved_untouched [OF snaps] unfolding t by (simp add: s)
  have "db_inv h' e" if "snapshots m k = Some e" for k e
    using untouched_inv [OF snaps [OF that] D(2) [OF that]] .
  moreover have "separate h' e e'"
    if "snapshots m k = Some e" "snapshots m k' = Some e'" "k \<noteq> k'" for k k' e e'
    using untouched_separate [OF snaps [OF that(1)] snaps [OF that(2)] D(3) [OF that]] .
  moreover have "separate h' d e" if "snapshots m k = Some e" for k e
    using Clone_separate [OF cinv clone D(2) [OF that]] .
  ultimately show "mgr_inv (snd (RevertToSnapshot n s))"
    using Clone_inv [OF cinv clone] by (auto simp: mgr_inv_def client_db_def t)
qed

definition revert_opt :: "string \<Rightarrow> bstate \<Rightarrow> bstate option" where
  "revert_opt n s = (case RevertToSnapshot n s of (Ok _, t) \<Rightarrow> Some t | _ \<Rightarrow> None)"

lemma revert_opt_Some:
  assumes "mgr_inv s"
  shows "revert_opt n s = Some t \<longleftrightarrow>
    snapshots (fst s) n \<noteq> None \<and> t = snd (RevertToSnapshot n s)"
proof (cases "snapshots (fst s) n")
  case None
  then show ?thesis by (simp add: revert_opt_def RevertToSnapshot_missing)
next
  case (Some c)
  then have "RevertToSnapshot n s = (Ok (), snd (RevertToSnapshot n s))"
    using RevertToSnapshot_facts(1) [OF assms Some] by (metis prod.collapse)
  then have "revert_opt n s = Some (snd (RevertToSnapshot n s))"
    unfolding revert_opt_def by (metis (no_types, lifting) case_prod_conv outcome.case(1))
  with Some show ?thesis by auto
qed

interpretation beacon_snapshots: snapshotting mgr_inv mgr_view mgr_saved
    "\<lambda>n s. Some (TakeSnapshot n s)" revert_opt without_deposits "client_step lib"
  for lib
proof
  fix s t :: bstate and n :: string and v :: adb
  assume inv: "mgr_inv s"
  show "Some (TakeSnapshot n s) = Some t \<Longrightarrow> mgr_inv t"
    "Some (TakeSnapshot n s) = Some t \<Longrightarrow> mgr_view t = mgr_view s"
    "Some (TakeSnapshot n s) = Some t \<Longrightarrow>
       mgr_saved t = (mgr_saved s)(n \<mapsto> without_deposits (mgr_view s))"
    using TakeSnapshot_facts [OF inv] by auto
  show "mgr_saved s n \<noteq> None \<Longrightarrow> revert_opt n s \<noteq> None"
    using revert_opt_Some [OF inv] by (auto simp: mgr_saved_def)
  show "revert_opt n s = Some t \<Longrightarrow> mgr_inv t" "revert_opt n s = Some t \<Longrightarrow> mgr_saved t = mgr_saved s"
    using RevertToSnapshot_facts [OF inv] by (auto simp: revert_opt_Some [OF inv])
  show "revert_opt n s = Some t \<Longrightarrow> mgr_saved s n = Some v \<Longrightarrow> mgr_view t = without_deposits v"
    using RevertToSnapshot_facts [OF inv] by (auto simp: revert_opt_Some [OF inv] mgr_saved_def)
  show "client_step lib s t \<Longrightarrow> mgr_inv t" "client_step lib s t \<Longrightarrow> mgr_saved t = mgr_saved s"
    using client_step_facts inv by blast+
next
  show "without_deposits (without_deposits v) = without_deposits v" for v
    by (simp add: without_deposits_def)
qed

section \<open>Reachable managers\<close>

lemma NewBeaconMockManager_inv: "mgr_inv (NewBeaconMockManager cfg h)"
proof -
  obtain d h' where new: "NewDatabase (FirstExecutionBlockIndex cfg) h = (d, h')" by fastforce
  then show ?thesis
    by (auto simp: NewBeaconMockManager_def mgr_inv_def client_db_def intro: NewDatabase_inv)
qed

inductive reachable_mgr :: "beacon_lib \<Rightarrow> Config \<Rightarrow> bstate \<Rightarrow> bool" for lib cfg where
  new: "reachable_mgr lib cfg (NewBeaconMockManager cfg h)"
| client: "reachable_mgr lib cfg s \<Longrightarrow> client_step lib s t \<Longrightarrow> reachable_mgr lib cfg t"
| take: "reachable_mgr lib cfg s \<Longrightarrow> reachable_mgr lib cfg (TakeSnapshot n s)"
| revert: "reachable_mgr lib cfg s \<Longrightarrow> reachable_mgr lib cfg (snd (RevertToSnapshot n s))"

lemma revert_inv:
  assumes "mgr_inv s"
  shows "mgr_inv (snd (RevertToSnapshot n s))"
proof (cases "snapshots (fst s) n")
  case None
  with assms show ?thesis by (simp add: RevertToSnapshot_missing)
next
  case (Some c)
  then show ?thesis by (rule RevertToSnapshot_facts(2) [OF assms])
qed

lemma reachable_mgr_inv: "reachable_mgr lib cfg s \<Longrightarrow> mgr_inv s"
  by (induction rule: reachable_mgr.induct)
    (auto intro: NewBeaconMockManager_inv TakeSnapshot_facts(1) revert_inv
      dest: client_step_facts)

text \<open>
  What may happen between a snapshot \<open>n\<close> and the revert to it: client steps, snapshots under other
  names, and reverts to any snapshot.
\<close>

inductive session_step :: "beacon_lib \<Rightarrow> string \<Rightarrow> bstate \<Rightarrow> bstate \<Rightarrow> bool" for lib n where
  client: "client_step lib s t \<Longrightarrow> session_step lib n s t"
| take: "k \<noteq> n \<Longrightarrow> session_step lib n s (TakeSnapshot k s)"
| revert: "session_step lib n s (snd (RevertToSnapshot k s))"

lemma session_step_facts:
  assumes "session_step lib n s t" and "mgr_inv s"
  shows "mgr_inv t \<and> mgr_saved t n = mgr_saved s n"
  using assms
proof (induction rule: session_step.induct)
  case (client s t)
  then show ?case using client_step_facts by simp
next
  case (take k s)
  then show ?case by (simp add: TakeSnapshot_facts)
next
  case (revert s k)
  show ?case
  proof (cases "snapshots (fst s) k")
    case None
    with revert show ?thesis by (simp add: RevertToSnapshot_missing)
  next
    case (Some c)
    with revert show ?thesis by (simp add: RevertToSnapshot_facts)
  qed
qed

lemma session_steps_in_locale:
  assumes "(session_step lib n)\<^sup>*\<^sup>* s t" and "mgr_inv s"
  shows "(beacon_snapshots.step lib n)\<^sup>*\<^sup>* s t"
  using assms
proof (induction rule: converse_rtranclp_induct)
  case base
  then show ?case by simp
next
  case (step s u)
  have "s = u \<or> beacon_snapshots.step lib n s u"
    using step.hyps(1)
  proof cases
    case (revert k)
    then show ?thesis
      by (cases "snapshots (fst s) k")
        (auto simp: RevertToSnapshot_missing beacon_snapshots.step_def revert_opt_Some [OF step.prems])
  qed (auto simp: beacon_snapshots.step_def)
  moreover have "mgr_inv u" using session_step_facts [OF step.hyps(1) step.prems] by simp
  ultimately show ?case using step.IH by (metis converse_rtranclp_into_rtranclp)
qed

lemma session_revert:
  assumes inv: "mgr_inv s" and run: "(session_step lib n)\<^sup>*\<^sup>* (TakeSnapshot n s) t"
  shows "fst (RevertToSnapshot n t) = Ok () \<and> mgr_inv (snd (RevertToSnapshot n t))
    \<and> mgr_view (snd (RevertToSnapshot n t)) = without_deposits (mgr_view s)"
proof -
  from session_steps_in_locale [OF run] TakeSnapshot_facts(1) [OF inv]
  have "(beacon_snapshots.step lib n)\<^sup>*\<^sup>* (TakeSnapshot n s) t" by blast
  from beacon_snapshots.restore [OF inv refl this] obtain u
    where "revert_opt n t = Some u" and "mgr_inv u" and "mgr_view u = without_deposits (mgr_view s)" by blast
  then show ?thesis by (auto simp: revert_opt_def split: prod.splits outcome.splits)
qed

section \<open>Between two reads\<close>

text \<open>
  What other calls may do between two reads of one request: client steps and snapshots that leave
  the live database the live one (a revert and \<open>SetDatabase\<close> replace it).
\<close>

inductive undisturbed :: "beacon_lib \<Rightarrow> bstate \<Rightarrow> bstate \<Rightarrow> bool" for lib where
  client: "client_step lib s t \<Longrightarrow> database (fst t) = database (fst s) \<Longrightarrow> undisturbed lib s t"
| take: "undisturbed lib s (TakeSnapshot n s)"

lemma client_step_highest:
  assumes "client_step lib s t" and "mgr_inv s" and "database (fst t) = database (fst s)"
  shows "mgr_GetHighestSlot s \<le> mgr_GetHighestSlot t"
  using assms
proof (induction rule: client_step.induct)
  case (on_database m h d h')
  note live = mgr_invD(4) [OF on_database.prems(1), simplified]
  from on_database.hyps(1) have d: "db_inv h d" by (simp add: client_db_def)
  show ?case
  proof (cases "database m = d")
    case True
    then show ?thesis using db_step_highest_mono [OF on_database.hyps(2) d]
      by (simp add: mgr_GetHighestSlot_def GetHighestSlot_def)
  next
    case False
    then show ?thesis using db_step_other_database [OF on_database.hyps(2) d live]
      by (simp add: mgr_GetHighestSlot_def GetHighestSlot_def)
  qed
next
  case (new_database n h d h' m)
  then show ?case using NewDatabase_untouched [OF new_database.hyps] mgr_invD(4) [OF new_database.prems(1)]
    by (simp add: untouched_def mgr_GetHighestSlot_def GetHighestSlot_def)
next
  case (set_database s d)
  then show ?case by (simp add: SetDatabase_def mgr_GetHighestSlot_def)
qed

lemma slots_of_view:
  "mgr_GetCurrentSlot s = aCurrent (mgr_view s)" "mgr_GetHighestSlot s = aHighest (mgr_view s)"
  by (simp_all add: mgr_view_def mgr_GetCurrentSlot_def mgr_GetHighestSlot_def GetCurrentSlot_def GetHighestSlot_def)

interpretation mgr_clock: slot_clock mgr_inv "undisturbed lib" mgr_GetCurrentSlot mgr_GetHighestSlot
  for lib
proof
  fix s t
  assume inv: "mgr_inv s"
  show "mgr_GetCurrentSlot s \<le> mgr_GetHighestSlot s"
    using db_inv_slots [OF mgr_invD(4) [OF inv]]
    by (simp add: mgr_GetCurrentSlot_def mgr_GetHighestSlot_def GetCurrentSlot_def GetHighestSlot_def)
  assume step: "undisturbed lib s t"
  then show "mgr_inv t"
    by cases (use inv client_step_facts TakeSnapshot_facts(1) in blast)+
  from step show "mgr_GetHighestSlot s \<le> mgr_GetHighestSlot t"
  proof cases
    case client
    then show ?thesis using inv by (intro client_step_highest)
  next
    case (take n)
    then show ?thesis by (simp add: slots_of_view TakeSnapshot_facts(2) [OF inv])
  qed
qed

end
