(* ===== verification/Beacon_Server_Facts.thy ===== *)
theory Beacon_Server_Facts
  imports Beacon_Server Beacon_Manager_Inv
begin

text \<open>
  Facts about the HTTP handlers: what each response writer call sets, which validators a lookup
  gives, that every handler is well behaved (it either answers once and leaves the state, or makes
  one call on the live database and answers, or panics before it changed or wrote anything), and the
  splitting of identifier lists.
\<close>

section \<open>Response writers\<close>

lemma writeResponse_status [simp]:
  "wStatus (writeResponse w c b) = (case wStatus w of None \<Rightarrow> Some c | Some x \<Rightarrow> Some x)"
  by (cases "wStatus w") (simp_all add: writeResponse_def WriteHeader_def Let_def)

lemma writeResponse_body [simp]: "wBody (writeResponse w c b) = wBody w @ b"
  by (simp add: writeResponse_def WriteHeader_def Let_def)

lemma handle_status [simp]:
  "wStatus w = None \<Longrightarrow> wStatus (handleInvalidMethod w) = Some StatusMethodNotAllowed"
  "wStatus w = None \<Longrightarrow> wStatus (handleInputError slib w e) = Some StatusBadRequest"
  "wStatus w = None \<Longrightarrow> wStatus (handleServerError slib w e) = Some StatusInternalServerError"
  "wStatus w = None \<Longrightarrow> wStatus (handleSuccess slib w None) = Some StatusOK"
  by (simp_all add: handleInvalidMethod_def handleInputError_def handleServerError_def handleSuccess_def)

lemma handleSuccess_status:
  "wStatus w = None \<Longrightarrow> wStatus (handleSuccess slib w (Some m)) =
     Some (case json_Marshal slib m of Inl _ \<Rightarrow> StatusInternalServerError | Inr _ \<Rightarrow> StatusOK)"
  by (simp add: handleSuccess_def split: sum.splits)

lemma handleSuccess_body:
  "json_Marshal slib m = Inr bytes \<Longrightarrow> wBody (handleSuccess slib w (Some m)) = wBody w @ bytes"
  by (simp add: handleSuccess_def)

lemma processApiRequest_no_body [simp]: "processApiRequest slib w r False = (Some (Query r), w)"
  by (simp add: processApiRequest_def)

lemma arg_Some [simp]: "arg (Some m) k = m k"
  by (simp add: arg_def)

lemma with_head_simps [simp]:
  "with_head [] w s k = (Panic IndexOutOfRange, w, s)"
  "with_head (x # xs) w s k = k x"
  by (simp_all add: with_head_def)

section \<open>Lookups\<close>

lemma GetValidatorByIndex_nth:
  "GetValidatorByIndex d i h = Some a \<Longrightarrow>
     unat i < length (validators (database_at h d)) \<and> a = validators (database_at h d) ! unat i"
proof -
  assume a: "GetValidatorByIndex d i h = Some a"
  let ?n = "length (validators (database_at h d))"
  from a have "i < of_nat ?n" and eq: "a = validators (database_at h d) ! unat i"
    by (auto simp: GetValidatorByIndex_def Let_def not_le split: if_splits)
  then have "unat i < unat (of_nat ?n :: u64)" by (simp add: word_less_nat_alt)
  also have "\<dots> \<le> ?n" by (simp add: unat_of_nat take_bit_nat_eq_self_iff take_bit_eq_mod)
  finally show ?thesis using eq by simp
qed

lemma GetValidatorByIndex_of_nat:
  assumes "length (validators (database_at h d)) < 2 ^ 64" and "i < 2 ^ 64"
  shows "GetValidatorByIndex d (of_nat i) h =
    (if i < length (validators (database_at h d)) then Some (validators (database_at h d) ! i) else None)"
  using assms by (auto simp: GetValidatorByIndex_def Let_def word_le_nat_alt unat_of_nat_u64)

lemma GetValidator_member:
  assumes inv: "db_inv (snd s) (database (fst s))" and found: "GetValidator lib vid s = Ok (Some a)"
  shows "a \<in> set (validators (database_at (snd s) (database (fst s))))"
proof -
  from inv have look: "lookup_inv (snd s) (database (fst s))" by (simp add: db_inv_def)
  from found consider
      pk where "GetValidatorByPubkey (database (fst s)) pk (snd s) = Some a"
    | i where "GetValidatorByIndex (database (fst s)) i (snd s) = Some a"
    by (auto simp: GetValidator_def split: if_splits sum.splits)
  then show ?thesis
  proof cases
    case 1
    then show ?thesis using lookup_invD [OF look] by (simp add: GetValidatorByPubkey_def)
  next
    case 2
    then show ?thesis using GetValidatorByIndex_nth by fastforce
  qed
qed

lemma GetValidator_no_panic: "GetValidator lib vid s \<noteq> Panic p"
  by (simp add: GetValidator_def split: sum.splits)

lemma GetValidators_loop_no_panic: "GetValidators_loop lib s ids vs \<noteq> Panic p"
proof (induction ids arbitrary: vs)
  case Nil
  then show ?case by simp
next
  case (Cons x ids)
  then show ?case using GetValidator_no_panic [of lib x s]
    by (auto split: outcome.splits option.splits)
qed

lemma Beacon_Validators_no_panic: "Beacon_Validators lib st ids s \<noteq> Panic p"
  using GetValidators_loop_no_panic [of lib s ids "[]"]
  by (auto simp: Beacon_Validators_def GetValidators_def split: outcome.splits)

section \<open>Well-behaved handlers\<close>

text \<open>
  The writer after one answer with a status and a body: one \<open>writeResponse\<close>, or, when the message
  of a success cannot be encoded, the two that \<open>handleSuccess\<close> makes of it.
\<close>

definition answered :: "server_lib \<Rightarrow> ResponseWriter \<Rightarrow> nat \<Rightarrow> ResponseWriter \<Rightarrow> bool" where
  "answered slib w c w' \<longleftrightarrow>
     c \<in> {StatusOK, StatusBadRequest, StatusMethodNotAllowed, StatusInternalServerError} \<and> (\<exists>b. w' = writeResponse w c b)
   \<or> c = StatusInternalServerError \<and> (\<exists>m e. json_Marshal slib m = Inl e
        \<and> w' = writeResponse (handleServerError slib w (Wrapf ''error serializing response: %w'' [] e)) StatusOK [])"

text \<open>One call on the live database.\<close>

definition live_call :: "beacon_lib \<Rightarrow> bstate \<Rightarrow> bstate \<Rightarrow> bool" where
  "live_call lib s s' \<longleftrightarrow> (\<exists>h. db_step lib (database (fst s)) (snd s) h \<and> s' = (fst s, h))"

text \<open>How a handler may end.\<close>

definition handled_well :: "beacon_lib \<Rightarrow> server_lib \<Rightarrow> ResponseWriter \<Rightarrow> bstate \<Rightarrow> handled \<Rightarrow> bool" where
  "handled_well lib slib w s res \<longleftrightarrow>
     (case res of
        (Ok _, w', s') \<Rightarrow> \<exists>c. answered slib w c w' \<and> (s' = s \<or> c \<notin> {StatusBadRequest, StatusMethodNotAllowed} \<and> live_call lib s s')
      | (Panic p, w', s') \<Rightarrow> w' = w \<and> s' = s
      | (Err e, w', s') \<Rightarrow> False)"

definition well_behaved :: "beacon_lib \<Rightarrow> server_lib \<Rightarrow> handler \<Rightarrow> bool" where
  "well_behaved lib slib h \<longleftrightarrow> (\<forall>w r s. mgr_inv s \<longrightarrow> handled_well lib slib w s (h w r s))"

lemma well_behavedI:
  "(\<And>w r s. mgr_inv s \<Longrightarrow> handled_well lib slib w s (h w r s)) \<Longrightarrow> well_behaved lib slib h"
  by (simp add: well_behaved_def)

lemma well_behavedD:
  "well_behaved lib slib h \<Longrightarrow> mgr_inv s \<Longrightarrow> handled_well lib slib w s (h w r s)"
  unfolding well_behaved_def by blast

lemma answered_simps [simp]:
  "answered slib w StatusMethodNotAllowed (handleInvalidMethod w)"
  "answered slib w StatusBadRequest (handleInputError slib w e)"
  "answered slib w StatusInternalServerError (handleServerError slib w e)"
  unfolding answered_def handleInvalidMethod_def handleInputError_def handleServerError_def by blast+

lemma answered_success:
  "\<exists>c. answered slib w c (handleSuccess slib w m) \<and> c \<notin> {StatusBadRequest, StatusMethodNotAllowed}"
proof (cases "\<exists>x e. m = Some x \<and> json_Marshal slib x = Inl e")
  case True
  then obtain y e where "m = Some y" "json_Marshal slib y = Inl e" by blast
  then have "answered slib w StatusInternalServerError (handleSuccess slib w m)"
    unfolding answered_def handleSuccess_def by simp blast
  then show ?thesis
    by (auto simp: StatusInternalServerError_def StatusBadRequest_def StatusMethodNotAllowed_def)
next
  case False
  then have "\<exists>b. handleSuccess slib w m = writeResponse w StatusOK b"
    by (auto simp: handleSuccess_def split: option.split sum.split)
  then have "answered slib w StatusOK (handleSuccess slib w m)" by (auto simp: answered_def)
  then show ?thesis by (auto simp: StatusOK_def StatusBadRequest_def StatusMethodNotAllowed_def)
qed

lemma handled_answered:
  "answered slib w c w' \<Longrightarrow> handled_well lib slib w s (Ok (), w', s)"
  by (auto simp: handled_well_def)

lemma handled_bad_request [simp]: "handled_well lib slib w s (bad_request slib w e s)"
  unfolding bad_request_def by (rule handled_answered [OF answered_simps(2)])

lemma handled_invalid_method [simp]: "handled_well lib slib w s (Ok (), handleInvalidMethod w, s)"
  by (rule handled_answered [OF answered_simps(1)])

lemma handled_errors [simp]:
  "handled_well lib slib w s (Ok (), handleInputError slib w e, s)"
  "handled_well lib slib w s (Ok (), handleServerError slib w e, s)"
  by (rule handled_answered [OF answered_simps(2)]) (rule handled_answered [OF answered_simps(3)])

lemma handled_panic [simp]: "handled_well lib slib w s (Panic p, w, s)"
  by (simp add: handled_well_def)

lemma handled_success [simp]:
  "s' = s \<or> live_call lib s s' \<Longrightarrow> handled_well lib slib w s (success slib w m s')"
  using answered_success [of slib w m] by (auto simp: success_def handled_well_def)

lemma handled_with_head [simp]:
  "(\<And>x. handled_well lib slib w s (k x)) \<Longrightarrow> handled_well lib slib w s (with_head xs w s k)"
  by (cases xs) simp_all

text \<open>The changes the handlers make are calls on the live database.\<close>

lemma live_callI: "db_step lib (database (fst s)) (snd s) h \<Longrightarrow> live_call lib s (fst s, h)"
  by (auto simp: live_call_def)

lemma live_step:
  "mgr_inv s \<Longrightarrow> db_step lib (database (fst s)) (snd s) h' \<Longrightarrow> client_step lib s (fst s, h')"
  using client_step.on_database [of "fst s" "snd s" "database (fst s)" lib h'] mgr_invD(1)
  by simp

lemma live_call_client: "mgr_inv s \<Longrightarrow> live_call lib s t \<Longrightarrow> client_step lib s t"
  by (auto simp: live_call_def intro: live_step)

lemma put_found:
  assumes "mgr_inv s" and "GetValidator lib vid s = Ok (Some a)"
  shows "live_call lib s (fst s, put_validator a (SetBalance b (validator_at (snd s) a)) (snd s))"
    and "live_call lib s (fst s, put_validator a (SetStatus st (validator_at (snd s) a)) (snd s))"
    and "live_call lib s (fst s, put_validator a (snd (Slash lib pen (validator_at (snd s) a))) (snd s))"
  using GetValidator_member [OF mgr_invD(4) [OF assms(1)] assms(2)]
  by (auto intro!: live_callI db_step.intros)

lemma put_validator_same [simp]: "put_validator a (validator_at h a) h = h"
  by (simp add: put_validator_def)

lemma Slash_Err: "Slash lib p v = (Err e, v1) \<Longrightarrow> v1 = v"
  by (auto simp: Slash_def Let_def split: if_splits)

lemma Slash_no_panic: "fst (Slash lib p v) \<noteq> Panic q"
  by (simp add: Slash_def Let_def)

lemma AddValidator_Err: "fst (AddValidator lib d pk wc h) = Err e \<Longrightarrow> snd (AddValidator lib d pk wc h) = h"
  by (cases "validatorPubkeyMap (database_at h d) pk") (simp_all add: AddValidator_new AddValidator_dup)

lemma AddValidator_no_panic: "fst (AddValidator lib d pk wc h) \<noteq> Panic p"
  by (cases "validatorPubkeyMap (database_at h d) pk") (simp_all add: AddValidator_new AddValidator_dup)

lemma mgr_AddValidator_cases:
  assumes "mgr_inv s"
  shows "(\<exists>e. mgr_AddValidator lib pk wc s = (Err e, s))
       \<or> (\<exists>a s'. mgr_AddValidator lib pk wc s = (Ok a, s') \<and> live_call lib s s')"
proof -
  let ?r = "AddValidator lib (database (fst s)) pk wc (snd s)"
  have r: "mgr_AddValidator lib pk wc s = (fst ?r, (fst s, snd ?r))"
    by (simp add: mgr_AddValidator_def split: prod.splits)
  have "live_call lib s (fst s, snd ?r)" by (intro live_callI db_step.add_validator)
  then show ?thesis
    using AddValidator_Err [of lib "database (fst s)" pk wc "snd s"]
      AddValidator_no_panic [of lib "database (fst s)" pk wc "snd s"]
    by (cases "fst ?r") (auto simp: r)
qed

lemma mgr_AddValidator_dest:
  assumes "mgr_inv s"
  shows "mgr_AddValidator lib pk wc s = (Err e, s1) \<Longrightarrow> s1 = s"
    and "mgr_AddValidator lib pk wc s = (Ok a, s1) \<Longrightarrow> live_call lib s s1"
    and "mgr_AddValidator lib pk wc s \<noteq> (Panic p, s1)"
  using mgr_AddValidator_cases [OF assms, of lib pk wc] by auto

lemma addValidator_well: "well_behaved lib slib (addValidator lib slib)"
proof (rule well_behavedI)
  fix w :: ResponseWriter and r s
  assume "mgr_inv s"
  note dest = mgr_AddValidator_dest [OF this(1), of lib]
  show "handled_well lib slib w s (addValidator lib slib w r s)"
    unfolding addValidator_def using dest(2,3)
    by (auto simp: Let_def split: option.split sum.split prod.split outcome.split
        intro!: handled_with_head dest!: dest(1))
qed

lemma commitBlock_well: "well_behaved lib slib (commitBlock slib)"
proof (rule well_behavedI)
  fix w :: ResponseWriter and r s
  assume inv: "mgr_inv s"
  have "live_call lib s (mgr_CommitBlock b s)" for b
    unfolding mgr_CommitBlock_def by (intro live_callI db_step.commit_block)
  then show "handled_well lib slib w s (commitBlock slib w r s)"
    unfolding commitBlock_def
    by (auto simp: Let_def split: option.split sum.split intro!: handled_with_head)
qed

lemma setHighestSlot_well: "well_behaved lib slib (setHighestSlot slib)"
proof (rule well_behavedI)
  fix w :: ResponseWriter and r s
  assume inv: "mgr_inv s"
  have "live_call lib s (mgr_SetHighestSlot b s)" for b
    unfolding mgr_SetHighestSlot_def by (intro live_callI db_step.set_highest_slot)
  then show "handled_well lib slib w s (setHighestSlot slib w r s)"
    unfolding setHighestSlot_def
    by (auto simp: Let_def split: option.split sum.split intro!: handled_with_head)
qed

lemma setBalance_well: "well_behaved lib slib (setBalance lib slib)"
proof (rule well_behavedI)
  fix w :: ResponseWriter and r s
  assume inv: "mgr_inv s"
  show "handled_well lib slib w s (setBalance lib slib w r s)"
    unfolding setBalance_def using put_found(1) [OF inv]
    by (auto simp: Let_def split: option.split sum.split outcome.split intro!: handled_with_head)
qed

lemma setStatus_well: "well_behaved lib slib (setStatus lib slib)"
proof (rule well_behavedI)
  fix w :: ResponseWriter and r s
  assume inv: "mgr_inv s"
  show "handled_well lib slib w s (setStatus lib slib w r s)"
    unfolding setStatus_def using put_found(2) [OF inv]
    by (auto simp: Let_def split: option.split sum.split outcome.split intro!: handled_with_head)
qed

lemma slash_well: "well_behaved lib slib (slash_handler lib slib)"
proof (rule well_behavedI)
  fix w :: ResponseWriter and r s
  assume inv: "mgr_inv s"
  have step: "live_call lib s (fst s, put_validator a v1 (snd s))"
    if "GetValidator lib i s = Ok (Some a)" "Slash lib p (validator_at (snd s) a) = (o1, v1)"
    for i a p o1 v1
    using put_found(3) [OF inv that(1), of p] that(2) by simp
  have no_panic: "Slash lib p v \<noteq> (Panic q, v1)" for p v q v1
    using Slash_no_panic [of lib p v q] by auto
  show "handled_well lib slib w s (slash_handler lib slib w r s)"
    unfolding slash_handler_def using step no_panic
    by (auto simp: Let_def dest!: Slash_Err split: option.split sum.split outcome.split prod.split
        intro!: handled_with_head)
qed

lemma getValidator_well: "well_behaved lib slib (getValidator lib slib)"
  unfolding getValidator_def
  by (rule well_behavedI) (auto simp: Let_def split: option.split outcome.split)

lemma respond_or_well [simp]:
  "handled_well lib slib w s (respond_or (handleInputError slib) slib w resp s)"
  "handled_well lib slib w s (respond_or (handleServerError slib) slib w resp s)"
  by (auto simp: respond_or_def split: outcome.split)

lemma getValidators_well: "well_behaved lib slib (getValidators lib slib)"
proof (rule well_behavedI)
  fix w :: ResponseWriter and r s
  have error: "handled_well lib slib w s (Ok (), w1, s)"
    if "getValidatorIDsFromRequestBody slib w r = (None, w1)" for w1
    using that by (auto simp: getValidatorIDsFromRequestBody_def split: sum.splits)
  have same: "w1 = w" if "getValidatorIDsFromRequestBody slib w r = (Some ids, w1)" for ids w1
    using that by (auto simp: getValidatorIDsFromRequestBody_def split: sum.splits)
  show "handled_well lib slib w s (getValidators lib slib w r s)"
    unfolding getValidators_def using error same
    by (auto simp: Let_def split: option.split outcome.split prod.split)
qed

lemma api_responses_well:
  "well_behaved lib slib (getBeaconGenesis slib)" "well_behaved lib slib (getConfigSpec slib)"
  "well_behaved lib slib (getDepositContract slib)" "well_behaved lib slib (getSyncStatus slib)"
  "well_behaved lib slib (getFinalityCheckpoints slib)" "well_behaved lib slib (getPendingDeposits slib)"
  unfolding getBeaconGenesis_def getConfigSpec_def getDepositContract_def getSyncStatus_def
    getFinalityCheckpoints_def getPendingDeposits_def
  by (auto intro!: well_behavedI simp: Let_def split: option.split)

lemma get_only_well: "well_behaved lib slib h \<Longrightarrow> well_behaved lib slib (get_only h)"
  by (simp add: well_behaved_def get_only_def)

lemma routes_well: "(t, h) \<in> set (server_routes lib slib) \<Longrightarrow> well_behaved lib slib h"
  by (auto simp: server_routes_def registerApiRoutes_def registerAdminRoutes_def
      intro: get_only_well getValidators_well getValidator_well api_responses_well addValidator_well
        commitBlock_well setBalance_well setStatus_well slash_well setHighestSlot_well)

lemma dispatch_well:
  assumes "\<And>t h. (t, h) \<in> set routes \<Longrightarrow> well_behaved lib slib h" and "mgr_inv s"
  shows "dispatch slib routes w r s = (Ok (), mux_NotFound slib w, s)
       \<or> handled_well lib slib w s (dispatch slib routes w r s)"
  using assms
proof (induction routes)
  case Nil
  then show ?case by simp
next
  case (Cons x routes)
  obtain t h where x: "x = (t, h)" by (cases x)
  with Cons.prems(1) [of t h] have "well_behaved lib slib h" by simp
  with x Cons show ?case
    by (auto intro: well_behavedD split: option.split)
qed

section \<open>Identifier lists\<close>

lemma split_ids_eq: "split_ids es full = full @ filter (\<lambda>x. x \<noteq> []) (map TrimSpace es)"
  by (induction es full rule: split_ids.induct) (simp_all add: Let_def)

lemma getValidatorIDs_loop_eq: "getValidatorIDs_loop vals full =
    full @ concat (map (\<lambda>v. filter (\<lambda>x. x \<noteq> []) (map TrimSpace (Split v CHR '',''))) vals)"
  by (induction vals full rule: getValidatorIDs_loop.induct) (simp_all add: split_ids_eq)

lemma getValidatorIDs_eq: "getValidatorIDs vals =
    concat (map (\<lambda>v. filter (\<lambda>x. x \<noteq> []) (map TrimSpace (Split v CHR '',''))) vals)"
  by (simp add: getValidatorIDs_def getValidatorIDs_loop_eq)

lemma plain_ids_kept:
  assumes "\<forall>i \<in> set ids. i \<noteq> [] \<and> list_all plain_char i"
  shows "filter (\<lambda>x. x \<noteq> []) (map TrimSpace ids) = ids"
proof -
  have "map TrimSpace ids = ids" using assms by (intro map_idI) (simp add: TrimSpace_plain)
  with assms show ?thesis by (auto intro: filter_True)
qed

end
