(* ===== verification/Beacon_Samples.thy ===== *)
theory Beacon_Samples
  imports Beacon_Server_Facts Go_Hex
begin

text \<open>
  Concrete instances of the library parameters, for the witnesses: public keys as \<open>0x\<close>-prefixed
  hex strings of 48 bytes, the state names of the Beacon API, a trivial JSON encoder, and routes
  matched by equality. None of the properties is about these instances.
\<close>

definition sample_lib :: beacon_lib where
  "sample_lib =
     \<lparr> ValidatorPubkeyLength = 48,
       HexToValidatorPubkey = (\<lambda>s. case DecodeString (TrimPrefix s ''0x'') of
           Some bs \<Rightarrow> if length bs = 48 then Inr bs else Inl (External ''invalid pubkey length'')
         | None \<Rightarrow> Inl (External ''invalid hex'')),
       HexWithPrefix = (\<lambda>pk. ''0x'' @ EncodeToString pk),
       HexToHash = (\<lambda>s. case DecodeString (TrimPrefix s ''0x'') of Some bs \<Rightarrow> bs | None \<Rightarrow> []),
       PendingInitialized = ''pending_initialized'',
       ActiveOngoing = ''active_ongoing'',
       ActiveExiting = ''active_exiting'',
       ActiveSlashed = ''active_slashed'' \<rparr>"

definition sample_pubkey :: "u8 \<Rightarrow> ValidatorPubkey" where
  "sample_pubkey b = replicate 48 b"

definition sample_heap :: heap where
  "sample_heap =
     \<lparr> validator_at = (\<lambda>_. NewValidator sample_lib [] [] 0),
       deposit_at = (\<lambda>_. \<lparr> dPubkey = [], dWithdrawalCredentials = [], dAmount = 0,
                           dSignature = [], dSlot = 0 \<rparr>),
       database_at = (\<lambda>_. \<lparr> validators = [], pendingDeposits = [], validatorPubkeyMap = Map.empty,
                            executionBlockMap = Map.empty, currentSlot = 0, highestSlot = 0,
                            nextExecutionBlockIndex = 0 \<rparr>),
       next_addr = 0 \<rparr>"

definition sample_slib :: server_lib where
  "sample_slib =
     \<lparr> json_Marshal = (\<lambda>m. Inr [123, 125]),
       json_Unmarshal_ids = (\<lambda>_. Inr \<lparr>IDs = []\<rparr>),
       json_Unmarshal_any = (\<lambda>_. None),
       mux_match = (\<lambda>t p. if t = p then Some Map.empty else None),
       mux_NotFound = WriteHeader 404 \<rparr>"

text \<open>A new manager, and one whose live database has a validator.\<close>

definition sample_mgr :: bstate where
  "sample_mgr = NewBeaconMockManager zero_config sample_heap"

definition sample_mgr1 :: bstate where
  "sample_mgr1 = snd (mgr_AddValidator sample_lib (sample_pubkey 7) [1] sample_mgr)"

lemma sample_lib_hex:
  "length pk = 48 \<Longrightarrow> HexToValidatorPubkey sample_lib (HexWithPrefix sample_lib pk) = Inr pk"
  "HasPrefix (HexWithPrefix sample_lib pk) ''0x''"
  by (simp_all add: sample_lib_def HasPrefix_def TrimPrefix_def)

lemma sample_lib_sel [simp]:
  "ValidatorPubkeyLength sample_lib = 48"
  "PendingInitialized sample_lib = ''pending_initialized''"
  "ActiveOngoing sample_lib = ''active_ongoing''" "ActiveExiting sample_lib = ''active_exiting''"
  "ActiveSlashed sample_lib = ''active_slashed''"
  by (simp_all add: sample_lib_def)

lemma sample_mgr_reachable: "reachable_mgr sample_lib zero_config sample_mgr"
  unfolding sample_mgr_def by (rule reachable_mgr.new)

lemma sample_mgr1_reachable: "reachable_mgr sample_lib zero_config sample_mgr1"
proof -
  have inv: "mgr_inv sample_mgr" using sample_mgr_reachable by (rule reachable_mgr_inv)
  have "client_step sample_lib sample_mgr sample_mgr1"
    unfolding sample_mgr1_def mgr_AddValidator_def
    using live_step [OF inv db_step.add_validator] by (simp add: split_beta)
  with sample_mgr_reachable show ?thesis by (rule reachable_mgr.client)
qed

lemma sample_mgr_eq: "sample_mgr =
  (\<lparr>database = 0, config = zero_config, snapshots = Map.empty\<rparr>,
   sample_heap\<lparr>database_at := (database_at sample_heap)(0 :=
      \<lparr> validators = [], pendingDeposits = [], validatorPubkeyMap = Map.empty,
        executionBlockMap = Map.empty, currentSlot = 0, highestSlot = 0,
        nextExecutionBlockIndex = 0 \<rparr>), next_addr := 1\<rparr>)"
  by (simp add: sample_mgr_def NewBeaconMockManager_def NewDatabase_def alloc_database_def
      sample_heap_def zero_config_def)

lemma sample_mgr1_eq:
  "database (fst sample_mgr1) = 0" "snapshots (fst sample_mgr1) = Map.empty"
  "validators (database_at (snd sample_mgr1) 0) = [1]"
  "validatorPubkeyMap (database_at (snd sample_mgr1) 0) = [sample_pubkey 7 \<mapsto> 1]"
  "validator_at (snd sample_mgr1) 1 = NewValidator sample_lib (sample_pubkey 7) [1] 0"
  "pendingDeposits (database_at (snd sample_mgr1) 0) = []"
  "currentSlot (database_at (snd sample_mgr1) 0) = 0"
  "highestSlot (database_at (snd sample_mgr1) 0) = 0"
  by (simp_all add: sample_mgr1_def mgr_AddValidator_def sample_mgr_eq AddValidator_def
      alloc_validator_def put_database_def)

text \<open>A new database on its own, at address 0.\<close>

definition sample_db :: heap where
  "sample_db = snd (NewDatabase 5 sample_heap)"

lemma sample_db_reachable: "reachable_db sample_lib 5 0 sample_db"
proof (rule reachable_db.new)
  show "NewDatabase 5 sample_heap = (0, sample_db)"
    unfolding sample_db_def by (simp add: NewDatabase_def alloc_database_def) (simp add: sample_heap_def)
qed

lemma sample_db_eq [simp]:
  "database_at sample_db 0 =
     \<lparr> validators = [], pendingDeposits = [], validatorPubkeyMap = Map.empty,
       executionBlockMap = Map.empty, currentSlot = 0, highestSlot = 0,
       nextExecutionBlockIndex = 5 \<rparr>"
  "next_addr sample_db = 1"
  by (simp_all add: sample_db_def NewDatabase_def alloc_database_def sample_heap_def)

definition new_writer :: ResponseWriter where
  "new_writer = \<lparr>wHeader = [], wStatus = None, wBody = []\<rparr>"

definition sample_config_lib :: config_lib where
  "sample_config_lib =
     \<lparr> HexToAddress = (\<lambda>s. replicate 20 0),
       FromHex = (\<lambda>s. case DecodeString (TrimPrefix s ''0x'') of Some bs \<Rightarrow> bs | None \<Rightarrow> []),
       json_Unmarshal_config = (\<lambda>bs. Inl (External ''unexpected end of JSON input'')),
       yaml_Unmarshal_config = (\<lambda>bs. Inr zero_config) \<rparr>"

text \<open>The client's run of the witnesses: after the snapshot, a block is committed.\<close>

lemma sample_session:
  "(session_step sample_lib n)\<^sup>*\<^sup>* (TakeSnapshot n sample_mgr1)
     (mgr_CommitBlock True (TakeSnapshot n sample_mgr1))"
proof -
  have "mgr_inv (TakeSnapshot n sample_mgr1)"
    by (rule TakeSnapshot_facts(1) [OF reachable_mgr_inv [OF sample_mgr1_reachable]])
  from live_step [OF this db_step.commit_block]
  show ?thesis unfolding mgr_CommitBlock_def
    by (intro r_into_rtranclp session_step.client)
qed

end
