(* ===== verification/Beacon_Props.thy ===== *)
theory Beacon_Props
  imports Beacon_Samples
begin

text \<open>
  The properties of the Beacon mock below its HTTP server: the manager's snapshots, the
  database's operations against their abstract specification, the lookups, the slots and the
  validators' balances. Each property is followed by the theorem that applies it to a concrete
  input.
\<close>

section \<open>Snapshots\<close>

text \<open>C2: whatever calls clients make after a snapshot is taken (other snapshots and reverts to
  any snapshot included), reverting to it succeeds and brings back the validators, the block map
  and the slots of the moment it was taken; only the pending deposits are gone.\<close>

theorem beacon_snapshot_restores:
  assumes "reachable_mgr lib cfg s" and "(session_step lib n)\<^sup>*\<^sup>* (TakeSnapshot n s) t"
  shows "fst (RevertToSnapshot n t) = Ok ()
       \<and> mgr_view (snd (RevertToSnapshot n t)) = without_deposits (mgr_view s)"
  using session_revert [OF reachable_mgr_inv [OF assms(1)] assms(2)] by blast

theorem beacon_snapshot_restores_witness:
  "let t = mgr_CommitBlock True (TakeSnapshot ''a'' sample_mgr1)
   in mgr_GetCurrentSlot t = 1
      \<and> aCurrent (mgr_view (snd (RevertToSnapshot ''a'' t))) = 0
      \<and> length (aValidators (mgr_view (snd (RevertToSnapshot ''a'' t)))) = 1"
proof -
  have inv: "mgr_inv sample_mgr1" by (rule reachable_mgr_inv [OF sample_mgr1_reachable])
  let ?t = "mgr_CommitBlock True (TakeSnapshot ''a'' sample_mgr1)"
  have "aCurrent (mgr_view (TakeSnapshot ''a'' sample_mgr1)) = 0"
    unfolding TakeSnapshot_facts(2) [OF inv] by (simp add: mgr_view_def sample_mgr1_eq)
  then have "mgr_GetCurrentSlot ?t = 1"
    by (simp add: mgr_view_def mgr_CommitBlock_def mgr_GetCurrentSlot_def GetCurrentSlot_def
        CommitBlock_def Let_def)
  moreover have "mgr_view (snd (RevertToSnapshot ''a'' ?t)) = without_deposits (mgr_view sample_mgr1)"
    using beacon_snapshot_restores [OF sample_mgr1_reachable sample_session] by blast
  moreover have "aCurrent (mgr_view sample_mgr1) = 0" "length (aValidators (mgr_view sample_mgr1)) = 1"
    by (simp_all add: mgr_view_def sample_mgr1_eq)
  ultimately show ?thesis by (simp add: Let_def without_deposits_def)
qed

text \<open>A revert always leaves the live database without pending deposits, whatever the
  database had when the snapshot was taken.\<close>

theorem revert_clears_deposits:
  assumes "reachable_mgr lib cfg s" and "snapshots (fst s) n \<noteq> None"
  shows "mgr_GetPendingDeposits (snd (RevertToSnapshot n s)) = []"
proof -
  from assms(2) obtain c where c: "snapshots (fst s) n = Some c" by blast
  have "aPending (mgr_view (snd (RevertToSnapshot n s))) = []"
    by (simp add: RevertToSnapshot_facts(3) [OF reachable_mgr_inv [OF assms(1)] c]
        without_deposits_def)
  then show ?thesis by (simp add: mgr_GetPendingDeposits_def GetPendingDeposits_def mgr_view_def)
qed

theorem revert_clears_deposits_witness:
  "let s = TakeSnapshot ''a'' (mgr_AddPendingDeposit (Some 9) sample_mgr)
   in mgr_GetPendingDeposits s = [Some 9]
      \<and> mgr_GetPendingDeposits (snd (RevertToSnapshot ''a'' s)) = []"
proof -
  let ?s0 = "mgr_AddPendingDeposit (Some 9) sample_mgr"
  have "client_step sample_lib sample_mgr ?s0"
    using live_step [OF reachable_mgr_inv [OF sample_mgr_reachable] db_step.add_pending_deposit]
    by (simp add: mgr_AddPendingDeposit_def)
  then have r: "reachable_mgr sample_lib zero_config (TakeSnapshot ''a'' ?s0)"
    by (intro reachable_mgr.take reachable_mgr.client [OF sample_mgr_reachable])
  have "snapshots (fst (TakeSnapshot ''a'' ?s0)) ''a'' \<noteq> None"
    by (simp add: TakeSnapshot_def split: prod.splits)
  from revert_clears_deposits [OF r this]
  have after: "mgr_GetPendingDeposits (snd (RevertToSnapshot ''a'' (TakeSnapshot ''a'' ?s0))) = []" .
  have "mgr_inv ?s0" using reachable_mgr.client [OF sample_mgr_reachable \<open>client_step _ _ _\<close>]
    by (rule reachable_mgr_inv)
  from TakeSnapshot_facts(2) [OF this, of "''a''"]
  have "aPending (mgr_view (TakeSnapshot ''a'' ?s0)) = aPending (mgr_view ?s0)" by simp
  also have "\<dots> = [Some 9]"
    by (simp add: mgr_view_def mgr_AddPendingDeposit_def AddPendingDeposit_def sample_mgr_eq)
  finally show ?thesis
    using after by (simp add: Let_def mgr_GetPendingDeposits_def GetPendingDeposits_def mgr_view_def)
qed

section \<open>The database\<close>

text \<open>C16: adding a validator to a reachable database: a public key the database has is refused
  and nothing changes; any other becomes the last validator, with the next index and the starting
  balance, found by its key, and the rest of the database is as before.\<close>

theorem add_validator_outcome:
  assumes "reachable_db lib first d h" and "AddValidator lib d pk wc h = (r, h')"
  shows "(case spec_lookup pk (abs_db h d) of
            Some v \<Rightarrow> r = Err (Errorf ''validator with pubkey %s already exists'' [HexWithPrefix lib pk])
                        \<and> h' = h
          | None \<Rightarrow> (\<exists>a. r = Ok a \<and> GetValidatorByPubkey d pk h' = Some a
                \<and> abs_db h' d = (abs_db h d)\<lparr>aValidators := aValidators (abs_db h d)
                      @ [NewValidator lib pk wc (of_nat (length (aValidators (abs_db h d))))]\<rparr>))"
proof -
  have inv: "db_inv h d" using assms(1) by (rule reachable_db_inv)
  note look = spec_lookup_refines [OF inv, of pk]
  show ?thesis
  proof (cases "validatorPubkeyMap (database_at h d) pk")
    case None
    note new = trans [OF assms(2) [symmetric] AddValidator_new [OF None]]
    have "spec_add lib pk wc (abs_db h d) = Some (abs_db h' d)"
      using AddValidator_refines [OF inv, of lib pk wc] new by (simp add: assms(2))
    then have "abs_db h' d = (abs_db h d)\<lparr>aValidators := aValidators (abs_db h d)
        @ [NewValidator lib pk wc (of_nat (length (aValidators (abs_db h d))))]\<rparr>"
      unfolding spec_add_def by (metis option.distinct(1) option.inject)
    moreover have "GetValidatorByPubkey d pk h' = Some (next_addr h)" "r = Ok (next_addr h)"
      using new by (simp_all add: GetValidatorByPubkey_def)
    ultimately show ?thesis using None unfolding look by simp
  next
    case (Some a)
    note dup = trans [OF assms(2) [symmetric] AddValidator_dup [OF Some]]
    show ?thesis using Some dup unfolding look by simp
  qed
qed

theorem add_validator_outcome_witness:
  "let h = sample_db;
       h' = snd (AddValidator sample_lib 0 (sample_pubkey 3) [] h)
   in map Pubkey (aValidators (abs_db h' 0)) = [sample_pubkey 3]"
proof -
  let ?h' = "snd (AddValidator sample_lib 0 (sample_pubkey 3) [] sample_db)"
  have "spec_lookup (sample_pubkey 3) (abs_db sample_db 0) = None" by (simp add: spec_lookup_def)
  with add_validator_outcome [OF sample_db_reachable prod.collapse [symmetric], of "sample_pubkey 3" "[]"]
  have "abs_db ?h' 0 = (abs_db sample_db 0)\<lparr>aValidators := aValidators (abs_db sample_db 0)
      @ [NewValidator sample_lib (sample_pubkey 3) [] (of_nat (length (aValidators (abs_db sample_db 0))))]\<rparr>"
    by (auto simp del: abs_db_sel)
  then have "aValidators (abs_db ?h' 0) = [NewValidator sample_lib (sample_pubkey 3) [] 0]"
    by (simp del: abs_db_sel) simp
  then show ?thesis by (simp add: Let_def del: abs_db_sel)
qed

text \<open>C17: the two lookups of a reachable database agree: the validator found by a public key is
  the one found by the index it carries, and no two validators share a key.\<close>

theorem lookups_agree:
  assumes "reachable_db lib first d h" and "length (GetAllValidators d h) < 2 ^ 64"
  shows "GetValidatorByPubkey d pk h = Some a \<longleftrightarrow>
    GetValidatorByIndex d (Index (validator_at h a)) h = Some a \<and> Pubkey (validator_at h a) = pk"
proof -
  let ?vs = "validators (database_at h d)"
  have inv: "db_inv h d" using assms(1) by (rule reachable_db_inv)
  then have look: "lookup_inv h d" and idx: "index_inv h d" by (simp_all add: db_inv_def)
  have len: "length ?vs < 2 ^ 64" using assms(2) by (simp add: GetAllValidators_def)
  have "a \<in> set ?vs \<longleftrightarrow> GetValidatorByIndex d (Index (validator_at h a)) h = Some a"
  proof
    assume "a \<in> set ?vs"
    then obtain i where i: "i < length ?vs" "a = ?vs ! i" by (auto simp: in_set_conv_nth)
    with idx have "Index (validator_at h a) = of_nat i" by (simp add: index_inv_def)
    with i len show "GetValidatorByIndex d (Index (validator_at h a)) h = Some a"
      by (simp add: GetValidatorByIndex_of_nat)
  next
    assume "GetValidatorByIndex d (Index (validator_at h a)) h = Some a"
    from GetValidatorByIndex_nth [OF this] show "a \<in> set ?vs" by (metis nth_mem)
  qed
  then show ?thesis using lookup_invD [OF look, of pk a] by (auto simp: GetValidatorByPubkey_def)
qed

theorem lookups_agree_witness:
  "let h = snd (AddValidator sample_lib 0 (sample_pubkey 3) [] sample_db)
   in GetValidatorByPubkey 0 (sample_pubkey 3) h = Some 1
      \<and> GetValidatorByIndex 0 (Index (validator_at h 1)) h = Some 1"
proof -
  let ?h = "snd (AddValidator sample_lib 0 (sample_pubkey 3) [] sample_db)"
  have "length (GetAllValidators 0 ?h) < 2 ^ 64" "GetValidatorByPubkey 0 (sample_pubkey 3) ?h = Some 1"
    by (simp_all add: AddValidator_def alloc_validator_def put_database_def GetAllValidators_def GetValidatorByPubkey_def)
  with lookups_agree [OF reachable_db.step [OF sample_db_reachable db_step.add_validator] this(1),
      of "sample_pubkey 3" 1]
  show ?thesis by (simp add: Let_def)
qed

text \<open>Databases with the same validators in the same order find a key at the same position.\<close>

lemma lookups_correspond:
  assumes inv: "db_inv h d" "db_inv h' c"
    and same: "map (validator_at h') (validators (database_at h' c)) = map (validator_at h) (validators (database_at h d))"
  shows "case GetValidatorByPubkey d pk h of
      None \<Rightarrow> GetValidatorByPubkey c pk h' = None
    | Some a \<Rightarrow> \<exists>i < length (validators (database_at h d)). validators (database_at h d) ! i = a
        \<and> GetValidatorByPubkey c pk h' = Some (validators (database_at h' c) ! i)"
proof -
  let ?vs = "validators (database_at h d)" and ?cs = "validators (database_at h' c)"
  have look: "lookup_inv h d" "lookup_inv h' c" using inv by (simp_all add: db_inv_def)
  have len: "length ?cs = length ?vs" using arg_cong [OF same, of length] by simp
  have cell: "validator_at h' (?cs ! i) = validator_at h (?vs ! i)" if "i < length ?vs" for i
    using arg_cong [OF same, of "\<lambda>xs. xs ! i"] that len by simp
  have "Pubkey ` validator_at h' ` set ?cs = Pubkey ` validator_at h ` set ?vs"
    using arg_cong [OF same, of set] by simp
  then have none: "validatorPubkeyMap (database_at h d) pk = None \<Longrightarrow> validatorPubkeyMap (database_at h' c) pk = None"
    using lookup_inv_None [OF look(1), of pk] lookup_inv_None [OF look(2), of pk] by simp
  show ?thesis
  proof (cases "validatorPubkeyMap (database_at h d) pk")
    case None
    then show ?thesis using none by (simp add: GetValidatorByPubkey_def)
  next
    case (Some a)
    then have "a \<in> set ?vs" and key: "Pubkey (validator_at h a) = pk" using lookup_invD [OF look(1)] by auto
    then obtain i where i: "i < length ?vs" "?vs ! i = a" by (auto simp: in_set_conv_nth)
    then have "validatorPubkeyMap (database_at h' c) pk = Some (?cs ! i)"
      using lookup_invD [OF look(2), of pk "?cs ! i"] cell [OF i(1)] key len by simp
    with i Some show ?thesis by (auto simp: GetValidatorByPubkey_def)
  qed
qed

text \<open>C5: a clone is a deep copy. It holds the values of the same validators in the same order, the
  same block map and slots (but no pending deposits), and its map of public keys leads to its own
  copies: it finds a key at the position where the original finds it, and none of the cells it
  reaches is one of the original's. Making it does not change the original, and no call on the
  original afterwards, through its validators' pointers included, changes anything of it.\<close>

theorem clone_is_deep_copy:
  assumes "reachable_db lib first d h" and "Clone d h = (c, h1)" and "(db_step lib d)\<^sup>*\<^sup>* h1 h2"
  shows "abs_db h1 d = abs_db h d \<and> abs_db h2 c = without_deposits (abs_db h d)
       \<and> (\<forall>pk. case GetValidatorByPubkey d pk h of
              None \<Rightarrow> GetValidatorByPubkey c pk h2 = None
            | Some a \<Rightarrow> \<exists>i < length (validators (database_at h d)). validators (database_at h d) ! i = a
                \<and> GetValidatorByPubkey c pk h2 = Some (validators (database_at h2 c) ! i))
       \<and> (set (validators (database_at h2 c)) \<union> ran (validatorPubkeyMap (database_at h2 c)))
           \<inter> (set (validators (database_at h2 d)) \<union> ran (validatorPubkeyMap (database_at h2 d))) = {}"
proof -
  have inv: "db_inv h d" using assms(1) by (rule reachable_db_inv)
  note un = Clone_untouched [OF inv assms(2) inv]
  have sep: "separate h1 d c"
    using Clone_separate [OF inv assms(2) inv] by (simp add: separate_sym)
  have later: "db_inv h2 d \<and> db_inv h2 c \<and> separate h2 d c \<and> abs_db h2 c = abs_db h1 c"
    using assms(3)
  proof (induction rule: rtranclp_induct)
    case base
    then show ?case
      using untouched_inv [OF un inv] Clone_inv [OF inv assms(2)] sep by simp
  next
    case (step h h')
    then have "untouched c h h'" by (intro db_step_untouched) auto
    with step show ?case
      by (auto simp: untouched_abs intro: db_step_inv untouched_inv db_step_separate)
  qed
  then have same: "abs_db h2 c = without_deposits (abs_db h d)" by (simp add: Clone_refines [OF inv assms(2)])
  have "aValidators (abs_db h2 c) = aValidators (abs_db h d)" by (simp only: same) (simp add: without_deposits_def)
  then have "map (validator_at h2) (validators (database_at h2 c)) = map (validator_at h) (validators (database_at h d))"
    by simp
  note found = lookups_correspond [OF inv _ this]
  have "ran (validatorPubkeyMap (database_at h2 e)) \<subseteq> set (validators (database_at h2 e))" if "db_inv h2 e" for e
    using that lookup_invD [of h2 e] by (auto simp: db_inv_def ran_def)
  with later have "set (validators (database_at h2 c)) \<union> ran (validatorPubkeyMap (database_at h2 c))
        = set (validators (database_at h2 c))"
    "set (validators (database_at h2 d)) \<union> ran (validatorPubkeyMap (database_at h2 d))
        = set (validators (database_at h2 d))"
    "set (validators (database_at h2 c)) \<inter> set (validators (database_at h2 d)) = {}"
    by (auto simp: separate_def)
  moreover have "abs_db h1 d = abs_db h d" by (rule untouched_abs [OF un])
  ultimately show ?thesis using same found later by simp
qed

theorem clone_is_deep_copy_witness:
  "let h = snd (AddValidator sample_lib 0 (sample_pubkey 3) [] sample_db);
       (c, h1) = Clone 0 h; h2 = CommitBlock 0 True h1
   in aCurrent (abs_db h2 0) = 1 \<and> aCurrent (abs_db h2 c) = 0
      \<and> GetValidatorByPubkey 0 (sample_pubkey 3) h2 = Some 1
      \<and> (\<exists>a. GetValidatorByPubkey c (sample_pubkey 3) h2 = Some a \<and> a \<noteq> 1)"
proof -
  let ?h = "snd (AddValidator sample_lib 0 (sample_pubkey 3) [] sample_db)"
  obtain c h1 where c: "Clone 0 ?h = (c, h1)" by fastforce
  let ?h2 = "CommitBlock 0 True h1"
  have reach: "reachable_db sample_lib 5 0 ?h"
    by (rule reachable_db.step [OF sample_db_reachable db_step.add_validator])
  have inv: "db_inv ?h 0" using reach by (rule reachable_db_inv)
  have "(db_step sample_lib 0)\<^sup>*\<^sup>* h1 ?h2" by (intro r_into_rtranclp db_step.commit_block)
  note deep = clone_is_deep_copy [OF reach c this]
  have view: "aCurrent (abs_db ?h 0) = 0" and key: "GetValidatorByPubkey 0 (sample_pubkey 3) ?h = Some 1"
    by (simp_all add: AddValidator_def alloc_validator_def put_database_def GetValidatorByPubkey_def)
  have "database_at h1 0 = database_at ?h 0"
    using Clone_untouched [OF inv c inv] by (simp add: untouched_def)
  then have live: "validatorPubkeyMap (database_at ?h2 0) (sample_pubkey 3) = Some 1"
    using key by (simp add: GetValidatorByPubkey_def CommitBlock_def Let_def)
  from deep obtain a where found: "GetValidatorByPubkey c (sample_pubkey 3) ?h2 = Some a"
    using key by (auto dest!: spec [of _ "sample_pubkey 3"] split: option.splits)
  have "a \<in> ran (validatorPubkeyMap (database_at ?h2 c))" "1 \<in> ran (validatorPubkeyMap (database_at ?h2 0))"
    using found live by (auto simp: GetValidatorByPubkey_def ran_def)
  with deep have "a \<noteq> 1" by blast
  moreover have "aCurrent (abs_db h1 0) = 0" "aCurrent (abs_db ?h2 c) = 0"
    using deep view by (simp_all add: without_deposits_def)
  ultimately show ?thesis
    using found live by (simp add: c CommitBlock_refines spec_commit_def GetValidatorByPubkey_def del: abs_db_sel)
qed

text \<open>C33: after a run of at most \<open>2 ^ 64\<close> commits, the slot that is the \<open>k\<close>-th of the run is
  linked to a block exactly if it was validated, and then to the next block index plus the number
  of validated slots of the run before it: missed slots use up no block.\<close>

theorem commits_link_blocks:
  assumes "length bs \<le> 2 ^ 64" and "k < length bs"
    and "executionBlockMap (database_at h d) (currentSlot (database_at h d) + of_nat k) = None"
  shows "executionBlockMap (database_at (fold (CommitBlock d) bs h) d)
             (currentSlot (database_at h d) + of_nat k) =
           (if bs ! k then Some (nextExecutionBlockIndex (database_at h d)
                                 + of_nat (length (filter (\<lambda>b. b) (take k bs)))) else None)"
proof -
  from assms(1,2) have "unat (of_nat k :: u64) = k" by (simp add: unat_of_nat_u64)
  with commit_run_blocks [OF assms(1), of d h] assms(2,3) show ?thesis
    by (simp add: commit_run_def validated_before_def Let_def)
qed

theorem commits_link_blocks_witness:
  "let h = fold (CommitBlock 0) [True, False, True] sample_db
   in executionBlockMap (database_at h 0) 2 = Some 6"
  using commits_link_blocks [of "[True, False, True]" 2 "sample_db" 0]
  by (simp add: Let_def del: fold_simps)

section \<open>Reading through the manager\<close>

text \<open>C18: asking the manager for a validator by its index in decimal, or by its public key in hex,
  gives the validator that \<open>AddValidator\<close> returned, for every validator that was ever added.\<close>

theorem get_validator_finds:
  assumes "reachable_mgr lib cfg s" and "a \<in> set (GetAllValidators (database (fst s)) (snd s))"
    and "length (GetAllValidators (database (fst s)) (snd s)) < 2 ^ 32"
    and hex: "HexToValidatorPubkey lib (HexWithPrefix lib (Pubkey (validator_at (snd s) a)))
          = Inr (Pubkey (validator_at (snd s) a))"
      "HasPrefix (HexWithPrefix lib (Pubkey (validator_at (snd s) a))) ''0x''"
    and "11 \<le> 2 * ValidatorPubkeyLength lib"
  shows "GetValidator lib (FormatUint (unat (Index (validator_at (snd s) a)))) s = Ok (Some a)
       \<and> GetValidator lib (HexWithPrefix lib (Pubkey (validator_at (snd s) a))) s = Ok (Some a)"
proof
  let ?d = "database (fst s)" and ?h = "snd s"
  let ?vs = "validators (database_at ?h ?d)"
  have inv: "db_inv ?h ?d" using reachable_mgr_inv [OF assms(1)] by (rule mgr_invD(4))
  have a: "a \<in> set ?vs" and len: "length ?vs < 2 ^ 32"
    using assms(2,3) by (simp_all add: GetAllValidators_def)
  then obtain i where i: "i < length ?vs" "a = ?vs ! i" by (auto simp: in_set_conv_nth)
  with len have i32: "i < 2 ^ 32" by simp
  then have i64: "i < 2 ^ 64" and len64: "length ?vs < 2 ^ 64" using len by simp_all
  have "Index (validator_at ?h a) = of_nat i" using inv i by (simp add: db_inv_def index_inv_def)
  then have idx: "unat (Index (validator_at ?h a)) = i" using i64 by (simp add: unat_of_nat_u64)
  have "length (FormatUint i) \<le> 10" using i32 by (intro length_FormatUint) simp_all
  then have "length (FormatUint i) \<noteq> ValidatorPubkeyLength lib * 2" using assms(6) by linarith
  then show "GetValidator lib (FormatUint (unat (Index (validator_at ?h a)))) s = Ok (Some a)"
    unfolding idx using i GetValidatorByIndex_of_nat [OF len64 i64] ParseUint_FormatUint [OF i32]
    by (simp add: GetValidator_def FormatUint_not_hex)
  have "validatorPubkeyMap (database_at ?h ?d) (Pubkey (validator_at ?h a)) = Some a"
    using inv a by (simp add: db_inv_def lookup_invD)
  then show "GetValidator lib (HexWithPrefix lib (Pubkey (validator_at ?h a))) s = Ok (Some a)"
    by (simp add: GetValidator_def hex GetValidatorByPubkey_def)
qed

theorem get_validator_finds_witness:
  "GetValidator sample_lib ''0'' sample_mgr1 = Ok (Some 1)
   \<and> GetValidator sample_lib (''0x'' @ EncodeToString (sample_pubkey 7)) sample_mgr1 = Ok (Some 1)"
proof -
  let ?v = "validator_at (snd sample_mgr1) 1"
  have v: "Pubkey ?v = sample_pubkey 7" "Index ?v = 0"
    using sample_mgr1_eq(5) by simp_all
  have "GetValidator sample_lib (FormatUint (unat (Index ?v))) sample_mgr1 = Ok (Some 1)
      \<and> GetValidator sample_lib (HexWithPrefix sample_lib (Pubkey ?v)) sample_mgr1 = Ok (Some 1)"
    by (rule get_validator_finds [OF sample_mgr1_reachable])
      (simp_all only: v, simp_all add: GetAllValidators_def sample_mgr1_eq sample_lib_hex sample_pubkey_def)
  moreover have "FormatUint 0 = ''0''" by code_simp
  moreover have "HexWithPrefix sample_lib pk = ''0x'' @ EncodeToString pk" for pk
    by (simp add: sample_lib_def)
  ultimately show ?thesis unfolding v by (simp del: append.simps)
qed

text \<open>Reading several validators: the identifiers are looked up one after the other, those
  that name no validator are left out, and the first identifier that does not parse decides the
  error; without identifiers all validators are returned.\<close>

theorem get_validators_spec:
  "GetValidators lib ids s =
     (if ids = [] then Ok (GetAllValidators (database (fst s)) (snd s))
      else case find (\<lambda>i. \<not> is_ok (GetValidator lib i s)) ids of
             None \<Rightarrow> Ok (List.map_filter (\<lambda>i. case GetValidator lib i s of Ok a \<Rightarrow> a | _ \<Rightarrow> None) ids)
           | Some i \<Rightarrow> (case GetValidator lib i s of Err e \<Rightarrow> Err e | Panic p \<Rightarrow> Panic p | Ok _ \<Rightarrow> Ok []))"
proof -
  have "GetValidators_loop lib s ids vs =
     (case find (\<lambda>i. \<not> is_ok (GetValidator lib i s)) ids of
        None \<Rightarrow> Ok (vs @ List.map_filter (\<lambda>i. case GetValidator lib i s of Ok a \<Rightarrow> a | _ \<Rightarrow> None) ids)
      | Some i \<Rightarrow> (case GetValidator lib i s of Err e \<Rightarrow> Err e | Panic p \<Rightarrow> Panic p | Ok _ \<Rightarrow> Ok []))"
    for vs
  proof (induction ids arbitrary: vs)
    case Nil
    then show ?case by (simp add: map_filter_simps)
  next
    case (Cons i ids)
    show ?case
    proof (cases "GetValidator lib i s")
      case (Ok r)
      then show ?thesis by (cases r) (simp_all add: Cons.IH map_filter_simps split: option.split)
    qed simp_all
  qed
  from this [of "[]"] show ?thesis unfolding GetValidators_def append_Nil by simp
qed

section \<open>Slots\<close>



text \<open>If the manager reverts to a snapshot between the two reads of \<open>Node_Syncing\<close>, the distance
  of a synced node can wrap around to almost \<open>2 ^ 64\<close>.\<close>

theorem sync_race_underflows:
  "\<exists>s t. reachable_mgr sample_lib zero_config s \<and> RevertToSnapshot n s = (Ok (), t)
     \<and> mgr_GetCurrentSlot s = mgr_GetHighestSlot s
     \<and> Node_Syncing s t = Ok \<lparr>IsSyncing = False, HeadSlot = 0, SyncDistance = 2 ^ 64 - 1\<rparr>"
proof -
  let ?taken = "TakeSnapshot n sample_mgr"
  let ?s = "mgr_CommitBlock True ?taken"
  have inv: "mgr_inv sample_mgr" by (rule reachable_mgr_inv [OF sample_mgr_reachable])
  have r0: "reachable_mgr sample_lib zero_config ?taken"
    by (rule reachable_mgr.take [OF sample_mgr_reachable])
  have step: "client_step sample_lib ?taken ?s"
    unfolding mgr_CommitBlock_def
    by (rule live_step [OF reachable_mgr_inv [OF r0] db_step.commit_block])
  have r: "reachable_mgr sample_lib zero_config ?s" using r0 step by (rule reachable_mgr.client)
  have "mgr_saved ?s n = Some (without_deposits (mgr_view sample_mgr))"
    using client_step_facts [OF step reachable_mgr_inv [OF r0]] TakeSnapshot_facts(3) [OF inv] by simp
  then obtain c where c: "snapshots (fst ?s) n = Some c"
    and cv: "abs_db (snd ?s) c = without_deposits (mgr_view sample_mgr)"
    by (auto simp: mgr_saved_def)
  let ?t = "snd (RevertToSnapshot n ?s)"
  note rev = RevertToSnapshot_facts [OF reachable_mgr_inv [OF r] c]
  have view: "aCurrent (mgr_view sample_mgr) = 0" "aHighest (mgr_view sample_mgr) = 0"
    by (simp_all add: mgr_view_def sample_mgr_eq)
  have "mgr_view ?taken = mgr_view sample_mgr" by (rule TakeSnapshot_facts(2) [OF inv])
  moreover have "mgr_view ?s = spec_commit True (mgr_view ?taken)"
    by (simp add: mgr_view_def mgr_CommitBlock_def CommitBlock_refines del: abs_db_sel)
  ultimately have "aCurrent (mgr_view ?s) = 1" "aHighest (mgr_view ?s) = 1"
    using view by (simp_all add: spec_commit_def)
  moreover have "aHighest (mgr_view ?t) = 0"
    using rev(3) view by (simp add: cv without_deposits_def del: abs_db_sel)
  ultimately have "mgr_GetCurrentSlot ?s = 1" "mgr_GetHighestSlot ?s = 1" "mgr_GetHighestSlot ?t = 0"
    by (simp_all add: mgr_GetCurrentSlot_def mgr_GetHighestSlot_def GetCurrentSlot_def
        GetHighestSlot_def mgr_view_def)
  moreover have "RevertToSnapshot n ?s = (Ok (), ?t)" using rev(1) by (simp add: prod_eq_iff)
  ultimately show ?thesis using r by (intro exI [of _ ?s] exI [of _ ?t]) (simp add: Node_Syncing_def sync_response_def)
qed

section \<open>Balances\<close>

text \<open>C34: the effective balance of a validator of a reachable database never leaves the range in
  which the thresholds of \<open>SetBalance\<close> are computed without wrapping, so setting a balance always
  compares the numbers it means to and moves the effective balance by at most one.\<close>

theorem set_balance_hysteresis:
  assumes "reachable_db lib first d h" and "v \<in> set (aValidators (abs_db h d))"
  shows "Balance (SetBalance b v) = b \<and>
    unat (EffectiveBalance (SetBalance b v)) =
      (let e = unat (EffectiveBalance v) in
       if unat b + 250000000 < e then e - 1 else if e + 1250000000 < unat b then e + 1 else e)"
proof -
  have "effective_ok v" using reachable_db_balances [OF assms(1)] assms(2)
    by (auto simp: balances_ok_def)
  then show ?thesis by (simp add: SetBalance_effective)
qed

theorem set_balance_hysteresis_witness:
  "let v = NewValidator sample_lib (sample_pubkey 3) [] 0
   in unat (EffectiveBalance (SetBalance 0 v)) = 31999999999
      \<and> EffectiveBalance (SetBalance 33000000000 v) = StartingBalance"
proof -
  let ?h = "snd (AddValidator sample_lib 0 (sample_pubkey 3) [] sample_db)"
  let ?v = "NewValidator sample_lib (sample_pubkey 3) [] 0"
  have v: "?v \<in> set (aValidators (abs_db ?h 0))"
    by (simp add: AddValidator_def alloc_validator_def put_database_def)
  note h = set_balance_hysteresis [OF reachable_db.step [OF sample_db_reachable db_step.add_validator] v]
  from h [of 0] h [of 33000000000] show ?thesis
    by (simp add: Let_def StartingBalance_def word_unat_eq_iff)
qed

text \<open>Slashing succeeds exactly in the two active states; it marks the validator, sets its
  state and takes the penalty off its balance modulo \<open>2 ^ 64\<close>; otherwise nothing changes.\<close>

theorem slash_outcome:
  "Slash lib p v =
     (if Status v = ActiveOngoing lib \<or> Status v = ActiveExiting lib
      then (Ok (), v\<lparr>Slashed := True, Balance := Balance v - p, Status := ActiveSlashed lib,
                     EffectiveBalance := EffectiveBalance (SetBalance (Balance v - p) v)\<rparr>)
      else (Err (Errorf ''validator with pubkey %s is not in a slashable state''
                   [HexWithPrefix lib (Pubkey v)]), v))"
  by (simp add: Slash_def SetBalance_def Let_def)

text \<open>A penalty above the balance is not cut off at zero: the balance wraps around to at least
  \<open>2 ^ 64\<close> less the penalty, and the effective balance of an active validator of a reachable
  database can go up by being slashed.\<close>

theorem slash_underflow:
  assumes "Status v = ActiveOngoing lib" and "Balance v < p"
  shows "fst (Slash lib p v) = Ok ()
       \<and> unat (Balance (snd (Slash lib p v))) = 2 ^ 64 + unat (Balance v) - unat p"
proof -
  have "unat (Balance v) < unat p" using assms(2) by (simp add: word_less_nat_alt)
  then have "unat (Balance v - p) = 2 ^ 64 + unat (Balance v) - unat p"
    using unat_sub_if_size [of "Balance v" p] by (simp add: word_size)
  with assms(1) show ?thesis by (simp add: Slash_def Let_def)
qed

theorem slash_underflow_witness:
  "let v = SetStatus (ActiveOngoing sample_lib) (NewValidator sample_lib [] [] 0);
       w = snd (Slash sample_lib 32000000001 v)
   in unat (Balance w) = 2 ^ 64 - 1 \<and> EffectiveBalance w = EffectiveBalance v + 1"
proof -
  let ?v = "SetStatus (ActiveOngoing sample_lib) (NewValidator sample_lib [] [] 0)"
  have "Status ?v = ActiveOngoing sample_lib" "Balance ?v < 32000000001"
    by (simp_all add: SetStatus_def StartingBalance_def)
  from slash_underflow [OF this] show ?thesis
    by (simp add: Let_def SetStatus_def StartingBalance_def Slash_def SetBalance_def)
qed

text \<open>Removing a pending deposit drops every occurrence of the pointer and keeps the others in
  their order, but on a database without pending deposits the call panics: the capacity of the
  slice it makes is negative.\<close>

theorem remove_deposit_outcome:
  "(fst (RemovePendingDeposit d p h), GetPendingDeposits d (snd (RemovePendingDeposit d p h))) =
     (if GetPendingDeposits d h = [] then (Panic MakeSliceCapOutOfRange, [])
      else (Ok (), filter (\<lambda>q. q \<noteq> p) (GetPendingDeposits d h)))"
  by (auto simp: RemovePendingDeposit_def GetPendingDeposits_def Let_def keep_deposits_filter Suc_le_eq)

text \<open>The pending deposits come back as the values of the deposits that were added, in their
  order; one nil pointer among them makes the response panic.\<close>

theorem pending_deposits_response:
  "Beacon_PendingDeposits st s =
     (if None \<in> set (mgr_GetPendingDeposits s) then Panic NilDereference
      else Ok (map (\<lambda>p. ConvertToNativeFormat (deposit_at (snd s) (the p))) (mgr_GetPendingDeposits s)))"
proof -
  have "convert_deposits h ps acc = (if None \<in> set ps then Panic NilDereference
      else Ok (acc @ map (\<lambda>p. ConvertToNativeFormat (deposit_at h (the p))) ps))" for h ps acc
    by (induction h ps acc rule: convert_deposits.induct) auto
  then show ?thesis by (simp add: Beacon_PendingDeposits_def)
qed

section \<open>Configuration\<close>

text \<open>The format of a configuration file is chosen by its extension alone; a readable file
  with any other extension is not an error but gives the zero configuration, whatever it contains,
  with the current time, in whole seconds, as its genesis.\<close>

theorem load_config_by_extension:
  assumes "Stat env path \<noteq> NotExist" and "ReadFile env path = Inr bytes"
    and "path = base @ CHR ''.'' # e" and "CHR ''.'' \<notin> set e" and "CHR ''/'' \<notin> set e"
  shows "LoadFromFile lib env path =
     (if e \<in> {''json'', ''yaml'', ''yml''}
      then case (if e = ''json'' then json_Unmarshal_config lib bytes
                 else yaml_Unmarshal_config lib bytes) of
             Inl err \<Rightarrow> Inl (Wrapf ''error unmarshalling config file [%s]: %w'' [path] err)
           | Inr c \<Rightarrow> Inr (if GenesisTime c \<noteq> zero_time then c
                           else c\<lparr>GenesisTime := Now env - Now env mod 1000000000\<rparr>)
      else Inr (zero_config\<lparr>GenesisTime := Now env - Now env mod 1000000000\<rparr>))"
proof -
  have ext: "Ext path = CHR ''.'' # e" unfolding assms(3) by (rule Ext_suffix [OF assms(4,5)])
  show ?thesis using assms(1,2)
    by (auto simp: LoadFromFile_def ext IsZero_def TruncateSecond_eq zero_config_def split: sum.split)
qed

theorem load_config_by_extension_witness:
  "LoadFromFile sample_config_lib \<lparr>Stat = (\<lambda>_. Exists), ReadFile = (\<lambda>_. Inr [1]), Now = 1700000000123456789\<rparr>
     ''cfg.toml'' = Inr (zero_config\<lparr>GenesisTime := 1700000000000000000\<rparr>)"
  by (subst load_config_by_extension [where bytes = "[1]" and base = "''cfg''" and e = "''toml''"])
    simp_all

text \<open>Cloning a configuration keeps every field but the index of the first execution block,
  which the clone has as zero.\<close>

theorem clone_config_loses_first_block:
  "ConfigClone c = c \<longleftrightarrow> FirstExecutionBlockIndex c = 0"
  by (cases c) (auto simp: ConfigClone_eq)

end
