(* ===== verification/Beacon_Model.thy ===== *)
theory Beacon_Model
  imports Beacon_Manager_Inv Beacon_Server_Facts
begin

text \<open>
  The Beacon mock as a whole against a model without pointers. A session is a list of calls, as the
  handlers of the server and the test manager make them; \<open>mock_run\<close> runs it on the manager and its
  heap, \<open>model_run\<close> on a model that has lists of validators as values and whose snapshots are such
  values. The theorems say that nobody can tell the two apart by the results.
\<close>

section \<open>Sessions\<close>

text \<open>
  A validator is named as in the API, by index or key. The calls that change one look it up and call
  the method on the pointer they got, which panics for nil.
\<close>

datatype beacon_call =
    AddCall ValidatorPubkey Hash
  | FindCall string
  | ListCall "string list"
  | BalanceCall string u64
  | StatusCall string string
  | SlashCall string u64
  | CommitCall bool
  | HighestCall u64
  | SlotsCall
  | SyncCall
  | DepositCall ptr
  | UndepositCall ptr
  | DepositsCall
  | TakeCall string
  | RevertCall string

datatype beacon_result =
    Added "Validator outcome"
  | Found "Validator option outcome"
  | Listed "ClientValidator list outcome"
  | Finished "unit outcome"
  | Slots u64 u64
  | Synced "SyncStatus outcome"
  | Pending "ptr list"

definition on_validator ::
  "beacon_lib \<Rightarrow> string \<Rightarrow> (Validator \<Rightarrow> unit outcome \<times> Validator) \<Rightarrow> bstate \<Rightarrow> unit outcome \<times> bstate" where
  "on_validator lib vid f s =
     (case GetValidator lib vid s of
        Err e \<Rightarrow> (Err e, s)
      | Panic p \<Rightarrow> (Panic p, s)
      | Ok None \<Rightarrow> (Panic NilDereference, s)
      | Ok (Some a) \<Rightarrow>
          let (r, v) = f (validator_at (snd s) a) in (r, (fst s, put_validator a v (snd s))))"

definition finished :: "unit outcome \<times> 's \<Rightarrow> beacon_result \<times> 's" where
  "finished x = (Finished (fst x), snd x)"

fun mock_call :: "beacon_lib \<Rightarrow> beacon_call \<Rightarrow> bstate \<Rightarrow> beacon_result \<times> bstate" where
  "mock_call lib (AddCall pk wc) s =
     (let (r, t) = mgr_AddValidator lib pk wc s in (Added (map_outcome (validator_at (snd t)) r), t))"
| "mock_call lib (FindCall vid) s =
     (Found (map_outcome (map_option (validator_at (snd s))) (GetValidator lib vid s)), s)"
| "mock_call lib (ListCall ids) s = (Listed (Beacon_Validators lib ''head'' ids s), s)"
| "mock_call lib (BalanceCall vid b) s =
     finished (on_validator lib vid (\<lambda>v. (Ok (), SetBalance b v)) s)"
| "mock_call lib (StatusCall vid st) s =
     finished (on_validator lib vid (\<lambda>v. (Ok (), SetStatus st v)) s)"
| "mock_call lib (SlashCall vid penalty) s = finished (on_validator lib vid (Slash lib penalty) s)"
| "mock_call lib (CommitCall b) s = (Finished (Ok ()), mgr_CommitBlock b s)"
| "mock_call lib (HighestCall slot) s = (Finished (Ok ()), mgr_SetHighestSlot slot s)"
| "mock_call lib SlotsCall s = (Slots (mgr_GetCurrentSlot s) (mgr_GetHighestSlot s), s)"
| "mock_call lib SyncCall s = (Synced (Node_Syncing s s), s)"
| "mock_call lib (DepositCall p) s = (Finished (Ok ()), mgr_AddPendingDeposit p s)"
| "mock_call lib (UndepositCall p) s = finished (mgr_RemovePendingDeposit p s)"
| "mock_call lib DepositsCall s = (Pending (mgr_GetPendingDeposits s), s)"
| "mock_call lib (TakeCall n) s = (Finished (Ok ()), TakeSnapshot n s)"
| "mock_call lib (RevertCall n) s = finished (RevertToSnapshot n s)"

text \<open>The results of a session, and the state it ends in.\<close>

fun run_calls :: "('c \<Rightarrow> 's \<Rightarrow> 'r \<times> 's) \<Rightarrow> 'c list \<Rightarrow> 's \<Rightarrow> 'r list \<times> 's" where
  "run_calls f [] s = ([], s)"
| "run_calls f (c # cs) s =
     (let (r, t) = f c s; (rs, u) = run_calls f cs t in (r # rs, u))"

definition mock_run :: "beacon_lib \<Rightarrow> beacon_call list \<Rightarrow> bstate \<Rightarrow> beacon_result list \<times> bstate" where
  "mock_run lib = run_calls (mock_call lib)"

section \<open>The model\<close>

record beacon_model =
  bmLive :: adb
  bmSaved :: "string \<rightharpoonup> adb"

definition new_model :: "Config \<Rightarrow> beacon_model" where
  "new_model cfg =
     \<lparr> bmLive = \<lparr> aValidators = [], aPending = [], aBlocks = Map.empty, aCurrent = 0, aHighest = 0,
                 aNext = FirstExecutionBlockIndex cfg \<rparr>,
       bmSaved = Map.empty \<rparr>"

definition position :: "ValidatorPubkey \<Rightarrow> Validator list \<Rightarrow> nat option" where
  "position pk vs = find (\<lambda>i. Pubkey (vs ! i) = pk) [0..<length vs]"

text \<open>Which validator an identifier names: its place in the list.\<close>

definition model_find :: "beacon_lib \<Rightarrow> string \<Rightarrow> Validator list \<Rightarrow> nat option outcome" where
  "model_find lib vid vs =
     (if length vid = ValidatorPubkeyLength lib * 2 \<or> HasPrefix vid ''0x''
      then (case HexToValidatorPubkey lib vid of
              Inl err \<Rightarrow> Err (Wrapf ''error parsing pubkey [%s]: %v'' [vid] err)
            | Inr pk \<Rightarrow> Ok (position pk vs))
      else (case ParseUint vid 32 of
              Inl err \<Rightarrow> Err (Wrapf ''error parsing index [%s]: %v'' [vid] err)
            | Inr i \<Rightarrow> Ok (if i < length vs then Some i else None)))"

fun model_find_all :: "beacon_lib \<Rightarrow> string list \<Rightarrow> Validator list \<Rightarrow> Validator list outcome" where
  "model_find_all lib [] vs = Ok []"
| "model_find_all lib (vid # ids) vs =
     (case model_find lib vid vs of
        Err e \<Rightarrow> Err e
      | Panic p \<Rightarrow> Panic p
      | Ok None \<Rightarrow> model_find_all lib ids vs
      | Ok (Some i) \<Rightarrow> map_outcome ((#) (vs ! i)) (model_find_all lib ids vs))"

definition model_list :: "beacon_lib \<Rightarrow> string list \<Rightarrow> Validator list \<Rightarrow> ClientValidator list outcome" where
  "model_list lib ids vs =
     map_outcome (map GetValidatorMeta) (if ids = [] then Ok vs else model_find_all lib ids vs)"

definition with_live :: "(adb \<Rightarrow> adb) \<Rightarrow> beacon_model \<Rightarrow> beacon_model" where
  "with_live f m = m\<lparr>bmLive := f (bmLive m)\<rparr>"

definition model_on ::
  "beacon_lib \<Rightarrow> string \<Rightarrow> (Validator \<Rightarrow> unit outcome \<times> Validator) \<Rightarrow> beacon_model \<Rightarrow> unit outcome \<times> beacon_model" where
  "model_on lib vid f m =
     (let vs = aValidators (bmLive m) in
      case model_find lib vid vs of
        Err e \<Rightarrow> (Err e, m)
      | Panic p \<Rightarrow> (Panic p, m)
      | Ok None \<Rightarrow> (Panic NilDereference, m)
      | Ok (Some i) \<Rightarrow> (fst (f (vs ! i)), with_live (spec_update i (\<lambda>v. snd (f v))) m))"

fun model_call :: "beacon_lib \<Rightarrow> beacon_call \<Rightarrow> beacon_model \<Rightarrow> beacon_result \<times> beacon_model" where
  "model_call lib (AddCall pk wc) m =
     (case spec_add lib pk wc (bmLive m) of
        None \<Rightarrow> (Added (Err (Errorf ''validator with pubkey %s already exists'' [HexWithPrefix lib pk])), m)
      | Some live \<Rightarrow> (Added (Ok (last (aValidators live))), m\<lparr>bmLive := live\<rparr>))"
| "model_call lib (FindCall vid) m =
     (let vs = aValidators (bmLive m)
      in (Found (map_outcome (map_option ((!) vs)) (model_find lib vid vs)), m))"
| "model_call lib (ListCall ids) m = (Listed (model_list lib ids (aValidators (bmLive m))), m)"
| "model_call lib (BalanceCall vid b) m = finished (model_on lib vid (\<lambda>v. (Ok (), SetBalance b v)) m)"
| "model_call lib (StatusCall vid st) m = finished (model_on lib vid (\<lambda>v. (Ok (), SetStatus st v)) m)"
| "model_call lib (SlashCall vid penalty) m = finished (model_on lib vid (Slash lib penalty) m)"
| "model_call lib (CommitCall b) m = (Finished (Ok ()), with_live (spec_commit b) m)"
| "model_call lib (HighestCall slot) m = (Finished (Ok ()), with_live (spec_set_highest slot) m)"
| "model_call lib SlotsCall m = (Slots (aCurrent (bmLive m)) (aHighest (bmLive m)), m)"
| "model_call lib SyncCall m =
     (Synced (Ok \<lparr> IsSyncing = aCurrent (bmLive m) < aHighest (bmLive m), HeadSlot = aHighest (bmLive m),
                   SyncDistance = aHighest (bmLive m) - aCurrent (bmLive m) \<rparr>), m)"
| "model_call lib (DepositCall p) m = (Finished (Ok ()), with_live (spec_add_deposit p) m)"
| "model_call lib (UndepositCall p) m =
     (if aPending (bmLive m) = [] then (Finished (Panic MakeSliceCapOutOfRange), m)
      else (Finished (Ok ()), with_live (spec_remove_deposit p) m))"
| "model_call lib DepositsCall m = (Pending (aPending (bmLive m)), m)"
| "model_call lib (TakeCall n) m =
     (Finished (Ok ()), m\<lparr>bmSaved := (bmSaved m)(n \<mapsto> without_deposits (bmLive m))\<rparr>)"
| "model_call lib (RevertCall n) m =
     (case bmSaved m n of
        None \<Rightarrow> (Finished (Err (Errorf ''snapshot with name [%s] does not exist'' [n])), m)
      | Some saved \<Rightarrow> (Finished (Ok ()), m\<lparr>bmLive := saved\<rparr>))"

definition model_run :: "beacon_lib \<Rightarrow> beacon_call list \<Rightarrow> beacon_model \<Rightarrow> beacon_result list \<times> beacon_model" where
  "model_run lib = run_calls (model_call lib)"

section \<open>A simulation lifts to sessions\<close>

lemma run_calls_simulation:
  assumes step: "\<And>k c s m. k < K \<Longrightarrow> R k s m \<Longrightarrow> fst (f c s) = fst (g c m) \<and> R (Suc k) (snd (f c s)) (snd (g c m))"
    and "R k s m" and "k + length cs \<le> K"
  shows "fst (run_calls f cs s) = fst (run_calls g cs m)
    \<and> R (k + length cs) (snd (run_calls f cs s)) (snd (run_calls g cs m))"
  using assms(2,3)
proof (induction cs arbitrary: k s m)
  case Nil
  then show ?case by simp
next
  case (Cons c cs)
  from Cons.prems have "k < K" by simp
  from step [OF this Cons.prems(1)]
  have one: "fst (f c s) = fst (g c m)" and "R (Suc k) (snd (f c s)) (snd (g c m))" by blast+
  from Cons.IH [OF this(2)] Cons.prems(2) one show ?case by (simp add: split_beta)
qed

end
