(* ===== verification/Beacon_Model_Refine.thy ===== *)
theory Beacon_Model_Refine
  imports Beacon_Model
begin

text \<open>Every call on the mock simulates the call on the model.\<close>

section \<open>Lookups\<close>

lemma position_unique:
  assumes "distinct (map Pubkey vs)" and "i < length vs"
  shows "position (Pubkey (vs ! i)) vs = Some i"
  unfolding position_def
proof (rule find_unique)
  show "\<forall>j\<in>set [0..<length vs]. Pubkey (vs ! j) = Pubkey (vs ! i) \<longrightarrow> j = i"
    using assms nth_eq_iff_index_eq [of "map Pubkey vs"] by fastforce
  show "i \<in> set [0..<length vs]" using assms(2) by simp
qed (rule refl)

lemma position_None: "pk \<notin> Pubkey ` set vs \<Longrightarrow> position pk vs = None"
  unfolding position_def by (auto simp: find_None_iff)

abbreviation live_validators :: "bstate \<Rightarrow> addr list" where
  "live_validators s \<equiv> validators (database_at (snd s) (database (fst s)))"

lemma view_validators [simp]:
  "aValidators (mgr_view s) = map (validator_at (snd s)) (live_validators s)"
  by (simp add: mgr_view_def)

lemma GetValidatorByPubkey_model:
  assumes inv: "db_inv (snd s) (database (fst s))"
  shows "GetValidatorByPubkey (database (fst s)) pk (snd s)
    = map_option ((!) (live_validators s)) (position pk (aValidators (mgr_view s)))"
proof (cases "validatorPubkeyMap (database_at (snd s) (database (fst s))) pk")
  case None
  have "pk \<notin> Pubkey ` set (aValidators (mgr_view s))"
    using None inv lookup_inv_None [of "snd s" "database (fst s)" pk] by (simp add: db_inv_def)
  then show ?thesis using None by (simp add: GetValidatorByPubkey_def position_None)
next
  case (Some a)
  from inv have look: "lookup_inv (snd s) (database (fst s))" and dist: "distinct (live_validators s)"
    by (simp_all add: db_inv_def)
  from Some lookup_invD [OF look] have "a \<in> set (live_validators s)" and pk: "Pubkey (validator_at (snd s) a) = pk"
    by blast+
  then obtain i where i: "i < length (live_validators s)" "live_validators s ! i = a"
    by (auto simp: in_set_conv_nth)
  have "position (Pubkey (aValidators (mgr_view s) ! i)) (aValidators (mgr_view s)) = Some i"
    using lookup_inv_keys [OF look dist] i(1) by (intro position_unique) simp_all
  then show ?thesis using i pk Some by (simp add: GetValidatorByPubkey_def)
qed

lemma GetValidator_model:
  assumes inv: "db_inv (snd s) (database (fst s))" and len: "length (live_validators s) < 2 ^ 64"
  shows "GetValidator lib vid s
    = map_outcome (map_option ((!) (live_validators s))) (model_find lib vid (aValidators (mgr_view s)))"
proof -
  have "GetValidatorByIndex (database (fst s)) (of_nat i) (snd s)
      = (if i < length (live_validators s) then Some (live_validators s ! i) else None)"
    if "ParseUint vid 32 = Inr i" for i
    using ParseUint_bound [OF that] by (intro GetValidatorByIndex_of_nat len) simp
  then show ?thesis
    using GetValidatorByPubkey_model [OF inv]
    by (auto simp: GetValidator_def model_find_def split: sum.split)
qed

lemma model_find_bound: "model_find lib vid vs = Ok (Some i) \<Longrightarrow> i < length vs"
  by (auto simp: model_find_def position_def find_Some_iff split: if_splits sum.splits)

lemma GetValidators_loop_model:
  assumes "db_inv (snd s) (database (fst s))" and "length (live_validators s) < 2 ^ 64"
  shows "map_outcome (map (validator_at (snd s))) (GetValidators_loop lib s ids acc)
    = map_outcome ((@) (map (validator_at (snd s)) acc)) (model_find_all lib ids (aValidators (mgr_view s)))"
proof (induction ids arbitrary: acc)
  case Nil
  then show ?case by simp
next
  case (Cons vid ids)
  note find = GetValidator_model [OF assms, of lib vid]
  show ?case
  proof (cases "model_find lib vid (aValidators (mgr_view s))")
    case (Ok p)
    then show ?thesis
      using Cons find model_find_bound [of lib vid "aValidators (mgr_view s)"]
      by (cases p) (auto simp: outcome.map_comp comp_def)
  qed (use find in simp_all)
qed

lemma Beacon_Validators_model:
  assumes "db_inv (snd s) (database (fst s))" and "length (live_validators s) < 2 ^ 64"
  shows "Beacon_Validators lib st ids s = model_list lib ids (aValidators (mgr_view s))"
proof -
  have "Beacon_Validators lib st ids s
      = map_outcome (map GetValidatorMeta) (map_outcome (map (validator_at (snd s))) (GetValidators lib ids s))"
    by (simp add: Beacon_Validators_def split: outcome.split)
  moreover have "map_outcome (map (validator_at (snd s))) (GetValidators lib ids s)
      = (if ids = [] then Ok (aValidators (mgr_view s)) else model_find_all lib ids (aValidators (mgr_view s)))"
    using GetValidators_loop_model [OF assms, of lib ids "[]"]
    by (simp add: GetValidators_def GetAllValidators_def outcome.map_ident append_Nil [abs_def])
  ultimately show ?thesis by (simp add: model_list_def)
qed

section \<open>Calls\<close>

text \<open>
  The relation between the mock and the model after \<open>k\<close> calls, none of which added more than one
  validator. What is saved has no pending deposits.
\<close>

definition simulates :: "nat \<Rightarrow> bstate \<Rightarrow> beacon_model \<Rightarrow> bool" where
  "simulates k s m \<longleftrightarrow> mgr_inv s \<and> bmLive m = mgr_view s \<and> bmSaved m = mgr_saved s
     \<and> length (live_validators s) \<le> k
     \<and> (\<forall>n v. mgr_saved s n = Some v \<longrightarrow> length (aValidators v) \<le> k \<and> without_deposits v = v)"

lemma simulatesD:
  assumes "simulates k s m"
  shows "mgr_inv s" "bmLive m = mgr_view s" "bmSaved m = mgr_saved s" "length (live_validators s) \<le> k"
    "mgr_saved s n = Some v \<Longrightarrow> length (aValidators v) \<le> k"
    "mgr_saved s n = Some v \<Longrightarrow> without_deposits v = v" "db_inv (snd s) (database (fst s))"
  using assms mgr_invD(4) by (auto simp: simulates_def)

lemma simulates_Suc: "simulates k s m \<Longrightarrow> simulates (Suc k) s m"
  by (auto simp: simulates_def intro: le_SucI)

lemma simulates_live:
  assumes sim: "simulates k s m" and step: "db_step lib (database (fst s)) (snd s) h"
    and view: "abs_db h (database (fst s)) = f (mgr_view s)"
    and len: "length (aValidators (f (mgr_view s))) \<le> Suc k"
  shows "simulates (Suc k) (fst s, h) (with_live f m)"
proof -
  note D = simulatesD [OF sim]
  have "client_step lib s (fst s, h)" by (rule live_step [OF D(1) step])
  from client_step_facts [OF this D(1)] have "mgr_inv (fst s, h)" "mgr_saved (fst s, h) = mgr_saved s" by blast+
  moreover have "length (validators (database_at h (database (fst s)))) \<le> Suc k"
    using len unfolding view [symmetric] by simp
  ultimately show ?thesis
    using D view by (auto simp: simulates_def with_live_def mgr_view_def intro: le_SucI)
qed

lemma on_validator_simulates:
  assumes sim: "simulates k s m" and k: "k < 2 ^ 64"
    and step: "\<And>a. a \<in> set (live_validators s) \<Longrightarrow>
      db_step lib (database (fst s)) (snd s) (put_validator a (snd (f (validator_at (snd s) a))) (snd s))"
  shows "fst (finished (on_validator lib vid f s)) = fst (finished (model_on lib vid f m))
    \<and> simulates (Suc k) (snd (finished (on_validator lib vid f s))) (snd (finished (model_on lib vid f m)))"
proof -
  note D = simulatesD [OF sim]
  have "length (live_validators s) < 2 ^ 64" using D(4) k by simp
  note find = GetValidator_model [OF D(7) this, of lib vid]
  show ?thesis
  proof (cases "model_find lib vid (aValidators (mgr_view s))")
    case (Ok p)
    show ?thesis
    proof (cases p)
      case None
      with Ok find simulates_Suc [OF sim] show ?thesis
        by (simp add: on_validator_def model_on_def D(2) finished_def del: view_validators)
    next
      case (Some i)
      with Ok have i: "i < length (live_validators s)" using model_find_bound by fastforce
      let ?a = "live_validators s ! i"
      let ?h = "put_validator ?a (snd (f (validator_at (snd s) ?a))) (snd s)"
      have "simulates (Suc k) (fst s, ?h) (with_live (spec_update i (\<lambda>v. snd (f v))) m)"
      proof (rule simulates_live [OF sim step])
        show "abs_db ?h (database (fst s)) = spec_update i (\<lambda>v. snd (f v)) (mgr_view s)"
          using put_validator_refines [OF D(7) i, of "\<lambda>v. snd (f v)"] by (simp add: mgr_view_def)
      qed (use i D(4) in \<open>auto simp: spec_update_def intro: le_SucI\<close>)
      then show ?thesis
        using Ok Some find i by (simp add: on_validator_def model_on_def D(2) finished_def split_beta)
    qed
  qed (use find simulates_Suc [OF sim] in
      \<open>simp_all add: on_validator_def model_on_def D(2) finished_def\<close>)
qed

lemma AddCall_simulates:
  assumes sim: "simulates k s m"
  shows "fst (mock_call lib (AddCall pk wc) s) = fst (model_call lib (AddCall pk wc) m)
    \<and> simulates (Suc k) (snd (mock_call lib (AddCall pk wc) s)) (snd (model_call lib (AddCall pk wc) m))"
proof -
  note D = simulatesD [OF sim]
  let ?d = "database (fst s)" and ?h = "snd (AddValidator lib (database (fst s)) pk wc (snd s))"
  note refines = AddValidator_refines [OF D(7), of lib pk wc]
  show ?thesis
  proof (cases "validatorPubkeyMap (database_at (snd s) ?d) pk")
    case (Some a)
    note dup = AddValidator_dup [OF Some, of lib wc]
    from refines have "spec_add lib pk wc (bmLive m) = None" by (simp add: dup D(2) mgr_view_def)
    then show ?thesis using simulates_Suc [OF sim] by (simp add: mgr_AddValidator_def dup split_beta)
  next
    case None
    note new = AddValidator_new [OF None, of lib wc]
    from refines have spec: "spec_add lib pk wc (bmLive m) = Some (abs_db ?h ?d)"
      by (simp add: new D(2) mgr_view_def)
    have "simulates (Suc k) (fst s, ?h) (with_live (\<lambda>_. abs_db ?h ?d) m)"
      using D(4) by (intro simulates_live [OF sim db_step.add_validator]) (simp_all add: new)
    moreover have "validator_at ?h (next_addr (snd s)) = last (aValidators (abs_db ?h ?d))"
      by (simp add: new)
    ultimately show ?thesis
      using spec by (simp add: mgr_AddValidator_def split_beta with_live_def) (simp add: new)
  qed
qed

lemma UndepositCall_simulates:
  assumes sim: "simulates k s m"
  shows "fst (mock_call lib (UndepositCall p) s) = fst (model_call lib (UndepositCall p) m)
    \<and> simulates (Suc k) (snd (mock_call lib (UndepositCall p) s)) (snd (model_call lib (UndepositCall p) m))"
proof -
  note D = simulatesD [OF sim]
  let ?d = "database (fst s)" and ?h = "snd (RemovePendingDeposit (database (fst s)) p (snd s))"
  show ?thesis
  proof (cases "pendingDeposits (database_at (snd s) ?d) = []")
    case True
    then show ?thesis
      using simulates_Suc [OF sim]
      by (simp add: mgr_RemovePendingDeposit_def RemovePendingDeposit_def D(2) mgr_view_def finished_def)
  next
    case False
    have "simulates (Suc k) (fst s, ?h) (with_live (spec_remove_deposit p) m)"
      using D(4) RemovePendingDeposit_refines [OF False]
      by (intro simulates_live [OF sim db_step.remove_pending_deposit])
        (simp_all add: mgr_view_def spec_remove_deposit_def)
    then show ?thesis
      using False by (simp add: mgr_RemovePendingDeposit_def split_beta D(2) mgr_view_def finished_def)
        (simp add: RemovePendingDeposit_def Let_def Suc_le_eq)
  qed
qed

lemma TakeCall_simulates:
  assumes sim: "simulates k s m"
  shows "simulates (Suc k) (TakeSnapshot n s) (snd (model_call lib (TakeCall n) m))"
proof -
  note D = simulatesD [OF sim]
  note take = TakeSnapshot_facts [OF D(1), of n]
  have "length (live_validators (TakeSnapshot n s)) = length (live_validators s)"
    using arg_cong [OF take(2), of "\<lambda>v. length (aValidators v)"] by simp
  then show ?thesis
    using D take by (auto simp: simulates_def without_deposits_def intro: le_SucI split: if_splits)
qed

lemma RevertCall_simulates:
  assumes sim: "simulates k s m"
  shows "fst (mock_call lib (RevertCall n) s) = fst (model_call lib (RevertCall n) m)
    \<and> simulates (Suc k) (snd (mock_call lib (RevertCall n) s)) (snd (model_call lib (RevertCall n) m))"
proof -
  note D = simulatesD [OF sim]
  show ?thesis
  proof (cases "snapshots (fst s) n")
    case None
    then show ?thesis
      using simulates_Suc [OF sim] D(3) by (simp add: RevertToSnapshot_missing finished_def mgr_saved_def)
  next
    case (Some c)
    note revert = RevertToSnapshot_facts [OF D(1) Some]
    from Some have saved: "mgr_saved s n = Some (abs_db (snd s) c)" by (simp add: mgr_saved_def)
    have view: "mgr_view (snd (RevertToSnapshot n s)) = abs_db (snd s) c"
      using revert(3) D(6) [OF saved] by simp
    have "length (live_validators (snd (RevertToSnapshot n s))) \<le> k"
      using arg_cong [OF view, of "\<lambda>v. length (aValidators v)"] D(5) [OF saved] by simp
    then show ?thesis
      using revert view saved D by (auto simp: simulates_def finished_def intro: le_SucI)
  qed
qed

lemma call_simulates:
  assumes k: "k < 2 ^ 64" and sim: "simulates k s m"
  shows "fst (mock_call lib c s) = fst (model_call lib c m)
    \<and> simulates (Suc k) (snd (mock_call lib c s)) (snd (model_call lib c m))"
proof -
  note D = simulatesD [OF sim] and stay = simulates_Suc [OF sim]
  have len: "length (live_validators s) < 2 ^ 64" using D(4) k by simp
  note defs = D(2,3) finished_def mgr_view_def
  show ?thesis
  proof (cases c)
    case (AddCall pk wc)
    then show ?thesis using AddCall_simulates [OF sim] by simp
  next
    case (FindCall vid)
    have "map_outcome (map_option (validator_at (snd s))) (GetValidator lib vid s)
        = map_outcome (map_option ((!) (aValidators (mgr_view s)))) (model_find lib vid (aValidators (mgr_view s)))"
      using GetValidator_model [OF D(7) len, of lib vid] model_find_bound [of lib vid "aValidators (mgr_view s)"]
      by (cases "model_find lib vid (aValidators (mgr_view s))") (auto simp: option.map_comp intro!: option.map_cong)
    with FindCall stay D(2) show ?thesis by (simp add: Let_def)
  next
    case (ListCall ids)
    with stay D(2) show ?thesis using Beacon_Validators_model [OF D(7) len] by simp
  next
    case (BalanceCall vid b)
    then show ?thesis
      using on_validator_simulates [OF sim k, of lib "\<lambda>v. (Ok (), SetBalance b v)"] by (simp add: db_step.set_balance)
  next
    case (StatusCall vid st)
    then show ?thesis
      using on_validator_simulates [OF sim k, of lib "\<lambda>v. (Ok (), SetStatus st v)"] by (simp add: db_step.set_status)
  next
    case (SlashCall vid penalty)
    then show ?thesis
      using on_validator_simulates [OF sim k, of lib "Slash lib penalty"] by (simp add: db_step.slash)
  next
    case (CommitCall b)
    have "simulates (Suc k) (fst s, CommitBlock (database (fst s)) b (snd s)) (with_live (spec_commit b) m)"
      using D(4) by (intro simulates_live [OF sim db_step.commit_block])
        (simp_all add: CommitBlock_refines mgr_view_def spec_commit_def)
    with CommitCall show ?thesis by (simp add: mgr_CommitBlock_def)
  next
    case (HighestCall slot)
    have "simulates (Suc k) (fst s, SetHighestSlot (database (fst s)) slot (snd s)) (with_live (spec_set_highest slot) m)"
      using D(4) by (intro simulates_live [OF sim db_step.set_highest_slot])
        (simp_all add: SetHighestSlot_refines mgr_view_def spec_set_highest_def)
    with HighestCall show ?thesis by (simp add: mgr_SetHighestSlot_def)
  next
    case (DepositCall p)
    have "simulates (Suc k) (fst s, AddPendingDeposit (database (fst s)) p (snd s)) (with_live (spec_add_deposit p) m)"
      using D(4) by (intro simulates_live [OF sim db_step.add_pending_deposit])
        (simp_all add: AddPendingDeposit_refines mgr_view_def spec_add_deposit_def)
    with DepositCall show ?thesis by (simp add: mgr_AddPendingDeposit_def)
  next
    case (UndepositCall p)
    then show ?thesis using UndepositCall_simulates [OF sim] by simp
  next
    case (TakeCall n)
    then show ?thesis using TakeCall_simulates [OF sim] by simp
  next
    case (RevertCall n)
    then show ?thesis using RevertCall_simulates [OF sim] by simp
  qed (use stay in \<open>simp_all add: defs mgr_GetCurrentSlot_def mgr_GetHighestSlot_def GetCurrentSlot_def
      GetHighestSlot_def Node_Syncing_def sync_response_def mgr_GetPendingDeposits_def GetPendingDeposits_def\<close>)
qed

lemma new_simulates: "simulates 0 (NewBeaconMockManager cfg h) (new_model cfg)"
  using NewBeaconMockManager_inv [of cfg h]
  by (auto simp: simulates_def new_model_def mgr_view_def mgr_saved_def abs_db_def NewBeaconMockManager_def
      NewDatabase_def alloc_database_def Let_def)

end
