(* ===== verification/Beacon_Twins.thy ===== *)
theory Beacon_Twins
  imports Beacon_Model_Refine
begin

text \<open>
  Two Beacon mocks with the same view (the same validators, slots and block map, whatever their
  pointers) answer every HTTP request alike and stay alike. So what a snapshot brings back is all
  that a client of the server can ask for.
\<close>

declare view_validators [simp del]

section \<open>Twins\<close>

definition twin :: "nat \<Rightarrow> bstate \<Rightarrow> bstate \<Rightarrow> bool" where
  "twin k s t \<longleftrightarrow> mgr_inv s \<and> mgr_inv t \<and> config (fst s) = config (fst t) \<and> mgr_view s = mgr_view t
     \<and> aPending (mgr_view s) = [] \<and> length (aValidators (mgr_view s)) \<le> k"

lemma twinD:
  assumes "twin k s t"
  shows "mgr_inv s" "mgr_inv t" "config (fst s) = config (fst t)" "mgr_view s = mgr_view t"
    "aPending (mgr_view s) = []" "length (aValidators (mgr_view s)) \<le> k"
    "length (live_validators s) = length (live_validators t)" "length (live_validators s) \<le> k"
    "db_inv (snd s) (database (fst s))" "db_inv (snd t) (database (fst t))"
proof -
  show "mgr_inv s" "mgr_inv t" "config (fst s) = config (fst t)" "mgr_view s = mgr_view t"
    "aPending (mgr_view s) = []" "length (aValidators (mgr_view s)) \<le> k"
    using assms by (auto simp: twin_def)
  then show "length (live_validators s) = length (live_validators t)" "length (live_validators s) \<le> k"
    using arg_cong [of "mgr_view s" "mgr_view t" "\<lambda>v. length (aValidators v)"]
    unfolding view_validators length_map by blast+
  show "db_inv (snd s) (database (fst s))" "db_inv (snd t) (database (fst t))"
    using assms mgr_invD(4) by (simp_all add: twin_def)
qed

lemma twin_Suc: "twin k s t \<Longrightarrow> twin (Suc k) s t"
  by (auto simp: twin_def)

lemma twin_step:
  assumes "twin k s t" and "client_step lib s (fst s, h)" and "client_step lib t (fst t, j)"
    and "mgr_view (fst s, h) = f (mgr_view s)" and "mgr_view (fst t, j) = f (mgr_view t)"
    and "aPending (f (mgr_view s)) = aPending (mgr_view s)"
    and "length (aValidators (f (mgr_view s))) \<le> Suc (length (aValidators (mgr_view s)))"
  shows "twin (Suc k) (fst s, h) (fst t, j)"
proof -
  note D = twinD [OF assms(1)]
  have "mgr_inv (fst s, h)" "mgr_inv (fst t, j)"
    using client_step_facts [OF assms(2) D(1)] client_step_facts [OF assms(3) D(2)] by blast+
  then show ?thesis using D(3-6) assms(4-7) by (simp add: twin_def)
qed

lemma twin_live_step:
  assumes "twin k s t" and "\<And>d h. db_step lib d h (g d h)"
    and "\<And>d h. abs_db (g d h) d = f (abs_db h d)"
    and "aPending (f (mgr_view s)) = aPending (mgr_view s)"
    and "aValidators (f (mgr_view s)) = aValidators (mgr_view s)"
  shows "twin (Suc k) (fst s, g (database (fst s)) (snd s)) (fst t, g (database (fst t)) (snd t))"
proof (rule twin_step [OF assms(1), where f = f and lib = lib])
  show "length (aValidators (f (mgr_view s))) \<le> Suc (length (aValidators (mgr_view s)))"
    by (simp add: assms(5))
qed (use twinD(1,2) [OF assms(1)] assms(2-4) in \<open>simp_all add: live_step mgr_view_def\<close>)

section \<open>Lookups and new validators\<close>

lemma twin_find:
  assumes "twin k s t" and "k < 2 ^ 64"
  obtains (error) e where "GetValidator lib vid s = Err e" "GetValidator lib vid t = Err e"
  | (none) "GetValidator lib vid s = Ok None" "GetValidator lib vid t = Ok None"
  | (found) i where "GetValidator lib vid s = Ok (Some (live_validators s ! i))"
      "GetValidator lib vid t = Ok (Some (live_validators t ! i))" "i < length (live_validators s)"
proof -
  note D = twinD [OF assms(1)]
  have len: "length (live_validators s) < 2 ^ 64" "length (live_validators t) < 2 ^ 64"
    using D(7,8) assms(2) by simp_all
  note find = GetValidator_model [OF D(9) len(1), of lib vid] GetValidator_model [OF D(10) len(2), of lib vid]
  show thesis
  proof (cases "model_find lib vid (aValidators (mgr_view s))")
    case (Ok p)
    show thesis
    proof (cases p)
      case None
      with Ok find show thesis by (intro none) (simp_all add: D(4))
    next
      case (Some i)
      with Ok model_find_bound have "i < length (live_validators s)" by (fastforce simp: view_validators)
      with Ok Some find show thesis by (intro found) (simp_all add: D(4))
    qed
  next
    case (Err e)
    with find show thesis by (intro error) (simp_all add: D(4))
  next
    case (Panic q)
    with find(1) GetValidator_no_panic show thesis by (simp)
  qed
qed

lemma twin_nth:
  assumes "twin k s t" and "i < length (live_validators s)"
  shows "validator_at (snd s) (live_validators s ! i) = validator_at (snd t) (live_validators t ! i)"
proof -
  have "aValidators (mgr_view s) ! i = aValidators (mgr_view t) ! i" using twinD(4) [OF assms(1)] by simp
  then show ?thesis using assms(2) twinD(7) [OF assms(1)] by (simp add: view_validators)
qed

lemma twin_put:
  assumes twin: "twin k s t" and i: "i < length (live_validators s)"
    and step: "\<And>d h a. a \<in> set (validators (database_at h d)) \<Longrightarrow> db_step lib d h (put_validator a (f (validator_at h a)) h)"
  shows "twin (Suc k) (fst s, put_validator (live_validators s ! i) (f (validator_at (snd s) (live_validators s ! i))) (snd s))
    (fst t, put_validator (live_validators t ! i) (f (validator_at (snd t) (live_validators t ! i))) (snd t))"
proof -
  note D = twinD [OF twin]
  have j: "i < length (live_validators t)" using i D(7) by simp
  show ?thesis
    using put_validator_refines [OF D(9) i, of f] put_validator_refines [OF D(10) j, of f] i j
    by (intro twin_step [OF twin, where f = "spec_update i f" and lib = lib] live_step [OF D(1)] live_step [OF D(2)] step)
      (simp_all add: mgr_view_def spec_update_def)
qed

lemma twin_add:
  assumes twin: "twin k s t"
  obtains (error) e where "mgr_AddValidator lib pk wc s = (Err e, s)" "mgr_AddValidator lib pk wc t = (Err e, t)"
  | (added) a s' b t' where "mgr_AddValidator lib pk wc s = (Ok a, s')" "mgr_AddValidator lib pk wc t = (Ok b, t')"
      "validator_at (snd s') a = validator_at (snd t') b" "twin (Suc k) s' t'"
proof -
  note D = twinD [OF twin]
  let ?d = "database (fst s)" and ?e = "database (fst t)"
  have same: "spec_add lib pk wc (abs_db (snd s) ?d) = spec_add lib pk wc (abs_db (snd t) ?e)"
    using D(4) by (simp add: mgr_view_def)
  note refines = AddValidator_refines [OF D(9), of lib pk wc] AddValidator_refines [OF D(10), of lib pk wc]
  show thesis
  proof (cases "validatorPubkeyMap (database_at (snd s) ?d) pk")
    case (Some a)
    note dup = AddValidator_dup [OF Some, of lib wc]
    with same refines have "validatorPubkeyMap (database_at (snd t) ?e) pk \<noteq> None"
      using AddValidator_new [of "snd t" ?e pk lib wc] by (intro notI) simp
    then obtain b where "validatorPubkeyMap (database_at (snd t) ?e) pk = Some b" by auto
    note dup' = AddValidator_dup [OF this, of lib wc]
    show thesis using dup dup' by (intro error) (simp_all add: mgr_AddValidator_def)
  next
    case None
    note new = AddValidator_new [OF None, of lib wc]
    with same refines have none: "validatorPubkeyMap (database_at (snd t) ?e) pk = None"
      using AddValidator_dup [of "snd t" ?e pk _ lib wc] by (cases "validatorPubkeyMap (database_at (snd t) ?e) pk") auto
    note new' = AddValidator_new [OF none, of lib wc]
    let ?h = "snd (AddValidator lib ?d pk wc (snd s))" and ?j = "snd (AddValidator lib ?e pk wc (snd t))"
    have view: "spec_add lib pk wc (abs_db (snd s) ?d) = Some (abs_db ?h ?d)"
      "spec_add lib pk wc (abs_db (snd t) ?e) = Some (abs_db ?j ?e)"
      using refines by (simp_all add: new new')
    have "twin (Suc k) (fst s, ?h) (fst t, ?j)"
    proof (rule twin_step [OF twin, where f = "\<lambda>_. abs_db ?h ?d"])
      show "client_step lib s (fst s, ?h)" "client_step lib t (fst t, ?j)"
        by (rule live_step [OF D(1) db_step.add_validator], rule live_step [OF D(2) db_step.add_validator])
      show "mgr_view (fst t, ?j) = abs_db ?h ?d" using same view by (simp add: mgr_view_def)
    qed (simp_all add: mgr_view_def new)
    moreover have "validator_at ?h (next_addr (snd s)) = validator_at ?j (next_addr (snd t))"
      using D(7) by (simp add: new new')
    ultimately show thesis
      by (intro added [of "next_addr (snd s)" "(fst s, ?h)" "next_addr (snd t)" "(fst t, ?j)"])
        (simp_all add: mgr_AddValidator_def split_beta, simp_all add: new new')
  qed
qed

section \<open>Handlers\<close>

definition answers :: "nat \<Rightarrow> handled \<Rightarrow> handled \<Rightarrow> bool" where
  "answers k x y \<longleftrightarrow> fst x = fst y \<and> fst (snd x) = fst (snd y) \<and> twin (Suc k) (snd (snd x)) (snd (snd y))"

definition alike :: "handler \<Rightarrow> bool" where
  "alike h \<longleftrightarrow> (\<forall>k w r s t. k < 2 ^ 64 \<longrightarrow> twin k s t \<longrightarrow> answers k (h w r s) (h w r t))"

lemma alikeD: "alike h \<Longrightarrow> k < 2 ^ 64 \<Longrightarrow> twin k s t \<Longrightarrow> answers k (h w r s) (h w r t)"
  unfolding alike_def by blast

lemma alikeI: "(\<And>k w r s t. k < 2 ^ 64 \<Longrightarrow> twin k s t \<Longrightarrow> answers k (h w r s) (h w r t)) \<Longrightarrow> alike h"
  by (simp add: alike_def)

named_theorems answers_rules "how twins answer"

lemma answers_simple [answers_rules]:
  "twin k s t \<Longrightarrow> answers k (bad_request slib w e s) (bad_request slib w e t)"
  "twin k s t \<Longrightarrow> answers k (success slib w m s) (success slib w m t)"
  "twin k s t \<Longrightarrow> answers k (r, w, s) (r, w, t)"
  "twin k s t \<Longrightarrow> answers k (respond_or f slib w resp s) (respond_or f slib w resp t)"
  by (auto simp: answers_def bad_request_def success_def respond_or_def twin_Suc split: outcome.split)

lemma answers_changed:
  "twin (Suc k) s t \<Longrightarrow> answers k (success slib w m s) (success slib w m t)"
  by (simp add: answers_def success_def)

lemma answers_cases [answers_rules]:
  "(b \<Longrightarrow> answers k x x') \<Longrightarrow> (\<not> b \<Longrightarrow> answers k y y') \<Longrightarrow> answers k (if b then x else y) (if b then x' else y')"
  "answers k x x' \<Longrightarrow> (\<And>a. answers k (f a) (f' a)) \<Longrightarrow>
    answers k (case o1 of None \<Rightarrow> x | Some a \<Rightarrow> f a) (case o1 of None \<Rightarrow> x' | Some a \<Rightarrow> f' a)"
  "(\<And>e. answers k (g e) (g' e)) \<Longrightarrow> (\<And>a. answers k (f a) (f' a)) \<Longrightarrow>
    answers k (case r1 of Inl e \<Rightarrow> g e | Inr a \<Rightarrow> f a) (case r1 of Inl e \<Rightarrow> g' e | Inr a \<Rightarrow> f' a)"
  by (auto split: option.split sum.split)

lemma answers_head [answers_rules]:
  "twin k s t \<Longrightarrow> (\<And>x. answers k (f x) (g x)) \<Longrightarrow> answers k (with_head xs w s f) (with_head xs w t g)"
  by (cases xs) (auto intro: answers_rules)

lemma answers_found:
  assumes "twin k s t" and "k < 2 ^ 64"
    and "\<And>i. i < length (live_validators s) \<Longrightarrow> answers k (f (live_validators s ! i)) (g (live_validators t ! i))"
  shows "answers k
    (case GetValidator lib vid s of Err err \<Rightarrow> bad_request slib w err s | Panic p \<Rightarrow> (Panic p, w, s)
      | Ok None \<Rightarrow> (Panic NilDereference, w, s) | Ok (Some a) \<Rightarrow> f a)
    (case GetValidator lib vid t of Err err \<Rightarrow> bad_request slib w err t | Panic p \<Rightarrow> (Panic p, w, t)
      | Ok None \<Rightarrow> (Panic NilDereference, w, t) | Ok (Some a) \<Rightarrow> g a)"
  by (rule twin_find [OF assms(1,2), of lib vid]) (simp_all add: answers_simple assms(1,3))

lemma answers_added:
  assumes "twin k s t"
  shows "answers k
    (case mgr_AddValidator lib pk wc s of (Err err, s1) \<Rightarrow> bad_request slib w err s1
      | (Panic p, s1) \<Rightarrow> (Panic p, w, s1)
      | (Ok validator, s1) \<Rightarrow> success slib w (Some (AddValidatorResponse (Index (validator_at (snd s1) validator)))) s1)
    (case mgr_AddValidator lib pk wc t of (Err err, s1) \<Rightarrow> bad_request slib w err s1
      | (Panic p, s1) \<Rightarrow> (Panic p, w, s1)
      | (Ok validator, s1) \<Rightarrow> success slib w (Some (AddValidatorResponse (Index (validator_at (snd s1) validator)))) s1)"
  by (rule twin_add [OF assms, of lib pk wc]) (simp_all add: answers_simple(1) answers_changed assms)

lemma addValidator_alike: "alike (addValidator lib slib)"
  unfolding addValidator_def processApiRequest_no_body Let_def prod.case
  by (intro alikeI answers_rules answers_added) assumption+

lemma commitBlock_alike: "alike (commitBlock slib)"
proof -
  have "twin (Suc k) (mgr_CommitBlock b s) (mgr_CommitBlock b t)" if "twin k s t" for k b s t
    unfolding mgr_CommitBlock_def
    by (rule twin_live_step [OF that db_step.commit_block CommitBlock_refines]) (simp_all add: spec_commit_def)
  then show ?thesis
    unfolding commitBlock_def processApiRequest_no_body Let_def prod.case
    by (intro alikeI answers_changed answers_cases answers_head answers_simple(1))
qed

lemma setHighestSlot_alike: "alike (setHighestSlot slib)"
proof -
  have "twin (Suc k) (mgr_SetHighestSlot b s) (mgr_SetHighestSlot b t)" if "twin k s t" for k b s t
    unfolding mgr_SetHighestSlot_def
    by (rule twin_live_step [OF that db_step.set_highest_slot SetHighestSlot_refines]) (simp_all add: spec_set_highest_def)
  then show ?thesis
    unfolding setHighestSlot_def processApiRequest_no_body Let_def prod.case
    by (intro alikeI answers_changed answers_cases answers_head answers_simple(1))
qed

lemma setBalance_alike: "alike (setBalance lib slib)"
  unfolding setBalance_def processApiRequest_no_body Let_def prod.case
  by (intro alikeI answers_cases answers_head answers_simple(1) answers_found answers_changed
      twin_put [where f = "SetBalance _"] db_step.set_balance)

lemma setStatus_alike: "alike (setStatus lib slib)"
  unfolding setStatus_def processApiRequest_no_body Let_def prod.case
  by (intro alikeI answers_cases answers_head answers_simple(1) answers_found answers_changed
      twin_put [where f = "SetStatus _"] db_step.set_status)

lemma getValidator_alike: "alike (getValidator lib slib)"
  unfolding getValidator_def processApiRequest_no_body Let_def prod.case
proof (intro alikeI answers_cases answers_simple(1) answers_found)
  fix k w s t i
  assume "twin k s t" and "i < length (live_validators s)"
  then show "answers k
      (success slib w (Some (ValidatorResponse (GetValidatorMeta (validator_at (snd s) (live_validators s ! i))))) s)
      (success slib w (Some (ValidatorResponse (GetValidatorMeta (validator_at (snd t) (live_validators t ! i))))) t)"
    by (simp add: twin_nth answers_simple)
qed

lemma config_alike: "alike (getBeaconGenesis slib)" "alike (getConfigSpec slib)" "alike (getDepositContract slib)"
  unfolding getBeaconGenesis_def getConfigSpec_def getDepositContract_def
  by (intro alikeI; simp add: Beacon_Genesis_def Config_Spec_def Config_DepositContract_def twinD(3) answers_simple)+

lemma slash_alike: "alike (slash_handler lib slib)"
  unfolding slash_handler_def processApiRequest_no_body Let_def prod.case
proof (intro alikeI answers_cases answers_head answers_simple(1) answers_found)
  fix k w s t i penalty
  assume twin: "twin k s t" and i: "i < length (live_validators s)"
  let ?a = "live_validators s ! i" and ?b = "live_validators t ! i"
  let ?f = "\<lambda>v. snd (Slash lib (of_nat penalty) v)"
  have "twin (Suc k) (fst s, put_validator ?a (?f (validator_at (snd s) ?a)) (snd s))
      (fst t, put_validator ?b (?f (validator_at (snd t) ?b)) (snd t))"
    by (rule twin_put [OF twin i db_step.slash])
  then show "answers k
      (case Slash lib (of_nat penalty) (validator_at (snd s) ?a) of
         (Err err, v1) \<Rightarrow> bad_request slib w err (fst s, put_validator ?a v1 (snd s))
       | (Panic p, v1) \<Rightarrow> (Panic p, w, (fst s, put_validator ?a v1 (snd s)))
       | (Ok _, v1) \<Rightarrow> success slib w None (fst s, put_validator ?a v1 (snd s)))
      (case Slash lib (of_nat penalty) (validator_at (snd t) ?b) of
         (Err err, v1) \<Rightarrow> bad_request slib w err (fst t, put_validator ?b v1 (snd t))
       | (Panic p, v1) \<Rightarrow> (Panic p, w, (fst t, put_validator ?b v1 (snd t)))
       | (Ok _, v1) \<Rightarrow> success slib w None (fst t, put_validator ?b v1 (snd t)))"
    unfolding twin_nth [OF twin i]
    by (auto simp: answers_def bad_request_def success_def split: prod.split outcome.split)
qed

lemma twin_slots:
  assumes "twin k s t"
  shows "mgr_GetCurrentSlot s = mgr_GetCurrentSlot t" "mgr_GetHighestSlot s = mgr_GetHighestSlot t"
    "mgr_GetPendingDeposits s = []" "mgr_GetPendingDeposits t = []"
proof -
  have "mgr_GetCurrentSlot x = aCurrent (mgr_view x)" "mgr_GetHighestSlot x = aHighest (mgr_view x)"
    "mgr_GetPendingDeposits x = aPending (mgr_view x)" for x
    by (simp_all add: mgr_view_def mgr_GetCurrentSlot_def mgr_GetHighestSlot_def mgr_GetPendingDeposits_def
        GetCurrentSlot_def GetHighestSlot_def GetPendingDeposits_def)
  with twinD(4,5) [OF assms] show "mgr_GetCurrentSlot s = mgr_GetCurrentSlot t"
    "mgr_GetHighestSlot s = mgr_GetHighestSlot t" "mgr_GetPendingDeposits s = []" "mgr_GetPendingDeposits t = []"
    by simp_all
qed

lemma chain_alike: "alike (getSyncStatus slib)" "alike (getFinalityCheckpoints slib)" "alike (getPendingDeposits slib)"
proof -
  have "Node_Syncing s s = Node_Syncing t t" "Beacon_FinalityCheckpoints st s s s = Beacon_FinalityCheckpoints st t t t"
    "Beacon_PendingDeposits st s = Beacon_PendingDeposits st t" if "twin k s t" for k s t st
    using twin_slots [OF that]
    by (simp_all add: Node_Syncing_def Beacon_FinalityCheckpoints_def Beacon_PendingDeposits_def mgr_GetCurrentSlot_def)
  note same = this
  show "alike (getSyncStatus slib)"
    by (rule alikeI) (simp add: getSyncStatus_def same(1) answers_simple)
  show "alike (getFinalityCheckpoints slib)"
    by (rule alikeI) (auto simp: getFinalityCheckpoints_def same(2) answers_simple split: option.split)
  show "alike (getPendingDeposits slib)"
    by (rule alikeI) (auto simp: getPendingDeposits_def same(3) answers_simple split: option.split)
qed

lemma getValidators_alike: "alike (getValidators lib slib)"
proof (rule alikeI)
  fix k w r s t
  assume k: "k < 2 ^ 64" and twin: "twin k s t"
  note D = twinD [OF twin]
  have "Beacon_Validators lib st ids s = Beacon_Validators lib st ids t" for st ids
    using Beacon_Validators_model [OF D(9)] Beacon_Validators_model [OF D(10)] D(4,7,8) k by simp
  then have same: "answers k
      (case Beacon_Validators lib st ids s of Err err \<Rightarrow> bad_request slib w1 err s | Panic p \<Rightarrow> (Panic p, w1, s)
        | Ok response \<Rightarrow> success slib w1 (Some (ValidatorsResponse response)) s)
      (case Beacon_Validators lib st ids t of Err err \<Rightarrow> bad_request slib w1 err t | Panic p \<Rightarrow> (Panic p, w1, t)
        | Ok response \<Rightarrow> success slib w1 (Some (ValidatorsResponse response)) t)" for st ids w1
    by (simp add: answers_simple twin split: outcome.split)
  show "answers k (getValidators lib slib w r s) (getValidators lib slib w r t)"
    unfolding getValidators_def processApiRequest_no_body Let_def prod.case
    by (intro answers_cases answers_simple twin same)
      (auto intro: same simp: answers_simple twin split: prod.split option.split)
qed

section \<open>The server\<close>

lemma get_only_alike: "alike h \<Longrightarrow> alike (get_only h)"
  by (auto simp: alike_def get_only_def answers_simple)

lemma routes_alike: "(t, h) \<in> set (server_routes lib slib) \<Longrightarrow> alike h"
  by (auto simp: server_routes_def registerApiRoutes_def registerAdminRoutes_def
      intro: get_only_alike getValidators_alike getValidator_alike config_alike chain_alike addValidator_alike
        commitBlock_alike setBalance_alike setStatus_alike slash_alike setHighestSlot_alike)

lemma ServeHTTP_alike:
  assumes k: "k < 2 ^ 64" and twin: "twin k s t"
  shows "answers k (ServeHTTP lib slib r s) (ServeHTTP lib slib r t)"
proof -
  have "answers k (dispatch slib routes w r s) (dispatch slib routes w r t)"
    if "\<And>u h. (u, h) \<in> set routes \<Longrightarrow> alike h" for routes w
    using that
  proof (induction routes)
    case Nil
    show ?case by (simp add: answers_simple twin)
  next
    case (Cons x routes)
    obtain u h where x: "x = (u, h)" by (cases x)
    then have "alike h" using Cons.prems [of u h] by simp
    from alikeD [OF this k twin] have "answers k (h w (r\<lparr>Vars := v\<rparr>) s) (h w (r\<lparr>Vars := v\<rparr>) t)" for v .
    with Cons x show ?case by (auto split: option.split)
  qed
  from this [of "server_routes lib slib"] routes_alike show ?thesis unfolding ServeHTTP_def by blast
qed

text \<open>A session of requests, with how each ended and what it wrote.\<close>

definition serve_request ::
  "beacon_lib \<Rightarrow> server_lib \<Rightarrow> Request \<Rightarrow> bstate \<Rightarrow> (unit outcome \<times> ResponseWriter) \<times> bstate" where
  "serve_request lib slib r s = (let (res, w, t) = ServeHTTP lib slib r s in ((res, w), t))"

definition serve_all ::
  "beacon_lib \<Rightarrow> server_lib \<Rightarrow> Request list \<Rightarrow> bstate \<Rightarrow> (unit outcome \<times> ResponseWriter) list \<times> bstate" where
  "serve_all lib slib = run_calls (serve_request lib slib)"

lemma serve_all_twin:
  assumes "twin k s t" and "k + length rs \<le> 2 ^ 64"
  shows "fst (serve_all lib slib rs s) = fst (serve_all lib slib rs t)
    \<and> twin (k + length rs) (snd (serve_all lib slib rs s)) (snd (serve_all lib slib rs t))"
  unfolding serve_all_def
proof (rule run_calls_simulation [where R = twin, OF _ assms])
  fix k r s t
  assume "k < 2 ^ 64" and "twin k s t"
  from ServeHTTP_alike [OF this, of lib slib r]
  show "fst (serve_request lib slib r s) = fst (serve_request lib slib r t)
    \<and> twin (Suc k) (snd (serve_request lib slib r s)) (snd (serve_request lib slib r t))"
    by (simp add: serve_request_def answers_def split_beta)
qed

section \<open>Snapshots\<close>

lemma session_config: "(session_step lib n)\<^sup>*\<^sup>* s t \<Longrightarrow> config (fst t) = config (fst s)"
proof (induction rule: rtranclp_induct)
  case base
  show ?case by simp
next
  case (step t u)
  have "config (fst u) = config (fst t)"
    using step.hyps(2)
    by (cases rule: session_step.cases)
      (auto simp: TakeSnapshot_def RevertToSnapshot_def split_beta SetDatabase_def
        split: option.split elim!: client_step.cases)
  with step.IH show ?case by simp
qed

lemma reverted_twin:
  assumes inv: "mgr_inv s" and pending: "aPending (mgr_view s) = []"
    and run: "(session_step lib n)\<^sup>*\<^sup>* (TakeSnapshot n s) t"
  shows "twin (length (aValidators (mgr_view s))) (snd (RevertToSnapshot n t)) s"
proof -
  from session_revert [OF inv run] have "mgr_inv (snd (RevertToSnapshot n t))"
    "mgr_view (snd (RevertToSnapshot n t)) = without_deposits (mgr_view s)" by blast+
  moreover have "config (fst (snd (RevertToSnapshot n t))) = config (fst s)"
  proof -
    have "config (fst (snd (RevertToSnapshot n t))) = config (fst t)"
      by (simp add: RevertToSnapshot_def split_beta split: option.split)
    also have "\<dots> = config (fst (TakeSnapshot n s))" by (rule session_config [OF run])
    finally show ?thesis by (simp add: TakeSnapshot_def split_beta)
  qed
  moreover have "without_deposits (mgr_view s) = mgr_view s" using pending by (simp add: without_deposits_def)
  ultimately show ?thesis using inv pending by (simp add: twin_def)
qed

end
