(* ===== verification/Beacon_Model_Props.thy ===== *)
theory Beacon_Model_Props
  imports Beacon_Twins Beacon_Samples
begin

text \<open>
  That the Beacon mock and its model without pointers cannot be told apart by calls, nor a mock that
  was reverted and the one the snapshot was taken of by HTTP requests.
\<close>

text \<open>C3: a session of calls on a new mock (validators added, looked up by index or key, listed,
  changed and slashed, blocks committed, deposits added and removed, snapshots taken and reverted
  to, in any order) gives call by call the results, errors and panics of a model that has no
  pointers, keeps validators as a list of values and a snapshot as a copy of it; and it ends in the
  same state.\<close>

theorem mock_equals_model:
  assumes "length calls < 2 ^ 64"
  shows "fst (mock_run lib calls (NewBeaconMockManager cfg h)) = fst (model_run lib calls (new_model cfg))
    \<and> mgr_view (snd (mock_run lib calls (NewBeaconMockManager cfg h)))
        = bmLive (snd (model_run lib calls (new_model cfg)))
    \<and> mgr_saved (snd (mock_run lib calls (NewBeaconMockManager cfg h)))
        = bmSaved (snd (model_run lib calls (new_model cfg)))"
proof -
  have "0 + length calls \<le> 2 ^ 64" using assms by simp
  note run_calls_simulation [where R = simulates and f = "mock_call lib" and g = "model_call lib",
      OF call_simulates new_simulates this]
  then show ?thesis by (auto simp: mock_run_def model_run_def simulates_def)
qed

definition sample_calls :: "beacon_call list" where
  "sample_calls =
     [AddCall (sample_pubkey 7) [1], TakeCall ''a'', BalanceCall ''0'' 5, CommitCall True, SlotsCall,
      RevertCall ''a'', SlotsCall, FindCall ''0'', UndepositCall (Some 3), RevertCall ''b'', BalanceCall ''1'' 5]"

theorem mock_equals_model_witness:
  "fst (mock_run sample_lib sample_calls (NewBeaconMockManager zero_config sample_heap)) =
     [Added (Ok (NewValidator sample_lib (sample_pubkey 7) [1] 0)), Finished (Ok ()), Finished (Ok ()),
      Finished (Ok ()), Slots 1 1, Finished (Ok ()), Slots 0 0,
      Found (Ok (Some (NewValidator sample_lib (sample_pubkey 7) [1] 0))),
      Finished (Panic MakeSliceCapOutOfRange),
      Finished (Err (Errorf ''snapshot with name [%s] does not exist'' [''b''])),
      Finished (Panic NilDereference)]"
proof -
  have parse: "ParseUint ''0'' 32 = Inr 0" "ParseUint ''1'' 32 = Inr 1"
    by (simp_all add: ParseUint_def is_digit_def digit_val_def)
  have find: "model_find sample_lib ''0'' vs = Ok (if vs = [] then None else Some 0)"
    "model_find sample_lib ''1'' vs = Ok (if length vs < 2 then None else Some 1)" for vs
    using parse by (auto simp: model_find_def HasPrefix_def)
  have "fst (model_run sample_lib sample_calls (new_model zero_config)) =
     [Added (Ok (NewValidator sample_lib (sample_pubkey 7) [1] 0)), Finished (Ok ()), Finished (Ok ()),
      Finished (Ok ()), Slots 1 1, Finished (Ok ()), Slots 0 0,
      Found (Ok (Some (NewValidator sample_lib (sample_pubkey 7) [1] 0))),
      Finished (Panic MakeSliceCapOutOfRange),
      Finished (Err (Errorf ''snapshot with name [%s] does not exist'' [''b''])),
      Finished (Panic NilDereference)]"
    by (simp add: model_run_def sample_calls_def new_model_def spec_add_def model_on_def find finished_def
        with_live_def spec_update_def spec_commit_def without_deposits_def Let_def)
  then show ?thesis
    using mock_equals_model [of sample_calls sample_lib zero_config sample_heap]
    by (simp add: sample_calls_def)
qed




end
