(* ===== verification/Go_Effects.thy ===== *)
theory Go_Effects
  imports Osha_Prelude
begin

text \<open>
  Sequencing of calls that change a state and may fail: an operation maps a state to its outcome
  and the state it leaves. An error or a panic ends the sequence with the state reached so far,
  as a Go function that returns early does. \<open>for_each\<close> is the loop over a slice, or over a map in
  the order the runtime chose for it.
\<close>

type_synonym ('s, 'a) op = "'s \<Rightarrow> 'a outcome \<times> 's"

definition return_op :: "'a \<Rightarrow> ('s, 'a) op" where
  "return_op x s = (Ok x, s)"

definition fail_op :: "error \<Rightarrow> ('s, 'a) op" where
  "fail_op e s = (Err e, s)"

definition panic_op :: "panic \<Rightarrow> ('s, 'a) op" where
  "panic_op p s = (Panic p, s)"

definition bind_op :: "('s, 'a) op \<Rightarrow> ('a \<Rightarrow> ('s, 'b) op) \<Rightarrow> ('s, 'b) op" where
  "bind_op m f s =
     (case m s of
        (Ok x, t) \<Rightarrow> f x t
      | (Err e, t) \<Rightarrow> (Err e, t)
      | (Panic p, t) \<Rightarrow> (Panic p, t))"

definition read_op :: "('s \<Rightarrow> 'a) \<Rightarrow> ('s, 'a) op" where
  "read_op f s = (Ok (f s), s)"

definition modify_op :: "('s \<Rightarrow> 's) \<Rightarrow> ('s, unit) op" where
  "modify_op f s = (Ok (), f s)"

text \<open>Going through a pointer, which panics if it is nil.\<close>

definition deref :: "'a option \<Rightarrow> ('s, 'a) op" where
  "deref p = (case p of None \<Rightarrow> panic_op NilDereference | Some x \<Rightarrow> return_op x)"

text \<open>The error of a call, handed on wrapped as \<open>fmt.Errorf(fmt, args..., err)\<close>.\<close>

definition wrap_op :: "string \<Rightarrow> string list \<Rightarrow> ('s, 'a) op \<Rightarrow> ('s, 'a) op" where
  "wrap_op fmt args m s =
     (case m s of (Err e, t) \<Rightarrow> (Err (Wrapf fmt args e), t) | r \<Rightarrow> r)"

definition lift_op :: "error + 'a \<Rightarrow> ('s, 'a) op" where
  "lift_op r = (case r of Inl e \<Rightarrow> fail_op e | Inr x \<Rightarrow> return_op x)"

fun for_each :: "('a \<Rightarrow> ('s, unit) op) \<Rightarrow> 'a list \<Rightarrow> ('s, unit) op" where
  "for_each f [] s = (Ok (), s)"
| "for_each f (x # xs) s = bind_op (f x) (\<lambda>_. for_each f xs) s"

text \<open>A loop that collects one result per iteration.\<close>

fun collect :: "('a \<Rightarrow> ('s, 'b) op) \<Rightarrow> 'a list \<Rightarrow> ('s, 'b list) op" where
  "collect f [] s = (Ok [], s)"
| "collect f (x # xs) s = bind_op (f x) (\<lambda>y. bind_op (collect f xs) (\<lambda>ys. return_op (y # ys))) s"

text \<open>An operation's state if it succeeds.\<close>

definition ok_state :: "('s, 'a) op \<Rightarrow> 's \<Rightarrow> 's option" where
  "ok_state m s = (case m s of (Ok _, t) \<Rightarrow> Some t | _ \<Rightarrow> None)"

section \<open>Evaluation\<close>

lemma op_simps [simp]:
  "return_op x s = (Ok x, s)" "fail_op e s = (Err e, s)" "panic_op p s = (Panic p, s)"
  "read_op f s = (Ok (f s), s)" "modify_op g s = (Ok (), g s)"
  "deref None = panic_op NilDereference" "deref (Some x) = return_op x"
  "lift_op (Inl e) = fail_op e" "lift_op (Inr x) = return_op x"
  by (simp_all add: return_op_def fail_op_def panic_op_def read_op_def modify_op_def deref_def
      lift_op_def)

lemma bind_op_simps [simp]:
  "m s = (Ok x, t) \<Longrightarrow> bind_op m f s = f x t"
  "m s = (Err e, t) \<Longrightarrow> bind_op m f s = (Err e, t)"
  "m s = (Panic p, t) \<Longrightarrow> bind_op m f s = (Panic p, t)"
  by (simp_all add: bind_op_def)

lemma wrap_op_simps [simp]:
  "m s = (Ok x, t) \<Longrightarrow> wrap_op fmt args m s = (Ok x, t)"
  "m s = (Err e, t) \<Longrightarrow> wrap_op fmt args m s = (Err (Wrapf fmt args e), t)"
  "m s = (Panic p, t) \<Longrightarrow> wrap_op fmt args m s = (Panic p, t)"
  by (simp_all add: wrap_op_def)

lemma bind_op_Ok:
  "bind_op m f s = (Ok y, u) \<longleftrightarrow> (\<exists>x t. m s = (Ok x, t) \<and> f x t = (Ok y, u))"
  by (auto simp: bind_op_def split: prod.splits outcome.splits)

lemma wrap_op_Ok [simp]: "wrap_op fmt args m s = (Ok y, u) \<longleftrightarrow> m s = (Ok y, u)"
  by (auto simp: wrap_op_def split: prod.splits outcome.splits)

lemma deref_Ok [simp]: "deref p s = (Ok x, t) \<longleftrightarrow> p = Some x \<and> t = s"
  by (cases p) auto

lemma lift_op_Ok [simp]: "lift_op r s = (Ok x, t) \<longleftrightarrow> r = Inr x \<and> t = s"
  by (cases r) auto

section \<open>What an operation keeps\<close>

text \<open>
  \<open>keeps R m\<close>: from any state \<open>m\<close> ends, however it ends, in a state related to it by \<open>R\<close>. For a
  reflexive and transitive \<open>R\<close> sequencing and loops keep it; an invariant is the relation
  \<open>\<lambda>s t. I s \<longrightarrow> I t\<close>.
\<close>

definition keeps :: "('s \<Rightarrow> 's \<Rightarrow> bool) \<Rightarrow> ('s, 'a) op \<Rightarrow> bool" where
  "keeps R m \<longleftrightarrow> (\<forall>s. R s (snd (m s)))"

definition preorder_rel :: "('s \<Rightarrow> 's \<Rightarrow> bool) \<Rightarrow> bool" where
  "preorder_rel R \<longleftrightarrow> reflp R \<and> transp R"

lemma preorder_implies: "preorder_rel (\<lambda>s t. I s \<longrightarrow> I t)"
  by (auto simp: preorder_rel_def reflp_def transp_def)

lemma preorder_eq_on: "preorder_rel (\<lambda>s t. f t = f s)"
  by (auto simp: preorder_rel_def reflp_def transp_def)

lemma keepsD: "keeps R m \<Longrightarrow> m s = (r, t) \<Longrightarrow> R s t"
  by (auto simp: keeps_def dest: spec [of _ s])

lemma keeps_snd: "keeps R m \<Longrightarrow> R s (snd (m s))"
  by (simp add: keeps_def)

named_theorems keeps_rules \<open>what the operations keep\<close>

lemma keeps_basic [keeps_rules]:
  assumes "preorder_rel R"
  shows "keeps R (return_op x)" "keeps R (fail_op e)" "keeps R (panic_op p)" "keeps R (read_op f)"
    "keeps R (deref q)" "keeps R (lift_op r)"
proof -
  have refl: "R s s" for s using assms by (simp add: preorder_rel_def reflp_def)
  show "keeps R (return_op x)" "keeps R (fail_op e)" "keeps R (panic_op p)" "keeps R (read_op f)"
    by (simp_all add: keeps_def refl)
  show "keeps R (deref q)" by (cases q) (simp_all add: keeps_def refl)
  show "keeps R (lift_op r)" by (cases r) (simp_all add: keeps_def refl)
qed

lemma keeps_modify: "(\<And>s. R s (g s)) \<Longrightarrow> keeps R (modify_op g)"
  by (simp add: keeps_def)

lemma keeps_bind [keeps_rules]:
  assumes R: "preorder_rel R" and "keeps R m" and "\<And>x. keeps R (f x)"
  shows "keeps R (bind_op m f)"
  unfolding keeps_def
proof
  fix s
  obtain r t where m: "m s = (r, t)" by (cases "m s")
  have st: "R s t" using keepsD [OF assms(2) m] .
  show "R s (snd (bind_op m f s))"
  proof (cases r)
    case (Ok x)
    have "R t (snd (f x t))" using assms(3) by (simp add: keeps_def)
    with R st m Ok show ?thesis by (simp add: preorder_rel_def) (blast dest: transpD)
  qed (use m st in simp_all)
qed

lemma snd_wrap_op [simp]: "snd (wrap_op fmt args m s) = snd (m s)"
  by (auto simp: wrap_op_def split: prod.splits outcome.splits)

lemma keeps_wrap [keeps_rules]: "keeps R m \<Longrightarrow> keeps R (wrap_op fmt args m)"
  by (simp add: keeps_def)

lemma keeps_for_each_on:
  assumes "preorder_rel R" and "\<And>x. x \<in> set xs \<Longrightarrow> keeps R (f x)"
  shows "keeps R (for_each f xs)"
  using assms(2)
proof (induction xs)
  case Nil
  then show ?case using assms(1) by (simp add: keeps_def preorder_rel_def reflp_def)
next
  case (Cons x xs)
  have "for_each f (x # xs) = bind_op (f x) (\<lambda>_. for_each f xs)" by (rule ext) simp
  then show ?case using keeps_bind [OF assms(1), of "f x" "\<lambda>_. for_each f xs"] Cons by simp
qed

lemma keeps_for_each [keeps_rules]:
  "preorder_rel R \<Longrightarrow> (\<And>x. keeps R (f x)) \<Longrightarrow> keeps R (for_each f xs)"
  by (rule keeps_for_each_on)

lemma keeps_collect [keeps_rules]:
  assumes "preorder_rel R" and "\<And>x. keeps R (f x)"
  shows "keeps R (collect f xs)"
proof (induction xs)
  case Nil
  then show ?case using assms(1) by (simp add: keeps_def preorder_rel_def reflp_def)
next
  case (Cons x xs)
  have "collect f (x # xs) = bind_op (f x) (\<lambda>y. bind_op (collect f xs) (\<lambda>ys. return_op (y # ys)))"
    by (rule ext) simp
  then show ?case
    using keeps_bind [OF assms(1) assms(2) keeps_bind [OF assms(1) Cons keeps_basic(1) [OF assms(1)]]]
    by simp
qed

lemma keeps_if [keeps_rules]: "keeps R m \<Longrightarrow> keeps R n \<Longrightarrow> keeps R (if b then m else n)"
  by simp

lemma for_each_append:
  "for_each f (xs @ ys) s = bind_op (for_each f xs) (\<lambda>_. for_each f ys) s"
proof (induction xs arbitrary: s)
  case Nil
  then show ?case by (simp add: bind_op_def)
next
  case (Cons x xs)
  then show ?case by (auto simp: bind_op_def split: prod.splits outcome.splits)
qed

text \<open>
  The loop over a slice without repetitions, with an assertion that speaks of the elements done so
  far: one rule for a loop that is known to have succeeded, one that shows it does.
\<close>

lemma for_each_inv:
  assumes "for_each f xs s = (Ok (), t)" and "distinct xs" and "P {} s"
    and step: "\<And>A x s s'. x \<in> set xs \<Longrightarrow> x \<notin> A \<Longrightarrow> A \<subseteq> set xs \<Longrightarrow> P A s \<Longrightarrow> f x s = (Ok (), s')
      \<Longrightarrow> P (insert x A) s'"
  shows "P (set xs) t"
proof -
  have "P (A \<union> set ys) t"
    if "for_each f ys s = (Ok (), t)" "distinct ys" "set ys \<inter> A = {}" "A \<union> set ys \<subseteq> set xs" "P A s"
    for A ys s
    using that
  proof (induction ys arbitrary: A s)
    case Nil
    then show ?case by simp
  next
    case (Cons y ys)
    from Cons.prems(1) obtain u where one: "f y s = (Ok (), u)" and rest: "for_each f ys u = (Ok (), t)"
      by (auto simp: bind_op_Ok)
    have "P (insert y A) u" using Cons.prems one by (intro step) auto
    then have "P (insert y A \<union> set ys) t" using Cons.prems rest by (intro Cons.IH) auto
    then show ?case by simp
  qed
  from this [of xs s "{}"] assms(1-3) show ?thesis by simp
qed

lemma for_each_total:
  assumes "distinct xs" and "P {} s"
    and step: "\<And>A x s. x \<in> set xs \<Longrightarrow> x \<notin> A \<Longrightarrow> A \<subseteq> set xs \<Longrightarrow> P A s
      \<Longrightarrow> \<exists>s'. f x s = (Ok (), s') \<and> P (insert x A) s'"
  shows "\<exists>t. for_each f xs s = (Ok (), t) \<and> P (set xs) t"
proof -
  have "\<exists>t. for_each f ys s = (Ok (), t) \<and> P (A \<union> set ys) t"
    if "distinct ys" "set ys \<inter> A = {}" "A \<union> set ys \<subseteq> set xs" "P A s" for A ys s
    using that
  proof (induction ys arbitrary: A s)
    case Nil
    then show ?case by simp
  next
    case (Cons y ys)
    have "\<exists>u. f y s = (Ok (), u) \<and> P (insert y A) u" using Cons.prems by (intro step) auto
    then obtain u where one: "f y s = (Ok (), u)" and "P (insert y A) u" by blast
    then have "\<exists>t. for_each f ys u = (Ok (), t) \<and> P (insert y A \<union> set ys) t"
      using Cons.prems by (intro Cons.IH) auto
    with one show ?case by simp
  qed
  from this [of xs "{}" s] assms(1,2) show ?thesis by simp
qed

text \<open>A loop whose every iteration succeeds is the fold of the iterations' effects.\<close>

lemma for_each_modify: "for_each (\<lambda>x. modify_op (g x)) xs s = (Ok (), fold g xs s)"
  by (induction xs arbitrary: s) simp_all

section \<open>Operations that succeed\<close>

text \<open>
  From every state of a kind the operation succeeds, stays within the kind, and what it returns.
\<close>

definition gives :: "('s \<Rightarrow> bool) \<Rightarrow> ('s, 'a) op \<Rightarrow> ('a \<Rightarrow> bool) \<Rightarrow> bool" where
  "gives P f Q \<longleftrightarrow> (\<forall>s. P s \<longrightarrow> (\<exists>x t. f s = (Ok x, t) \<and> P t \<and> Q x))"

named_theorems gives_rules "operations that succeed"

lemma givesD: "gives P f Q \<Longrightarrow> P s \<Longrightarrow> \<exists>x t. f s = (Ok x, t) \<and> P t \<and> Q x"
  by (simp add: gives_def)

lemma gives_bind:
  assumes "gives P f Q" and "\<And>x. Q x \<Longrightarrow> gives P (g x) R"
  shows "gives P (bind_op f g) R"
  unfolding gives_def
proof (intro allI impI)
  fix s
  assume "P s"
  with assms(1) obtain x t where x: "f s = (Ok x, t)" "P t" "Q x" by (auto simp: gives_def)
  from assms(2) [OF x(3)] x(2) obtain y u where "g x t = (Ok y, u)" "P u" "R y" unfolding gives_def by blast
  with x(1) show "\<exists>x t. bind_op f g s = (Ok x, t) \<and> P t \<and> R x" by simp
qed

abbreviation any :: "'a \<Rightarrow> bool" where
  "any \<equiv> \<lambda>_. True"

lemma gives_bind_any [gives_rules]:
  "gives P f any \<Longrightarrow> (\<And>x. gives P (g x) R) \<Longrightarrow> gives P (bind_op f g) R"
  by (rule gives_bind) auto

lemma gives_simple [gives_rules]:
  "gives P (return_op x) any" "p \<noteq> None \<Longrightarrow> gives P (deref p) any"
  "(\<exists>x. r = Inr x) \<Longrightarrow> gives P (lift_op r) any" "gives P f any \<Longrightarrow> gives P (wrap_op fmt as f) any"
  by (fastforce simp: gives_def)+

lemma gives_if [gives_rules]:
  "(b \<Longrightarrow> gives P f Q) \<Longrightarrow> (\<not> b \<Longrightarrow> gives P g Q) \<Longrightarrow> gives P (if b then f else g) Q"
  by simp

lemma gives_collect:
  "(\<And>x. x \<in> set xs \<Longrightarrow> gives P (f x) any) \<Longrightarrow> gives P (collect f xs) any"
proof (induction xs)
  case Nil
  then show ?case by (simp add: gives_def)
next
  case (Cons x xs)
  have "gives P (bind_op (f x) (\<lambda>y. bind_op (collect f xs) (\<lambda>ys. return_op (y # ys)))) any"
    by (intro gives_rules Cons) simp_all
  then show ?case by (simp add: gives_def)
qed

end
