(* ===== verification/Beacon_Fixture.thy ===== *)
theory Beacon_Fixture
  imports Beacon_Database_Refine Beacon_Config Go_Effects
begin

text \<open>
  \<open>beacon/internal/test/utils.go\<close> and \<open>beacon/internal/db/provision.go\<close>: the constants and the
  database the tests of the Beacon mock start from. \<open>t.Fatalf\<close> and a failed \<open>require\<close> end the test,
  so both are errors here. \<open>creds\<close> is \<open>validator.GetWithdrawalCredsFromAddress\<close>.
\<close>

section \<open>The constants\<close>

definition Pubkey0String :: string where
  "Pubkey0String = ''0xbeac0900bbbbbbbbbbbbbbbbbbbbbbbbbbbbbbbbbbbbbbbbbbbbbbbbbbbbbbbbbbbbbbbbbbbbbbbbbbbbbbbbbbbbbbbb''"

definition Pubkey1String :: string where
  "Pubkey1String = ''0xbeac0901bbbbbbbbbbbbbbbbbbbbbbbbbbbbbbbbbbbbbbbbbbbbbbbbbbbbbbbbbbbbbbbbbbbbbbbbbbbbbbbbbbbbbbbb''"

definition Pubkey2String :: string where
  "Pubkey2String = ''0xbeac0902bbbbbbbbbbbbbbbbbbbbbbbbbbbbbbbbbbbbbbbbbbbbbbbbbbbbbbbbbbbbbbbbbbbbbbbbbbbbbbbbbbbbbbbb''"

definition WithdrawalCredentialsString :: string where
  "WithdrawalCredentialsString = ''0xc12ed5eeeeeeeeeeeeeeeeeeeeeeeeeeeeeeeeee''"

section \<open>The database\<close>

definition require_op :: "string \<Rightarrow> ('s \<Rightarrow> bool) \<Rightarrow> ('s, unit) op" where
  "require_op what p =
     bind_op (read_op p) (\<lambda>b. if b then return_op () else fail_op (External what))"

definition parse_pubkey :: "beacon_lib \<Rightarrow> string \<Rightarrow> (heap, ValidatorPubkey) op" where
  "parse_pubkey lib s =
     wrap_op ''Error parsing pubkey [%s]: %v'' [s] (lift_op (HexToValidatorPubkey lib s))"

definition new_database_op :: "u64 \<Rightarrow> (heap, addr) op" where
  "new_database_op firstBlock h = (let (d, h1) = NewDatabase firstBlock h in (Ok d, h1))"

text \<open>The message of the third \<open>AddValidator\<close> names the second key, as the source does.\<close>

definition ProvisionDatabaseForTesting ::
  "beacon_lib \<Rightarrow> config_lib \<Rightarrow> (Address \<Rightarrow> Hash) \<Rightarrow> (heap, addr) op" where
  "ProvisionDatabaseForTesting lib clib creds =
     bind_op (parse_pubkey lib Pubkey0String) (\<lambda>pubkey0.
     bind_op (parse_pubkey lib Pubkey1String) (\<lambda>pubkey1.
     bind_op (parse_pubkey lib Pubkey2String) (\<lambda>pubkey2.
     let withdrawalCredsAddress = HexToAddress clib WithdrawalCredentialsString;
         withdrawalCreds = creds withdrawalCredsAddress
     in
     bind_op (new_database_op 0) (\<lambda>d.
     bind_op (wrap_op ''Error adding validator [%s]: %v'' [HexWithPrefix lib pubkey0]
                (AddValidator lib d pubkey0 withdrawalCreds)) (\<lambda>v0.
     bind_op (wrap_op ''Error adding validator [%s]: %v'' [HexWithPrefix lib pubkey1]
                (AddValidator lib d pubkey1 withdrawalCreds)) (\<lambda>v1.
     bind_op (wrap_op ''Error adding validator [%s]: %v'' [HexWithPrefix lib pubkey1]
                (AddValidator lib d pubkey2 withdrawalCreds)) (\<lambda>v2.
     bind_op (require_op ''Same'' (\<lambda>h. GetValidatorByIndex d 0 h = Some v0)) (\<lambda>_.
     bind_op (require_op ''Same'' (\<lambda>h. GetValidatorByIndex d 1 h = Some v1)) (\<lambda>_.
     bind_op (require_op ''Same'' (\<lambda>h. GetValidatorByIndex d 2 h = Some v2)) (\<lambda>_.
     bind_op (require_op ''NotSame'' (\<lambda>h. v0 \<noteq> v1)) (\<lambda>_.
     bind_op (require_op ''NotSame'' (\<lambda>h. v1 \<noteq> v2)) (\<lambda>_.
     return_op d))))))))))))"

section \<open>What it builds\<close>

text \<open>The database as a value: validators 0, 1 and 2, with nothing pending and no blocks.\<close>

definition fixture_adb :: "beacon_lib \<Rightarrow> Hash \<Rightarrow> ValidatorPubkey list \<Rightarrow> adb" where
  "fixture_adb lib wc pks =
     \<lparr> aValidators = map (\<lambda>i. NewValidator lib (pks ! i) wc (of_nat i)) [0..<length pks],
       aPending = [], aBlocks = Map.empty, aCurrent = 0, aHighest = 0, aNext = 0 \<rparr>"

lemma require_op_eq [simp]:
  "require_op what p s = (if p s then (Ok (), s) else (Err (External what), s))"
  by (simp add: require_op_def bind_op_def)

lemma parse_pubkey_Inr [simp]:
  "HexToValidatorPubkey lib s = Inr pk \<Longrightarrow> parse_pubkey lib s h = (Ok pk, h)"
  by (simp add: parse_pubkey_def)

lemma ProvisionDatabaseForTesting_Ok:
  assumes keys: "HexToValidatorPubkey lib Pubkey0String = Inr pk0"
      "HexToValidatorPubkey lib Pubkey1String = Inr pk1"
      "HexToValidatorPubkey lib Pubkey2String = Inr pk2"
    and distinct: "distinct [pk0, pk1, pk2]"
  obtains h' where "ProvisionDatabaseForTesting lib clib creds h = (Ok (next_addr h), h')"
    and "db_inv h' (next_addr h)"
    and "abs_db h' (next_addr h) =
      fixture_adb lib (creds (HexToAddress clib WithdrawalCredentialsString)) [pk0, pk1, pk2]"
proof -
  let ?d = "next_addr h" and ?wc = "creds (HexToAddress clib WithdrawalCredentialsString)"
  define h0 where "h0 = snd (NewDatabase 0 h)"
  define h1 where "h1 = snd (AddValidator lib ?d pk0 ?wc h0)"
  define h2 where "h2 = snd (AddValidator lib ?d pk1 ?wc h1)"
  define h3 where "h3 = snd (AddValidator lib ?d pk2 ?wc h2)"
  note heaps = h0_def h1_def h2_def h3_def NewDatabase_def AddValidator_new
  have neq: "pk0 \<noteq> pk1" "pk1 \<noteq> pk0" "pk0 \<noteq> pk2" "pk2 \<noteq> pk0" "pk1 \<noteq> pk2" "pk2 \<noteq> pk1"
    using distinct by auto
  have new: "new_database_op 0 h = (Ok ?d, h0)"
    by (simp add: new_database_op_def heaps split_beta)
  have add0: "AddValidator lib ?d pk0 ?wc h0 = (Ok (?d + 1), h1)"
    by (simp add: heaps)
  have add1: "AddValidator lib ?d pk1 ?wc h1 = (Ok (?d + 2), h2)"
    by (simp add: neq heaps)
  have add2: "AddValidator lib ?d pk2 ?wc h2 = (Ok (?d + 3), h3)"
    by (simp add: neq heaps)
  have look: "GetValidatorByIndex ?d 0 h3 = Some (?d + 1)"
    "GetValidatorByIndex ?d 1 h3 = Some (?d + 2)" "GetValidatorByIndex ?d 2 h3 = Some (?d + 3)"
    by (simp_all add: word_le_nat_alt neq GetValidatorByIndex_def heaps Let_def)
  have run: "ProvisionDatabaseForTesting lib clib creds h = (Ok ?d, h3)"
    by (simp add: ProvisionDatabaseForTesting_def Let_def keys new add0 add1 add2 look)
  have inv: "db_inv h3 ?d"
    unfolding h3_def h2_def h1_def h0_def
    by (intro AddValidator_inv NewDatabase_inv) (simp add: NewDatabase_def split_beta prod_eq_iff)
  have "abs_db h3 ?d = fixture_adb lib ?wc [pk0, pk1, pk2]"
    by (simp add: neq abs_db_def fixture_adb_def heaps Let_def upt_rec)
  with run inv show thesis by (rule that)
qed

text \<open>
  \<open>TestDatabaseClone\<close>: the clone of the provisioned database is another object with equal
  contents. It holds because the fixture has no pending deposits, which a clone drops.
\<close>

lemma fixture_clone_equal:
  assumes "HexToValidatorPubkey lib Pubkey0String = Inr pk0"
      "HexToValidatorPubkey lib Pubkey1String = Inr pk1"
      "HexToValidatorPubkey lib Pubkey2String = Inr pk2"
    and "distinct [pk0, pk1, pk2]"
    and run: "ProvisionDatabaseForTesting lib clib creds h = (Ok d, h')"
    and clone: "Clone d h' = (c, h'')"
  shows "c \<noteq> d" and "abs_db h'' c = abs_db h'' d" and "separate h'' c d"
proof -
  obtain g where g: "ProvisionDatabaseForTesting lib clib creds h = (Ok (next_addr h), g)"
      "db_inv g (next_addr h)" "abs_db g (next_addr h) =
        fixture_adb lib (creds (HexToAddress clib WithdrawalCredentialsString)) [pk0, pk1, pk2]"
    by (rule ProvisionDatabaseForTesting_Ok [OF assms(1-4), of clib creds h])
  from g(1) run have dh: "d = next_addr h" "h' = g" by simp_all
  from g(2) have inv: "db_inv h' d" by (simp only: dh)
  have pending: "aPending (abs_db h' d) = []"
    unfolding dh g(3) by (simp only: fixture_adb_def adb.simps)
  show "separate h'' c d" by (rule Clone_separate [OF inv clone inv])
  then show "c \<noteq> d" by (simp add: separate_def)
  have "abs_db h'' d = abs_db h' d"
    using Clone_untouched [OF inv clone inv] inv by (auto intro: untouched_abs)
  moreover have "abs_db h'' c = without_deposits (abs_db h' d)" by (rule Clone_refines [OF inv clone])
  moreover have "without_deposits (abs_db h' d) = abs_db h' d"
    using pending by (cases "abs_db h' d") (simp add: without_deposits_def)
  ultimately show "abs_db h'' c = abs_db h'' d" by simp
qed

end
