(* ===== verification/Beacon_Routes.thy ===== *)
theory Beacon_Routes
  imports Beacon_Server_Facts
begin

text \<open>
  \<open>beacon/api/routes.go\<close>: the templates from which clients make paths, and the routes under which
  the server answers them. What the theorems need of \<open>gorilla/mux\<close> is the documented matching of a
  template without patterns: a variable stands for one segment of the path, everything else for
  itself.
\<close>

section \<open>Templates\<close>

definition ValidatorsRouteTemplate :: string where
  "ValidatorsRouteTemplate = ''v1/beacon/states/%s/validators''"
definition ValidatorRouteTemplate :: string where
  "ValidatorRouteTemplate = ''v1/beacon/states/%s/validators/%s''"
definition PendingDepositsRouteTemplate :: string where
  "PendingDepositsRouteTemplate = ''v1/beacon/states/%s/pending_deposits''"

text \<open>\<open>fmt.Sprintf\<close> for a format whose only verb is \<open>%s\<close>.\<close>

fun Sprintf_s :: "string \<Rightarrow> string list \<Rightarrow> string" where
  "Sprintf_s [] [] = []"
| "Sprintf_s [] (a # as) =
     ''%!(EXTRA '' @ Join (map (\<lambda>x. ''string='' @ x) (a # as)) '', '' @ '')''"
| "Sprintf_s (c # cs) as =
     (if c = CHR ''%'' \<and> HasPrefix cs ''s''
      then (case as of [] \<Rightarrow> ''%!s(MISSING)'' | a # _ \<Rightarrow> a) @ Sprintf_s (tl cs) (tl as)
      else c # Sprintf_s cs as)"

section \<open>Matching by segments\<close>

definition is_var :: "string \<Rightarrow> bool" where
  "is_var t \<longleftrightarrow> t \<noteq> [] \<and> hd t = CHR ''{'' \<and> last t = CHR ''}''"

definition var_name :: "string \<Rightarrow> string" where
  "var_name t = butlast (tl t)"

fun bind_segments :: "string list \<Rightarrow> string list \<Rightarrow> (string \<rightharpoonup> string) option" where
  "bind_segments [] [] = Some Map.empty"
| "bind_segments (t # ts) (p # ps) =
     (if is_var t
      then (if p = [] then None else map_option (\<lambda>vars. vars(var_name t \<mapsto> p)) (bind_segments ts ps))
      else if t = p then bind_segments ts ps else None)"
| "bind_segments _ _ = None"

definition match_segments :: "string \<Rightarrow> string \<Rightarrow> (string \<rightharpoonup> string) option" where
  "match_segments t p = bind_segments (Split t CHR ''/'') (Split p CHR ''/'')"

text \<open>What the router is documented to do with the templates of the table.\<close>

definition segment_router :: "beacon_lib \<Rightarrow> server_lib \<Rightarrow> bool" where
  "segment_router lib slib \<longleftrightarrow>
     (\<forall>t \<in> set (map fst (server_routes lib slib)). \<forall>p. mux_match slib t p = match_segments t p)"

text \<open>A segment that a URL can hold as it is and that the router does not clean away.\<close>

definition plain_segment :: "string \<Rightarrow> bool" where
  "plain_segment x \<longleftrightarrow> x \<notin> {[], ''.'', ''..''} \<and> set x \<inter> {CHR ''/'', CHR ''%'', CHR ''?'', CHR ''#''} = {}"

section \<open>Two templates no path matches both of\<close>

fun clash :: "string list \<Rightarrow> string list \<Rightarrow> bool" where
  "clash [] [] = False"
| "clash (t # ts) (u # us) = (\<not> is_var t \<and> \<not> is_var u \<and> t \<noteq> u \<or> clash ts us)"
| "clash _ _ = True"

lemma clash_exclusive: "clash ts us \<Longrightarrow> bind_segments ts ps = Some v \<Longrightarrow> bind_segments us ps = None"
proof (induction ts us arbitrary: ps v rule: clash.induct)
  case (2 t ts u us)
  then show ?case by (cases ps) (auto split: if_splits)
qed (auto elim: bind_segments.elims)

lemma clash_sym: "clash ts us = clash us ts"
  by (induction ts us rule: clash.induct) auto

lemma server_routes_clash:
  "sorted_wrt (\<lambda>x y. clash (Split (fst x) CHR ''/'') (Split (fst y) CHR ''/'')) (server_routes lib slib)"
  by (simp add: server_routes_def registerApiRoutes_def registerAdminRoutes_def
      ValidatorsRoute_def ValidatorRoute_def SyncingRoute_def
      DepositContractRoute_def BeaconGenesisRoute_def ConfigSpecRoute_def
      FinalityCheckpointsRoute_def PendingDepositsRoute_def AddValidatorRoute_def
      CommitBlockRoute_def SetBalanceRoute_def SetStatusRoute_def SetHighestSlotRoute_def SlashRoute_def
      is_var_def)

lemma server_routes_exclusive:
  assumes "(t, h) \<in> set (server_routes lib slib)" and "(u, g) \<in> set (server_routes lib slib)"
    and "(t, h) \<noteq> (u, g)"
  shows "clash (Split t CHR ''/'') (Split u CHR ''/'')"
proof -
  have "\<lbrakk>sorted_wrt (\<lambda>x y. clash (Split (fst x) CHR ''/'') (Split (fst y) CHR ''/'')) xs;
      (t, h) \<in> set xs; (u, g) \<in> set xs\<rbrakk> \<Longrightarrow> clash (Split t CHR ''/'') (Split u CHR ''/'')" for xs :: "(string \<times> handler) list"
    using assms(3) by (induction xs) (auto simp: clash_sym)
  from this [OF server_routes_clash assms(1,2)] show ?thesis .
qed

text \<open>So at most one route answers a path, and it does not matter which is tried first.\<close>

lemma dispatch_unique:
  assumes "segment_router lib slib" and "set routes \<subseteq> set (server_routes lib slib)"
    and "(t, h) \<in> set routes" and "match_segments t (Path r) = Some vars"
  shows "dispatch slib routes w r s = h w (r\<lparr>Vars := vars\<rparr>) s"
  using assms(2,3)
proof (induction routes)
  case Nil
  then show ?case by simp
next
  case (Cons x routes)
  obtain u g where x: "x = (u, g)" by (cases x)
  from Cons.prems(1) x have "(u, g) \<in> set (server_routes lib slib)" by simp
  with assms(1) have match: "mux_match slib u (Path r) = match_segments u (Path r)"
    by (force simp: segment_router_def)
  show ?case
  proof (cases "x = (t, h)")
    case True
    with assms(4) x match show ?thesis by simp
  next
    case False
    with Cons.prems x have in_routes: "(t, h) \<in> set routes"
      and "clash (Split t CHR ''/'') (Split u CHR ''/'')"
      using server_routes_exclusive [of t h lib slib u g] by auto
    from clash_exclusive [OF this(2)] assms(4) have "match_segments u (Path r) = None"
      by (simp add: match_segments_def)
    with Cons in_routes x match show ?thesis by simp
  qed
qed

lemma dispatch_None:
  "\<forall>t \<in> set (map fst routes). mux_match slib t (Path r) = None \<Longrightarrow>
   dispatch slib routes w r s = (Ok (), mux_NotFound slib w, s)"
  by (induction routes) auto

lemma ServeHTTP_route:
  assumes "segment_router lib slib" and "(t, h) \<in> set (server_routes lib slib)"
    and "match_segments t p = Some vars" and "Path r = p"
  shows "ServeHTTP lib slib r s = h \<lparr>wHeader = [], wStatus = None, wBody = []\<rparr> (r\<lparr>Vars := vars\<rparr>) s"
  unfolding ServeHTTP_def using dispatch_unique [OF assms(1) order_refl assms(2)] assms(3,4) by simp

section \<open>Paths made from the templates\<close>

lemma plain_segmentD:
  assumes "plain_segment x"
  shows "x \<noteq> []" "CHR ''/'' \<notin> set x" "Split x CHR ''/'' = [x]" "Split (x @ CHR ''/'' # y) CHR ''/'' = x # Split y CHR ''/''"
  using assms by (auto simp: plain_segment_def Split_no_sep Split_append_sep)

lemma Sprintf_s_no_verb: "CHR ''%'' \<notin> set cs \<Longrightarrow> Sprintf_s cs [] = cs"
  by (induction cs) auto

lemma formatted_paths_match:
  assumes "plain_segment st" and "plain_segment vid"
  shows "match_segments (''/eth/'' @ ValidatorsRoute) (''/eth/'' @ Sprintf_s ValidatorsRouteTemplate [st])
      = Some [StateID \<mapsto> st]"
    and "match_segments (''/eth/'' @ ValidatorRoute) (''/eth/'' @ Sprintf_s ValidatorRouteTemplate [st, vid])
      = Some [StateID \<mapsto> st, ValidatorID \<mapsto> vid]"
    and "match_segments (''/eth/'' @ PendingDepositsRoute) (''/eth/'' @ Sprintf_s PendingDepositsRouteTemplate [st])
      = Some [StateID \<mapsto> st]"
  using plain_segmentD [OF assms(1)] plain_segmentD [OF assms(2)]
  by (simp_all add: match_segments_def ValidatorsRoute_def ValidatorRoute_def PendingDepositsRoute_def
      ValidatorsRouteTemplate_def ValidatorRouteTemplate_def PendingDepositsRouteTemplate_def
      HasPrefix_def is_var_def var_name_def fun_upd_twist)

lemma AddValidator_path_matches: "match_segments (''/admin/'' @ AddValidatorRoute) ''/admin/add-validator'' = Some Map.empty"
  by (simp add: match_segments_def AddValidatorRoute_def is_var_def)

lemma SetBalance_path_matches: "match_segments (''/admin/'' @ SetBalanceRoute) ''/admin/set-balance'' = Some Map.empty"
  by (simp add: match_segments_def SetBalanceRoute_def is_var_def)

lemma FormatUint_segment: "plain_segment (FormatUint n)"
proof -
  have "list_all is_digit (FormatUint n)" using FormatUint_plain [of n] by blast
  then show ?thesis by (auto simp: plain_segment_def list_all_iff is_digit_def)
qed

end
