(* ===== verification/Server_Props.thy ===== *)
theory Server_Props
  imports Beacon_Routes Beacon_Samples
begin

text \<open>
  The properties of the Beacon mock's HTTP server: what a request may do to the manager, which
  methods the routes accept, how identifiers are read from a request, and what the handlers
  answer.
\<close>

section \<open>Requests\<close>

text \<open>C14: every request ends in one of three ways. It may find no route and get the router's
  not-found answer, changing nothing. It may be answered once, by one \<open>writeResponse\<close> with a status
  that is 200, 400, 405 or 500 (when the message of a success cannot be encoded, the answer is the 500
  that reports it, followed by an empty write), having changed nothing or made one call on the live
  database, and nothing if the status is 400 or 405. Or it may panic, having written and changed
  nothing. The manager it leaves is again reachable.\<close>

theorem requests_are_atomic:
  assumes "reachable_mgr lib cfg s" and "ServeHTTP lib slib r s = (res, w, s')"
  shows "reachable_mgr lib cfg s' \<and>
    (case res of
       Ok _ \<Rightarrow> w = mux_NotFound slib new_writer \<and> s' = s
         \<or> (\<exists>c. (c \<in> {200, 400, 405, 500} \<and> (\<exists>b. w = writeResponse new_writer c b)
                  \<or> c = 500 \<and> (\<exists>m e. json_Marshal slib m = Inl e \<and> w = writeResponse
                       (handleServerError slib new_writer (Wrapf ''error serializing response: %w'' [] e)) 200 []))
              \<and> (s' = s \<or> c \<notin> {400, 405} \<and> (\<exists>h. db_step lib (database (fst s)) (snd s) h \<and> s' = (fst s, h))))
     | Panic _ \<Rightarrow> w = new_writer \<and> s' = s
     | Err _ \<Rightarrow> False)"
proof -
  have inv: "mgr_inv s" using assms(1) by (rule reachable_mgr_inv)
  have "(res, w, s') = (Ok (), mux_NotFound slib new_writer, s) \<or> handled_well lib slib new_writer s (res, w, s')"
    unfolding assms(2) [symmetric] ServeHTTP_def new_writer_def [symmetric]
    by (rule dispatch_well [OF _ inv]) (auto intro: routes_well)
  then show ?thesis
  proof
    assume "(res, w, s') = (Ok (), mux_NotFound slib new_writer, s)"
    with assms(1) show ?thesis by simp
  next
    assume well: "handled_well lib slib new_writer s (res, w, s')"
    then have "s' = s \<or> live_call lib s s'" by (cases res) (auto simp: handled_well_def)
    then have "reachable_mgr lib cfg s'"
      using assms(1) live_call_client [OF inv] reachable_mgr.client by blast
    with well show ?thesis
      by (cases res) (simp_all add: handled_well_def answered_def live_call_def StatusOK_def StatusBadRequest_def
          StatusMethodNotAllowed_def StatusInternalServerError_def)
  qed
qed

definition commit_request :: Request where
  "commit_request = \<lparr>Method = ''GET'', Path = ''/admin/commit-block'',
     Query = [''validated'' \<mapsto> [''true'']], Body = Inr [], Vars = Map.empty\<rparr>"

lemma serve_commit:
  "ServeHTTP sample_lib sample_slib commit_request s =
     (Ok (), handleSuccess sample_slib \<lparr>wHeader = [], wStatus = None, wBody = []\<rparr> None,
      mgr_CommitBlock True s)"
  by (simp add: ServeHTTP_def server_routes_def registerApiRoutes_def registerAdminRoutes_def
      sample_slib_def commit_request_def ValidatorsRoute_def ValidatorRoute_def SyncingRoute_def
      DepositContractRoute_def BeaconGenesisRoute_def ConfigSpecRoute_def
      FinalityCheckpointsRoute_def PendingDepositsRoute_def AddValidatorRoute_def
      CommitBlockRoute_def get_only_def commitBlock_def processApiRequest_def success_def ParseBool_def)

theorem requests_are_atomic_witness:
  "let (res, w, s) = ServeHTTP sample_lib sample_slib commit_request sample_mgr
   in reachable_mgr sample_lib zero_config s \<and> mgr_GetCurrentSlot s = 1"
  using requests_are_atomic [OF sample_mgr_reachable serve_commit]
  by (simp add: serve_commit mgr_CommitBlock_def mgr_GetCurrentSlot_def GetCurrentSlot_def
      CommitBlock_def sample_mgr_eq)

section \<open>Routes\<close>

text \<open>The samples, with a router that matches by segments.\<close>

definition routed_slib :: server_lib where
  "routed_slib = sample_slib\<lparr>mux_match := match_segments\<rparr>"

lemma routed_slib_router [simp]: "segment_router lib routed_slib"
  by (simp add: segment_router_def routed_slib_def)

text \<open>C15: a path a client makes from one of the templates, with a state and a validator that are
  plain segments, reaches the handler of the template's route and no other, with the two variables
  bound to exactly what the client filled in.\<close>

theorem client_paths_reach_handlers:
  assumes "segment_router lib slib" and "plain_segment st" and "plain_segment vid" and "Method r = ''GET''"
  shows "ServeHTTP lib slib (r\<lparr>Path := ''/eth/'' @ Sprintf_s ValidatorsRouteTemplate [st]\<rparr>) s
      = getValidators lib slib new_writer
          (r\<lparr>Path := ''/eth/'' @ Sprintf_s ValidatorsRouteTemplate [st], Vars := [StateID \<mapsto> st]\<rparr>) s
    \<and> ServeHTTP lib slib (r\<lparr>Path := ''/eth/'' @ Sprintf_s ValidatorRouteTemplate [st, vid]\<rparr>) s
      = getValidator lib slib new_writer
          (r\<lparr>Path := ''/eth/'' @ Sprintf_s ValidatorRouteTemplate [st, vid],
             Vars := [StateID \<mapsto> st, ValidatorID \<mapsto> vid]\<rparr>) s
    \<and> ServeHTTP lib slib (r\<lparr>Path := ''/eth/'' @ Sprintf_s PendingDepositsRouteTemplate [st]\<rparr>) s
      = getPendingDeposits slib new_writer
          (r\<lparr>Path := ''/eth/'' @ Sprintf_s PendingDepositsRouteTemplate [st], Vars := [StateID \<mapsto> st]\<rparr>) s"
proof -
  note matches = formatted_paths_match [OF assms(2,3)]
  have "(''/eth/'' @ ValidatorsRoute, getValidators lib slib) \<in> set (server_routes lib slib)"
    "(''/eth/'' @ ValidatorRoute, get_only (getValidator lib slib)) \<in> set (server_routes lib slib)"
    "(''/eth/'' @ PendingDepositsRoute, get_only (getPendingDeposits slib)) \<in> set (server_routes lib slib)"
    by (simp_all add: server_routes_def registerApiRoutes_def)
  note routes = this [THEN ServeHTTP_route [OF assms(1)]]
  show ?thesis
    using routes(1) [OF matches(1)] routes(2) [OF matches(2)] routes(3) [OF matches(3)] assms(4)
    by (simp add: get_only_def new_writer_def)
qed

theorem client_paths_reach_handlers_witness:
  "ServeHTTP sample_lib routed_slib
     \<lparr>Method = ''GET'', Path = ''/eth/v1/beacon/states/head/validators/7'', Query = Map.empty, Body = Inr [],
      Vars = Map.empty\<rparr> sample_mgr
   = getValidator sample_lib routed_slib new_writer
     \<lparr>Method = ''GET'', Path = ''/eth/v1/beacon/states/head/validators/7'', Query = Map.empty, Body = Inr [],
      Vars = [''state_id'' \<mapsto> ''head'', ''validator_id'' \<mapsto> ''7'']\<rparr> sample_mgr"
proof -
  have "plain_segment ''head''" "plain_segment ''7''" by (simp_all add: plain_segment_def)
  from client_paths_reach_handlers [OF routed_slib_router this, where s = sample_mgr and lib = sample_lib
      and r = "\<lparr>Method = ''GET'', Path = [], Query = Map.empty, Body = Inr [], Vars = Map.empty\<rparr>"]
  show ?thesis by (simp add: ValidatorRouteTemplate_def HasPrefix_def)
qed

text \<open>The order in which the routes are registered does not matter.\<close>

theorem registration_order_irrelevant:
  assumes "segment_router lib slib" and "set routes = set (server_routes lib slib)"
  shows "dispatch slib routes w r s = dispatch slib (server_routes lib slib) w r s"
proof (cases "\<exists>(t, h) \<in> set routes. match_segments t (Path r) \<noteq> None")
  case True
  then obtain t h vars where "(t, h) \<in> set routes" and "match_segments t (Path r) = Some vars" by auto
  with assms dispatch_unique [OF assms(1), of routes t h] dispatch_unique [OF assms(1), of "server_routes lib slib" t h]
  show ?thesis by simp
next
  case False
  with assms have none: "\<forall>t \<in> set (map fst routes). mux_match slib t (Path r) = None"
    "\<forall>t \<in> set (map fst (server_routes lib slib)). mux_match slib t (Path r) = None"
    by (fastforce simp: segment_router_def)+
  show ?thesis by (simp only: dispatch_None [OF none(1)] dispatch_None [OF none(2)])
qed

section \<open>Methods and unknown validators\<close>

text \<open>Apart from the validators route, which also takes POST, a route answers every method
  but GET with 405 and leaves the manager as it is.\<close>

theorem methods_are_guarded:
  assumes "(t, h) \<in> set (server_routes lib slib)" and "Method r \<noteq> ''GET''"
    and "Method r \<noteq> ''POST'' \<or> t \<noteq> ''/eth/v1/beacon/states/{state_id}/validators''"
    and "Vars r ''state_id'' \<noteq> None"
  shows "h w r s = (Ok (), handleInvalidMethod w, s)"
proof -
  have "h = getValidators lib slib \<and> t = ''/eth/v1/beacon/states/{state_id}/validators''
      \<or> (\<exists>g. h = get_only g)"
    using assms(1) by (auto simp: server_routes_def registerApiRoutes_def registerAdminRoutes_def
        ValidatorsRoute_def)
  then show ?thesis
  proof
    assume "h = getValidators lib slib \<and> t = ''/eth/v1/beacon/states/{state_id}/validators''"
    with assms(2-4) show ?thesis by (auto simp: getValidators_def Let_def)
  next
    assume "\<exists>g. h = get_only g"
    with assms(2) show ?thesis by (auto simp: get_only_def)
  qed
qed

theorem methods_are_guarded_witness:
  "getValidators sample_lib sample_slib new_writer
     \<lparr>Method = ''PUT'', Path = [], Query = Map.empty, Body = Inr [], Vars = [''state_id'' \<mapsto> ''head'']\<rparr> sample_mgr
   = (Ok (), handleInvalidMethod new_writer, sample_mgr)"
  by (rule methods_are_guarded [of "''/eth/v1/beacon/states/{state_id}/validators''" _
        sample_lib sample_slib])
    (simp_all add: server_routes_def registerApiRoutes_def ValidatorsRoute_def)

text \<open>C40: a lookup that finds no validator is not an error for the manager, and the four handlers
  that look one up go on with the nil pointer: the request panics instead of being answered.\<close>

theorem unknown_validator_panics:
  assumes "GetValidator lib vid s = Ok None"
    and "Query r ''id'' = Some [vid]" and "Vars r ''validator_id'' = Some vid"
    and "Query r ''balance'' = Some [FormatUint n]" and "Query r ''penalty'' = Some [FormatUint n]"
    and "n < 2 ^ 64" and "Query r ''status'' = Some [status]" and "status \<noteq> ''''"
  shows "getValidator lib slib w r s = (Panic NilDereference, w, s)
       \<and> setBalance lib slib w r s = (Panic NilDereference, w, s)
       \<and> setStatus lib slib w r s = (Panic NilDereference, w, s)
       \<and> slash_handler lib slib w r s = (Panic NilDereference, w, s)"
proof (intro conjI)
  note parse = ParseUint_FormatUint [OF assms(6)]
  show "getValidator lib slib w r s = (Panic NilDereference, w, s)"
    by (simp add: getValidator_def assms(1,3))
  show "setBalance lib slib w r s = (Panic NilDereference, w, s)"
    by (simp add: setBalance_def assms(1,2,4) parse)
  show "setStatus lib slib w r s = (Panic NilDereference, w, s)"
    by (simp add: setStatus_def assms(1,2,7,8))
  show "slash_handler lib slib w r s = (Panic NilDereference, w, s)"
    by (simp add: slash_handler_def assms(1,2,5) parse)
qed

theorem unknown_validator_panics_witness:
  "getValidator sample_lib sample_slib new_writer
     \<lparr>Method = ''GET'', Path = [], Query = [''id'' \<mapsto> [''5''], ''balance'' \<mapsto> [FormatUint 1],
        ''penalty'' \<mapsto> [FormatUint 1], ''status'' \<mapsto> [''x'']], Body = Inr [],
      Vars = [''validator_id'' \<mapsto> ''5'']\<rparr> sample_mgr = (Panic NilDereference, new_writer, sample_mgr)"
proof -
  have p: "ParseUint ''5'' 32 = Inr 5" by (simp add: ParseUint_def is_digit_def digit_val_def)
  have "GetValidator sample_lib ''5'' sample_mgr = Ok None"
    by (simp add: GetValidator_def HasPrefix_def p GetValidatorByIndex_def sample_mgr_eq)
  then show ?thesis
    by (rule unknown_validator_panics [where n = 1 and status = "''x''", THEN conjunct1]) simp_all
qed

section \<open>Identifiers\<close>

text \<open>The identifiers of a request are all the comma-separated parts of all values, in order,
  with the white space around them trimmed and the empty ones left out.\<close>

theorem validator_ids_spec:
  "getValidatorIDs vals = [x. v \<leftarrow> vals, x \<leftarrow> map TrimSpace (Split v CHR '',''), x \<noteq> []]"
proof -
  have parts: "[x. x \<leftarrow> xs, x \<noteq> []] = filter (\<lambda>x. x \<noteq> []) xs" for xs :: "string list"
    by (induction xs) simp_all
  show ?thesis unfolding getValidatorIDs_eq by (simp only: parts)
qed

text \<open>The two ways a client may write a list of identifiers, one query value per identifier or
  one value that joins them with commas, are read as the same list.\<close>

theorem joined_ids_equal_repeated:
  assumes "\<forall>i \<in> set ids. i \<noteq> [] \<and> list_all plain_char i \<and> CHR '','' \<notin> set i"
  shows "getValidatorIDs [Join ids '',''] = ids \<and> getValidatorIDs ids = ids"
proof
  note kept = plain_ids_kept
  show "getValidatorIDs [Join ids '',''] = ids"
  proof (cases "ids = []")
    case True
    have "TrimSpace [] = []" by (simp add: TrimSpace_plain)
    with True show ?thesis by (simp add: getValidatorIDs_eq)
  next
    case False
    with assms have "Split (Join ids [CHR '','']) CHR '','' = ids" by (intro Split_Join) auto
    with assms show ?thesis by (simp add: getValidatorIDs_eq kept)
  qed
  show "getValidatorIDs ids = ids"
    using assms
  proof (induction ids)
    case Nil
    then show ?case by (simp add: getValidatorIDs_eq)
  next
    case (Cons i ids)
    then have "Split i CHR '','' = [i]" by (intro Split_no_sep) simp
    with Cons kept [of "[i]"] show ?case by (simp add: getValidatorIDs_eq)
  qed
qed

theorem joined_ids_equal_repeated_witness:
  "getValidatorIDs [''1,2''] = getValidatorIDs [''1'', ''2'']"
  using joined_ids_equal_repeated [of "[''1'', ''2'']"] by (simp add: plain_char_def)

section \<open>Request after request\<close>

lemma SetBalance_fields: "\<exists>e. SetBalance b v = v\<lparr>Balance := b, EffectiveBalance := e\<rparr>"
proof
  show "SetBalance b v = v\<lparr>Balance := b, EffectiveBalance := EffectiveBalance (SetBalance b v)\<rparr>"
    by (simp add: SetBalance_def Let_def)
qed

lemma GetValidator_put [simp]: "GetValidator lib i (m, put_validator a v h) = GetValidator lib i (m, h)"
  by (simp add: GetValidator_def GetValidatorByPubkey_def GetValidatorByIndex_def split: sum.split)

text \<open>C32: over HTTP, setting the balance of a validator the manager finds answers 200 with an empty
  body and changes nothing but that validator's balance and effective balance: not its other fields,
  not the other validators, the deposits, the blocks or the slots, and not the configuration or the
  snapshots. Reading the validator by the same identifier then answers with the new balance.\<close>

theorem set_balance_then_get:
  assumes "reachable_mgr lib cfg s" and "segment_router lib slib"
    and "GetValidator lib vid s = Ok (Some a)" and "b < 2 ^ 64"
    and "Method r = ''GET''" and "Path r = ''/admin/set-balance''"
    and "Query r ''id'' = Some [vid]" and "Query r ''balance'' = Some [FormatUint b]"
    and "Method r2 = ''GET''" and "plain_segment st" and "plain_segment vid"
    and "Path r2 = ''/eth/'' @ Sprintf_s ValidatorRouteTemplate [st, vid]"
  shows "\<exists>s1 i v. ServeHTTP lib slib r s = (Ok (), handleSuccess slib new_writer None, s1)
       \<and> i < length (aValidators (mgr_view s)) \<and> validators (database_at (snd s) (database (fst s))) ! i = a
       \<and> Balance v = of_nat b
       \<and> v = (aValidators (mgr_view s) ! i)\<lparr>Balance := of_nat b, EffectiveBalance := EffectiveBalance v\<rparr>
       \<and> mgr_view s1 = (mgr_view s)\<lparr>aValidators := (aValidators (mgr_view s))[i := v]\<rparr>
       \<and> fst s1 = fst s \<and> mgr_saved s1 = mgr_saved s
       \<and> ServeHTTP lib slib r2 s1
           = (Ok (), handleSuccess slib new_writer (Some (ValidatorResponse (GetValidatorMeta v))), s1)"
proof -
  let ?v = "SetBalance (of_nat b) (validator_at (snd s) a)" and ?vs = "validators (database_at (snd s) (database (fst s)))"
  let ?s1 = "(fst s, put_validator a ?v (snd s))"
  have inv: "mgr_inv s" using assms(1) by (rule reachable_mgr_inv)
  have "(''/admin/'' @ SetBalanceRoute, get_only (setBalance lib slib)) \<in> set (server_routes lib slib)"
    "(''/eth/'' @ ValidatorRoute, get_only (getValidator lib slib)) \<in> set (server_routes lib slib)"
    by (simp_all add: server_routes_def registerApiRoutes_def registerAdminRoutes_def)
  note routes = this [THEN ServeHTTP_route [OF assms(2)]]
  have set: "ServeHTTP lib slib r s = (Ok (), handleSuccess slib new_writer None, ?s1)"
    using routes(1) [OF SetBalance_path_matches assms(6)] assms(3,5,7,8)
    by (simp add: get_only_def new_writer_def setBalance_def success_def ParseUint_FormatUint [OF assms(4)])
  have get: "ServeHTTP lib slib r2 ?s1
      = (Ok (), handleSuccess slib new_writer (Some (ValidatorResponse (GetValidatorMeta ?v))), ?s1)"
    using routes(2) [OF formatted_paths_match(2) [OF assms(10,11)] assms(12)] assms(3,9)
    by (simp add: get_only_def new_writer_def getValidator_def success_def)
  have "a \<in> set ?vs" by (rule GetValidator_member [OF mgr_invD(4) [OF inv] assms(3)])
  then obtain i where i: "i < length ?vs" "?vs ! i = a" by (auto simp: in_set_conv_nth)
  have view: "mgr_view ?s1 = spec_update i (SetBalance (of_nat b)) (mgr_view s)"
    using put_validator_refines [OF mgr_invD(4) [OF inv] i(1), of "SetBalance (of_nat b)"] i(2) by (simp add: mgr_view_def)
  have "client_step lib s ?s1" by (rule live_call_client [OF inv put_found(1) [OF inv assms(3)]])
  then have saved: "mgr_saved ?s1 = mgr_saved s" using client_step_facts inv by blast
  obtain e where v: "?v = (validator_at (snd s) a)\<lparr>Balance := of_nat b, EffectiveBalance := e\<rparr>"
    using SetBalance_fields by blast
  have cell: "aValidators (mgr_view s) ! i = validator_at (snd s) a" "i < length (aValidators (mgr_view s))"
    using i by (simp_all add: mgr_view_def)
  show ?thesis
    using set get view saved i(2) cell by (intro exI [of _ ?s1] exI [of _ i] exI [of _ ?v]) (simp add: v spec_update_def)
qed

theorem set_balance_then_get_witness:
  "\<exists>v s1. ServeHTTP sample_lib routed_slib \<lparr>Method = ''GET'', Path = ''/admin/set-balance'',
       Query = [''id'' \<mapsto> [''0''], ''balance'' \<mapsto> [FormatUint 5]], Body = Inr [], Vars = Map.empty\<rparr>
       sample_mgr1 = (Ok (), handleSuccess routed_slib new_writer None, s1) \<and> Balance v = 5
     \<and> mgr_view s1 = (mgr_view sample_mgr1)\<lparr>aValidators := [v]\<rparr>
     \<and> ServeHTTP sample_lib routed_slib \<lparr>Method = ''GET'', Path = ''/eth/v1/beacon/states/head/validators/0'',
         Query = Map.empty, Body = Inr [], Vars = Map.empty\<rparr> s1
       = (Ok (), handleSuccess routed_slib new_writer (Some (ValidatorResponse (GetValidatorMeta v))), s1)"
proof -
  have p0: "ParseUint ''0'' 32 = Inr 0" by (simp add: ParseUint_def is_digit_def digit_val_def)
  have g: "GetValidator sample_lib ''0'' sample_mgr1 = Ok (Some 1)"
    by (simp add: GetValidator_def HasPrefix_def p0 GetValidatorByIndex_def sample_mgr1_eq)
  have plain: "plain_segment ''head''" "plain_segment ''0''" by (simp_all add: plain_segment_def)
  have view: "aValidators (mgr_view sample_mgr1) = [NewValidator sample_lib (sample_pubkey 7) [1] 0]"
    using sample_mgr1_eq(5) by (simp add: mgr_view_def sample_mgr1_eq(1,3))
  note both = set_balance_then_get [OF sample_mgr1_reachable routed_slib_router g _ _ _ _ _ _ plain, where b = 5
      and r = "\<lparr>Method = ''GET'', Path = ''/admin/set-balance'',
       Query = [''id'' \<mapsto> [''0''], ''balance'' \<mapsto> [FormatUint 5]], Body = Inr [], Vars = Map.empty\<rparr>"
      and ?r2.0 = "\<lparr>Method = ''GET'', Path = ''/eth/v1/beacon/states/head/validators/0'',
         Query = Map.empty, Body = Inr [], Vars = Map.empty\<rparr>"]
  show ?thesis using both by (simp add: view ValidatorRouteTemplate_def HasPrefix_def) fastforce
qed

text \<open>Adding a validator with a new public key over HTTP answers with its index, and reading
  the index answers with the new validator: its key, its credentials, the starting balance and
  the first status.\<close>

theorem add_validator_then_get:
  assumes "reachable_mgr lib cfg s"
    and "HexToValidatorPubkey lib hexkey = Inr pk"
    and "GetValidatorByPubkey (database (fst s)) pk (snd s) = None"
    and "length (GetAllValidators (database (fst s)) (snd s)) < 2 ^ 32 - 1"
    and "11 \<le> 2 * ValidatorPubkeyLength lib"
    and "Query r ''pubkey'' = Some [hexkey]" and "Query r ''creds'' = Some [creds]"
    and "Vars r2 ''validator_id'' = Some (FormatUint (length (GetAllValidators (database (fst s)) (snd s))))"
  shows "\<exists>s1 index. addValidator lib slib w r s
             = (Ok (), handleSuccess slib w (Some (AddValidatorResponse index)), s1)
         \<and> unat index = length (GetAllValidators (database (fst s)) (snd s))
         \<and> getValidator lib slib w2 r2 s1 = (Ok (), handleSuccess slib w2 (Some (ValidatorResponse
              (GetValidatorMeta (NewValidator lib pk (HexToHash lib creds) index)))), s1)"
proof -
  let ?d = "database (fst s)" and ?h = "snd s"
  let ?n = "length (validators (database_at ?h ?d))"
  let ?v = "NewValidator lib pk (HexToHash lib creds) (of_nat ?n)"
  have none: "validatorPubkeyMap (database_at ?h ?d) pk = None"
    using assms(3) by (simp add: GetValidatorByPubkey_def)
  let ?h1 = "snd (AddValidator lib ?d pk (HexToHash lib creds) ?h)"
  note new = AddValidator_new [OF none, of lib "HexToHash lib creds"]
  have h1: "validators (database_at ?h1 ?d) = validators (database_at ?h ?d) @ [next_addr ?h]"
    "validator_at ?h1 (next_addr ?h) = ?v"
    by (simp_all add: new)
  have n: "?n < 2 ^ 32 - 1" using assms(4) by (simp add: GetAllValidators_def)
  then have n32: "?n < 2 ^ 32" and n64: "?n < 2 ^ 64" and len: "length (validators (database_at ?h1 ?d)) < 2 ^ 64"
    by (simp_all add: h1)
  have add: "addValidator lib slib w r s
      = (Ok (), handleSuccess slib w (Some (AddValidatorResponse (of_nat ?n))), (fst s, ?h1))"
    using h1(2) by (simp add: addValidator_def assms(2,6,7) mgr_AddValidator_def new success_def)
  have "length (FormatUint ?n) \<le> 10" using n32 by (intro length_FormatUint) simp_all
  then have "length (FormatUint ?n) \<noteq> ValidatorPubkeyLength lib * 2" using assms(5) by linarith
  then have "GetValidator lib (FormatUint ?n) (fst s, ?h1) = Ok (Some (next_addr ?h))"
    using GetValidatorByIndex_of_nat [OF len n64]
    by (simp add: GetValidator_def FormatUint_not_hex ParseUint_FormatUint [OF n32] h1)
  then have "getValidator lib slib w2 r2 (fst s, ?h1)
      = (Ok (), handleSuccess slib w2 (Some (ValidatorResponse (GetValidatorMeta ?v))), (fst s, ?h1))"
    using assms(8) by (simp add: getValidator_def GetAllValidators_def success_def h1(2))
  with add unat_of_nat_u64 [OF n64] show ?thesis by (auto simp: GetAllValidators_def)
qed

theorem add_validator_then_get_witness:
  "\<exists>s1. addValidator sample_lib sample_slib new_writer \<lparr>Method = ''GET'', Path = [],
       Query = [''pubkey'' \<mapsto> [HexWithPrefix sample_lib (sample_pubkey 9)], ''creds'' \<mapsto> [''0x01'']],
       Body = Inr [], Vars = Map.empty\<rparr> sample_mgr
     = (Ok (), handleSuccess sample_slib new_writer (Some (AddValidatorResponse 0)), s1)"
proof -
  let ?r = "\<lparr>Method = ''GET'', Path = [],
       Query = [''pubkey'' \<mapsto> [HexWithPrefix sample_lib (sample_pubkey 9)], ''creds'' \<mapsto> [''0x01'']],
       Body = Inr [], Vars = Map.empty\<rparr>"
  let ?g = "\<lparr>Method = ''GET'', Path = [], Query = Map.empty, Body = Inr [],
       Vars = [''validator_id'' \<mapsto> FormatUint 0]\<rparr>"
  have vs: "GetAllValidators (database (fst sample_mgr)) (snd sample_mgr) = []"
    by (simp add: GetAllValidators_def sample_mgr_eq)
  have "\<exists>s1 index. addValidator sample_lib sample_slib new_writer ?r sample_mgr
             = (Ok (), handleSuccess sample_slib new_writer (Some (AddValidatorResponse index)), s1)
         \<and> unat index = length (GetAllValidators (database (fst sample_mgr)) (snd sample_mgr))
         \<and> getValidator sample_lib sample_slib new_writer ?g s1
             = (Ok (), handleSuccess sample_slib new_writer (Some (ValidatorResponse (GetValidatorMeta
                  (NewValidator sample_lib (sample_pubkey 9) (HexToHash sample_lib ''0x01'') index)))), s1)"
    by (rule add_validator_then_get [OF sample_mgr_reachable, where creds = "''0x01''"
          and hexkey = "HexWithPrefix sample_lib (sample_pubkey 9)"])
      (simp_all add: vs sample_lib_hex sample_pubkey_def, simp add: GetValidatorByPubkey_def sample_mgr_eq)
  then show ?thesis by (auto simp: vs unat_eq_0)
qed

text \<open>C19: the same from the outside: a request to the admin route with a new public key is answered
  with the index of the new validator, and a request on the path a client makes from the template
  with this index is answered with the new validator: its key, its credentials, the starting
  balance and the first status.\<close>

theorem http_add_then_get:
  assumes "reachable_mgr lib cfg s" and "segment_router lib slib"
    and "HexToValidatorPubkey lib hexkey = Inr pk"
    and "GetValidatorByPubkey (database (fst s)) pk (snd s) = None"
    and "length (GetAllValidators (database (fst s)) (snd s)) < 2 ^ 32 - 1"
    and "11 \<le> 2 * ValidatorPubkeyLength lib"
    and "Method r = ''GET''" and "Path r = ''/admin/add-validator''"
    and "Query r ''pubkey'' = Some [hexkey]" and "Query r ''creds'' = Some [creds]"
    and "Method r2 = ''GET''" and "plain_segment st"
    and "Path r2 = ''/eth/'' @ Sprintf_s ValidatorRouteTemplate
           [st, FormatUint (length (GetAllValidators (database (fst s)) (snd s)))]"
  shows "\<exists>s1 index. ServeHTTP lib slib r s
             = (Ok (), handleSuccess slib new_writer (Some (AddValidatorResponse index)), s1)
         \<and> unat index = length (GetAllValidators (database (fst s)) (snd s))
         \<and> ServeHTTP lib slib r2 s1 = (Ok (), handleSuccess slib new_writer (Some (ValidatorResponse
              (GetValidatorMeta (NewValidator lib pk (HexToHash lib creds) index)))), s1)"
proof -
  let ?n = "FormatUint (length (GetAllValidators (database (fst s)) (snd s)))"
  have "(''/admin/'' @ AddValidatorRoute, get_only (addValidator lib slib)) \<in> set (server_routes lib slib)"
    "(''/eth/'' @ ValidatorRoute, get_only (getValidator lib slib)) \<in> set (server_routes lib slib)"
    by (simp_all add: server_routes_def registerApiRoutes_def registerAdminRoutes_def)
  note routes = this [THEN ServeHTTP_route [OF assms(2)]]
  have "ServeHTTP lib slib r s = addValidator lib slib new_writer (r\<lparr>Vars := Map.empty\<rparr>) s"
    using routes(1) [OF AddValidator_path_matches assms(8)] assms(7) by (simp add: get_only_def new_writer_def)
  moreover have "ServeHTTP lib slib r2 t
      = getValidator lib slib new_writer (r2\<lparr>Vars := [StateID \<mapsto> st, ValidatorID \<mapsto> ?n]\<rparr>) t" for t
    using routes(2) [OF formatted_paths_match(2) [OF assms(12) FormatUint_segment] assms(13)] assms(11)
    by (simp add: get_only_def new_writer_def)
  ultimately show ?thesis
    using add_validator_then_get [OF assms(1,3-6), where r = "r\<lparr>Vars := Map.empty\<rparr>" and creds = creds
        and ?r2.0 = "r2\<lparr>Vars := [StateID \<mapsto> st, ValidatorID \<mapsto> ?n]\<rparr>" and slib = slib and w = new_writer
        and ?w2.0 = new_writer] assms(9,10) by simp
qed

theorem http_add_then_get_witness:
  "\<exists>s1. ServeHTTP sample_lib routed_slib \<lparr>Method = ''GET'', Path = ''/admin/add-validator'',
       Query = [''pubkey'' \<mapsto> [HexWithPrefix sample_lib (sample_pubkey 9)], ''creds'' \<mapsto> [''0x01'']],
       Body = Inr [], Vars = Map.empty\<rparr> sample_mgr
     = (Ok (), handleSuccess routed_slib new_writer (Some (AddValidatorResponse 0)), s1)
   \<and> ServeHTTP sample_lib routed_slib \<lparr>Method = ''GET'', Path = ''/eth/v1/beacon/states/head/validators/0'',
       Query = Map.empty, Body = Inr [], Vars = Map.empty\<rparr> s1
     = (Ok (), handleSuccess routed_slib new_writer (Some (ValidatorResponse (GetValidatorMeta
          (NewValidator sample_lib (sample_pubkey 9) (HexToHash sample_lib ''0x01'') 0)))), s1)"
proof -
  have vs: "GetAllValidators (database (fst sample_mgr)) (snd sample_mgr) = []"
    by (simp add: GetAllValidators_def sample_mgr_eq)
  have zero: "FormatUint 0 = ''0''" by code_simp
  have "plain_segment ''head''" by (simp add: plain_segment_def)
  note both = http_add_then_get [OF sample_mgr_reachable routed_slib_router, where st = "''head''"
      and hexkey = "HexWithPrefix sample_lib (sample_pubkey 9)" and pk = "sample_pubkey 9" and creds = "''0x01''"
      and r = "\<lparr>Method = ''GET'', Path = ''/admin/add-validator'',
       Query = [''pubkey'' \<mapsto> [HexWithPrefix sample_lib (sample_pubkey 9)], ''creds'' \<mapsto> [''0x01'']],
       Body = Inr [], Vars = Map.empty\<rparr>"
      and ?r2.0 = "\<lparr>Method = ''GET'', Path = ''/eth/v1/beacon/states/head/validators/0'',
       Query = Map.empty, Body = Inr [], Vars = Map.empty\<rparr>"]
  have "GetValidatorByPubkey (database (fst sample_mgr)) (sample_pubkey 9) (snd sample_mgr) = None"
    by (simp add: GetValidatorByPubkey_def sample_mgr_eq)
  from both [OF _ this] show ?thesis
    using \<open>plain_segment ''head''\<close>
    by (auto simp: vs zero sample_lib_hex sample_pubkey_def unat_eq_0 ValidatorRouteTemplate_def HasPrefix_def)
qed

end
