(* ===== verification/Docker_Types.thy ===== *)
theory Docker_Types
  imports Go_Effects Go_Strings Go_Hex Beacon_Config
begin

text \<open>
  The data of the Docker mock: the resources it keeps, which have the types of the Docker API,
  and the compose definitions it reads, which have the types of compose-go; each record has the
  fields the code reads or sets; those it only ever sets to an empty value and never reads are
  left out. Resources are values: the code stores each in one map, under one key, and changes it
  there; a caller that keeps writing through a pointer the mock handed out is outside the model.
  The functions of the Docker and compose libraries are collected in \<open>docker_lib\<close>.
\<close>

type_synonym labels = "string \<rightharpoonup> string"

section \<open>Containers\<close>

typedecl Health

record ContainerState =
  csStatus :: string
  csRunning :: bool
  csPaused :: bool
  csRestarting :: bool
  csOOMKilled :: bool
  csDead :: bool
  csPid :: int
  csExitCode :: int
  csError :: string
  csStartedAt :: string
  csFinishedAt :: string
  csHealth :: "Health option"

text \<open>\<open>containerimpl.State\<close>, the daemon's own form of the state, with times instead of texts.\<close>

record ImplState =
  imRunning :: bool
  imPaused :: bool
  imRestarting :: bool
  imOOMKilled :: bool
  imDead :: bool
  imPid :: int
  imExitCodeValue :: int
  imErrorMsg :: string
  imStartedAt :: time
  imFinishedAt :: time
  imHealth :: "Health option"

record PortBinding =
  HostIP :: string
  HostPort :: string

type_synonym PortMap = "string \<rightharpoonup> PortBinding list"

record MountPoint =
  mpType :: string
  mpName :: string
  mpSource :: string
  mpDestination :: string
  mpDriver :: string
  mpMode :: string
  mpRW :: bool
  mpPropagation :: string

record Mount =
  mtType :: string
  mtSource :: string
  mtTarget :: string

record EndpointSettings =
  epAliases :: "string list"
  epMacAddress :: string
  epNetworkID :: string
  epEndpointID :: string
  epGateway :: string
  epIPAddress :: string
  epIPPrefixLen :: int
  epDNSNames :: "string list"

record NetworkSettings =
  nsBridge :: string
  nsSandboxID :: string
  nsSandboxKey :: string
  nsPorts :: PortMap
  nsNetworks :: "string \<rightharpoonup> EndpointSettings"

record Ulimit =
  ulName :: string
  ulHard :: int
  ulSoft :: int

record Resources =
  rCPUShares :: int
  rMemory :: int
  rCgroupParent :: string
  rCPUPeriod :: int
  rCPUQuota :: int
  rCPURealtimePeriod :: int
  rCPURealtimeRuntime :: int
  rCpusetCpus :: string
  rCpusetMems :: string
  rDeviceCgroupRules :: "string list"
  rMemoryReservation :: int
  rMemorySwap :: int
  rMemorySwappiness :: "int option"
  rOomKillDisable :: bool
  rPidsLimit :: int
  rUlimits :: "Ulimit list"
  rCPUCount :: int
  rCPUPercent :: int
  rBlkioWeight :: u16
  rBlkioWeightDevice :: "(string \<times> u16) list"
  rBlkioDeviceReadBps :: "(string \<times> u64) list"
  rBlkioDeviceReadIOps :: "(string \<times> u64) list"
  rBlkioDeviceWriteBps :: "(string \<times> u64) list"
  rBlkioDeviceWriteIOps :: "(string \<times> u64) list"

record HostConfig =
  hcBinds :: "string list"
  hcLogConfigType :: string
  hcNetworkMode :: string
  hcPortBindings :: PortMap
  hcRestartPolicyName :: string
  hcMaximumRetryCount :: int
  hcAutoRemove :: bool
  hcVolumeDriver :: string
  hcVolumesFrom :: "string list"
  hcAnnotations :: labels
  hcCapAdd :: "string list"
  hcCapDrop :: "string list"
  hcCgroupnsMode :: string
  hcDNS :: "string list"
  hcDNSOptions :: "string list"
  hcDNSSearch :: "string list"
  hcExtraHosts :: "string list"
  hcGroupAdd :: "string list"
  hcIpcMode :: string
  hcCgroup :: string
  hcLinks :: "string list"
  hcOomScoreAdj :: int
  hcPidMode :: string
  hcPrivileged :: bool
  hcPublishAllPorts :: bool
  hcReadonlyRootfs :: bool
  hcSecurityOpt :: "string list"
  hcStorageOpt :: labels
  hcUTSMode :: string
  hcUsernsMode :: string
  hcShmSize :: int
  hcSysctls :: labels
  hcRuntime :: string
  hcIsolation :: string
  hcResources :: Resources
  hcMounts :: "Mount list"
  hcMaskedPaths :: "string list"
  hcReadonlyPaths :: "string list"

record ContainerConfig =
  ccHostname :: string
  ccDomainname :: string
  ccUser :: string
  ccAttachStdin :: bool
  ccAttachStdout :: bool
  ccAttachStderr :: bool
  ccExposedPorts :: "string set"
  ccTty :: bool
  ccOpenStdin :: bool
  ccStdinOnce :: bool
  ccEnv :: "string list"
  ccCmd :: "string list"
  ccImage :: string
  ccVolumes :: "string set"
  ccWorkingDir :: string
  ccEntrypoint :: "string list"
  ccMacAddress :: string
  ccStopSignal :: string
  ccStopTimeout :: "int option"
  ccLabels :: labels

text \<open>
  \<open>types.ContainerJSON\<close>. Its pointers may be nil in a container a test adds; the embedded base
  may not, since a container without it has no name to be stored under.
\<close>

record ContainerJSON =
  cjID :: string
  cjCreated :: string
  cjPath :: string
  cjArgs :: "string list"
  cjState :: "ContainerState option"
  cjImage :: string
  cjResolvConfPath :: string
  cjHostnamePath :: string
  cjHostsPath :: string
  cjLogPath :: string
  cjName :: string
  cjRestartCount :: int
  cjDriver :: string
  cjPlatform :: string
  cjHostConfig :: "HostConfig option"
  cjSizeRw :: "int option"
  cjSizeRootFs :: "int option"
  cjMounts :: "MountPoint list"
  cjNetworkSettings :: "NetworkSettings option"
  cjConfig :: "ContainerConfig option"

text \<open>\<open>types.Container\<close>, what \<open>ContainerList\<close> reports.\<close>

record Port =
  ptIP :: string
  ptPrivatePort :: u16
  ptPublicPort :: u16
  ptType :: string

record Container =
  coID :: string
  coNames :: "string list"
  coImage :: string
  coImageID :: string
  coCommand :: string
  coCreated :: int
  coPorts :: "Port list"
  coSizeRw :: int
  coSizeRootFs :: int
  coLabels :: labels
  coState :: string
  coStatus :: string
  coNetworkMode :: string
  coAnnotations :: labels
  coMounts :: "MountPoint list"
  coNetworks :: "string \<rightharpoonup> EndpointSettings"

section \<open>Volumes and networks\<close>

record UsageData =
  udSize :: int
  udRefCount :: int

record Volume =
  voCreatedAt :: string
  voDriver :: string
  voLabels :: labels
  voMountpoint :: string
  voName :: string
  voScope :: string
  voOptions :: labels
  voUsageData :: "UsageData option"

record EndpointResource =
  erName :: string
  erEndpointID :: string
  erMacAddress :: string
  erIPv4Address :: string

record IPAMConfig =
  ipSubnet :: string
  ipGateway :: string

record Network =
  neName :: string
  neID :: string
  neCreated :: time
  neScope :: string
  neDriver :: string
  neEnableIPv6 :: bool
  neIPAMDriver :: string
  neIPAMConfig :: "IPAMConfig list"
  neInternal :: bool
  neAttachable :: bool
  neIngress :: bool
  neConfigOnly :: bool
  neContainers :: "string \<rightharpoonup> EndpointResource"
  neOptions :: labels
  neLabels :: labels

section \<open>Compose definitions\<close>

record NetworkConfig =
  ncName :: string
  ncEnableIPv6 :: "bool option"
  ncInternal :: bool
  ncAttachable :: bool
  ncExternal :: bool

record VolumeConfig =
  vcName :: string
  vcDriverOpts :: labels

text \<open>The zero values a lookup of a missing name gives.\<close>

definition zero_network_config :: NetworkConfig where
  "zero_network_config = \<lparr>ncName = [], ncEnableIPv6 = None, ncInternal = False,
     ncAttachable = False, ncExternal = False\<rparr>"

definition zero_volume_config :: VolumeConfig where
  "zero_volume_config = \<lparr>vcName = [], vcDriverOpts = Map.empty\<rparr>"

record ServiceVolumeConfig =
  svType :: string
  svSource :: string
  svTarget :: string
  svReadOnly :: bool
  svBindPropagation :: "string option" \<comment> \<open>\<open>None\<close> if the pointer \<open>Bind\<close> is nil\<close>

record ServicePortConfig =
  spTarget :: nat
  spProtocol :: string
  spHostIP :: string
  spPublished :: string

record ServiceNetworkConfig =
  snAliases :: "string list"
  snMacAddress :: string

record BlkioConfig =
  bkWeight :: u16
  bkWeightDevice :: "(string \<times> u16) list"
  bkDeviceReadBps :: "(string \<times> int) list"
  bkDeviceReadIOps :: "(string \<times> int) list"
  bkDeviceWriteBps :: "(string \<times> int) list"
  bkDeviceWriteIOps :: "(string \<times> int) list"

record ServiceResources =
  seCPUShares :: int
  seMemLimit :: int
  seCgroupParent :: string
  seCPUPeriod :: int
  seCPUQuota :: int
  seCPURTPeriod :: int
  seCPURTRuntime :: int
  seCPUSet :: string
  seDeviceCgroupRules :: "string list"
  seMemReservation :: int
  seMemSwapLimit :: int
  seMemSwappiness :: int
  seOomKillDisable :: bool
  sePidsLimit :: int
  seCPUCount :: int
  seCPUPercent :: "32 word" \<comment> \<open>a \<open>float32\<close>, as its bits\<close>
  seBlkioConfig :: "BlkioConfig option"
  seUlimits :: "(string \<rightharpoonup> (int \<times> int) option) option"
    \<comment> \<open>per name a pointer to the hard and the soft limit\<close>

record ServiceConfig =
  seName :: string
  seContainerName :: string
  seImage :: string
  seEntrypoint :: "string list"
  seCommand :: "string list"
  seVolumes :: "ServiceVolumeConfig list"
  sePorts :: "ServicePortConfig list"
  seEnvironment :: "string \<rightharpoonup> string option"
  seNetworks :: "string \<rightharpoonup> ServiceNetworkConfig option"
  seNetworkMode :: string
  seRestart :: string
  seVolumeDriver :: string
  seVolumesFrom :: "string list"
  seAnnotations :: labels
  seCapAdd :: "string list"
  seCapDrop :: "string list"
  seDNS :: "string list"
  seDNSOpts :: "string list"
  seDNSSearch :: "string list"
  seGroupAdd :: "string list"
  seCgroup :: string
  seLinks :: "string list"
  seOomScoreAdj :: int
  sePrivileged :: bool
  seReadOnly :: bool
  seSecurityOpt :: "string list"
  seStorageOpt :: labels
  seUts :: string
  seUserNSMode :: string
  seShmSize :: int
  seSysctls :: labels
  seRuntime :: string
  seIsolation :: string
  seHostname :: string
  seDomainName :: string
  seUser :: string
  seTty :: bool
  seStdinOpen :: bool
  seWorkingDir :: string
  seMacAddress :: string
  seStopSignal :: string
  seExtraHosts :: "(string \<rightharpoonup> string list) option"
  seHealthCheckRetries :: "u64 option option" \<comment> \<open>the pointer \<open>HealthCheck\<close>, and its \<open>Retries\<close>\<close>
  seStopGracePeriod :: "int option"
  seResources :: ServiceResources

record Project =
  prNetworks :: "string \<rightharpoonup> NetworkConfig"
  prVolumes :: "string \<rightharpoonup> VolumeConfig"
  prServices :: "string \<rightharpoonup> ServiceConfig"

end
