(* ===== verification/Go_Numbers.thy ===== *)
theory Go_Numbers
  imports Go_Strings Go_Hex
begin

text \<open>
  The number formats of the standard library that the Docker mock uses: \<open>%02x\<close> of package \<open>fmt\<close>,
  and \<open>strconv.ParseInt\<close> with base 0, which takes the base from the text's prefix and allows
  underscores between digits.
\<close>

section \<open>Hexadecimal\<close>

fun FormatHex :: "nat \<Rightarrow> string" where
  "FormatHex n = (if n < 16 then [hex_char n] else FormatHex (n div 16) @ [hex_char (n mod 16)])"

declare FormatHex.simps [simp del]

definition Hex02 :: "nat \<Rightarrow> string" where
  "Hex02 n = (let s = FormatHex n in if length s < 2 then CHR ''0'' # s else s)"

lemma hex_char_0: "hex_char 0 = CHR ''0''"
  by code_simp

lemma Hex02_byte:
  assumes "n < 256"
  shows "Hex02 n = [hex_char (n div 16), hex_char (n mod 16)]"
proof (cases "n < 16")
  case True
  then show ?thesis by (simp add: Hex02_def FormatHex.simps [of n] hex_char_0)
next
  case False
  have "n div 16 < 16" using assms by (simp add: less_mult_imp_div_less)
  with False show ?thesis
    by (simp add: Hex02_def FormatHex.simps [of n] FormatHex.simps [of "n div 16"])
qed

lemma hex_char_inject: "m < 16 \<Longrightarrow> n < 16 \<Longrightarrow> hex_char m = hex_char n \<longleftrightarrow> m = n"
  using hex_val_char by (metis option.inject)

lemma Hex02_inject: "m < 256 \<Longrightarrow> n < 256 \<Longrightarrow> Hex02 m = Hex02 n \<longleftrightarrow> m = n"
  by (auto simp: Hex02_byte hex_char_inject) (metis div_mult_mod_eq)

section \<open>Parsing with base 0\<close>

definition lower :: "char \<Rightarrow> char" where
  "lower c = (if 65 \<le> (of_char c :: nat) \<and> (of_char c :: nat) \<le> 90
              then char_of ((of_char c :: nat) + 32) else c)"

text \<open>The value of a digit or letter, whatever the base.\<close>

definition any_digit :: "char \<Rightarrow> nat option" where
  "any_digit c =
     (let n = of_char c; l = of_char (lower c) in
      if 48 \<le> n \<and> n \<le> 57 then Some (n - 48)
      else if 97 \<le> l \<and> l \<le> 122 then Some (l - 97 + 10) else None)"

fun parse_based :: "nat \<Rightarrow> nat \<Rightarrow> nat \<Rightarrow> string \<Rightarrow> num_err + nat" where
  "parse_based maxVal base n [] = Inr n"
| "parse_based maxVal base n (c # cs) =
     (if c = CHR ''_'' then parse_based maxVal base n cs
      else case any_digit c of
             None \<Rightarrow> Inl ErrSyntax
           | Some d \<Rightarrow>
               if base \<le> d then Inl ErrSyntax
               else let n1 = n * base + d
                    in if maxVal < n1 then Inl ErrRange else parse_based maxVal base n1 cs)"

text \<open>The base a prefix stands for, and the text after it.\<close>

definition base_prefix :: "string \<Rightarrow> nat \<times> string" where
  "base_prefix s =
     (case s of
        [] \<Rightarrow> (10, s)
      | a # r \<Rightarrow>
          if a \<noteq> CHR ''0'' then (10, s)
          else if 3 \<le> length s \<and> lower (s ! 1) = CHR ''b'' then (2, drop 2 s)
          else if 3 \<le> length s \<and> lower (s ! 1) = CHR ''o'' then (8, drop 2 s)
          else if 3 \<le> length s \<and> lower (s ! 1) = CHR ''x'' then (16, drop 2 s)
          else (8, r))"

text \<open>
  \<open>underscoreOK\<close>: an underscore must stand between two digits, or between the base prefix and a
  digit. The state is the class of the character before.
\<close>

datatype seen = SeenNone | SeenDigit | SeenUnderscore | SeenOther

fun underscore_scan :: "bool \<Rightarrow> seen \<Rightarrow> string \<Rightarrow> bool" where
  "underscore_scan hex saw [] = (saw \<noteq> SeenUnderscore)"
| "underscore_scan hex saw (c # cs) =
     (if is_digit c \<or> hex \<and> lower c \<in> {CHR ''a'', CHR ''b'', CHR ''c'', CHR ''d'', CHR ''e'', CHR ''f''}
      then underscore_scan hex SeenDigit cs
      else if c = CHR ''_'' then saw = SeenDigit \<and> underscore_scan hex SeenUnderscore cs
      else saw \<noteq> SeenUnderscore \<and> underscore_scan hex SeenOther cs)"

definition underscoreOK :: "string \<Rightarrow> bool" where
  "underscoreOK s =
     (if 2 \<le> length s \<and> hd s = CHR ''0'' \<and> lower (s ! 1) \<in> {CHR ''b'', CHR ''o'', CHR ''x''}
      then underscore_scan (lower (s ! 1) = CHR ''x'') SeenDigit (drop 2 s)
      else underscore_scan False SeenNone s)"

definition ParseUint0 :: "string \<Rightarrow> nat \<Rightarrow> num_err + nat" where
  "ParseUint0 s bitSize =
     (if s = [] then Inl ErrSyntax
      else let (base, digits) = base_prefix s
           in case parse_based (2 ^ bitSize - 1) base 0 digits of
                Inl e \<Rightarrow> Inl e
              | Inr n \<Rightarrow> if CHR ''_'' \<in> set digits \<and> \<not> underscoreOK s then Inl ErrSyntax else Inr n)"

text \<open>\<open>strconv.ParseInt(s, 0, bitSize)\<close>: the magnitude is parsed first, then its range checked.\<close>

definition ParseInt0 :: "string \<Rightarrow> nat \<Rightarrow> error + int" where
  "ParseInt0 s bitSize =
     (if s = [] then Inl (NumError ''ParseInt'' s ErrSyntax)
      else let neg = (hd s = CHR ''-'');
               body = (if hd s = CHR ''+'' \<or> hd s = CHR ''-'' then tl s else s);
               cutoff = 2 ^ (bitSize - 1)
           in case ParseUint0 body bitSize of
                Inl e \<Rightarrow> Inl (NumError ''ParseInt'' s e)
              | Inr un \<Rightarrow>
                  if \<not> neg \<and> cutoff \<le> un \<or> neg \<and> cutoff < un
                  then Inl (NumError ''ParseInt'' s ErrRange)
                  else Inr (if neg then - int un else int un))"

section \<open>Decimal ports\<close>

lemma any_digit_char: "d < 10 \<Longrightarrow> any_digit (digit_char d) = Some d"
  by (simp add: any_digit_def of_char_digit_char Let_def)

lemma digit_char_not: "d < 10 \<Longrightarrow> digit_char d \<noteq> CHR ''_''" "d < 10 \<Longrightarrow> digit_char d \<noteq> CHR ''+''"
  "d < 10 \<Longrightarrow> digit_char d \<noteq> CHR ''-''"
proof -
  assume d: "d < 10"
  have "(of_char (digit_char d) :: nat) = 48 + d" by (rule of_char_digit_char [OF d])
  then show "digit_char d \<noteq> CHR ''_''" "digit_char d \<noteq> CHR ''+''" "digit_char d \<noteq> CHR ''-''"
    using d by auto
qed

lemma parse_based_append:
  "parse_based m b n (xs @ ys) =
     (case parse_based m b n xs of Inl e \<Rightarrow> Inl e | Inr k \<Rightarrow> parse_based m b k ys)"
  by (induction m b n xs rule: parse_based.induct) (auto simp: Let_def split: option.split)

lemma parse_based_FormatUint: "parse_based m 10 0 (FormatUint n) = (if n \<le> m then Inr n else Inl ErrRange)"
proof (induction n rule: FormatUint.induct)
  case (1 n)
  show ?case
  proof (cases "n < 10")
    case True
    then show ?thesis by (subst FormatUint.simps) (simp add: any_digit_char digit_char_not)
  next
    case False
    have n: "n = n div 10 * 10 + n mod 10" by simp
    have d: "n mod 10 < 10" by simp
    have "n div 10 \<le> n" by simp
    then show ?thesis using 1 [OF False] False n
      by (subst FormatUint.simps)
        (auto simp: parse_based_append any_digit_char [OF d] digit_char_not [OF d] Let_def)
  qed
qed

text \<open>A decimal port without a leading zero: accepted by a 16-bit signed parse up to 32767 only.\<close>

lemma FormatUint_head: "0 < n \<Longrightarrow> \<exists>d ds. FormatUint n = digit_char d # ds \<and> 0 < d \<and> d < 10"
proof (induction n rule: FormatUint.induct)
  case (1 n)
  show ?case
  proof (cases "n < 10")
    case True
    with "1.prems" show ?thesis by (subst FormatUint.simps) auto
  next
    case False
    then have "0 < n div 10" by (simp add: div_greater_zero_iff)
    from "1.IH" [OF False this] False show ?thesis by (subst FormatUint.simps) auto
  qed
qed

lemma no_underscore: "CHR ''_'' \<notin> set (FormatUint n)"
proof
  assume "CHR ''_'' \<in> set (FormatUint n)"
  then have "is_digit CHR ''_''" using FormatUint_plain [of n] by (auto simp: list_all_iff)
  then show False by (simp add: is_digit_def)
qed

lemma ParseInt0_FormatUint:
  assumes "0 < n"
  shows "ParseInt0 (FormatUint n) 16 =
    (if n < 32768 then Inr (int n) else Inl (NumError ''ParseInt'' (FormatUint n) ErrRange))"
proof -
  obtain d ds where f: "FormatUint n = digit_char d # ds" and d: "0 < d" "d < 10"
    using FormatUint_head [OF assms] by blast
  have "digit_char d \<noteq> CHR ''0''"
    using of_char_digit_char [OF d(2)] d(1) by auto
  then have "base_prefix (FormatUint n) = (10, FormatUint n)" by (simp add: base_prefix_def f)
  then have u: "ParseUint0 (FormatUint n) 16 = (if n < 65536 then Inr n else Inl ErrRange)"
    using no_underscore [of n]
    by (simp add: ParseUint0_def parse_based_FormatUint Let_def)
  have sign: "hd (FormatUint n) \<noteq> CHR ''+''" "hd (FormatUint n) \<noteq> CHR ''-''"
    using digit_char_not [OF d(2)] by (simp_all add: f)
  show ?thesis unfolding ParseInt0_def Let_def using sign u by simp
qed

end
