(* ===== verification/Object_Store.thy ===== *)
theory Object_Store
  imports Osha_Prelude
begin

text \<open>
  Objects behind pointers, as Go's \<open>map[string]*T\<close> has them. An address is the name an object is
  stored under and a serial number that tells the objects stored under that name over time apart;
  a pointer map gives the serial number of the object each name holds. Two pointer maps share an
  object exactly when they hold the same serial number under the same name, and what is written
  through one of them is then seen through the other.
\<close>

type_synonym 'x objects = "string \<times> nat \<Rightarrow> 'x"

type_synonym pointers = "string \<rightharpoonup> nat"

definition pointees :: "'x objects \<Rightarrow> pointers \<Rightarrow> string \<rightharpoonup> 'x" where
  "pointees h ps = (\<lambda>n. map_option (\<lambda>a. h (n, a)) (ps n))"

text \<open>
  Making the objects behind \<open>ps\<close> hold \<open>vs\<close>: a name that is kept keeps its pointer and its object is
  overwritten in place, a name that is gone loses its pointer, and a new name gets a new object.
\<close>

definition pointers_for :: "nat \<Rightarrow> pointers \<Rightarrow> (string \<rightharpoonup> 'x) \<Rightarrow> pointers" where
  "pointers_for k ps vs =
     (\<lambda>n. map_option (\<lambda>_. case ps n of None \<Rightarrow> k | Some a \<Rightarrow> a) (vs n))"

definition stored :: "nat \<Rightarrow> pointers \<Rightarrow> (string \<rightharpoonup> 'x) \<Rightarrow> 'x objects \<Rightarrow> 'x objects" where
  "stored k ps vs h =
     (\<lambda>(n, a). if pointers_for k ps vs n = Some a then the (vs n) else h (n, a))"

definition below :: "nat \<Rightarrow> pointers \<Rightarrow> bool" where
  "below k ps \<longleftrightarrow> (\<forall>n a. ps n = Some a \<longrightarrow> a < k)"

definition disjoint_pointers :: "pointers \<Rightarrow> pointers \<Rightarrow> bool" where
  "disjoint_pointers ps qs \<longleftrightarrow> (\<forall>n a. ps n = Some a \<longrightarrow> qs n \<noteq> Some a)"

lemma dom_pointees [simp]: "dom (pointees h ps) = dom ps"
  by (auto simp: pointees_def)

lemma pointees_empty [simp]: "pointees h Map.empty = Map.empty"
  by (simp add: pointees_def)

lemma pointees_stored [simp]: "pointees (stored k ps vs h) (pointers_for k ps vs) = vs"
proof
  fix n
  show "pointees (stored k ps vs h) (pointers_for k ps vs) n = vs n"
    by (cases "vs n") (simp_all add: pointees_def stored_def pointers_for_def)
qed

lemma pointees_update [simp]: "pointees (h((n, a) := x)) (ps(n \<mapsto> a)) = (pointees h ps)(n \<mapsto> x)"
  by (auto simp: pointees_def fun_eq_iff)

text \<open>The frame: pointers that share nothing with the live ones, and are older, see no change.\<close>

lemma pointees_stored_other:
  assumes "below k qs" and "disjoint_pointers ps qs"
  shows "pointees (stored k ps vs h) qs = pointees h qs"
proof -
  have "pointers_for k ps vs n \<noteq> Some a" if "qs n = Some a" for n a
    using assms that by (auto simp: below_def disjoint_pointers_def pointers_for_def split: option.split)
  then show ?thesis by (auto simp: pointees_def stored_def fun_eq_iff intro!: option.map_cong0)
qed

lemma pointees_new_other: "below k qs \<Longrightarrow> pointees (h((n, k) := x)) qs = pointees h qs"
  by (fastforce simp: pointees_def below_def fun_eq_iff intro!: option.map_cong)

lemma pointers_for_below: "below k ps \<Longrightarrow> below (Suc k) (pointers_for k ps vs)"
  by (auto simp: below_def pointers_for_def less_Suc_eq split: option.splits)

lemma pointers_for_disjoint:
  "below k qs \<Longrightarrow> disjoint_pointers ps qs \<Longrightarrow> disjoint_pointers (pointers_for k ps vs) qs"
  by (auto simp: below_def disjoint_pointers_def pointers_for_def split: option.splits)

lemma below_Suc: "below k ps \<Longrightarrow> below (Suc k) ps"
  by (auto simp: below_def less_Suc_eq)

lemma below_update: "below k ps \<Longrightarrow> below (Suc k) (ps(n \<mapsto> k))"
  by (auto simp: below_def less_Suc_eq)

lemma disjoint_update:
  "below k qs \<Longrightarrow> disjoint_pointers ps qs \<Longrightarrow> disjoint_pointers (ps(n \<mapsto> k)) qs"
  by (auto simp: below_def disjoint_pointers_def)

text \<open>Pointers that were all handed out now are apart from all older ones, on either side.\<close>

definition all_new :: "nat \<Rightarrow> pointers \<Rightarrow> bool" where
  "all_new k ps \<longleftrightarrow> (\<forall>n a. ps n = Some a \<longrightarrow> a = k)"

lemma all_new_below: "all_new k ps \<Longrightarrow> below (Suc k) ps"
  by (auto simp: all_new_def below_def)

lemma all_new_disjoint:
  "all_new k ps \<Longrightarrow> below k qs \<Longrightarrow> disjoint_pointers ps qs"
  "all_new k ps \<Longrightarrow> below k qs \<Longrightarrow> disjoint_pointers qs ps"
  by (auto simp: all_new_def below_def disjoint_pointers_def)

end
