(* ===== verification/Docker_State.thy ===== *)
theory Docker_State
  imports Docker_Types Go_Numbers Snapshots Object_Store
begin

text \<open>
  \<open>docker/state.go\<close> and \<open>docker/manager.go\<close>: the state of the Docker mock, its copy through JSON,
  and the manager with its named snapshots. What the operating system and the runtime choose (the
  clock, random bytes, the order in which \<open>range\<close> visits a map) is an environment indexed by a
  counter that every such choice advances, so two choices are never tied to each other.
\<close>

section \<open>The state\<close>

text \<open>
  In Go the state is a struct of maps whose resources are pointers. It is modelled twice: as the
  struct, with its pointers into a heap of objects, and as the contents it reaches, which is what
  the operations read and change. An object is a resource with all that it points to (the JSON
  copy is as deep); the three maps of numbers and hashes are references as well, so they are
  objects of their own. The list of free subnets is a value: \<open>Clone\<close> copies the slice into a new one.
\<close>

record DockerState =
  containers :: "string \<rightharpoonup> ContainerJSON"
  volumes :: "string \<rightharpoonup> Volume"
  networks :: "string \<rightharpoonup> Network"
  availableSubnets :: "nat list"
  usedSubnets :: "string \<rightharpoonup> nat"
  networkIndices :: "string \<rightharpoonup> u8"
  serviceHashes :: "string \<rightharpoonup> u8 list"

record state_struct =
  stContainers :: pointers
  stVolumes :: pointers
  stNetworks :: pointers
  stAvailable :: "nat list"
  stUsed :: nat
  stIndices :: nat
  stHashes :: nat

record docker_heap =
  dhContainers :: "ContainerJSON objects"
  dhVolumes :: "Volume objects"
  dhNetworks :: "Network objects"
  dhUsed :: "nat \<Rightarrow> string \<rightharpoonup> nat"
  dhIndices :: "nat \<Rightarrow> string \<rightharpoonup> u8"
  dhHashes :: "nat \<Rightarrow> string \<rightharpoonup> u8 list"
  dhNext :: nat

definition contents :: "docker_heap \<Rightarrow> state_struct \<Rightarrow> DockerState" where
  "contents h s =
     \<lparr> containers = pointees (dhContainers h) (stContainers s),
       volumes = pointees (dhVolumes h) (stVolumes s),
       networks = pointees (dhNetworks h) (stNetworks s),
       availableSubnets = stAvailable s,
       usedSubnets = dhUsed h (stUsed s),
       networkIndices = dhIndices h (stIndices s),
       serviceHashes = dhHashes h (stHashes s) \<rparr>"

text \<open>\<open>newState()\<close> allocates its maps, here at the address \<open>k\<close>; \<open>newState\<close> is what it contains.\<close>

definition new_struct :: "nat \<Rightarrow> state_struct" where
  "new_struct k =
     \<lparr> stContainers = Map.empty,
       stVolumes = Map.empty,
       stNetworks = Map.empty,
       stAvailable = [17..<32],
       stUsed = k,
       stIndices = k,
       stHashes = k \<rparr>"

definition newState :: DockerState where
  "newState =
     \<lparr> containers = Map.empty,
       volumes = Map.empty,
       networks = Map.empty,
       availableSubnets = [17..<32],
       usedSubnets = Map.empty,
       networkIndices = Map.empty,
       serviceHashes = Map.empty \<rparr>"

text \<open>A key that a Go map of numbers does not have reads as zero.\<close>

definition subnet_of :: "DockerState \<Rightarrow> string \<Rightarrow> nat" where
  "subnet_of s n = (case usedSubnets s n of None \<Rightarrow> 0 | Some x \<Rightarrow> x)"

definition index_of :: "DockerState \<Rightarrow> string \<Rightarrow> u8" where
  "index_of s n = (case networkIndices s n of None \<Rightarrow> 0 | Some x \<Rightarrow> x)"

section \<open>The manager and its environment\<close>

record DockerMockManager =
  dmHeap :: docker_heap
  dmLive :: state_struct
  dmSaved :: "string \<rightharpoonup> state_struct"
  dmTicks :: nat

definition dmState :: "DockerMockManager \<Rightarrow> DockerState" where
  "dmState m = contents (dmHeap m) (dmLive m)"

definition dmSnapshots :: "DockerMockManager \<Rightarrow> string \<rightharpoonup> DockerState" where
  "dmSnapshots m = (\<lambda>n. map_option (contents (dmHeap m)) (dmSaved m n))"

text \<open>
  Changing what the live state contains. The code changes a resource through its pointer, removes
  a name from a map, or stores a new object under a name the map does not have: then what else
  points to a changed object sees the change. (The one assignment under a name that may be taken
  is that of \<open>generateService\<close>, \<open>store_container\<close>, which leaves the old object alone.)
\<close>

definition set_state :: "DockerState \<Rightarrow> DockerMockManager \<Rightarrow> DockerMockManager" where
  "set_state v m =
     (let h = dmHeap m; s = dmLive m; k = dhNext h
      in m\<lparr> dmHeap :=
               \<lparr> dhContainers = stored k (stContainers s) (containers v) (dhContainers h),
                 dhVolumes = stored k (stVolumes s) (volumes v) (dhVolumes h),
                 dhNetworks = stored k (stNetworks s) (networks v) (dhNetworks h),
                 dhUsed = (dhUsed h)(stUsed s := usedSubnets v),
                 dhIndices = (dhIndices h)(stIndices s := networkIndices v),
                 dhHashes = (dhHashes h)(stHashes s := serviceHashes v),
                 dhNext = k + 1 \<rparr>,
            dmLive := s\<lparr> stContainers := pointers_for k (stContainers s) (containers v),
                        stVolumes := pointers_for k (stVolumes s) (volumes v),
                        stNetworks := pointers_for k (stNetworks s) (networks v),
                        stAvailable := availableSubnets v \<rparr> \<rparr>)"

definition store_container :: "string \<Rightarrow> ContainerJSON \<Rightarrow> DockerMockManager \<Rightarrow> DockerMockManager" where
  "store_container n c m =
     (let h = dmHeap m; s = dmLive m; k = dhNext h
      in m\<lparr> dmHeap := h\<lparr> dhContainers := (dhContainers h)((n, k) := c), dhNext := k + 1 \<rparr>,
            dmLive := s\<lparr> stContainers := (stContainers s)(n \<mapsto> k) \<rparr> \<rparr>)"

record docker_env =
  now_at :: "nat \<Rightarrow> time"
  rand_at :: "nat \<Rightarrow> nat \<Rightarrow> u8 list"
  range_at :: "nat \<Rightarrow> string set \<Rightarrow> string list"

text \<open>
  Project options stand for what they were made from, and the model of a project is a map to
  values of any YAML type.
\<close>

type_synonym ProjectOptions = "string list \<times> string"

datatype yaml_value =
    YamlNull
  | YamlBool bool
  | YamlInt int
  | YamlString string
  | YamlList "yaml_value list"
  | YamlMap "(string \<times> yaml_value) list"

type_synonym Model = "string \<rightharpoonup> yaml_value"

text \<open>
  What \<open>json.Marshal\<close> followed by \<open>json.Unmarshal\<close> of its result gives; the code does nothing else
  with the text in between.
\<close>

datatype 'x json_copy = MarshalError error | UnmarshalError error | Copied 'x

text \<open>
  The functions of the Docker daemon, of \<open>go-connections\<close>, of compose-go and of the JSON and YAML
  encoders. \<open>State.String\<close> reads the clock, and \<open>HostsList.AsList\<close> ranges over a map.
\<close>

record docker_lib =
  container_json :: "ContainerJSON \<Rightarrow> ContainerJSON json_copy"
  volume_json :: "Volume \<Rightarrow> Volume json_copy"
  network_json :: "Network \<Rightarrow> Network json_copy"
  time_Parse :: "string \<Rightarrow> error + time"
  time_Format :: "time \<Rightarrow> string"
  TypeBind :: string
  TypeVolume :: string
  PropagationRPrivate :: string
  CgroupnsModePrivate :: string
  IPCModePrivate :: string
  State_New :: ImplState
  State_SetRunning :: "time \<Rightarrow> ImplState \<Rightarrow> ImplState"
  State_SetStopped :: "int \<Rightarrow> time \<Rightarrow> ImplState \<Rightarrow> ImplState"
  State_String :: "time \<Rightarrow> ImplState \<Rightarrow> string"
  State_StateString :: "ImplState \<Rightarrow> string"
  NewPort :: "string \<Rightarrow> string \<Rightarrow> error + string"
  Port_Int :: "string \<Rightarrow> int"
  Port_Proto :: "string \<Rightarrow> string"
  ServiceVolume_String :: "ServiceVolumeConfig \<Rightarrow> string"
  HostsList_AsList :: "nat \<Rightarrow> (string \<rightharpoonup> string list) \<Rightarrow> string \<Rightarrow> string list"
  float32_times_100 :: "32 word \<Rightarrow> int"
  service_Marshal :: "ServiceConfig \<Rightarrow> error + u8 list"
  Sum256 :: "u8 list \<Rightarrow> u8 list"
  NewProjectOptions :: "string list \<Rightarrow> string \<Rightarrow> error + ProjectOptions"
  LoadProject :: "ProjectOptions \<Rightarrow> error + Project"
  LoadModel :: "ProjectOptions \<Rightarrow> error + Model"
  model_MarshalIndent :: "Model \<Rightarrow> error + u8 list"
  model_EncodeYAML :: "Model \<Rightarrow> error + u8 list"

type_synonym 'a dop = "(DockerMockManager, 'a) op"

definition tick :: "(nat \<Rightarrow> 'a) \<Rightarrow> 'a dop" where
  "tick f m = (Ok (f (dmTicks m)), m\<lparr>dmTicks := dmTicks m + 1\<rparr>)"

definition now :: "docker_env \<Rightarrow> time dop" where
  "now env = tick (now_at env)"

definition range_over :: "docker_env \<Rightarrow> (string \<rightharpoonup> 'a) \<Rightarrow> string list dop" where
  "range_over env mp = tick (\<lambda>k. range_at env k (dom mp))"

definition get_state :: "DockerState dop" where
  "get_state = read_op dmState"

definition modify_state :: "(DockerState \<Rightarrow> DockerState) \<Rightarrow> unit dop" where
  "modify_state f = modify_op (\<lambda>m. set_state (f (dmState m)) m)"

text \<open>\<open>range\<close> visits every key of a map once.\<close>

definition fair_ranges :: "docker_env \<Rightarrow> bool" where
  "fair_ranges env \<longleftrightarrow> (\<forall>k A. finite A \<longrightarrow> set (range_at env k A) = A \<and> distinct (range_at env k A))"

definition createRandomID :: "docker_env \<Rightarrow> nat \<Rightarrow> string dop" where
  "createRandomID env byteCount = tick (\<lambda>k. EncodeToString (rand_at env k byteCount))"

section \<open>Cloning\<close>

text \<open>
  The three loops over the resources differ only in the encoder and the word in the errors. The
  objects of a clone are new ones: they get the serial number \<open>k\<close> of this call of \<open>Clone\<close>.
\<close>

fun clone_entries ::
  "('x \<Rightarrow> 'x json_copy) \<Rightarrow> string \<Rightarrow> nat \<Rightarrow> pointers \<Rightarrow> string list \<Rightarrow> 'x objects \<times> pointers
   \<Rightarrow> error + 'x objects \<times> pointers" where
  "clone_entries json kind k orig [] (h, clone) = Inr (h, clone)"
| "clone_entries json kind k orig (name # names) (h, clone) =
     (case orig name of
        None \<Rightarrow> clone_entries json kind k orig names (h, clone)
      | Some a \<Rightarrow>
          (case json (h (name, a)) of
             MarshalError err \<Rightarrow> Inl (Wrapf (''error marshalling '' @ kind @ '' [%s]: %w'') [name] err)
           | UnmarshalError err \<Rightarrow> Inl (Wrapf (''error unmarshalling '' @ kind @ '' [%s]: %w'') [name] err)
           | Copied y \<Rightarrow>
               clone_entries json kind k orig names (h((name, k) := y), clone(name \<mapsto> k))))"

text \<open>
  A clone that fails leaves only objects nothing points to, so its heap is dropped. The copies of
  the subnets and of the maps of numbers are new, and the map of hashes stays the empty one of
  \<open>newState()\<close>.
\<close>

definition docker_Clone :: "docker_lib \<Rightarrow> docker_env \<Rightarrow> state_struct \<Rightarrow> state_struct dop" where
  "docker_Clone lib env s =
     bind_op (read_op dmHeap) (\<lambda>h.
     let k = dhNext h; clone = new_struct k in
     bind_op (range_over env (stContainers s)) (\<lambda>cnames.
     bind_op (lift_op (clone_entries (container_json lib) ''container'' k
                (stContainers s) cnames (dhContainers h, stContainers clone))) (\<lambda>(hc, cs).
     bind_op (range_over env (stVolumes s)) (\<lambda>vnames.
     bind_op (lift_op (clone_entries (volume_json lib) ''volume'' k
                (stVolumes s) vnames (dhVolumes h, stVolumes clone))) (\<lambda>(hv, vs).
     bind_op (range_over env (stNetworks s)) (\<lambda>nnames.
     bind_op (lift_op (clone_entries (network_json lib) ''network'' k
                (stNetworks s) nnames (dhNetworks h, stNetworks clone))) (\<lambda>(hn, ns).
     bind_op (modify_op (\<lambda>m. m\<lparr>dmHeap :=
                \<lparr> dhContainers = hc, dhVolumes = hv, dhNetworks = hn,
                  dhUsed = (dhUsed h)(k := dhUsed h (stUsed s)),
                  dhIndices = (dhIndices h)(k := dhIndices h (stIndices s)),
                  dhHashes = (dhHashes h)(k := Map.empty),
                  dhNext = k + 1 \<rparr>\<rparr>)) (\<lambda>_.
     return_op (clone\<lparr> stContainers := cs, stVolumes := vs, stNetworks := ns,
                       stAvailable := stAvailable s,
                       stUsed := k,
                       stIndices := k \<rparr>)))))))))"

section \<open>Snapshots of the manager\<close>

text \<open>What an address that was never handed out holds is never read.\<close>

definition NewDockerMockManager :: DockerMockManager where
  "NewDockerMockManager =
     \<lparr> dmHeap =
         \<lparr> dhContainers = (\<lambda>_. undefined), dhVolumes = (\<lambda>_. undefined), dhNetworks = (\<lambda>_. undefined),
           dhUsed = (\<lambda>_. Map.empty), dhIndices = (\<lambda>_. Map.empty), dhHashes = (\<lambda>_. Map.empty),
           dhNext = 1 \<rparr>,
       dmLive = new_struct 0,
       dmSaved = Map.empty,
       dmTicks = 0 \<rparr>"

definition docker_TakeSnapshot :: "docker_lib \<Rightarrow> docker_env \<Rightarrow> string \<Rightarrow> unit dop" where
  "docker_TakeSnapshot lib env name =
     bind_op (read_op dmLive) (\<lambda>state.
     bind_op (docker_Clone lib env state) (\<lambda>clone.
     modify_op (\<lambda>m. m\<lparr>dmSaved := (dmSaved m)(name \<mapsto> clone)\<rparr>)))"

definition docker_RevertToSnapshot :: "docker_lib \<Rightarrow> docker_env \<Rightarrow> string \<Rightarrow> unit dop" where
  "docker_RevertToSnapshot lib env name =
     bind_op (read_op (\<lambda>m. dmSaved m name)) (\<lambda>found.
     case found of
       None \<Rightarrow> fail_op (Errorf ''snapshot with name [%s] does not exist'' [name])
     | Some state \<Rightarrow>
         bind_op (wrap_op ''error cloning snapshot: %w'' [] (docker_Clone lib env state)) (\<lambda>newState.
         modify_op (\<lambda>m. m\<lparr>dmLive := newState\<rparr>)))"

section \<open>Lemmas\<close>

lemma tick_simps [simp]:
  "tick f m = (Ok (f (dmTicks m)), m\<lparr>dmTicks := dmTicks m + 1\<rparr>)"
  by (simp add: tick_def)

lemma dmState_ticks [simp]:
  "dmState (m\<lparr>dmTicks := k\<rparr>) = dmState m" "dmSnapshots (m\<lparr>dmTicks := k\<rparr>) = dmSnapshots m"
  "dmState (m\<lparr>dmSaved := ss\<rparr>) = dmState m"
  by (simp_all add: dmState_def dmSnapshots_def)

lemma set_state_sel [simp]:
  "dmState (set_state v m) = v" "dmTicks (set_state v m) = dmTicks m" "dmSaved (set_state v m) = dmSaved m"
  by (simp_all add: set_state_def dmState_def contents_def Let_def)

lemma store_container_sel [simp]:
  "dmState (store_container n c m) = (dmState m)\<lparr>containers := (containers (dmState m))(n \<mapsto> c)\<rparr>"
  "dmTicks (store_container n c m) = dmTicks m" "dmSaved (store_container n c m) = dmSaved m"
  by (simp_all add: store_container_def dmState_def contents_def Let_def)

lemma env_ops [simp]:
  "now env m = (Ok (now_at env (dmTicks m)), m\<lparr>dmTicks := dmTicks m + 1\<rparr>)"
  "range_over env mp m = (Ok (range_at env (dmTicks m) (dom mp)), m\<lparr>dmTicks := dmTicks m + 1\<rparr>)"
  "createRandomID env n m = (Ok (EncodeToString (rand_at env (dmTicks m) n)), m\<lparr>dmTicks := dmTicks m + 1\<rparr>)"
  "get_state m = (Ok (dmState m), m)"
  "modify_state g m = (Ok (), set_state (g (dmState m)) m)"
  by (simp_all add: now_def range_over_def createRandomID_def get_state_def modify_state_def)

lemma new_manager [simp]:
  "dmState NewDockerMockManager = newState" "dmSnapshots NewDockerMockManager = Map.empty"
  "dmTicks NewDockerMockManager = 0"
  by (simp_all add: NewDockerMockManager_def dmState_def contents_def dmSnapshots_def new_struct_def newState_def)

section \<open>Separation\<close>

text \<open>
  No object of the live state is an object of a snapshot. Then nothing that happens to the live
  state reaches a snapshot.
\<close>

definition struct_below :: "nat \<Rightarrow> state_struct \<Rightarrow> bool" where
  "struct_below k s \<longleftrightarrow> below k (stContainers s) \<and> below k (stVolumes s) \<and> below k (stNetworks s)
     \<and> stUsed s < k \<and> stIndices s < k \<and> stHashes s < k"

definition shares_nothing :: "state_struct \<Rightarrow> state_struct \<Rightarrow> bool" where
  "shares_nothing s t \<longleftrightarrow> disjoint_pointers (stContainers s) (stContainers t)
     \<and> disjoint_pointers (stVolumes s) (stVolumes t) \<and> disjoint_pointers (stNetworks s) (stNetworks t)
     \<and> stUsed s \<noteq> stUsed t \<and> stIndices s \<noteq> stIndices t \<and> stHashes s \<noteq> stHashes t"

definition docker_separate :: "DockerMockManager \<Rightarrow> bool" where
  "docker_separate m \<longleftrightarrow> struct_below (dhNext (dmHeap m)) (dmLive m)
     \<and> (\<forall>n s. dmSaved m n = Some s \<longrightarrow> struct_below (dhNext (dmHeap m)) s \<and> shares_nothing (dmLive m) s)"

lemma separate_ticks [simp]: "docker_separate (m\<lparr>dmTicks := k\<rparr>) = docker_separate m"
  by (simp add: docker_separate_def)

lemma new_docker_separate: "docker_separate NewDockerMockManager"
  by (simp add: docker_separate_def struct_below_def NewDockerMockManager_def new_struct_def below_def)

lemma snapshots_cong:
  assumes "dmSaved m' = dmSaved m"
    and "\<And>n s. dmSaved m n = Some s \<Longrightarrow> contents (dmHeap m') s = contents (dmHeap m) s"
  shows "dmSnapshots m' = dmSnapshots m"
  using assms by (auto simp: dmSnapshots_def fun_eq_iff intro: option.map_cong0)

lemma set_state_separate:
  assumes "docker_separate m"
  shows "docker_separate (set_state v m)" and "dmSnapshots (set_state v m) = dmSnapshots m"
proof -
  show "docker_separate (set_state v m)"
    using assms unfolding docker_separate_def set_state_def Let_def struct_below_def shares_nothing_def
    by (auto simp: pointers_for_below pointers_for_disjoint below_Suc less_Suc_eq)
  show "dmSnapshots (set_state v m) = dmSnapshots m"
  proof (rule snapshots_cong)
    fix n s
    assume "dmSaved m n = Some s"
    then have "struct_below (dhNext (dmHeap m)) s" "shares_nothing (dmLive m) s"
      using assms by (auto simp: docker_separate_def)
    then show "contents (dmHeap (set_state v m)) s = contents (dmHeap m) s"
      by (auto simp: contents_def set_state_def Let_def struct_below_def shares_nothing_def
          pointees_stored_other)
  qed simp
qed

lemma store_container_separate:
  assumes "docker_separate m"
  shows "docker_separate (store_container n c m)" and "dmSnapshots (store_container n c m) = dmSnapshots m"
proof -
  show "docker_separate (store_container n c m)"
    using assms unfolding docker_separate_def store_container_def Let_def struct_below_def shares_nothing_def
    by (auto simp: below_update disjoint_update below_Suc less_Suc_eq)
  show "dmSnapshots (store_container n c m) = dmSnapshots m"
  proof (rule snapshots_cong)
    fix j s
    assume "dmSaved m j = Some s"
    then have "struct_below (dhNext (dmHeap m)) s" using assms by (auto simp: docker_separate_def)
    then show "contents (dmHeap (store_container n c m)) s = contents (dmHeap m) s"
      by (auto simp: contents_def store_container_def Let_def struct_below_def pointees_new_other)
  qed simp
qed

section \<open>What a clone is\<close>

text \<open>
  An encoder that round-trips copies the objects of a map into new ones, in whatever order.
\<close>

definition copied_objects :: "nat \<Rightarrow> pointers \<Rightarrow> string set \<Rightarrow> 'x objects \<Rightarrow> 'x objects" where
  "copied_objects k orig A h = (\<lambda>(n, a). if n \<in> A \<and> a = k then h (n, the (orig n)) else h (n, a))"

definition copied_pointers :: "nat \<Rightarrow> string set \<Rightarrow> pointers" where
  "copied_pointers k A = (\<lambda>n. if n \<in> A then Some k else None)"

lemma clone_entries_copy:
  assumes json: "json = Copied" and orig: "below k orig" and names: "set names \<subseteq> dom orig"
  shows "clone_entries json kind k orig names (copied_objects k orig A h, copied_pointers k A)
    = Inr (copied_objects k orig (A \<union> set names) h, copied_pointers k (A \<union> set names))"
  using names
proof (induction names arbitrary: A)
  case Nil
  then show ?case by simp
next
  case (Cons n names)
  then obtain a where a: "orig n = Some a" by auto
  then have "a \<noteq> k" using orig by (auto simp: below_def)
  then have "(copied_objects k orig A h)((n, k) := copied_objects k orig A h (n, a)) = copied_objects k orig (insert n A) h"
    using a by (auto simp: copied_objects_def fun_eq_iff)
  moreover have "(copied_pointers k A)(n \<mapsto> k) = copied_pointers k (insert n A)" by (auto simp: copied_pointers_def fun_eq_iff)
  ultimately show ?case using Cons a json by (simp add: insert_is_Un [symmetric] Un_commute)
qed

lemma clone_entries_all:
  assumes "json = Copied" and "below k orig" and "set names = dom orig"
  shows "clone_entries json kind k orig names (h, Map.empty)
    = Inr (copied_objects k orig (dom orig) h, copied_pointers k (dom orig))"
proof -
  have "copied_objects k orig {} h = h" "copied_pointers k {} = Map.empty" by (auto simp: copied_objects_def copied_pointers_def)
  then show ?thesis using clone_entries_copy [OF assms(1,2), of names kind "{}" h] assms(3) by simp
qed

lemma pointees_copied:
  "pointees (copied_objects k orig (dom orig) h) (copied_pointers k (dom orig)) = pointees h orig"
  "below k qs \<Longrightarrow> pointees (copied_objects k orig A h) qs = pointees h qs"
  "all_new k (copied_pointers k A)"
  by (fastforce simp: pointees_def copied_objects_def copied_pointers_def fun_eq_iff below_def all_new_def split: if_splits
      intro!: option.map_cong dest: domD)+

text \<open>The resources are made to be exported to JSON: a copy through JSON is the resource.\<close>

definition json_faithful :: "docker_lib \<Rightarrow> bool" where
  "json_faithful lib \<longleftrightarrow> container_json lib = Copied \<and> volume_json lib = Copied
     \<and> network_json lib = Copied"

definition finite_state :: "DockerState \<Rightarrow> bool" where
  "finite_state s \<longleftrightarrow> finite (dom (containers s)) \<and> finite (dom (volumes s)) \<and> finite (dom (networks s))"

definition without_hashes :: "DockerState \<Rightarrow> DockerState" where
  "without_hashes s = s\<lparr>serviceHashes := Map.empty\<rparr>"

text \<open>A clone is made of new objects only, holds the contents of the original, and disturbs no other.\<close>

definition struct_new :: "nat \<Rightarrow> state_struct \<Rightarrow> bool" where
  "struct_new k s \<longleftrightarrow> all_new k (stContainers s) \<and> all_new k (stVolumes s) \<and> all_new k (stNetworks s)
     \<and> stUsed s = k \<and> stIndices s = k \<and> stHashes s = k"

lemma struct_newD:
  assumes "struct_new k s"
  shows "struct_below (Suc k) s" and "struct_below k t \<Longrightarrow> shares_nothing s t"
    and "struct_below k t \<Longrightarrow> shares_nothing t s"
  using assms unfolding struct_new_def struct_below_def shares_nothing_def
  by (auto intro: all_new_below all_new_disjoint)

lemma struct_below_Suc: "struct_below k s \<Longrightarrow> struct_below (Suc k) s"
  by (simp add: struct_below_def below_Suc)

lemma docker_Clone_copy:
  assumes json: "json_faithful lib" and env: "fair_ranges env"
    and fin: "finite_state (contents (dmHeap m) s)" and s: "struct_below (dhNext (dmHeap m)) s"
  obtains h c where "docker_Clone lib env s m = (Ok c, m\<lparr>dmTicks := dmTicks m + 3, dmHeap := h\<rparr>)"
    and "contents h c = without_hashes (contents (dmHeap m) s)"
    and "struct_new (dhNext (dmHeap m)) c" and "dhNext h = Suc (dhNext (dmHeap m))"
    and "\<And>t. struct_below (dhNext (dmHeap m)) t \<Longrightarrow> contents h t = contents (dmHeap m) t"
proof -
  let ?h = "dmHeap m" and ?k = "dhNext (dmHeap m)"
  have range: "set (range_at env k (dom mp)) = dom mp" if "finite (dom mp)" for k and mp :: pointers
    using env that by (simp add: fair_ranges_def)
  have loops:
    "clone_entries (container_json lib) ''container'' ?k (stContainers s)
       (range_at env i (dom (stContainers s))) (dhContainers ?h, Map.empty)
     = Inr (copied_objects ?k (stContainers s) (dom (stContainers s)) (dhContainers ?h), copied_pointers ?k (dom (stContainers s)))"
    "clone_entries (volume_json lib) ''volume'' ?k (stVolumes s)
       (range_at env i (dom (stVolumes s))) (dhVolumes ?h, Map.empty)
     = Inr (copied_objects ?k (stVolumes s) (dom (stVolumes s)) (dhVolumes ?h), copied_pointers ?k (dom (stVolumes s)))"
    "clone_entries (network_json lib) ''network'' ?k (stNetworks s)
       (range_at env i (dom (stNetworks s))) (dhNetworks ?h, Map.empty)
     = Inr (copied_objects ?k (stNetworks s) (dom (stNetworks s)) (dhNetworks ?h), copied_pointers ?k (dom (stNetworks s)))"
    for i
    using json fin s
    by (auto intro!: clone_entries_all range simp: json_faithful_def finite_state_def contents_def struct_below_def)
  define h where "h = \<lparr> dhContainers = copied_objects ?k (stContainers s) (dom (stContainers s)) (dhContainers ?h),
      dhVolumes = copied_objects ?k (stVolumes s) (dom (stVolumes s)) (dhVolumes ?h),
      dhNetworks = copied_objects ?k (stNetworks s) (dom (stNetworks s)) (dhNetworks ?h),
      dhUsed = (dhUsed ?h)(?k := dhUsed ?h (stUsed s)),
      dhIndices = (dhIndices ?h)(?k := dhIndices ?h (stIndices s)),
      dhHashes = (dhHashes ?h)(?k := Map.empty), dhNext = ?k + 1 \<rparr>"
  define c where "c = (new_struct ?k)\<lparr> stContainers := copied_pointers ?k (dom (stContainers s)),
      stVolumes := copied_pointers ?k (dom (stVolumes s)), stNetworks := copied_pointers ?k (dom (stNetworks s)),
      stAvailable := stAvailable s, stUsed := ?k, stIndices := ?k \<rparr>"
  show thesis
  proof (rule that)
    show "docker_Clone lib env s m = (Ok c, m\<lparr>dmTicks := dmTicks m + 3, dmHeap := h\<rparr>)"
      by (simp add: docker_Clone_def Let_def new_struct_def loops h_def c_def)
    show "contents h c = without_hashes (contents ?h s)"
      by (simp add: contents_def h_def c_def without_hashes_def new_struct_def pointees_copied(1))
    show "struct_new ?k c" by (simp add: struct_new_def c_def new_struct_def pointees_copied(3))
    show "dhNext h = Suc ?k" by (simp add: h_def)
    show "contents h t = contents ?h t" if "struct_below ?k t" for t
      using that by (auto simp: contents_def h_def struct_below_def pointees_copied(2))
  qed
qed

end
