(* ===== verification/Docker_Client.thy ===== *)
theory Docker_Client
  imports Docker_State
begin

text \<open>
  \<open>docker/client.go\<close>: the calls of the Docker API the mock implements, its admin calls, and the
  conversions between the forms of a container and of its state.
\<close>

section \<open>Conversions\<close>

definition getStateFromContainerState :: "docker_lib \<Rightarrow> ContainerState option \<Rightarrow> ImplState dop" where
  "getStateFromContainerState lib containerState =
     bind_op (deref containerState) (\<lambda>cs.
     bind_op (wrap_op ''error parsing start time [%s]: %w'' [csStartedAt cs]
                (lift_op (time_Parse lib (csStartedAt cs)))) (\<lambda>startedAt.
     bind_op (wrap_op ''error parsing stop time [%s]: %w'' [csFinishedAt cs]
                (lift_op (time_Parse lib (csFinishedAt cs)))) (\<lambda>finishedAt.
     return_op
       \<lparr> imRunning = csRunning cs,
         imPaused = csPaused cs,
         imRestarting = csRestarting cs,
         imOOMKilled = csOOMKilled cs,
         imDead = csDead cs,
         imPid = csPid cs,
         imExitCodeValue = csExitCode cs,
         imErrorMsg = csError cs,
         imStartedAt = startedAt,
         imFinishedAt = finishedAt,
         imHealth = csHealth cs \<rparr>)))"

definition getContainerStateFromState ::
  "docker_lib \<Rightarrow> docker_env \<Rightarrow> ImplState \<Rightarrow> ContainerState dop" where
  "getContainerStateFromState lib env state =
     bind_op (now env) (\<lambda>t.
     return_op
       \<lparr> csStatus = State_String lib t state,
         csRunning = imRunning state,
         csPaused = imPaused state,
         csRestarting = imRestarting state,
         csOOMKilled = imOOMKilled state,
         csDead = imDead state,
         csPid = imPid state,
         csExitCode = imExitCodeValue state,
         csError = imErrorMsg state,
         csStartedAt = time_Format lib (imStartedAt state),
         csFinishedAt = time_Format lib (imFinishedAt state),
         csHealth = imHealth state \<rparr>)"

text \<open>One binding of a port; the conversions to \<open>uint16\<close> keep the low 16 bits.\<close>

definition convert_port :: "docker_lib \<Rightarrow> string \<Rightarrow> PortBinding \<Rightarrow> Port dop" where
  "convert_port lib port setting =
     bind_op (wrap_op ''error parsing host port [%s]: %w'' [HostPort setting]
                (lift_op (ParseInt0 (HostPort setting) 16))) (\<lambda>publicPort.
     return_op
       \<lparr> ptIP = HostIP setting,
         ptPrivatePort = of_int (Port_Int lib port),
         ptPublicPort = of_int publicPort,
         ptType = Port_Proto lib port \<rparr>)"

definition port_settings :: "PortMap \<Rightarrow> string \<Rightarrow> PortBinding list" where
  "port_settings ports port = (case ports port of None \<Rightarrow> [] | Some bs \<Rightarrow> bs)"

definition convertContainerJsonToContainer ::
  "docker_lib \<Rightarrow> docker_env \<Rightarrow> ContainerJSON \<Rightarrow> Container dop" where
  "convertContainerJsonToContainer lib env containerJson =
     bind_op (wrap_op ''error parsing created time [%s]: %w'' [cjCreated containerJson]
                (lift_op (time_Parse lib (cjCreated containerJson)))) (\<lambda>created.
     bind_op (deref (cjNetworkSettings containerJson)) (\<lambda>ns.
     bind_op (range_over env (nsPorts ns)) (\<lambda>portNames.
     bind_op (collect (\<lambda>port. collect (convert_port lib port) (port_settings (nsPorts ns) port))
                portNames) (\<lambda>ports.
     bind_op (wrap_op ''error getting status: %w'' []
                (getStateFromContainerState lib (cjState containerJson))) (\<lambda>state.
     bind_op (deref (cjConfig containerJson)) (\<lambda>config.
     bind_op (deref (cjSizeRw containerJson)) (\<lambda>sizeRw.
     bind_op (deref (cjSizeRootFs containerJson)) (\<lambda>sizeRootFs.
     bind_op (now env) (\<lambda>t.
     bind_op (deref (cjHostConfig containerJson)) (\<lambda>hostConfig.
     return_op
       \<lparr> coID = cjID containerJson,
         coNames = [cjName containerJson],
         coImage = ccImage config,
         coImageID = cjImage containerJson,
         coCommand = cjPath containerJson @ '' '' @ Join (cjArgs containerJson) '' '',
         coCreated = Unix created,
         coPorts = concat ports,
         coSizeRw = sizeRw,
         coSizeRootFs = sizeRootFs,
         coLabels = ccLabels config,
         coState = State_StateString lib state,
         coStatus = State_String lib t state,
         coNetworkMode = hcNetworkMode hostConfig,
         coAnnotations = Map.empty,
         coMounts = cjMounts containerJson,
         coNetworks = nsNetworks ns \<rparr>))))))))))"

section \<open>Containers\<close>

text \<open>Looking a container up, with the error for one that does not exist.\<close>

definition get_container :: "string \<Rightarrow> error \<Rightarrow> ContainerJSON dop" where
  "get_container containerID missing =
     bind_op get_state (\<lambda>s.
     case containers s containerID of None \<Rightarrow> fail_op missing | Some c \<Rightarrow> return_op c)"

text \<open>Writing a container that exists through its pointer.\<close>

definition put_container :: "string \<Rightarrow> ContainerJSON \<Rightarrow> unit dop" where
  "put_container containerID c =
     modify_state (\<lambda>s. s\<lparr>containers := (containers s)(containerID \<mapsto> c)\<rparr>)"

text \<open>Storing a container that is a new object, under a name that may be taken.\<close>

definition new_container :: "string \<Rightarrow> ContainerJSON \<Rightarrow> unit dop" where
  "new_container name c = modify_op (store_container name c)"

definition no_container :: "string \<Rightarrow> error" where
  "no_container containerID = Errorf ''No such container: %s'' [containerID]"

definition ContainerInspect :: "string \<Rightarrow> ContainerJSON dop" where
  "ContainerInspect containerID = get_container containerID (no_container containerID)"

text \<open>The containers a list reports; with \<open>All\<close> set, the state is not looked at.\<close>

fun list_containers ::
  "docker_lib \<Rightarrow> docker_env \<Rightarrow> bool \<Rightarrow> (string \<rightharpoonup> ContainerJSON) \<Rightarrow> string list \<Rightarrow> Container list
   \<Rightarrow> Container list dop" where
  "list_containers lib env optAll cs [] acc = return_op acc"
| "list_containers lib env optAll cs (n # names) acc =
     (case cs n of
        None \<Rightarrow> list_containers lib env optAll cs names acc
      | Some containerJson \<Rightarrow>
          bind_op (if optAll then return_op True
                   else bind_op (deref (cjState containerJson)) (\<lambda>st. return_op (csRunning st)))
            (\<lambda>shown.
          if shown
          then bind_op (wrap_op ''error getting details for container [%s]: %w'' [cjName containerJson]
                          (convertContainerJsonToContainer lib env containerJson)) (\<lambda>c.
               list_containers lib env optAll cs names (acc @ [c]))
          else list_containers lib env optAll cs names acc))"

definition ContainerList :: "docker_lib \<Rightarrow> docker_env \<Rightarrow> bool \<Rightarrow> Container list dop" where
  "ContainerList lib env optAll =
     bind_op get_state (\<lambda>s.
     bind_op (range_over env (containers s)) (\<lambda>names.
     list_containers lib env optAll (containers s) names []))"

definition disconnect :: "string \<Rightarrow> string \<Rightarrow> DockerState \<Rightarrow> DockerState" where
  \<comment> \<open>one iteration of the loop over a removed container's networks\<close>
  "disconnect containerID netName s =
     (case networks s netName of
        None \<Rightarrow> s
      | Some netResource \<Rightarrow>
          s\<lparr>networks := (networks s)(netName \<mapsto>
              netResource\<lparr>neContainers := (neContainers netResource)(containerID := None)\<rparr>)\<rparr>)"

definition ContainerRemove :: "docker_env \<Rightarrow> string \<Rightarrow> unit dop" where
  "ContainerRemove env containerID =
     bind_op (get_container containerID (no_container containerID)) (\<lambda>container.
     bind_op (modify_state (\<lambda>s. s\<lparr>containers := (containers s)(containerID := None)\<rparr>)) (\<lambda>_.
     case cjNetworkSettings container of
       None \<Rightarrow> return_op ()
     | Some ns \<Rightarrow>
         bind_op (range_over env (nsNetworks ns)) (\<lambda>netNames.
         for_each (\<lambda>netName. modify_state (disconnect (cjID container) netName)) netNames)))"

text \<open>
  Starting and stopping differ only in what they do to the state: the stored state is parsed,
  changed, and written back. The clock is read once for the change and once for the status text.
\<close>

definition change_state ::
  "docker_lib \<Rightarrow> docker_env \<Rightarrow> (time \<Rightarrow> ImplState \<Rightarrow> ImplState) \<Rightarrow> string \<Rightarrow> unit dop" where
  "change_state lib env f containerID =
     bind_op (get_container containerID (no_container containerID)) (\<lambda>container.
     bind_op (wrap_op ''error getting details for container [%s]: %w'' [cjName container]
                (getStateFromContainerState lib (cjState container))) (\<lambda>state.
     bind_op (now env) (\<lambda>t.
     bind_op (getContainerStateFromState lib env (f t state)) (\<lambda>cs.
     put_container containerID (container\<lparr>cjState := Some cs\<rparr>)))))"

definition ContainerStart :: "docker_lib \<Rightarrow> docker_env \<Rightarrow> string \<Rightarrow> unit dop" where
  "ContainerStart lib env containerID = change_state lib env (State_SetRunning lib) containerID"

definition ContainerRestart :: "docker_lib \<Rightarrow> docker_env \<Rightarrow> string \<Rightarrow> unit dop" where
  "ContainerRestart lib env containerID = ContainerStart lib env containerID"

definition ContainerStop :: "docker_lib \<Rightarrow> docker_env \<Rightarrow> string \<Rightarrow> unit dop" where
  "ContainerStop lib env containerID = change_state lib env (State_SetStopped lib 0) containerID"

section \<open>Disk usage, networks and volumes\<close>

record DiskUsageReport =
  duContainers :: "Container list"
  duVolumes :: "Volume list"

definition DiskUsage :: "docker_lib \<Rightarrow> docker_env \<Rightarrow> DiskUsageReport dop" where
  "DiskUsage lib env =
     bind_op get_state (\<lambda>s.
     bind_op (range_over env (containers s)) (\<lambda>cnames.
     bind_op (collect (\<lambda>container.
                wrap_op ''error getting details for [%s]: %w'' [cjName container]
                  (convertContainerJsonToContainer lib env container))
                (List.map_filter (containers s) cnames)) (\<lambda>cs.
     bind_op (range_over env (volumes s)) (\<lambda>vnames.
     return_op \<lparr> duContainers = cs, duVolumes = List.map_filter (volumes s) vnames \<rparr>))))"

definition NetworkRemove :: "string \<Rightarrow> unit dop" where
  "NetworkRemove networkID =
     bind_op get_state (\<lambda>s.
     case networks s networkID of
       None \<Rightarrow> fail_op (Errorf ''No such network: %s'' [networkID])
     | Some network \<Rightarrow>
         if neContainers network \<noteq> Map.empty
         then fail_op (Errorf ''network %s is in use still'' [networkID])
         else modify_state (\<lambda>s.
           (let s1 = (case usedSubnets s networkID of
                        None \<Rightarrow> s
                      | Some subnet \<Rightarrow> s\<lparr>availableSubnets := availableSubnets s @ [subnet]\<rparr>)
            in s1\<lparr>networks := (networks s1)(networkID := None),
                  usedSubnets := (usedSubnets s1)(networkID := None)\<rparr>)))"

definition VolumeRemove :: "string \<Rightarrow> unit dop" where
  "VolumeRemove volumeID =
     bind_op get_state (\<lambda>s.
     case volumes s volumeID of
       None \<Rightarrow> fail_op (Errorf ''No such volume: %s'' [volumeID])
     | Some _ \<Rightarrow> modify_state (\<lambda>s. s\<lparr>volumes := (volumes s)(volumeID := None)\<rparr>))"

section \<open>Admin calls\<close>

definition Mock_AddContainer :: "ContainerJSON \<Rightarrow> unit dop" where
  "Mock_AddContainer info =
     bind_op get_state (\<lambda>s.
     case containers s (cjName info) of
       Some _ \<Rightarrow> fail_op (Errorf ''container %s already exists'' [cjName info])
     | None \<Rightarrow> new_container (cjName info) info)"

definition Mock_AddVolume :: "Volume \<Rightarrow> unit dop" where
  "Mock_AddVolume volume =
     bind_op get_state (\<lambda>s.
     case volumes s (voName volume) of
       Some _ \<Rightarrow> fail_op (Errorf ''volume %s already exists'' [voName volume])
     | None \<Rightarrow> modify_state (\<lambda>s. s\<lparr>volumes := (volumes s)(voName volume \<mapsto> volume)\<rparr>))"

text \<open>The two sizes are written through their pointers one after the other.\<close>

definition Mock_SetContainerDiskUsage :: "string \<Rightarrow> int \<Rightarrow> int \<Rightarrow> unit dop" where
  "Mock_SetContainerDiskUsage containerID sizeRootFs sizeRw =
     bind_op (get_container containerID (Errorf ''no such container: %s'' [containerID])) (\<lambda>container.
     bind_op (deref (cjSizeRootFs container)) (\<lambda>_.
     bind_op (put_container containerID (container\<lparr>cjSizeRootFs := Some sizeRootFs\<rparr>)) (\<lambda>_.
     bind_op (deref (cjSizeRw container)) (\<lambda>_.
     put_container containerID (container\<lparr>cjSizeRootFs := Some sizeRootFs, cjSizeRw := Some sizeRw\<rparr>)))))"

definition Mock_SetVolumeDiskUsage :: "string \<Rightarrow> int \<Rightarrow> unit dop" where
  "Mock_SetVolumeDiskUsage volumeID newSize =
     bind_op get_state (\<lambda>s.
     case volumes s volumeID of
       None \<Rightarrow> fail_op (Errorf ''no such volume: %s'' [volumeID])
     | Some volume \<Rightarrow>
         bind_op (deref (voUsageData volume)) (\<lambda>usage.
         modify_state (\<lambda>s. s\<lparr>volumes := (volumes s)(volumeID \<mapsto>
             volume\<lparr>voUsageData := Some (usage\<lparr>udSize := newSize\<rparr>)\<rparr>)\<rparr>)))"

section \<open>Lemmas\<close>

lemma get_container_simps [simp]:
  "containers (dmState m) c = Some x \<Longrightarrow> get_container c e m = (Ok x, m)"
  "containers (dmState m) c = None \<Longrightarrow> get_container c e m = (Err e, m)"
  by (simp_all add: get_container_def)

lemma put_container_simp [simp]:
  "put_container c x m =
     (Ok (), set_state ((dmState m)\<lparr>containers := (containers (dmState m))(c \<mapsto> x)\<rparr>) m)"
  by (simp add: put_container_def)

lemma new_container_simp [simp]: "new_container n c m = (Ok (), store_container n c m)"
  by (simp add: new_container_def)

lemma disconnect_sel [simp]:
  "containers (disconnect c n s) = containers s" "volumes (disconnect c n s) = volumes s"
  "availableSubnets (disconnect c n s) = availableSubnets s"
  "usedSubnets (disconnect c n s) = usedSubnets s" "serviceHashes (disconnect c n s) = serviceHashes s"
  "networkIndices (disconnect c n s) = networkIndices s"
  "dom (networks (disconnect c n s)) = dom (networks s)"
  by (auto simp: disconnect_def split: option.splits)

end
