(* ===== verification/Docker_Generation.thy ===== *)
theory Docker_Generation
  imports Docker_Client "HOL-Library.List_Lexorder" "HOL-Library.Char_ord"
begin

text \<open>
  \<open>docker/generation.go\<close>: the resources that \<open>docker compose up\<close> creates from a compose project.
  \<open>generateService\<close> is modelled in the steps of its source: the mounts, the ports, the environment,
  the endpoints on the networks, the container with its host configuration, and the fields filled
  in afterwards. Random identifiers are 32 bytes in hex, so their first 12 characters exist.
\<close>

section \<open>Networks and volumes\<close>

definition compose_labels :: "string \<Rightarrow> string \<Rightarrow> string \<Rightarrow> labels" where
  "compose_labels kind nameInYaml projectName =
     [''com.docker.compose.'' @ kind \<mapsto> nameInYaml,
      ''com.docker.compose.project'' \<mapsto> projectName,
      ''com.docker.compose.version'' \<mapsto> ''0.0.1'']"

definition generateNetwork :: "docker_env \<Rightarrow> NetworkConfig \<Rightarrow> string \<Rightarrow> string \<Rightarrow> unit dop" where
  "generateNetwork env network nameInYaml projectName =
     bind_op get_state (\<lambda>s.
     case networks s (ncName network) of
       Some netResource \<Rightarrow>
         modify_state (\<lambda>s. s\<lparr>networks := (networks s)(ncName network \<mapsto> netResource
           \<lparr> neEnableIPv6 := (case ncEnableIPv6 network of None \<Rightarrow> neEnableIPv6 netResource | Some b \<Rightarrow> b),
             neInternal := ncInternal network,
             neAttachable := ncAttachable network \<rparr>)\<rparr>)
     | None \<Rightarrow>
         (case availableSubnets s of
            [] \<Rightarrow> fail_op (Errorf ''too many networks'' [])
          | subnet # rest \<Rightarrow>
              bind_op (modify_state (\<lambda>s. s\<lparr>availableSubnets := rest,
                         usedSubnets := (usedSubnets s)(ncName network \<mapsto> subnet)\<rparr>)) (\<lambda>_.
              bind_op (createRandomID env 32) (\<lambda>netID.
              bind_op (now env) (\<lambda>created.
              modify_state (\<lambda>s. s
                \<lparr> networks := (networks s)(ncName network \<mapsto>
                    \<lparr> neName = ncName network,
                      neID = netID,
                      neCreated = created,
                      neScope = ''local'',
                      neDriver = ''bridge'',
                      neEnableIPv6 = (case ncEnableIPv6 network of None \<Rightarrow> False | Some b \<Rightarrow> b),
                      neIPAMDriver = ''default'',
                      neIPAMConfig = [\<lparr> ipSubnet = ''172.'' @ FormatUint subnet @ ''.0.0/16'',
                                        ipGateway = ''172.'' @ FormatUint subnet @ ''.0.1'' \<rparr>],
                      neInternal = ncInternal network,
                      neAttachable = ncAttachable network,
                      neIngress = False,
                      neConfigOnly = False,
                      neContainers = Map.empty,
                      neOptions = Map.empty,
                      neLabels = compose_labels ''network'' nameInYaml projectName \<rparr>),
                  networkIndices := (networkIndices s)(nameInYaml \<mapsto> 2) \<rparr>))))))"

definition generateVolume ::
  "docker_lib \<Rightarrow> docker_env \<Rightarrow> VolumeConfig \<Rightarrow> string \<Rightarrow> string \<Rightarrow> unit dop" where
  "generateVolume lib env volume nameInYaml projectName =
     bind_op get_state (\<lambda>s.
     case volumes s (vcName volume) of
       Some volumeImpl \<Rightarrow>
         modify_state (\<lambda>s. s\<lparr>volumes := (volumes s)(vcName volume \<mapsto>
           volumeImpl\<lparr>voOptions := vcDriverOpts volume\<rparr>)\<rparr>)
     | None \<Rightarrow>
         bind_op (now env) (\<lambda>t.
         modify_state (\<lambda>s. s\<lparr>volumes := (volumes s)(vcName volume \<mapsto>
           \<lparr> voCreatedAt = time_Format lib t,
             voDriver = ''local'',
             voLabels = compose_labels ''volume'' nameInYaml projectName,
             voMountpoint = ''/var/lib/docker/volumes/'' @ vcName volume @ ''/_data'',
             voName = vcName volume,
             voScope = ''local'',
             voOptions = vcDriverOpts volume,
             voUsageData = None \<rparr>)\<rparr>)))"

section \<open>The parts of a service\<close>

definition project_volume :: "(string \<rightharpoonup> VolumeConfig) \<Rightarrow> string \<Rightarrow> VolumeConfig" where
  "project_volume vs n = (case vs n of None \<Rightarrow> zero_volume_config | Some v \<Rightarrow> v)"

definition project_network :: "(string \<rightharpoonup> NetworkConfig) \<Rightarrow> string \<Rightarrow> NetworkConfig" where
  "project_network ns n = (case ns n of None \<Rightarrow> zero_network_config | Some c \<Rightarrow> c)"

text \<open>The binds, the mounts of the host configuration and those of the container.\<close>

type_synonym mounts = "string list \<times> Mount list \<times> MountPoint list"

fun service_mounts ::
  "docker_lib \<Rightarrow> (string \<rightharpoonup> VolumeConfig) \<Rightarrow> ServiceVolumeConfig list \<Rightarrow> mounts \<Rightarrow> mounts dop" where
  "service_mounts lib projectVolumes [] acc = return_op acc"
| "service_mounts lib projectVolumes (volume # vs) (binds, hostConfigMounts, containerMounts) =
     (if svType volume = TypeBind lib
      then bind_op (deref (svBindPropagation volume)) (\<lambda>propagation.
           service_mounts lib projectVolumes vs
             (binds @ [ServiceVolume_String lib volume],
              hostConfigMounts,
              containerMounts @
                [\<lparr> mpType = svType volume,
                   mpName = [],
                   mpSource = svSource volume,
                   mpDestination = svTarget volume,
                   mpDriver = [],
                   mpMode = (if svReadOnly volume then ''ro'' else ''rw''),
                   mpRW = (\<not> svReadOnly volume),
                   mpPropagation = (if propagation = [] then PropagationRPrivate lib else propagation) \<rparr>]))
      else if svType volume = TypeVolume lib
      then bind_op get_state (\<lambda>s.
           let projectVolume = project_volume projectVolumes (svSource volume) in
           bind_op (deref (volumes s (vcName projectVolume))) (\<lambda>volumeResource.
           service_mounts lib projectVolumes vs
             (binds,
              hostConfigMounts @
                [\<lparr> mtType = svType volume,
                   mtSource = vcName projectVolume,
                   mtTarget = svTarget volume \<rparr>],
              containerMounts @
                [\<lparr> mpType = svType volume,
                   mpName = vcName projectVolume,
                   mpSource = voMountpoint volumeResource,
                   mpDestination = svTarget volume,
                   mpDriver = ''local'',
                   mpMode = ''z'',
                   mpRW = (\<not> svReadOnly volume),
                   mpPropagation = [] \<rparr>])))
      else fail_op (Errorf ''unsupported mount type [%s]'' [svType volume]))"

text \<open>The port list, and the compose definition of each port; a port listed twice keeps the last.\<close>

fun service_ports ::
  "docker_lib \<Rightarrow> string \<Rightarrow> ServicePortConfig list \<Rightarrow> string list \<times> (string \<rightharpoonup> ServicePortConfig)
   \<Rightarrow> (string list \<times> (string \<rightharpoonup> ServicePortConfig)) dop" where
  "service_ports lib serviceName [] acc = return_op acc"
| "service_ports lib serviceName (servicePort # sps) (ports, servicePorts) =
     (let target = FormatUint (spTarget servicePort) in
      bind_op (wrap_op ''error parsing service port binding [%s] on container [%s]: %w''
                 [target, serviceName] (lift_op (NewPort lib (spProtocol servicePort) target))) (\<lambda>port.
      service_ports lib serviceName sps (ports @ [port], servicePorts(port \<mapsto> servicePort))))"

definition service_port :: "(string \<rightharpoonup> ServicePortConfig) \<Rightarrow> string \<Rightarrow> ServicePortConfig" where
  "service_port sps port = (case sps port of Some c \<Rightarrow> c
     | None \<Rightarrow> \<lparr> spTarget = 0, spProtocol = [], spHostIP = [], spPublished = [] \<rparr>)"

definition host_port_map :: "(string \<rightharpoonup> ServicePortConfig) \<Rightarrow> string list \<Rightarrow> PortMap" where
  "host_port_map sps ports =
     fold (\<lambda>port m. m(port \<mapsto>
       [\<lparr> HostIP = spHostIP (service_port sps port), HostPort = spPublished (service_port sps port) \<rparr>]))
       ports Map.empty"

definition settings_port_map :: "(string \<rightharpoonup> ServicePortConfig) \<Rightarrow> string list \<Rightarrow> PortMap" where
  "settings_port_map sps ports =
     fold (\<lambda>port m. let servicePort = service_port sps port in
       if spHostIP servicePort = []
       then m(port \<mapsto> [\<lparr> HostIP = ''0.0.0.0'', HostPort = spPublished servicePort \<rparr>,
                        \<lparr> HostIP = ''::'', HostPort = spPublished servicePort \<rparr>])
       else m(port \<mapsto> [\<lparr> HostIP = spHostIP servicePort, HostPort = spPublished servicePort \<rparr>]))
       ports Map.empty"

definition service_env :: "docker_env \<Rightarrow> ServiceConfig \<Rightarrow> string list dop" where
  "service_env env service =
     bind_op (range_over env (seEnvironment service)) (\<lambda>keys.
     bind_op (collect (\<lambda>key. bind_op (deref (Option.bind (seEnvironment service key) (\<lambda>p. p)))
                (\<lambda>val. return_op (key @ ''='' @ val))) keys) (\<lambda>vars.
     return_op (sort vars)))"

section \<open>Endpoints\<close>

definition endpoint_mac :: "nat \<Rightarrow> u8 \<Rightarrow> string" where
  "endpoint_mac subnet i = ''02:42:ac:'' @ Hex02 subnet @ '':00:'' @ Hex02 (unat i)"

definition endpoint_ip :: "nat \<Rightarrow> u8 \<Rightarrow> string" where
  "endpoint_ip subnet i = ''172.'' @ FormatUint subnet @ ''.0.'' @ FormatUint (unat i)"

text \<open>
  One network of a service: its endpoint takes the network's next index, which is counted in a
  byte, by the network's name in the compose file.
\<close>

definition service_network ::
  "docker_env \<Rightarrow> ServiceConfig \<Rightarrow> (string \<rightharpoonup> NetworkConfig) \<Rightarrow> string
   \<Rightarrow> (string \<rightharpoonup> EndpointSettings) \<Rightarrow> (string \<rightharpoonup> EndpointSettings) dop" where
  "service_network env service projectNetworks networkNameInYaml acc =
     bind_op get_state (\<lambda>s.
     let projectNetwork = project_network projectNetworks networkNameInYaml;
         subnet = subnet_of s (ncName projectNetwork);
         indexInNetwork = index_of s networkNameInYaml;
         networkConfig = (case Option.bind (seNetworks service networkNameInYaml) (\<lambda>c. c) of
           None \<Rightarrow> \<lparr> snAliases = [seContainerName service, seName service],
                    snMacAddress = endpoint_mac subnet indexInNetwork \<rparr>
         | Some c \<Rightarrow> c)
     in bind_op (deref (networks s (ncName projectNetwork))) (\<lambda>netResource.
        bind_op (createRandomID env 32) (\<lambda>endpointID.
        bind_op (\<lambda>m. (slice_head (neIPAMConfig netResource), m)) (\<lambda>ipam.
        bind_op (modify_state (\<lambda>s. s\<lparr>networkIndices :=
                   (networkIndices s)(networkNameInYaml \<mapsto> indexInNetwork + 1)\<rparr>)) (\<lambda>_.
        return_op (acc(ncName projectNetwork \<mapsto>
          \<lparr> epAliases = snAliases networkConfig,
            epMacAddress = snMacAddress networkConfig,
            epNetworkID = neID netResource,
            epEndpointID = endpointID,
            epGateway = ipGateway ipam,
            epIPAddress = endpoint_ip subnet indexInNetwork,
            epIPPrefixLen = 16,
            epDNSNames = [] \<rparr>)))))))"

fun service_networks ::
  "docker_env \<Rightarrow> ServiceConfig \<Rightarrow> (string \<rightharpoonup> NetworkConfig) \<Rightarrow> string list
   \<Rightarrow> (string \<rightharpoonup> EndpointSettings) \<Rightarrow> (string \<rightharpoonup> EndpointSettings) dop" where
  "service_networks env service projectNetworks [] acc = return_op acc"
| "service_networks env service projectNetworks (n # ns) acc =
     bind_op (service_network env service projectNetworks n acc) (\<lambda>acc'.
     service_networks env service projectNetworks ns acc')"

section \<open>The container\<close>

definition service_resources :: "docker_lib \<Rightarrow> ServiceResources \<Rightarrow> Resources" where
  "service_resources lib r =
     \<lparr> rCPUShares = seCPUShares r,
       rMemory = seMemLimit r,
       rCgroupParent = seCgroupParent r,
       rCPUPeriod = seCPUPeriod r,
       rCPUQuota = seCPUQuota r,
       rCPURealtimePeriod = seCPURTPeriod r,
       rCPURealtimeRuntime = seCPURTRuntime r,
       rCpusetCpus = seCPUSet r,
       rCpusetMems = seCPUSet r,
       rDeviceCgroupRules = seDeviceCgroupRules r,
       rMemoryReservation = seMemReservation r,
       rMemorySwap = seMemSwapLimit r,
       rMemorySwappiness = None,
       rOomKillDisable = seOomKillDisable r,
       rPidsLimit = sePidsLimit r,
       rUlimits = [],
       rCPUCount = seCPUCount r,
       rCPUPercent = float32_times_100 lib (seCPUPercent r),
       rBlkioWeight = 0,
       rBlkioWeightDevice = [],
       rBlkioDeviceReadBps = [],
       rBlkioDeviceReadIOps = [],
       rBlkioDeviceWriteBps = [],
       rBlkioDeviceWriteIOps = [] \<rparr>"

definition MaskedPaths :: "string list" where
  "MaskedPaths = [''/proc/asound'', ''/proc/acpi'', ''/proc/kcore'', ''/proc/keys'',
     ''/proc/latency_stats'', ''/proc/timer_list'', ''/proc/timer_stats'', ''/proc/sched_debug'',
     ''/proc/scsi'', ''/sys/firmware'', ''/sys/devices/virtual/powercap'']"

definition ReadonlyPaths :: "string list" where
  "ReadonlyPaths = [''/proc/bus'', ''/proc/fs'', ''/proc/irq'', ''/proc/sys'', ''/proc/sysrq-trigger'']"

definition service_host_config ::
  "docker_lib \<Rightarrow> ServiceConfig \<Rightarrow> string list \<Rightarrow> PortMap \<Rightarrow> Mount list \<Rightarrow> HostConfig" where
  "service_host_config lib service binds portBindings hostConfigMounts =
     \<lparr> hcBinds = binds,
       hcLogConfigType = ''json-file'',
       hcNetworkMode = seNetworkMode service,
       hcPortBindings = portBindings,
       hcRestartPolicyName = seRestart service,
       hcMaximumRetryCount = 0,
       hcAutoRemove = False,
       hcVolumeDriver = seVolumeDriver service,
       hcVolumesFrom = seVolumesFrom service,
       hcAnnotations = seAnnotations service,
       hcCapAdd = seCapAdd service,
       hcCapDrop = seCapDrop service,
       hcCgroupnsMode = CgroupnsModePrivate lib,
       hcDNS = seDNS service,
       hcDNSOptions = seDNSOpts service,
       hcDNSSearch = seDNSSearch service,
       hcExtraHosts = [],
       hcGroupAdd = seGroupAdd service,
       hcIpcMode = IPCModePrivate lib,
       hcCgroup = seCgroup service,
       hcLinks = seLinks service,
       hcOomScoreAdj = seOomScoreAdj service,
       hcPidMode = [],
       hcPrivileged = sePrivileged service,
       hcPublishAllPorts = False,
       hcReadonlyRootfs = seReadOnly service,
       hcSecurityOpt = seSecurityOpt service,
       hcStorageOpt = seStorageOpt service,
       hcUTSMode = seUts service,
       hcUsernsMode = seUserNSMode service,
       hcShmSize = seShmSize service,
       hcSysctls = seSysctls service,
       hcRuntime = seRuntime service,
       hcIsolation = seIsolation service,
       hcResources = service_resources lib (seResources service),
       hcMounts = hostConfigMounts,
       hcMaskedPaths = MaskedPaths,
       hcReadonlyPaths = ReadonlyPaths \<rparr>"

definition service_container_config ::
  "ServiceConfig \<Rightarrow> string set \<Rightarrow> string list \<Rightarrow> ContainerConfig" where
  "service_container_config service exposedPorts vars =
     \<lparr> ccHostname = seHostname service,
       ccDomainname = seDomainName service,
       ccUser = seUser service,
       ccAttachStdin = False,
       ccAttachStdout = True,
       ccAttachStderr = True,
       ccExposedPorts = exposedPorts,
       ccTty = seTty service,
       ccOpenStdin = seStdinOpen service,
       ccStdinOnce = False,
       ccEnv = vars,
       ccCmd = seCommand service,
       ccImage = seImage service,
       ccVolumes = {},
       ccWorkingDir = seWorkingDir service,
       ccEntrypoint = seEntrypoint service,
       ccMacAddress = seMacAddress service,
       ccStopSignal = seStopSignal service,
       ccStopTimeout = None,
       ccLabels = Map.empty \<rparr>"

section \<open>Fields filled in afterwards\<close>

text \<open>Without a network mode, the first network visited that is not external gives it.\<close>

definition default_network_mode ::
  "docker_env \<Rightarrow> ServiceConfig \<Rightarrow> (string \<rightharpoonup> NetworkConfig) \<Rightarrow> string dop" where
  "default_network_mode env service projectNetworks =
     (if seNetworkMode service \<noteq> [] then return_op (seNetworkMode service)
      else bind_op (range_over env (seNetworks service)) (\<lambda>names.
           return_op (case find (\<lambda>n. \<not> ncExternal (project_network projectNetworks n)) names of
               None \<Rightarrow> seNetworkMode service
             | Some n \<Rightarrow> ncName (project_network projectNetworks n))))"

definition fill_ulimits :: "docker_env \<Rightarrow> ServiceConfig \<Rightarrow> Ulimit list dop" where
  "fill_ulimits env service =
     (case seUlimits (seResources service) of
        None \<Rightarrow> return_op []
      | Some limits \<Rightarrow>
          bind_op (range_over env limits) (\<lambda>names.
          collect (\<lambda>name. bind_op (deref (Option.bind (limits name) (\<lambda>p. p))) (\<lambda>(hard, soft).
            return_op \<lparr> ulName = name, ulHard = hard, ulSoft = soft \<rparr>)) names))"

definition fill_blkio :: "BlkioConfig option \<Rightarrow> Resources \<Rightarrow> Resources" where
  "fill_blkio blkio r =
     (case blkio of
        None \<Rightarrow> r
      | Some b \<Rightarrow>
          let rate = map (\<lambda>(path, rate). (path, of_int rate :: u64)) in
          r\<lparr> rBlkioWeight := bkWeight b,
             rBlkioWeightDevice := rBlkioWeightDevice r @ bkWeightDevice b,
             rBlkioDeviceReadBps := rBlkioDeviceReadBps r @ rate (bkDeviceReadBps b),
             rBlkioDeviceReadIOps := rBlkioDeviceReadIOps r @ rate (bkDeviceReadIOps b),
             rBlkioDeviceWriteBps := rBlkioDeviceWriteBps r @ rate (bkDeviceWriteBps b),
             rBlkioDeviceWriteIOps := rBlkioDeviceWriteIOps r @ rate (bkDeviceWriteIOps b) \<rparr>)"

text \<open>
  \<open>int(d.Seconds())\<close>: the whole seconds of a duration in nanoseconds, towards zero (the float in
  between is exact enough for that below \<open>2 ^ 23\<close> seconds, 97 days).
\<close>

definition whole_seconds :: "int \<Rightarrow> int" where
  "whole_seconds d = (if 0 \<le> d then d div 1000000000 else - (- d div 1000000000))"

definition fill_host_config ::
  "docker_lib \<Rightarrow> docker_env \<Rightarrow> ServiceConfig \<Rightarrow> (string \<rightharpoonup> NetworkConfig) \<Rightarrow> HostConfig
   \<Rightarrow> HostConfig dop" where
  "fill_host_config lib env service projectNetworks hc0 =
     bind_op (default_network_mode env service projectNetworks) (\<lambda>mode.
     let r = seResources service;
         hc1 = hc0\<lparr> hcNetworkMode := mode,
                    hcRuntime := (if seRuntime service = [] then ''runc'' else seRuntime service),
                    hcResources := (if 0 < seMemSwappiness r
                      then (hcResources hc0)\<lparr>rMemorySwappiness := Some (seMemSwappiness r)\<rparr>
                      else hcResources hc0) \<rparr>
     in bind_op (case seExtraHosts service of
                   None \<Rightarrow> return_op (hcExtraHosts hc1)
                 | Some hosts \<Rightarrow> tick (\<lambda>k. HostsList_AsList lib k hosts '':'')) (\<lambda>extraHosts.
        bind_op (case seHealthCheckRetries service of
                   None \<Rightarrow> return_op (hcMaximumRetryCount hc1)
                 | Some retries \<Rightarrow> bind_op (deref retries) (\<lambda>n. return_op (sint n))) (\<lambda>retryCount.
        bind_op (fill_ulimits env service) (\<lambda>ulimits.
        return_op (hc1\<lparr> hcExtraHosts := extraHosts,
                        hcMaximumRetryCount := retryCount,
                        hcResources := (fill_blkio (seBlkioConfig r) (hcResources hc1))
                          \<lparr>rUlimits := ulimits\<rparr> \<rparr>)))))"

definition fill_container_config :: "ServiceConfig \<Rightarrow> string \<Rightarrow> ContainerConfig \<Rightarrow> ContainerConfig" where
  "fill_container_config service containerID cc =
     cc\<lparr> ccHostname := (if seHostname service = [] then take 12 containerID else ccHostname cc),
         ccStopTimeout := map_option whole_seconds (seStopGracePeriod service) \<rparr>"

definition fill_dns_names :: "string \<Rightarrow> EndpointSettings \<Rightarrow> EndpointSettings" where
  "fill_dns_names hostname ep = ep\<lparr>epDNSNames := epDNSNames ep @ epAliases ep @ [hostname]\<rparr>"

section \<open>The whole service\<close>

definition started_state :: "docker_lib \<Rightarrow> docker_env \<Rightarrow> ContainerState dop" where
  "started_state lib env =
     bind_op (now env) (\<lambda>t.
     getContainerStateFromState lib env (State_SetRunning lib t (State_New lib)))"

text \<open>Adding the stored container to one of its networks, through the network's pointer.\<close>

definition connect :: "ContainerJSON \<Rightarrow> (string \<rightharpoonup> EndpointSettings) \<Rightarrow> string \<Rightarrow> unit dop" where
  "connect container eps netName =
     bind_op get_state (\<lambda>s.
     bind_op (deref (eps netName)) (\<lambda>network.
     bind_op (deref (networks s netName)) (\<lambda>netResource.
     modify_state (\<lambda>s. s\<lparr>networks := (networks s)(netName \<mapsto>
       netResource\<lparr>neContainers := (neContainers netResource)(cjID container \<mapsto>
         \<lparr> erName = TrimPrefix (cjName container) ''/'',
           erEndpointID = epEndpointID network,
           erMacAddress = epMacAddress network,
           erIPv4Address = epIPAddress network \<rparr>)\<rparr>)\<rparr>))))"

text \<open>
  The function up to the point where the container is stored: everything about the container is
  settled, and only the indices of its networks have changed.
\<close>

definition service_container ::
  "docker_lib \<Rightarrow> docker_env \<Rightarrow> ServiceConfig \<Rightarrow> (string \<rightharpoonup> NetworkConfig) \<Rightarrow> (string \<rightharpoonup> VolumeConfig)
   \<Rightarrow> ContainerJSON dop" where
  "service_container lib env service projectNetworks projectVolumes =
     bind_op (started_state lib env) (\<lambda>state.
     bind_op (service_mounts lib projectVolumes (seVolumes service) ([], [], []))
       (\<lambda>(binds0, hostConfigMounts, containerMounts).
     bind_op (service_ports lib (seName service) (sePorts service) ([], Map.empty))
       (\<lambda>(ports0, servicePorts).
     let binds = sort binds0; ports = sort ports0 in
     bind_op (service_env env service) (\<lambda>vars.
     bind_op (range_over env (seNetworks service)) (\<lambda>netNames.
     bind_op (service_networks env service projectNetworks netNames Map.empty) (\<lambda>eps0.
     bind_op (createRandomID env 32) (\<lambda>containerID.
     bind_op (createRandomID env 32) (\<lambda>image.
     bind_op (createRandomID env 32) (\<lambda>networkSandboxID.
     bind_op (now env) (\<lambda>created.
     bind_op (fill_host_config lib env service projectNetworks
                (service_host_config lib service binds (host_port_map servicePorts ports)
                   hostConfigMounts)) (\<lambda>hostConfig.
     let config = fill_container_config service containerID
                    (service_container_config service (set ports) vars);
         eps = (\<lambda>n. map_option (fill_dns_names (ccHostname config)) (eps0 n));
         dir = ''/var/lib/docker/containers/'' @ containerID
     in return_op
           \<lparr> cjID = containerID,
             cjCreated = time_Format lib created,
             cjPath = Join (seEntrypoint service) '' '',
             cjArgs = seCommand service,
             cjState = Some state,
             cjImage = ''sha256:'' @ image,
             cjResolvConfPath = dir @ ''/resolv.conf'',
             cjHostnamePath = dir @ ''/hostname'',
             cjHostsPath = dir @ ''/hosts'',
             cjLogPath = dir @ ''/'' @ containerID @ ''-json.log'',
             cjName = ''/'' @ seContainerName service,
             cjRestartCount = 0,
             cjDriver = ''overlay2'',
             cjPlatform = ''linux'',
             cjHostConfig = Some hostConfig,
             cjSizeRw = Some 0,
             cjSizeRootFs = Some 0,
             cjMounts = containerMounts,
             cjNetworkSettings = Some
               \<lparr> nsBridge = [],
                 nsSandboxID = networkSandboxID,
                 nsSandboxKey = ''/var/run/docker/netns/'' @ take 12 networkSandboxID,
                 nsPorts = settings_port_map servicePorts ports,
                 nsNetworks = eps \<rparr>,
             cjConfig = Some config \<rparr>)))))))))))"

definition generateService ::
  "docker_lib \<Rightarrow> docker_env \<Rightarrow> ServiceConfig \<Rightarrow> (string \<rightharpoonup> NetworkConfig) \<Rightarrow> (string \<rightharpoonup> VolumeConfig)
   \<Rightarrow> unit dop" where
  "generateService lib env service projectNetworks projectVolumes =
     bind_op (service_container lib env service projectNetworks projectVolumes) (\<lambda>container.
     bind_op (new_container (seContainerName service) container) (\<lambda>_.
     bind_op (deref (cjNetworkSettings container)) (\<lambda>ns.
     bind_op (range_over env (nsNetworks ns)) (\<lambda>names.
     for_each (connect container (nsNetworks ns)) names))))"

end
