(* ===== verification/Docker_Compose.thy ===== *)
theory Docker_Compose
  imports Docker_Generation
begin

text \<open>
  \<open>docker/compose.go\<close>: the compose commands. A project is loaded from its files by compose-go; its
  networks are created in the order of their names, the external ones first, its volumes and
  services in whatever order the runtime visits them.
\<close>

definition loadComposeProject :: "docker_lib \<Rightarrow> string \<Rightarrow> string list \<Rightarrow> Project dop" where
  "loadComposeProject lib projectName composeFiles =
     bind_op (wrap_op ''error creating project options: %w'' []
                (lift_op (NewProjectOptions lib composeFiles projectName))) (\<lambda>options.
     lift_op (LoadProject lib options))"

definition load_project :: "docker_lib \<Rightarrow> string \<Rightarrow> string list \<Rightarrow> Project dop" where
  "load_project lib projectName composeFilePaths =
     wrap_op ''error loading project: %w'' [] (loadComposeProject lib projectName composeFilePaths)"

section \<open>Up\<close>

definition up_network :: "docker_env \<Rightarrow> string \<Rightarrow> Project \<Rightarrow> string \<Rightarrow> unit dop" where
  "up_network env projectName project name =
     generateNetwork env (project_network (prNetworks project) name) name projectName"

definition up_networks :: "docker_env \<Rightarrow> string \<Rightarrow> Project \<Rightarrow> unit dop" where
  "up_networks env projectName project =
     bind_op (range_over env (prNetworks project)) (\<lambda>names.
     let external = (\<lambda>n. ncExternal (project_network (prNetworks project) n));
         externalNetworkNames = sort (filter external names);
         projectNetworkNames = sort (filter (\<lambda>n. \<not> external n) names)
     in bind_op (for_each (up_network env projectName project) externalNetworkNames) (\<lambda>_.
        for_each (up_network env projectName project) projectNetworkNames))"

definition up_volumes :: "docker_lib \<Rightarrow> docker_env \<Rightarrow> string \<Rightarrow> Project \<Rightarrow> unit dop" where
  "up_volumes lib env projectName project =
     bind_op (range_over env (prVolumes project)) (\<lambda>names.
     for_each (\<lambda>n. generateVolume lib env (project_volume (prVolumes project) n) n projectName) names)"

text \<open>
  A service is only started if its definition has the hash it had when it was last generated and
  there is a container under its name; otherwise it is generated anew.
\<close>

definition unchanged :: "DockerState \<Rightarrow> ServiceConfig \<Rightarrow> u8 list \<Rightarrow> bool" where
  "unchanged s service hash \<longleftrightarrow>
     serviceHashes s (seName service) = Some hash \<and> containers s (seName service) \<noteq> None"

definition up_service :: "docker_lib \<Rightarrow> docker_env \<Rightarrow> Project \<Rightarrow> ServiceConfig \<Rightarrow> unit dop" where
  "up_service lib env project service =
     bind_op (wrap_op ''error marshalling service [%s]: %w'' [seName service]
                (lift_op (service_Marshal lib service))) (\<lambda>yamlBytes.
     let hash = Sum256 lib yamlBytes in
     bind_op get_state (\<lambda>s.
     if unchanged s service hash
     then wrap_op ''error starting service [%s]: %w'' [seName service]
            (ContainerStart lib env (seName service))
     else bind_op (generateService lib env service (prNetworks project) (prVolumes project)) (\<lambda>_.
          modify_state (\<lambda>s. s\<lparr>serviceHashes := (serviceHashes s)(seName service \<mapsto> hash)\<rparr>))))"

definition services_of :: "docker_env \<Rightarrow> Project \<Rightarrow> ServiceConfig list dop" where
  "services_of env project =
     bind_op (range_over env (prServices project)) (\<lambda>names.
     return_op (List.map_filter (prServices project) names))"

definition Up :: "docker_lib \<Rightarrow> docker_env \<Rightarrow> string \<Rightarrow> string list \<Rightarrow> unit dop" where
  "Up lib env projectName composeFilePaths =
     bind_op (load_project lib projectName composeFilePaths) (\<lambda>project.
     bind_op (up_networks env projectName project) (\<lambda>_.
     bind_op (up_volumes lib env projectName project) (\<lambda>_.
     bind_op (services_of env project) (\<lambda>services.
     for_each (up_service lib env project) services))))"

section \<open>Stop, Down and Config\<close>

definition Stop :: "docker_lib \<Rightarrow> docker_env \<Rightarrow> string \<Rightarrow> string list \<Rightarrow> unit dop" where
  "Stop lib env projectName composeFilePaths =
     bind_op (load_project lib projectName composeFilePaths) (\<lambda>project.
     bind_op (services_of env project) (\<lambda>services.
     for_each (\<lambda>service.
       wrap_op ''error stopping service [%s]: %w'' [seName service]
         (ContainerStop lib env (seContainerName service))) services))"

definition Down :: "docker_lib \<Rightarrow> docker_env \<Rightarrow> string \<Rightarrow> string list \<Rightarrow> unit dop" where
  "Down lib env projectName composeFilePaths =
     bind_op (load_project lib projectName composeFilePaths) (\<lambda>project.
     bind_op (services_of env project) (\<lambda>services.
     bind_op (for_each (\<lambda>service.
       wrap_op ''error removing service [%s]: %w'' [seContainerName service]
         (ContainerRemove env (seContainerName service))) services) (\<lambda>_.
     bind_op (range_over env (prVolumes project)) (\<lambda>volumeNames.
     bind_op (for_each (\<lambda>n. let volume = project_volume (prVolumes project) n in
       wrap_op ''error removing volume [%s]: %w'' [vcName volume]
         (VolumeRemove (vcName volume))) volumeNames) (\<lambda>_.
     bind_op (range_over env (prNetworks project)) (\<lambda>networkNames.
     for_each (\<lambda>n. let network = project_network (prNetworks project) n in
       wrap_op ''error removing network [%s]: %w'' [ncName network]
         (NetworkRemove (ncName network))) networkNames))))))"

definition ComposeFormat_JSON :: string where "ComposeFormat_JSON = ''json''"
definition ComposeFormat_YAML :: string where "ComposeFormat_YAML = ''yaml''"

text \<open>\<open>Config\<close> has no case for another format, and then returns its empty buffer.\<close>

definition compose_Config ::
  "docker_lib \<Rightarrow> string \<Rightarrow> string list \<Rightarrow> string \<Rightarrow> u8 list dop" where
  "compose_Config lib projectName composeFilePaths format =
     bind_op (wrap_op ''error creating project options: %w'' []
                (lift_op (NewProjectOptions lib composeFilePaths projectName))) (\<lambda>options.
     bind_op (wrap_op ''error loading model: %w'' [] (lift_op (LoadModel lib options))) (\<lambda>model.
     wrap_op ''error marshalling model: %w'' []
       (lift_op (if format = ComposeFormat_JSON then model_MarshalIndent lib model
                 else if format = ComposeFormat_YAML then model_EncodeYAML lib model
                 else Inr []))))"

end
