(* ===== verification/Lease_Pool.thy ===== *)
theory Lease_Pool
  imports Osha_Prelude
begin

text \<open>
  A pool of resources leased out under names: what the Docker mock promises of the subnets of its
  networks. Every step takes the first free resource for a new name, gives a name's resource back,
  or leaves both alone. Then the free and the leased resources always divide the pool, so no two
  names ever hold the same resource, and a lease fails only when all of the pool is leased.
\<close>

locale lease_pool =
  fixes inv :: "'s \<Rightarrow> bool"
    and free :: "'s \<Rightarrow> 'r list"
    and leased :: "'s \<Rightarrow> 'k \<rightharpoonup> 'r"
    and pool :: "'r set"
    and step :: "'s \<Rightarrow> 's \<Rightarrow> bool"
  assumes finite_pool: "finite pool"
    and step_inv: "inv s \<Longrightarrow> step s t \<Longrightarrow> inv t"
    and step_cases: "inv s \<Longrightarrow> step s t \<Longrightarrow>
      free t = free s \<and> leased t = leased s
      \<or> (\<exists>k r. leased s k = None \<and> free s = r # free t \<and> leased t = (leased s)(k \<mapsto> r))
      \<or> (\<exists>k r. leased s k = Some r \<and> free t = free s @ [r] \<and> leased t = (leased s)(k := None))"
begin

definition divided :: "'s \<Rightarrow> bool" where
  "divided s \<longleftrightarrow> distinct (free s) \<and> inj_on (leased s) (dom (leased s))
     \<and> set (free s) \<inter> ran (leased s) = {} \<and> set (free s) \<union> ran (leased s) = pool"

lemma inj_on_dom: "inj_on f (dom f) \<longleftrightarrow> (\<forall>k l r. f k = Some r \<longrightarrow> f l = Some r \<longrightarrow> k = l)"
  by (auto simp: inj_on_def dom_def)

lemma divided_step:
  assumes "inv s" and "step s t" and "divided s"
  shows "divided t"
proof -
  have d: "distinct (free s)" "\<forall>k l r. leased s k = Some r \<longrightarrow> leased s l = Some r \<longrightarrow> k = l"
    "set (free s) \<inter> ran (leased s) = {}" "set (free s) \<union> ran (leased s) = pool"
    using assms(3) by (simp_all add: divided_def inj_on_dom)
  from step_cases [OF assms(1,2)] consider
      "free t = free s" "leased t = leased s"
    | k r where "leased s k = None" "free s = r # free t" "leased t = (leased s)(k \<mapsto> r)"
    | k r where "leased s k = Some r" "free t = free s @ [r]" "leased t = (leased s)(k := None)"
    by blast
  then show ?thesis
  proof cases
    case 1
    with assms(3) show ?thesis by (simp add: divided_def)
  next
    case 2
    then have "ran (leased t) = insert r (ran (leased s))" by (simp add: ran_map_upd)
    moreover have "r \<notin> ran (leased s)" "r \<notin> set (free t)" using d(1,3) 2(2) by auto
    moreover from this(1) have "\<forall>k l x. leased t k = Some x \<longrightarrow> leased t l = Some x \<longrightarrow> k = l"
      using d(2) 2(3) by (auto simp: ran_def split: if_splits)
    ultimately show ?thesis using d 2(2) unfolding divided_def inj_on_dom by auto
  next
    case 3
    have ran: "ran (leased t) = ran (leased s) - {r}"
      unfolding 3(3) using 3(1) d(2) by (auto simp: ran_def) (metis option.inject)
    have "r \<in> ran (leased s)" using 3(1) by (auto simp: ran_def)
    moreover from this have "r \<notin> set (free s)" using d(3) by blast
    moreover have "\<forall>k l x. leased t k = Some x \<longrightarrow> leased t l = Some x \<longrightarrow> k = l"
      using d(2) 3(3) by (auto split: if_splits)
    ultimately show ?thesis using d ran 3(2) unfolding divided_def inj_on_dom by auto
  qed
qed

lemma divided_steps: "step\<^sup>*\<^sup>* s t \<Longrightarrow> inv s \<Longrightarrow> divided s \<Longrightarrow> inv t \<and> divided t"
  by (induction rule: rtranclp_induct) (auto intro: divided_step step_inv)

theorem no_double_lease:
  "divided s \<Longrightarrow> leased s k = Some r \<Longrightarrow> leased s l = Some r \<Longrightarrow> k = l"
  by (simp add: divided_def inj_on_dom)

lemma leased_in_pool: "divided s \<Longrightarrow> leased s k = Some r \<Longrightarrow> r \<in> pool"
  unfolding divided_def by (auto simp: ran_def)

lemma ran_image: "ran f = (\<lambda>k. the (f k)) ` dom f"
  by (force simp: ran_def dom_def)

theorem count:
  assumes "divided s"
  shows "finite (dom (leased s)) \<and> length (free s) + card (dom (leased s)) = card pool"
proof -
  have inj: "inj_on (\<lambda>k. the (leased s k)) (dom (leased s))"
    using assms unfolding divided_def inj_on_def by (auto simp: dom_def)
  have ran: "ran (leased s) = (\<lambda>k. the (leased s k)) ` dom (leased s)" by (rule ran_image)
  have fin: "finite (ran (leased s))"
    using assms finite_pool unfolding divided_def by (metis finite_Un)
  then have findom: "finite (dom (leased s))" unfolding ran by (rule finite_imageD [OF _ inj])
  have "card pool = card (set (free s)) + card (ran (leased s))"
    using assms fin unfolding divided_def by (metis List.finite_set card_Un_disjoint)
  also have "card (ran (leased s)) = card (dom (leased s))" unfolding ran by (rule card_image [OF inj])
  also have "card (set (free s)) = length (free s)"
    using assms by (simp add: divided_def distinct_card)
  finally show ?thesis using findom by simp
qed

text \<open>The pool is exhausted exactly when as many names hold a lease as it has resources.\<close>

theorem exhausted: "divided s \<Longrightarrow> free s = [] \<longleftrightarrow> card (dom (leased s)) = card pool"
  using count by fastforce

end

end
