(* ===== verification/Docker_Networks_Inv.thy ===== *)
theory Docker_Networks_Inv
  imports Docker_Compose Lease_Pool
begin

text \<open>
  The subnets of the Docker mock: every network holds one of the subnets 172.17 to 172.31, no two
  networks the same one, and its address configuration is the one of its subnet. The steps of the
  mock are shown to be steps of a lease pool, operation by operation up to the compose commands.
\<close>

section \<open>Networks as leases\<close>

definition subnet_config :: "nat \<Rightarrow> IPAMConfig list" where
  "subnet_config r = [\<lparr> ipSubnet = ''172.'' @ FormatUint r @ ''.0.0/16'',
                        ipGateway = ''172.'' @ FormatUint r @ ''.0.1'' \<rparr>]"

definition net_configs :: "DockerState \<Rightarrow> string \<rightharpoonup> IPAMConfig list" where
  "net_configs s n = map_option neIPAMConfig (networks s n)"

definition net_inv :: "DockerState \<Rightarrow> bool" where
  "net_inv s \<longleftrightarrow> net_configs s = (\<lambda>n. map_option subnet_config (usedSubnets s n))"

inductive net_step :: "DockerState \<Rightarrow> DockerState \<Rightarrow> bool" where
  same: "net_configs t = net_configs s \<Longrightarrow> availableSubnets t = availableSubnets s
    \<Longrightarrow> usedSubnets t = usedSubnets s \<Longrightarrow> net_step s t"
| lease: "networks s k = None \<Longrightarrow> availableSubnets s = r # availableSubnets t
    \<Longrightarrow> usedSubnets t = (usedSubnets s)(k \<mapsto> r)
    \<Longrightarrow> net_configs t = (net_configs s)(k \<mapsto> subnet_config r) \<Longrightarrow> net_step s t"
| release: "networks s k \<noteq> None
    \<Longrightarrow> availableSubnets t = availableSubnets s @ (case usedSubnets s k of None \<Rightarrow> [] | Some r \<Rightarrow> [r])
    \<Longrightarrow> usedSubnets t = (usedSubnets s)(k := None)
    \<Longrightarrow> net_configs t = (net_configs s)(k := None) \<Longrightarrow> net_step s t"

inductive_cases net_stepE: "net_step s t"

lemma net_inv_dom: "net_inv s \<Longrightarrow> networks s n = None \<longleftrightarrow> usedSubnets s n = None"
  by (metis (no_types) net_inv_def net_configs_def map_option_is_None)

lemma net_step_inv: "net_inv s \<Longrightarrow> net_step s t \<Longrightarrow> net_inv t"
  by (erule net_stepE) (auto simp: net_inv_def fun_eq_iff)

lemma net_step_cases:
  assumes "net_inv s" and "net_step s t"
  shows "availableSubnets t = availableSubnets s \<and> usedSubnets t = usedSubnets s
      \<or> (\<exists>k r. usedSubnets s k = None \<and> availableSubnets s = r # availableSubnets t
           \<and> usedSubnets t = (usedSubnets s)(k \<mapsto> r))
      \<or> (\<exists>k r. usedSubnets s k = Some r \<and> availableSubnets t = availableSubnets s @ [r]
           \<and> usedSubnets t = (usedSubnets s)(k := None))"
  using assms(2)
proof cases
  case (lease k r)
  then show ?thesis using net_inv_dom [OF assms(1)] by blast
next
  case (release k)
  then obtain r where "usedSubnets s k = Some r" using net_inv_dom [OF assms(1), of k] by auto
  with release show ?thesis by auto
qed simp

interpretation subnets: lease_pool net_inv availableSubnets usedSubnets "{17..<32}" net_step
proof
  show "finite {17..<32 :: nat}" by simp
  show "net_inv s \<Longrightarrow> net_step s t \<Longrightarrow> net_inv t" for s t by (rule net_step_inv)
  show "net_inv s \<Longrightarrow> net_step s t \<Longrightarrow>
      availableSubnets t = availableSubnets s \<and> usedSubnets t = usedSubnets s
      \<or> (\<exists>k r. usedSubnets s k = None \<and> availableSubnets s = r # availableSubnets t
           \<and> usedSubnets t = (usedSubnets s)(k \<mapsto> r))
      \<or> (\<exists>k r. usedSubnets s k = Some r \<and> availableSubnets t = availableSubnets s @ [r]
           \<and> usedSubnets t = (usedSubnets s)(k := None))" for s t
    by (rule net_step_cases)
qed

lemma newState_subnets: "net_inv newState" "subnets.divided newState"
  by (simp_all add: net_inv_def net_configs_def newState_def subnets.divided_def fun_eq_iff
      del: upt_rec_numeral)

section \<open>Operation by operation\<close>

definition finite_cv :: "DockerState \<Rightarrow> bool" where
  "finite_cv s \<longleftrightarrow> finite (dom (containers s)) \<and> finite (dom (volumes s))"

text \<open>No step reaches a snapshot from a manager whose live state shares nothing with it.\<close>

definition leaves_snapshots :: "DockerMockManager \<Rightarrow> DockerMockManager \<Rightarrow> bool" where
  "leaves_snapshots m m' \<longleftrightarrow> (docker_separate m \<longrightarrow> docker_separate m' \<and> dmSnapshots m' = dmSnapshots m)"

lemma leaves_snapshots_simps [simp, intro]:
  "leaves_snapshots m m" "leaves_snapshots m (m\<lparr>dmTicks := k\<rparr>)"
  "leaves_snapshots m (set_state v m)" "leaves_snapshots m (store_container n c m)"
  "leaves_snapshots (m\<lparr>dmTicks := k\<rparr>) m' = leaves_snapshots m m'"
  "leaves_snapshots m (m'\<lparr>dmTicks := k\<rparr>) = leaves_snapshots m m'"
  by (auto simp: leaves_snapshots_def set_state_separate store_container_separate)

lemma leaves_snapshots_set [simp]: "leaves_snapshots m m' \<Longrightarrow> leaves_snapshots m (set_state v m')"
  using set_state_separate [of m' v] by (simp add: leaves_snapshots_def)

lemma leaves_snapshots_store [simp]: "leaves_snapshots m m' \<Longrightarrow> leaves_snapshots m (store_container n c m')"
  using store_container_separate [of m' n c] by (simp add: leaves_snapshots_def)

definition net_rel :: "DockerMockManager \<Rightarrow> DockerMockManager \<Rightarrow> bool" where
  "net_rel m m' \<longleftrightarrow> leaves_snapshots m m' \<and> net_step\<^sup>*\<^sup>* (dmState m) (dmState m')
     \<and> (finite_cv (dmState m) \<longrightarrow> finite_cv (dmState m'))"

lemma net_rel_preorder [keeps_rules]: "preorder_rel net_rel"
  by (auto simp: preorder_rel_def reflp_def transp_def net_rel_def leaves_snapshots_def)

lemma net_relI [intro]: "leaves_snapshots m m' \<Longrightarrow> net_step (dmState m) (dmState m')
   \<Longrightarrow> (finite_cv (dmState m) \<Longrightarrow> finite_cv (dmState m')) \<Longrightarrow> net_rel m m'"
  by (simp add: net_rel_def r_into_rtranclp)

lemma net_rel_same [intro]:
  "leaves_snapshots m m' \<Longrightarrow> net_configs (dmState m') = net_configs (dmState m)
   \<Longrightarrow> availableSubnets (dmState m') = availableSubnets (dmState m)
   \<Longrightarrow> usedSubnets (dmState m') = usedSubnets (dmState m)
   \<Longrightarrow> (finite_cv (dmState m) \<Longrightarrow> finite_cv (dmState m')) \<Longrightarrow> net_rel m m'"
  by (intro net_relI net_step.same)

lemma keeps_tick [keeps_rules]: "keeps net_rel (tick f)" "keeps net_rel (now env)"
  "keeps net_rel (range_over env mp)" "keeps net_rel (createRandomID env n)" "keeps net_rel get_state"
  by (auto simp: keeps_def)

lemma keeps_modify_state:
  "(\<And>s. net_configs (f s) = net_configs s \<and> availableSubnets (f s) = availableSubnets s
      \<and> usedSubnets (f s) = usedSubnets s \<and> (finite_cv s \<longrightarrow> finite_cv (f s)))
   \<Longrightarrow> keeps net_rel (modify_state f)"
  by (auto simp: keeps_def)

lemma keeps_case_prod [keeps_rules]:
  "(\<And>a b. keeps R (f a b)) \<Longrightarrow> keeps R (case x of (a, b) \<Rightarrow> f a b)"
  by (cases x) simp

lemma keeps_case_option [keeps_rules]:
  "keeps R m \<Longrightarrow> (\<And>a. keeps R (f a)) \<Longrightarrow> keeps R (case x of None \<Rightarrow> m | Some a \<Rightarrow> f a)"
  by (cases x) simp_all

lemma configs_simps [simp]:
  "net_configs (s\<lparr>containers := cs\<rparr>) = net_configs s" "net_configs (s\<lparr>volumes := vs\<rparr>) = net_configs s"
  "net_configs (s\<lparr>networkIndices := ni\<rparr>) = net_configs s"
  "net_configs (s\<lparr>serviceHashes := sh\<rparr>) = net_configs s"
  by (auto simp: net_configs_def fun_eq_iff)

lemma finite_cv_simps [simp]:
  "finite_cv (s\<lparr>networks := ns\<rparr>) = finite_cv s" "finite_cv (s\<lparr>availableSubnets := a\<rparr>) = finite_cv s"
  "finite_cv (s\<lparr>usedSubnets := u\<rparr>) = finite_cv s" "finite_cv (s\<lparr>networkIndices := ni\<rparr>) = finite_cv s"
  "finite_cv (s\<lparr>serviceHashes := sh\<rparr>) = finite_cv s" "finite_cv (disconnect c n s) = finite_cv s"
  "finite_cv s \<Longrightarrow> finite_cv (s\<lparr>containers := (containers s)(n := c1)\<rparr>)"
  "finite_cv s \<Longrightarrow> finite_cv (s\<lparr>volumes := (volumes s)(n := v1)\<rparr>)"
  by (auto simp: finite_cv_def)

lemma net_configs_disconnect [simp]: "net_configs (disconnect c n s) = net_configs s"
  by (auto simp: net_configs_def disconnect_def fun_eq_iff split: option.split)

lemma keeps_put_container [keeps_rules]: "keeps net_rel (put_container n c)"
  unfolding put_container_def by (rule keeps_modify_state) simp

lemma keeps_new_container [keeps_rules]: "keeps net_rel (new_container n c)"
  by (auto simp: keeps_def)

lemma keeps_get_container [keeps_rules]: "keeps net_rel (get_container n e)"
  unfolding get_container_def by (intro keeps_rules)

lemma keeps_conversions [keeps_rules]:
  "keeps net_rel (getStateFromContainerState lib cs)"
  "keeps net_rel (getContainerStateFromState lib env st)"
  "keeps net_rel (convert_port lib p b)"
  "keeps net_rel (started_state lib env)"
  unfolding getStateFromContainerState_def getContainerStateFromState_def convert_port_def
    started_state_def
  by (intro keeps_rules)+

lemma keeps_convert [keeps_rules]: "keeps net_rel (convertContainerJsonToContainer lib env c)"
  unfolding convertContainerJsonToContainer_def by (intro keeps_rules)

lemma keeps_list_containers [keeps_rules]: "keeps net_rel (list_containers lib env a cs ns acc)"
proof (induction ns arbitrary: acc)
  case Nil
  show ?case unfolding list_containers.simps by (intro keeps_rules)
next
  case (Cons n ns)
  show ?case unfolding list_containers.simps by (intro keeps_rules Cons.IH)
qed

lemma keeps_client [keeps_rules]:
  "keeps net_rel (ContainerInspect c)" "keeps net_rel (ContainerList lib env a)"
  "keeps net_rel (ContainerStart lib env c)" "keeps net_rel (ContainerRestart lib env c)"
  "keeps net_rel (ContainerStop lib env c)" "keeps net_rel (DiskUsage lib env)"
  unfolding ContainerInspect_def ContainerList_def ContainerRestart_def ContainerStart_def
    ContainerStop_def change_state_def DiskUsage_def
  by (intro keeps_rules)+

lemma keeps_ContainerRemove [keeps_rules]: "keeps net_rel (ContainerRemove env c)"
  unfolding ContainerRemove_def
  by (intro keeps_rules keeps_modify_state) simp_all

lemma keeps_volumes [keeps_rules]:
  "keeps net_rel (VolumeRemove v)" "keeps net_rel (Mock_AddVolume vol)"
  "keeps net_rel (Mock_SetVolumeDiskUsage v k)" "keeps net_rel (generateVolume lib env vc n p)"
  unfolding VolumeRemove_def Mock_AddVolume_def Mock_SetVolumeDiskUsage_def generateVolume_def
  by (intro keeps_rules keeps_modify_state; simp)+

lemma keeps_mock_containers [keeps_rules]:
  "keeps net_rel (Mock_AddContainer c)" "keeps net_rel (Mock_SetContainerDiskUsage n a b)"
  unfolding Mock_AddContainer_def Mock_SetContainerDiskUsage_def
  by (intro keeps_rules)+

lemma keeps_NetworkRemove [keeps_rules]: "keeps net_rel (NetworkRemove n)"
  unfolding keeps_def
proof
  fix m
  show "net_rel m (snd (NetworkRemove n m))"
  proof (cases "networks (dmState m) n")
    case None
    then show ?thesis by (auto simp: NetworkRemove_def)
  next
    case (Some x)
    show ?thesis
    proof (cases "neContainers x = Map.empty")
      case True
      have "net_step (dmState m) (dmState (snd (NetworkRemove n m)))"
        using Some True by (intro net_step.release [where k = n])
          (auto simp: NetworkRemove_def Let_def net_configs_def fun_eq_iff split: option.split)
      then show ?thesis using Some True
        by (intro net_relI) (auto simp: NetworkRemove_def Let_def split: option.split)
    next
      case False
      with Some show ?thesis by (auto simp: NetworkRemove_def)
    qed
  qed
qed

lemma keeps_generateNetwork [keeps_rules]: "keeps net_rel (generateNetwork env nc n p)"
  unfolding keeps_def
proof
  fix m
  let ?m' = "snd (generateNetwork env nc n p m)"
  show "net_rel m ?m'"
  proof (cases "networks (dmState m) (ncName nc)")
    case (Some x)
    then show ?thesis by (auto simp: generateNetwork_def net_configs_def fun_eq_iff)
  next
    case None
    show ?thesis
    proof (cases "availableSubnets (dmState m)")
      case Nil
      with None show ?thesis by (auto simp: generateNetwork_def)
    next
      case (Cons r rest)
      have "net_step (dmState m) (dmState ?m')"
        using None Cons by (intro net_step.lease [where k = "ncName nc" and r = r])
          (auto simp: generateNetwork_def net_configs_def subnet_config_def fun_eq_iff)
      then show ?thesis using None Cons by (intro net_relI) (simp_all add: generateNetwork_def)
    qed
  qed
qed

section \<open>Services and compose commands\<close>

lemma keeps_let [keeps_rules]: "(\<And>x. keeps R (f x)) \<Longrightarrow> keeps R (let x = y in f x)"
  by simp

lemma keeps_pure [keeps_rules]: "keeps net_rel (\<lambda>m. (r, m))"
  by (auto simp: keeps_def)

lemma keeps_service_mounts [keeps_rules]: "keeps net_rel (service_mounts lib pv vs acc)"
proof (induction vs arbitrary: acc)
  case Nil
  show ?case unfolding service_mounts.simps by (intro keeps_rules)
next
  case (Cons v vs)
  obtain b h c where acc: "acc = (b, h, c)" by (cases acc)
  show ?case unfolding acc service_mounts.simps by (intro keeps_rules Cons.IH)
qed

lemma keeps_service_ports [keeps_rules]: "keeps net_rel (service_ports lib n ps acc)"
proof (induction ps arbitrary: acc)
  case Nil
  show ?case unfolding service_ports.simps by (intro keeps_rules)
next
  case (Cons p ps)
  obtain a b where acc: "acc = (a, b)" by (cases acc)
  show ?case unfolding acc service_ports.simps by (intro keeps_rules Cons.IH)
qed

lemma keeps_service_env [keeps_rules]: "keeps net_rel (service_env env service)"
  unfolding service_env_def by (intro keeps_rules)

lemma keeps_service_network [keeps_rules]: "keeps net_rel (service_network env service pn n acc)"
  unfolding service_network_def by (intro keeps_rules keeps_modify_state) simp

lemma keeps_service_networks [keeps_rules]: "keeps net_rel (service_networks env service pn ns acc)"
proof (induction ns arbitrary: acc)
  case Nil
  show ?case unfolding service_networks.simps by (intro keeps_rules)
next
  case (Cons n ns)
  show ?case unfolding service_networks.simps by (intro keeps_rules Cons.IH)
qed

lemma keeps_fill_host_config [keeps_rules]: "keeps net_rel (fill_host_config lib env service pn hc)"
  unfolding fill_host_config_def default_network_mode_def fill_ulimits_def
  by (intro keeps_rules)

lemma keeps_connect [keeps_rules]: "keeps net_rel (connect c eps n)"
  unfolding keeps_def
proof
  fix m
  show "net_rel m (snd (connect c eps n m))"
    by (cases "eps n"; cases "networks (dmState m) n")
      (auto simp: connect_def net_configs_def fun_eq_iff)
qed

lemma keeps_generateService [keeps_rules]: "keeps net_rel (generateService lib env service pn pv)"
  unfolding generateService_def service_container_def by (intro keeps_rules)

lemma keeps_load_project [keeps_rules]: "keeps net_rel (load_project lib n fs)"
  unfolding load_project_def loadComposeProject_def by (intro keeps_rules)

lemma keeps_up [keeps_rules]:
  "keeps net_rel (up_networks env pn project)" "keeps net_rel (up_volumes lib env pn project)"
  "keeps net_rel (services_of env project)"
  unfolding up_networks_def up_volumes_def services_of_def up_network_def
  by (intro keeps_rules)+

lemma keeps_up_service [keeps_rules]: "keeps net_rel (up_service lib env project service)"
  unfolding up_service_def by (intro keeps_rules keeps_modify_state) simp_all

lemma keeps_compose [keeps_rules]:
  "keeps net_rel (Up lib env pn fs)" "keeps net_rel (Stop lib env pn fs)"
  "keeps net_rel (Down lib env pn fs)" "keeps net_rel (compose_Config lib pn fs fmt)"
  unfolding Up_def Stop_def Down_def compose_Config_def
  by (intro keeps_rules)+

section \<open>Reachable managers\<close>

text \<open>One call of a client of the Docker mock, whatever it returns.\<close>

inductive docker_step ::
  "docker_lib \<Rightarrow> docker_env \<Rightarrow> DockerMockManager \<Rightarrow> DockerMockManager \<Rightarrow> bool" for lib env where
  inspect: "docker_step lib env m (snd (ContainerInspect c m))"
| list: "docker_step lib env m (snd (ContainerList lib env a m))"
| start: "docker_step lib env m (snd (ContainerStart lib env c m))"
| restart: "docker_step lib env m (snd (ContainerRestart lib env c m))"
| stop: "docker_step lib env m (snd (ContainerStop lib env c m))"
| remove: "docker_step lib env m (snd (ContainerRemove env c m))"
| usage: "docker_step lib env m (snd (DiskUsage lib env m))"
| remove_network: "docker_step lib env m (snd (NetworkRemove n m))"
| remove_volume: "docker_step lib env m (snd (VolumeRemove v m))"
| add_container: "docker_step lib env m (snd (Mock_AddContainer info m))"
| add_volume: "docker_step lib env m (snd (Mock_AddVolume vol m))"
| set_container_usage: "docker_step lib env m (snd (Mock_SetContainerDiskUsage c x y m))"
| set_volume_usage: "docker_step lib env m (snd (Mock_SetVolumeDiskUsage v x m))"
| up: "docker_step lib env m (snd (Up lib env p fs m))"
| compose_stop: "docker_step lib env m (snd (Stop lib env p fs m))"
| down: "docker_step lib env m (snd (Down lib env p fs m))"
| compose_config: "docker_step lib env m (snd (compose_Config lib p fs fmt m))"

lemma docker_step_net: "docker_step lib env m m' \<Longrightarrow> net_rel m m'"
  by (induction rule: docker_step.induct)
    (rule keeps_snd, rule keeps_client keeps_ContainerRemove keeps_NetworkRemove keeps_volumes
      keeps_mock_containers keeps_compose)+

inductive reachable_docker :: "docker_lib \<Rightarrow> docker_env \<Rightarrow> DockerMockManager \<Rightarrow> bool" for lib env where
  new: "reachable_docker lib env NewDockerMockManager"
| call: "reachable_docker lib env m \<Longrightarrow> docker_step lib env m m' \<Longrightarrow> reachable_docker lib env m'"
| take: "reachable_docker lib env m \<Longrightarrow> reachable_docker lib env (snd (docker_TakeSnapshot lib env n m))"
| revert: "reachable_docker lib env m \<Longrightarrow> reachable_docker lib env (snd (docker_RevertToSnapshot lib env n m))"

end
