(* ===== verification/Docker_Manager_Inv.thy ===== *)
theory Docker_Manager_Inv
  imports Docker_Networks_Inv
begin

text \<open>
  The invariant of the Docker mock manager, for the live state and for every snapshot, and the
  manager as an instance of \<open>snapshotting\<close>: a snapshot holds everything but the hashes of the
  services.
\<close>

definition state_inv :: "DockerState \<Rightarrow> bool" where
  "state_inv s \<longleftrightarrow> net_inv s \<and> subnets.divided s \<and> finite_cv s"

definition docker_inv :: "DockerMockManager \<Rightarrow> bool" where
  "docker_inv m \<longleftrightarrow> docker_separate m \<and> state_inv (dmState m) \<and> (\<forall>n s. dmSnapshots m n = Some s \<longrightarrow> state_inv s)"

lemma state_inv_finite: "state_inv s \<Longrightarrow> finite_state s"
proof -
  assume s: "state_inv s"
  then have "dom (networks s) = dom (usedSubnets s)"
    using net_inv_dom [of s] unfolding state_inv_def dom_def by simp
  moreover have "finite (dom (usedSubnets s))" using s subnets.count by (simp add: state_inv_def)
  ultimately show ?thesis using s by (simp add: state_inv_def finite_state_def finite_cv_def)
qed

lemma state_inv_hashes: "state_inv s \<Longrightarrow> state_inv (without_hashes s)"
  by (simp add: state_inv_def without_hashes_def net_inv_def subnets.divided_def)

lemma net_rel_inv:
  assumes "net_rel m m'" and "docker_inv m"
  shows "docker_inv m'" and "dmSnapshots m' = dmSnapshots m"
proof -
  have left: "docker_separate m'" "dmSnapshots m' = dmSnapshots m"
    using assms by (auto simp: net_rel_def leaves_snapshots_def docker_inv_def)
  then show "dmSnapshots m' = dmSnapshots m" by blast
  show "docker_inv m'"
    using left assms subnets.divided_steps by (auto simp: net_rel_def docker_inv_def state_inv_def)
qed

lemma new_docker_inv: "docker_inv NewDockerMockManager"
  using newState_subnets
  by (simp add: docker_inv_def state_inv_def finite_cv_def new_docker_separate) (simp add: newState_def)

lemma networks_ipam:
  assumes "docker_inv m" and "networks (dmState m) n = Some x"
  shows "neIPAMConfig x \<noteq> []"
proof -
  have "map_option subnet_config (usedSubnets (dmState m) n) = net_configs (dmState m) n"
    using assms(1) by (simp add: docker_inv_def state_inv_def net_inv_def)
  then have "map_option subnet_config (usedSubnets (dmState m) n) = Some (neIPAMConfig x)"
    using assms(2) by (simp add: net_configs_def)
  then obtain r where "subnet_config r = neIPAMConfig x" by (auto simp: map_option_eq_Some)
  then show ?thesis unfolding subnet_config_def by auto
qed

section \<open>Snapshots\<close>

lemma saved_contents: "dmSaved m n = Some s \<Longrightarrow> dmSnapshots m n = Some (contents (dmHeap m) s)"
  by (simp add: dmSnapshots_def)

lemma docker_Clone_ok:
  assumes json: "json_faithful lib" and env: "fair_ranges env" and inv: "docker_inv m"
    and s: "s = dmLive m \<or> dmSaved m n = Some s"
  obtains h c where "docker_Clone lib env s m = (Ok c, m\<lparr>dmTicks := dmTicks m + 3, dmHeap := h\<rparr>)"
    and "contents h c = without_hashes (contents (dmHeap m) s)"
    and "struct_new (dhNext (dmHeap m)) c" and "dhNext h = Suc (dhNext (dmHeap m))"
    and "\<And>t. struct_below (dhNext (dmHeap m)) t \<Longrightarrow> contents h t = contents (dmHeap m) t"
proof -
  have "state_inv (contents (dmHeap m) s)" "struct_below (dhNext (dmHeap m)) s"
    using inv s by (auto simp: docker_inv_def docker_separate_def dmState_def dest: saved_contents)
  then show thesis using docker_Clone_copy [OF json env state_inv_finite] that by blast
qed

text \<open>A snapshot is made of new objects, so the live state stays apart from all of them.\<close>

lemma docker_TakeSnapshot_spec:
  assumes json: "json_faithful lib" and env: "fair_ranges env" and inv: "docker_inv m"
  obtains m' where "docker_TakeSnapshot lib env n m = (Ok (), m')" and "docker_separate m'"
    and "dmState m' = dmState m" and "dmTicks m' = dmTicks m + 3"
    and "dmSnapshots m' = (dmSnapshots m)(n \<mapsto> without_hashes (dmState m))"
proof -
  have sep: "docker_separate m" using inv by (simp add: docker_inv_def)
  obtain h c where run: "docker_Clone lib env (dmLive m) m = (Ok c, m\<lparr>dmTicks := dmTicks m + 3, dmHeap := h\<rparr>)"
    and c: "contents h c = without_hashes (contents (dmHeap m) (dmLive m))"
    and new: "struct_new (dhNext (dmHeap m)) c" and k: "dhNext h = Suc (dhNext (dmHeap m))"
    and old: "\<And>t. struct_below (dhNext (dmHeap m)) t \<Longrightarrow> contents h t = contents (dmHeap m) t"
    using docker_Clone_ok [OF json env inv, of "dmLive m" n] by blast
  let ?m = "m\<lparr>dmTicks := dmTicks m + 3, dmHeap := h, dmSaved := (dmSaved m)(n \<mapsto> c)\<rparr>"
  have same: "contents h t = contents (dmHeap m) t" if "t = dmLive m \<or> dmSaved m j = Some t" for t j
    using old that sep by (auto simp: docker_separate_def)
  show thesis
  proof (rule that)
    show "docker_TakeSnapshot lib env n m = (Ok (), ?m)" by (simp add: docker_TakeSnapshot_def run)
    show "docker_separate ?m"
      using sep k struct_newD [OF new] by (auto simp: docker_separate_def intro: struct_below_Suc)
    show "dmState ?m = dmState m" using same by (simp add: dmState_def)
    show "dmSnapshots ?m = (dmSnapshots m)(n \<mapsto> without_hashes (dmState m))"
      using same c by (auto simp: dmSnapshots_def dmState_def fun_eq_iff intro!: option.map_cong)
  qed simp
qed

lemma docker_RevertToSnapshot_none:
  "dmSnapshots m n = None \<Longrightarrow>
   docker_RevertToSnapshot lib env n m = (Err (Errorf ''snapshot with name [%s] does not exist'' [n]), m)"
  by (auto simp: docker_RevertToSnapshot_def dmSnapshots_def)

lemma docker_RevertToSnapshot_spec:
  assumes json: "json_faithful lib" and env: "fair_ranges env" and inv: "docker_inv m"
    and v: "dmSnapshots m n = Some v"
  obtains m' where "docker_RevertToSnapshot lib env n m = (Ok (), m')" and "docker_separate m'"
    and "dmState m' = without_hashes v" and "dmTicks m' = dmTicks m + 3" and "dmSnapshots m' = dmSnapshots m"
proof -
  have sep: "docker_separate m" using inv by (simp add: docker_inv_def)
  obtain s where s: "dmSaved m n = Some s" and vs: "v = contents (dmHeap m) s"
    using v by (auto simp: dmSnapshots_def)
  obtain h c where run: "docker_Clone lib env s m = (Ok c, m\<lparr>dmTicks := dmTicks m + 3, dmHeap := h\<rparr>)"
    and c: "contents h c = without_hashes v"
    and new: "struct_new (dhNext (dmHeap m)) c" and k: "dhNext h = Suc (dhNext (dmHeap m))"
    and old: "\<And>t. struct_below (dhNext (dmHeap m)) t \<Longrightarrow> contents h t = contents (dmHeap m) t"
    using docker_Clone_ok [OF json env inv, of s n] s vs by blast
  let ?m = "m\<lparr>dmTicks := dmTicks m + 3, dmHeap := h, dmLive := c\<rparr>"
  have same: "contents h t = contents (dmHeap m) t" if "dmSaved m j = Some t" for t j
    using old that sep by (auto simp: docker_separate_def)
  show thesis
  proof (rule that)
    show "docker_RevertToSnapshot lib env n m = (Ok (), ?m)"
      by (simp add: docker_RevertToSnapshot_def s run wrap_op_def)
    show "docker_separate ?m"
      using sep k struct_newD [OF new] by (auto simp: docker_separate_def intro: struct_below_Suc)
    show "dmState ?m = without_hashes v" using c by (simp add: dmState_def)
    show "dmSnapshots ?m = dmSnapshots m"
      using same by (auto simp: dmSnapshots_def fun_eq_iff intro!: option.map_cong)
  qed simp
qed

lemma docker_snapshots_inv:
  assumes json: "json_faithful lib" and env: "fair_ranges env" and inv: "docker_inv m"
  shows "docker_inv (snd (docker_TakeSnapshot lib env n m))"
    and "docker_inv (snd (docker_RevertToSnapshot lib env n m))"
proof -
  obtain m' where "docker_TakeSnapshot lib env n m = (Ok (), m')" "docker_separate m'" "dmState m' = dmState m"
    "dmSnapshots m' = (dmSnapshots m)(n \<mapsto> without_hashes (dmState m))"
    using docker_TakeSnapshot_spec [OF json env inv] by blast
  then show "docker_inv (snd (docker_TakeSnapshot lib env n m))"
    using inv state_inv_hashes by (auto simp: docker_inv_def)
  show "docker_inv (snd (docker_RevertToSnapshot lib env n m))"
  proof (cases "dmSnapshots m n")
    case None
    then show ?thesis using inv by (simp add: docker_RevertToSnapshot_none)
  next
    case (Some v)
    then obtain m' where "docker_RevertToSnapshot lib env n m = (Ok (), m')" "docker_separate m'"
      "dmState m' = without_hashes v" "dmSnapshots m' = dmSnapshots m"
      using docker_RevertToSnapshot_spec [OF json env inv] by blast
    then show ?thesis using inv Some state_inv_hashes by (auto simp: docker_inv_def)
  qed
qed

lemma reachable_docker_inv:
  assumes "json_faithful lib" and "fair_ranges env" and "reachable_docker lib env m"
  shows "docker_inv m"
  using assms(3)
  by (induction rule: reachable_docker.induct)
    (auto intro: new_docker_inv docker_snapshots_inv [OF assms(1,2)] net_rel_inv(1) [OF docker_step_net])

text \<open>
  The manager together with the environment's promises is an instance of the interface: the
  invariant carries them, since the operations rest on them.
\<close>

definition docker_ok :: "docker_lib \<Rightarrow> docker_env \<Rightarrow> DockerMockManager \<Rightarrow> bool" where
  "docker_ok lib env m \<longleftrightarrow> json_faithful lib \<and> fair_ranges env \<and> docker_inv m"

interpretation docker_snapshots: snapshotting "docker_ok lib env" dmState dmSnapshots
    "\<lambda>n. ok_state (docker_TakeSnapshot lib env n)" "\<lambda>n. ok_state (docker_RevertToSnapshot lib env n)"
    without_hashes "docker_step lib env"
  for lib env
proof
  fix m t :: DockerMockManager and n :: string and v :: DockerState
  assume ok: "docker_ok lib env m"
  then have h: "json_faithful lib" "fair_ranges env" "docker_inv m" by (simp_all add: docker_ok_def)
  note invs = docker_snapshots_inv [OF h, of n]
  obtain m' where take: "docker_TakeSnapshot lib env n m = (Ok (), m')" "dmState m' = dmState m"
    "dmSnapshots m' = (dmSnapshots m)(n \<mapsto> without_hashes (dmState m))"
    using docker_TakeSnapshot_spec [OF h] by blast
  then show "ok_state (docker_TakeSnapshot lib env n) m = Some t \<Longrightarrow> docker_ok lib env t"
    "ok_state (docker_TakeSnapshot lib env n) m = Some t \<Longrightarrow> dmState t = dmState m"
    "ok_state (docker_TakeSnapshot lib env n) m = Some t \<Longrightarrow>
       dmSnapshots t = (dmSnapshots m)(n \<mapsto> without_hashes (dmState m))"
    using invs(1) h by (auto simp: ok_state_def docker_ok_def)
  show "dmSnapshots m n \<noteq> None \<Longrightarrow> ok_state (docker_RevertToSnapshot lib env n) m \<noteq> None"
  proof -
    assume "dmSnapshots m n \<noteq> None"
    then obtain w where "dmSnapshots m n = Some w" by auto
    then obtain m2 where "docker_RevertToSnapshot lib env n m = (Ok (), m2)"
      using docker_RevertToSnapshot_spec [OF h] by blast
    then show "ok_state (docker_RevertToSnapshot lib env n) m \<noteq> None" by (simp add: ok_state_def)
  qed
  have revert: "\<exists>w. dmSnapshots m n = Some w \<and> docker_ok lib env t \<and> dmSnapshots t = dmSnapshots m
      \<and> dmState t = without_hashes w"
    if run: "ok_state (docker_RevertToSnapshot lib env n) m = Some t"
  proof (cases "dmSnapshots m n")
    case None
    then show ?thesis using run by (simp add: ok_state_def docker_RevertToSnapshot_none)
  next
    case (Some w)
    then obtain m' where "docker_RevertToSnapshot lib env n m = (Ok (), m')" "dmState m' = without_hashes w"
      "dmSnapshots m' = dmSnapshots m" using docker_RevertToSnapshot_spec [OF h] by blast
    then show ?thesis using run invs(2) h Some by (auto simp: ok_state_def docker_ok_def)
  qed
  then show "ok_state (docker_RevertToSnapshot lib env n) m = Some t \<Longrightarrow> docker_ok lib env t"
    "ok_state (docker_RevertToSnapshot lib env n) m = Some t \<Longrightarrow> dmSnapshots t = dmSnapshots m"
    "ok_state (docker_RevertToSnapshot lib env n) m = Some t \<Longrightarrow> dmSnapshots m n = Some v \<Longrightarrow>
       dmState t = without_hashes v"
    by auto
  show "docker_step lib env m t \<Longrightarrow> docker_ok lib env t"
    "docker_step lib env m t \<Longrightarrow> dmSnapshots t = dmSnapshots m"
    using net_rel_inv [OF docker_step_net h(3)] h(1,2) by (auto simp: docker_ok_def)
next
  show "without_hashes (without_hashes v) = without_hashes v" for v
    by (simp add: without_hashes_def)
qed

end
