(* ===== verification/Docker_Samples.thy ===== *)
theory Docker_Samples
  imports Docker_Manager_Inv
begin

text \<open>
  Concrete instances of the parameters of the Docker mock, for the witnesses: a faithful JSON
  codec, times written as decimal numbers, a clock that stands still, identifiers made of the
  number of the choice, and maps visited in the order of their keys.
\<close>

definition sample_new_state :: ImplState where
  "sample_new_state =
     \<lparr> imRunning = False, imPaused = False, imRestarting = False, imOOMKilled = False,
       imDead = False, imPid = 0, imExitCodeValue = 0, imErrorMsg = [], imStartedAt = 0,
       imFinishedAt = 0, imHealth = None \<rparr>"

text \<open>A project with one network.\<close>

definition sample_network :: "string \<Rightarrow> NetworkConfig" where
  "sample_network n = \<lparr>ncName = n, ncEnableIPv6 = None, ncInternal = False,
     ncAttachable = False, ncExternal = False\<rparr>"

definition sample_project_networks :: "string \<rightharpoonup> NetworkConfig" where
  "sample_project_networks = [''net'' \<mapsto> sample_network ''p_net'']"

definition sample_dlib :: docker_lib where
  "sample_dlib =
     \<lparr> container_json = Copied, volume_json = Copied, network_json = Copied,
       time_Parse = (\<lambda>s. case ParseUint s 64 of Inl e \<Rightarrow> Inl e | Inr n \<Rightarrow> Inr (int n)),
       time_Format = (\<lambda>t. FormatUint (nat t)),
       TypeBind = ''bind'', TypeVolume = ''volume'', PropagationRPrivate = ''rprivate'',
       CgroupnsModePrivate = ''private'', IPCModePrivate = ''private'',
       State_New = sample_new_state,
       State_SetRunning = (\<lambda>t st. st\<lparr>imRunning := True, imStartedAt := t\<rparr>),
       State_SetStopped = (\<lambda>c t st. st\<lparr>imRunning := False, imExitCodeValue := c, imFinishedAt := t\<rparr>),
       State_String = (\<lambda>t st. if imRunning st then ''Up'' else ''Exited''),
       State_StateString = (\<lambda>st. if imRunning st then ''running'' else ''exited''),
       NewPort = (\<lambda>proto port. Inr (port @ ''/'' @ proto)),
       Port_Int = (\<lambda>p. 80), Port_Proto = (\<lambda>p. ''tcp''),
       ServiceVolume_String = svSource,
       HostsList_AsList = (\<lambda>k hosts sep. []),
       float32_times_100 = (\<lambda>w. 0),
       service_Marshal = (\<lambda>s. Inr (map of_char (seName s @ seImage s))),
       Sum256 = (\<lambda>bs. bs),
       NewProjectOptions = (\<lambda>fs n. Inr (fs, n)),
       LoadProject = (\<lambda>opts. Inr \<lparr>prNetworks = sample_project_networks, prVolumes = Map.empty,
                                     prServices = Map.empty\<rparr>),
       LoadModel = (\<lambda>opts. Inr Map.empty),
       model_MarshalIndent = (\<lambda>mo. Inr []), model_EncodeYAML = (\<lambda>mo. Inr []) \<rparr>"

definition sample_env :: docker_env where
  "sample_env =
     \<lparr> now_at = (\<lambda>k. 1000), rand_at = (\<lambda>k n. replicate n (of_nat k)),
       range_at = (\<lambda>k A. sorted_list_of_set A) \<rparr>"

lemma sample_json [simp]: "json_faithful sample_dlib"
  by (simp add: json_faithful_def sample_dlib_def)

lemma sample_ranges [simp]: "fair_ranges sample_env"
  by (simp add: fair_ranges_def sample_env_def)

lemma sample_time [simp]:
  "time_Parse sample_dlib (time_Format sample_dlib t) = Inr t" if "0 \<le> t" "t < 2 ^ 64"
proof -
  have "nat t < 2 ^ 64" using that by simp
  then show ?thesis using that by (simp add: sample_dlib_def ParseUint_FormatUint)
qed

definition sample_resources :: ServiceResources where
  "sample_resources =
     \<lparr> seCPUShares = 0, seMemLimit = 0, seCgroupParent = [], seCPUPeriod = 0, seCPUQuota = 0,
       seCPURTPeriod = 0, seCPURTRuntime = 0, seCPUSet = [], seDeviceCgroupRules = [],
       seMemReservation = 0, seMemSwapLimit = 0, seMemSwappiness = 0, seOomKillDisable = False,
       sePidsLimit = 0, seCPUCount = 0, seCPUPercent = 0, seBlkioConfig = None, seUlimits = None \<rparr>"

definition sample_service :: "string \<Rightarrow> string \<Rightarrow> ServiceConfig" where
  "sample_service name cname =
     \<lparr> seName = name, seContainerName = cname, seImage = ''img'', seEntrypoint = [], seCommand = [],
       seVolumes = [], sePorts = [], seEnvironment = Map.empty, seNetworks = [''net'' \<mapsto> None],
       seNetworkMode = [], seRestart = [], seVolumeDriver = [], seVolumesFrom = [],
       seAnnotations = Map.empty, seCapAdd = [], seCapDrop = [], seDNS = [], seDNSOpts = [],
       seDNSSearch = [], seGroupAdd = [], seCgroup = [], seLinks = [], seOomScoreAdj = 0,
       sePrivileged = False, seReadOnly = False, seSecurityOpt = [], seStorageOpt = Map.empty,
       seUts = [], seUserNSMode = [], seShmSize = 0, seSysctls = Map.empty, seRuntime = [],
       seIsolation = [], seHostname = [], seDomainName = [], seUser = [], seTty = False,
       seStdinOpen = False, seWorkingDir = [], seMacAddress = [], seStopSignal = [],
       seExtraHosts = None, seHealthCheckRetries = None, seStopGracePeriod = None,
       seResources = sample_resources \<rparr>"

text \<open>The mock after \<open>Up\<close> for the project.\<close>

definition sample_docker1 :: DockerMockManager where
  "sample_docker1 = snd (Up sample_dlib sample_env ''p'' [] NewDockerMockManager)"

lemma sample_range [simp]: "range_at sample_env k A = sorted_list_of_set A"
  by (simp add: sample_env_def)

lemma sample_env_sel [simp]:
  "now_at sample_env k = 1000" "rand_at sample_env k n = replicate n (of_nat k)"
  by (simp_all add: sample_env_def)

lemma sample_load [simp]:
  "load_project sample_dlib n fs m = (Ok \<lparr>prNetworks = sample_project_networks,
     prVolumes = Map.empty, prServices = Map.empty\<rparr>, m)"
  by (simp add: load_project_def loadComposeProject_def sample_dlib_def)

lemma sample_project_networks_simps [simp]:
  "dom sample_project_networks = {''net''}"
  "project_network sample_project_networks ''net'' = sample_network ''p_net''"
  by (simp_all add: sample_project_networks_def project_network_def)

lemma sample_docker1_Up:
  "Up sample_dlib sample_env ''p'' [] m =
     (case generateNetwork sample_env (sample_network ''p_net'') ''net'' ''p''
             (m\<lparr>dmTicks := dmTicks m + 1\<rparr>) of
        (Ok _, t) \<Rightarrow> (Ok (), t\<lparr>dmTicks := dmTicks t + 2\<rparr>)
      | r \<Rightarrow> r)"
proof -
  let ?pr = "\<lparr>prNetworks = sample_project_networks, prVolumes = Map.empty, prServices = Map.empty\<rparr>"
  let ?g = "generateNetwork sample_env (sample_network ''p_net'') ''net'' ''p''"
  have nets: "up_networks sample_env ''p'' ?pr m = ?g (m\<lparr>dmTicks := dmTicks m + 1\<rparr>)"
    by (simp add: up_networks_def up_network_def sample_network_def Let_def bind_op_def
        split: prod.split outcome.split)
  show ?thesis
    by (cases "?g (m\<lparr>dmTicks := dmTicks m + 1\<rparr>)"; cases "fst (?g (m\<lparr>dmTicks := dmTicks m + 1\<rparr>))")
      (simp_all add: Up_def nets up_volumes_def services_of_def map_filter_simps)
qed

lemma sample_docker1_eq:
  "dmState sample_docker1 = newState\<lparr>availableSubnets := [18..<32], usedSubnets := [''p_net'' \<mapsto> 17],
     networks := [''p_net'' \<mapsto>
       \<lparr> neName = ''p_net'', neID = EncodeToString (replicate 32 1), neCreated = 1000,
         neScope = ''local'', neDriver = ''bridge'', neEnableIPv6 = False, neIPAMDriver = ''default'',
         neIPAMConfig = subnet_config 17, neInternal = False, neAttachable = False,
         neIngress = False, neConfigOnly = False, neContainers = Map.empty, neOptions = Map.empty,
         neLabels = compose_labels ''network'' ''net'' ''p'' \<rparr>],
     networkIndices := [''net'' \<mapsto> 2]\<rparr>"
  "dmTicks sample_docker1 = 5"
  unfolding sample_docker1_def sample_docker1_Up
  by (simp_all add: generateNetwork_def newState_def
      sample_network_def subnet_config_def)

lemma sample_docker1_reachable: "reachable_docker sample_dlib sample_env sample_docker1"
  unfolding sample_docker1_def by (rule reachable_docker.call [OF reachable_docker.new docker_step.up])

end
