(* ===== verification/Docker_Service_Facts.thy ===== *)
theory Docker_Service_Facts
  imports Docker_Networks_Inv
begin

text \<open>
  What generating a service does to the mock as a whole: up to its container it only takes indices
  of the networks, then the container is stored and entered in each of its networks.
\<close>

section \<open>Up to the container\<close>

text \<open>Nothing but the indices of the networks changes.\<close>

definition only_indices :: "DockerMockManager \<Rightarrow> DockerMockManager \<Rightarrow> bool" where
  "only_indices m m' \<longleftrightarrow>
     dmState m' = (dmState m)\<lparr>networkIndices := networkIndices (dmState m')\<rparr>"

lemma only_indices_preorder [keeps_rules]: "preorder_rel only_indices"
  by (auto simp: preorder_rel_def reflp_def transp_def only_indices_def)
    (metis (no_types, lifting) DockerState.surjective DockerState.update_convs(6))

lemma only_indices_sel:
  assumes "only_indices m m'"
  shows "containers (dmState m') = containers (dmState m)" "volumes (dmState m') = volumes (dmState m)"
    "networks (dmState m') = networks (dmState m)"
    "availableSubnets (dmState m') = availableSubnets (dmState m)"
    "usedSubnets (dmState m') = usedSubnets (dmState m)"
    "serviceHashes (dmState m') = serviceHashes (dmState m)"
  using assms unfolding only_indices_def by (metis DockerState.ext_inject DockerState.surjective
      DockerState.update_convs(6))+

lemma only_indices_tick [keeps_rules]:
  "keeps only_indices (tick f)" "keeps only_indices (now env)" "keeps only_indices (range_over env mp)"
  "keeps only_indices (createRandomID env k)" "keeps only_indices get_state"
  "keeps only_indices (\<lambda>m. (r, m))"
  by (simp_all add: keeps_def only_indices_def)

lemma only_indices_modify:
  "keeps only_indices (modify_state (\<lambda>s. s\<lparr>networkIndices := f s\<rparr>))"
  by (simp add: keeps_def only_indices_def)

lemma only_indices_started [keeps_rules]: "keeps only_indices (started_state lib env)"
  unfolding started_state_def getContainerStateFromState_def by (intro keeps_rules)

lemma only_indices_mounts [keeps_rules]: "keeps only_indices (service_mounts lib pv vs acc)"
proof (induction vs arbitrary: acc)
  case Nil
  show ?case unfolding service_mounts.simps by (intro keeps_rules)
next
  case (Cons v vs)
  obtain b h c where acc: "acc = (b, h, c)" by (cases acc)
  show ?case unfolding acc service_mounts.simps by (intro keeps_rules Cons.IH)
qed

lemma only_indices_ports [keeps_rules]: "keeps only_indices (service_ports lib n ps acc)"
proof (induction ps arbitrary: acc)
  case Nil
  show ?case unfolding service_ports.simps by (intro keeps_rules)
next
  case (Cons p ps)
  obtain a b where acc: "acc = (a, b)" by (cases acc)
  show ?case unfolding acc service_ports.simps by (intro keeps_rules Cons.IH)
qed

lemma only_indices_env [keeps_rules]: "keeps only_indices (service_env env service)"
  unfolding service_env_def by (intro keeps_rules)

lemma only_indices_network [keeps_rules]: "keeps only_indices (service_network env service pn n acc)"
  unfolding service_network_def by (intro keeps_rules only_indices_modify)

lemma only_indices_networks [keeps_rules]: "keeps only_indices (service_networks env service pn ns acc)"
proof (induction ns arbitrary: acc)
  case Nil
  show ?case unfolding service_networks.simps by (intro keeps_rules)
next
  case (Cons n ns)
  show ?case unfolding service_networks.simps by (intro keeps_rules Cons.IH)
qed

lemma only_indices_host_config [keeps_rules]:
  "keeps only_indices (fill_host_config lib env service pn hc)"
  unfolding fill_host_config_def default_network_mode_def fill_ulimits_def by (intro keeps_rules)

section \<open>Endpoints\<close>

lemma service_network_Ok:
  assumes "service_network env service pn n acc m = (Ok acc', m')"
  shows "\<exists>ep. acc' = acc(ncName (project_network pn n) \<mapsto> ep)
    \<and> networks (dmState m) (ncName (project_network pn n)) \<noteq> None"
  using assms unfolding service_network_def Let_def bind_op_Ok
  by (auto simp: bind_op_Ok)

lemma service_networks_Ok:
  "service_networks env service pn ns acc m = (Ok acc', m') \<Longrightarrow>
   dom acc' = dom acc \<union> (\<lambda>n. ncName (project_network pn n)) ` set ns
   \<and> (\<forall>n\<in>set ns. networks (dmState m) (ncName (project_network pn n)) \<noteq> None)"
proof (induction ns arbitrary: acc m)
  case Nil
  then show ?case by simp
next
  case (Cons n ns)
  from Cons.prems obtain acc1 m1 where one: "service_network env service pn n acc m = (Ok acc1, m1)"
    and rest: "service_networks env service pn ns acc1 m1 = (Ok acc', m')"
    by (auto simp: bind_op_Ok)
  have "networks (dmState m1) = networks (dmState m)"
    using only_indices_sel(3) [OF keepsD [OF only_indices_network one]] .
  then show ?case using Cons.IH [OF rest] service_network_Ok [OF one] by auto
qed

text \<open>One network, when the resource exists: its endpoint has the next address.\<close>

lemma service_network_eq:
  assumes "networks (dmState m) (ncName (project_network pn n)) = Some x" and "neIPAMConfig x = ipam # rest"
  shows "\<exists>ep. service_network env s pn n acc m =
      (Ok (acc(ncName (project_network pn n) \<mapsto> ep)),
       set_state ((dmState m)\<lparr>networkIndices :=
          (networkIndices (dmState m))(n \<mapsto> index_of (dmState m) n + 1)\<rparr>) (m\<lparr>dmTicks := dmTicks m + 1\<rparr>))
    \<and> epIPAddress ep = endpoint_ip (subnet_of (dmState m) (ncName (project_network pn n)))
                                   (index_of (dmState m) n)
    \<and> epGateway ep = ipGateway ipam \<and> epNetworkID ep = neID x"
  using assms unfolding service_network_def Let_def
  by simp (rule exI, rule conjI, rule refl, simp)

section \<open>Connecting\<close>

text \<open>The entry of the container \<open>c\<close> with the endpoint \<open>ep\<close> in one of its networks.\<close>

definition endpoint_resource :: "ContainerJSON \<Rightarrow> EndpointSettings \<Rightarrow> EndpointResource" where
  "endpoint_resource c ep =
     \<lparr> erName = TrimPrefix (cjName c) ''/'', erEndpointID = epEndpointID ep,
       erMacAddress = epMacAddress ep, erIPv4Address = epIPAddress ep \<rparr>"

definition with_endpoint :: "ContainerJSON \<Rightarrow> EndpointSettings \<Rightarrow> Network \<Rightarrow> Network" where
  "with_endpoint c ep x = x\<lparr>neContainers := (neContainers x)(cjID c \<mapsto> endpoint_resource c ep)\<rparr>"

lemma connect_eq:
  assumes "eps n = Some ep" and "networks (dmState m) n = Some x"
  shows "connect c eps n m = (Ok (), set_state ((dmState m)\<lparr>networks :=
     (networks (dmState m))(n \<mapsto> with_endpoint c ep x)\<rparr>) m)"
  using assms by (simp add: connect_def with_endpoint_def endpoint_resource_def)

lemma with_endpoint_twice [simp]: "with_endpoint c ep (with_endpoint c ep x) = with_endpoint c ep x"
  by (simp add: with_endpoint_def)

definition with_endpoints ::
  "ContainerJSON \<Rightarrow> (string \<rightharpoonup> EndpointSettings) \<Rightarrow> (string \<rightharpoonup> Network) \<Rightarrow> string set \<Rightarrow> (string \<rightharpoonup> Network)" where
  "with_endpoints c eps nets A = (\<lambda>n. if n \<in> A
     then (case (eps n, nets n) of (Some ep, Some x) \<Rightarrow> Some (with_endpoint c ep x) | _ \<Rightarrow> nets n)
     else nets n)"

lemma connect_all:
  assumes "set names \<subseteq> dom eps" and "set names \<subseteq> dom (networks (dmState m))"
  shows "\<exists>m'. for_each (connect c eps) names m = (Ok (), m') \<and> dmTicks m' = dmTicks m
    \<and> dmState m' = (dmState m)\<lparr>networks := with_endpoints c eps (networks (dmState m)) (set names)\<rparr>"
  using assms
proof (induction names arbitrary: m)
  case Nil
  then show ?case by (simp add: with_endpoints_def)
next
  case (Cons n names)
  then obtain ep x where ep: "eps n = Some ep" and x: "networks (dmState m) n = Some x" by auto
  obtain nets where nets: "(networks (dmState m))(n \<mapsto> with_endpoint c ep x) = nets" by simp
  let ?m1 = "set_state ((dmState m)\<lparr>networks := nets\<rparr>) m"
  have "with_endpoints c eps nets (set names)
      = with_endpoints c eps (networks (dmState m)) (set (n # names))"
    unfolding nets [symmetric]
    by (rule ext) (simp add: with_endpoints_def ep x split: option.split)
  moreover have "set names \<subseteq> dom eps" "set names \<subseteq> dom (networks (dmState ?m1))"
    using Cons.prems unfolding nets [symmetric] by auto
  moreover have "connect c eps n m = (Ok (), ?m1)"
    using connect_eq [where eps = eps and n = n, OF ep x, of c] unfolding nets .
  ultimately show ?case using Cons.IH [of ?m1] by simp
qed

section \<open>The whole service\<close>

lemma only_indices_container [keeps_rules]: "keeps only_indices (service_container lib env service pn pv)"
  unfolding service_container_def by (intro keeps_rules)

text \<open>The container of a service is complete, and has the endpoints of the service's networks.\<close>

lemma service_container_Ok:
  assumes env: "fair_ranges env" and fin: "finite (dom (seNetworks service))"
    and run: "service_container lib env service pn pv m = (Ok c, m')"
  shows "\<exists>ns. cjNetworkSettings c = Some ns \<and> cjName c = ''/'' @ seContainerName service
    \<and> cjSizeRw c \<noteq> None \<and> cjSizeRootFs c \<noteq> None \<and> cjState c \<noteq> None
    \<and> dom (nsNetworks ns) = (\<lambda>n. ncName (project_network pn n)) ` dom (seNetworks service)
    \<and> dom (nsNetworks ns) \<subseteq> dom (networks (dmState m))"
proof -
  have same: "networks (dmState m3) = networks (dmState m)"
    if "started_state lib env m = (Ok a, m1)" "service_mounts lib pv vs x m1 = (Ok b, m2)"
      "service_ports lib n ps y m2 = (Ok d, m3)" for a b d x y m1 m2 m3 vs n ps
    using that by (auto dest!: only_indices_sel(3) [OF keepsD [OF only_indices_started]]
        only_indices_sel(3) [OF keepsD [OF only_indices_mounts]]
        only_indices_sel(3) [OF keepsD [OF only_indices_ports]])
  have same': "networks (dmState m4) = networks (dmState m3)"
    if "service_env env service m3 = (Ok e, m4)" for e m3 m4
    using that by (rule only_indices_sel(3) [OF keepsD [OF only_indices_env]])
  have nets: "dom eps = (\<lambda>n. ncName (project_network pn n)) ` dom (seNetworks service)
      \<and> (\<forall>n y. seNetworks service n = Some y \<longrightarrow>
             (\<exists>z. networks (dmState m4) (ncName (project_network pn n)) = Some z))"
    if "range_over env (seNetworks service) m4 = (Ok names, m5)"
      "service_networks env service pn names Map.empty m5 = (Ok eps, m6)" for eps names m4 m5 m6
  proof -
    have "set names = dom (seNetworks service)" "networks (dmState m5) = networks (dmState m4)"
      using env fin that(1) by (auto simp: fair_ranges_def)
    then show ?thesis using service_networks_Ok [OF that(2)] by auto
  qed
  have filled: "dom (\<lambda>n. map_option g (f n)) = dom f" for g :: "'p \<Rightarrow> 'q" and f :: "string \<rightharpoonup> 'p"
    by (auto simp: dom_def)
  from run show ?thesis
    unfolding service_container_def Let_def case_prod_unfold bind_op_Ok
    by - (elim exE conjE, frule (2) same, frule same', drule (1) nets, clarsimp simp: filled)
qed

text \<open>Its state is the one that starting a new container gives.\<close>

lemma service_container_state:
  assumes run: "service_container lib env service pn pv m = (Ok c, m')"
  shows "\<exists>cs t. cjState c = Some cs \<and> csRunning cs = imRunning (State_SetRunning lib t (State_New lib))"
proof -
  from run obtain cs m1 where "started_state lib env m = (Ok cs, m1)" and c: "cjState c = Some cs"
    unfolding service_container_def Let_def case_prod_unfold bind_op_Ok by - (elim exE conjE, rule that, assumption, clarsimp)
  then show ?thesis by (auto simp: started_state_def getContainerStateFromState_def)
qed

lemma range_set:
  "fair_ranges env \<Longrightarrow> finite (dom mp) \<Longrightarrow> set (range_at env k (dom mp)) = dom mp"
  by (simp add: fair_ranges_def)

text \<open>
  A service that is generated leaves one more container, under its container's name, and the
  container is entered in each of its networks.
\<close>

lemma generateService_Ok:
  assumes env: "fair_ranges env" and fin: "finite (dom (seNetworks service))"
    and run: "generateService lib env service pn pv m = (Ok (), m')"
  shows "\<exists>c ns indices. dmState m' = (dmState m)\<lparr>
        containers := (containers (dmState m))(seContainerName service \<mapsto> c),
        networks := with_endpoints c (nsNetworks ns) (networks (dmState m)) (dom (nsNetworks ns)),
        networkIndices := indices\<rparr>
    \<and> cjNetworkSettings c = Some ns \<and> cjName c = ''/'' @ seContainerName service
    \<and> cjSizeRw c \<noteq> None \<and> cjSizeRootFs c \<noteq> None \<and> cjState c \<noteq> None
    \<and> dom (nsNetworks ns) = (\<lambda>n. ncName (project_network pn n)) ` dom (seNetworks service)
    \<and> dom (nsNetworks ns) \<subseteq> dom (networks (dmState m))"
proof -
  from run obtain c m1 where prefix: "service_container lib env service pn pv m = (Ok c, m1)"
    and rest: "bind_op (new_container (seContainerName service) c) (\<lambda>_.
        bind_op (deref (cjNetworkSettings c)) (\<lambda>ns. bind_op (range_over env (nsNetworks ns)) (\<lambda>names.
        for_each (connect c (nsNetworks ns)) names))) m1 = (Ok (), m')"
    unfolding generateService_def by (auto simp: bind_op_Ok)
  from service_container_Ok [OF env fin prefix] obtain ns where
    c: "cjNetworkSettings c = Some ns" "cjName c = ''/'' @ seContainerName service"
      "cjSizeRw c \<noteq> None" "cjSizeRootFs c \<noteq> None" "cjState c \<noteq> None"
    and ns: "dom (nsNetworks ns) = (\<lambda>n. ncName (project_network pn n)) ` dom (seNetworks service)"
      "dom (nsNetworks ns) \<subseteq> dom (networks (dmState m))" by blast
  have same: "only_indices m m1" by (rule keepsD [OF only_indices_container prefix])
  let ?cs = "(containers (dmState m))(seContainerName service \<mapsto> c)"
  obtain m2 where m2: "dmState m2 = (dmState m1)\<lparr>containers := ?cs\<rparr>"
    and names: "for_each (connect c (nsNetworks ns))
      (range_at env (dmTicks m1) (dom (nsNetworks ns))) m2 = (Ok (), m')"
    using rest c(1) only_indices_sel(1) [OF same]
      that [of "(store_container (seContainerName service) c m1)\<lparr>dmTicks := dmTicks m1 + 1\<rparr>"] by simp
  have names_set: "set (range_at env (dmTicks m1) (dom (nsNetworks ns))) = dom (nsNetworks ns)"
    using fin ns(1) by (intro range_set [OF env]) simp
  have "networks (dmState m2) = networks (dmState m)"
    using m2 only_indices_sel(3) [OF same] by simp
  then have "dmState m' = (dmState m1)\<lparr>containers := ?cs,
      networks := with_endpoints c (nsNetworks ns) (networks (dmState m)) (dom (nsNetworks ns))\<rparr>"
    using names connect_all [of "range_at env (dmTicks m1) (dom (nsNetworks ns))" "nsNetworks ns" m2 c]
      names_set ns(2) m2 by auto
  moreover have "dmState m1 = (dmState m)\<lparr>networkIndices := networkIndices (dmState m1)\<rparr>"
    using same by (simp add: only_indices_def)
  ultimately have "dmState m' = (dmState m)\<lparr>containers := ?cs,
      networks := with_endpoints c (nsNetworks ns) (networks (dmState m)) (dom (nsNetworks ns)),
      networkIndices := networkIndices (dmState m1)\<rparr>" by (metis DockerState.ext_inject
      DockerState.surjective DockerState.update_convs(1,3,6))
  with c ns show ?thesis by blast
qed

text \<open>Once the container is settled, storing and connecting it succeeds.\<close>

lemma generateService_runs:
  assumes env: "fair_ranges env" and fin: "finite (dom (seNetworks service))"
    and prefix: "service_container lib env service pn pv m = (Ok c, m1)"
  shows "\<exists>m'. generateService lib env service pn pv m = (Ok (), m')
    \<and> containers (dmState m') = (containers (dmState m))(seContainerName service \<mapsto> c)
    \<and> networks (dmState m') = with_endpoints c (nsNetworks (the (cjNetworkSettings c))) (networks (dmState m))
        (dom (nsNetworks (the (cjNetworkSettings c))))
    \<and> dmTicks m' = dmTicks m1 + 1"
proof -
  from service_container_Ok [OF assms] obtain ns where c: "cjNetworkSettings c = Some ns"
    and ns: "dom (nsNetworks ns) = (\<lambda>n. ncName (project_network pn n)) ` dom (seNetworks service)"
      "dom (nsNetworks ns) \<subseteq> dom (networks (dmState m))" by blast
  have same: "containers (dmState m1) = containers (dmState m)" "networks (dmState m1) = networks (dmState m)"
    using only_indices_sel [OF keepsD [OF only_indices_container prefix]] by simp_all
  obtain names where names: "range_at env (dmTicks m1) (dom (nsNetworks ns)) = names" by simp
  have set: "set names = dom (nsNetworks ns)"
    unfolding names [symmetric] using fin ns(1) by (intro range_set [OF env]) simp
  show ?thesis
    using prefix c names connect_all [of names "nsNetworks ns"
        "(store_container (seContainerName service) c m1)\<lparr>dmTicks := dmTicks m1 + 1\<rparr>" c]
    by (auto simp add: generateService_def set ns(2) same)
qed

lemma generateService_OkE:
  assumes "fair_ranges env" and "finite (dom (seNetworks service))"
    and "generateService lib env service pn pv m = (Ok (), m')"
  obtains c ns where
    "containers (dmState m') = (containers (dmState m))(seContainerName service \<mapsto> c)"
    "networks (dmState m') = with_endpoints c (nsNetworks ns) (networks (dmState m)) (dom (nsNetworks ns))"
    "volumes (dmState m') = volumes (dmState m)" "serviceHashes (dmState m') = serviceHashes (dmState m)"
    "cjNetworkSettings c = Some ns" "cjName c = ''/'' @ seContainerName service"
    "dom (nsNetworks ns) = (\<lambda>n. ncName (project_network pn n)) ` dom (seNetworks service)"
    "dom (nsNetworks ns) \<subseteq> dom (networks (dmState m))"
proof -
  from generateService_Ok [OF assms] obtain c ns indices where
    "dmState m' = (dmState m)\<lparr>
        containers := (containers (dmState m))(seContainerName service \<mapsto> c),
        networks := with_endpoints c (nsNetworks ns) (networks (dmState m)) (dom (nsNetworks ns)),
        networkIndices := indices\<rparr>"
    "cjNetworkSettings c = Some ns" "cjName c = ''/'' @ seContainerName service"
    "dom (nsNetworks ns) = (\<lambda>n. ncName (project_network pn n)) ` dom (seNetworks service)"
    "dom (nsNetworks ns) \<subseteq> dom (networks (dmState m))" by blast
  then show thesis by (intro that [of c ns]) simp_all
qed

section \<open>Removing a container\<close>

definition without_endpoint :: "string \<Rightarrow> Network \<Rightarrow> Network" where
  "without_endpoint cid x = x\<lparr>neContainers := (neContainers x)(cid := None)\<rparr>"

lemma without_endpoint_twice [simp]: "without_endpoint cid (without_endpoint cid x) = without_endpoint cid x"
  by (simp add: without_endpoint_def)

lemma without_with [simp]:
  "cid = cjID c \<Longrightarrow> neContainers x cid = None \<Longrightarrow> without_endpoint cid (with_endpoint c ep x) = x"
  by (simp add: without_endpoint_def with_endpoint_def fun_upd_idem)

definition detached :: "string \<Rightarrow> string set \<Rightarrow> (string \<rightharpoonup> Network) \<Rightarrow> (string \<rightharpoonup> Network)" where
  "detached cid A nets =
     (\<lambda>k. if k \<in> A then map_option (without_endpoint cid) (nets k) else nets k)"

lemma detached_detached: "detached cid A (detached cid B nets) = detached cid (A \<union> B) nets"
  by (auto simp: detached_def fun_eq_iff option.map_comp comp_def)

lemma disconnect_detached: "disconnect cid n s = s\<lparr>networks := detached cid {n} (networks s)\<rparr>"
proof (cases "networks s n")
  case None
  then have "detached cid {n} (networks s) = networks s" by (auto simp: detached_def fun_eq_iff)
  with None show ?thesis by (simp add: disconnect_def)
next
  case (Some x)
  then have "detached cid {n} (networks s) = (networks s)(n \<mapsto> without_endpoint cid x)"
    by (auto simp: detached_def fun_eq_iff)
  with Some show ?thesis by (simp add: disconnect_def without_endpoint_def)
qed

lemma disconnect_fold:
  "fold (disconnect cid) ns s = s\<lparr>networks := detached cid (set ns) (networks s)\<rparr>"
proof (induction ns arbitrary: s)
  case Nil
  then show ?case by (simp add: detached_def)
next
  case (Cons n ns)
  then show ?case by (simp add: disconnect_detached detached_detached)
qed

lemma disconnect_each:
  "\<exists>m'. for_each (\<lambda>n. modify_state (disconnect cid n)) ns m = (Ok (), m')
     \<and> dmState m' = fold (disconnect cid) ns (dmState m)"
proof (induction ns arbitrary: m)
  case (Cons n ns)
  then show ?case using Cons.IH [of "set_state (disconnect cid n (dmState m)) m"] by simp
qed simp

lemma disconnect_each_state [simp]:
  "dmState (snd (for_each (\<lambda>n. modify_state (disconnect cid n)) ns m)) = fold (disconnect cid) ns (dmState m)"
  using disconnect_each [of cid ns m] by auto

lemma ContainerRemove_eq:
  assumes "fair_ranges env" and "containers (dmState m) n = Some c"
    and "cjNetworkSettings c = Some ns" and "finite (dom (nsNetworks ns))"
  shows "\<exists>m'. ContainerRemove env n m = (Ok (), m') \<and> dmState m' = (dmState m)\<lparr>
     containers := (containers (dmState m))(n := None),
     networks := detached (cjID c) (dom (nsNetworks ns)) (networks (dmState m))\<rparr>"
  using assms range_set [OF assms(1,4)]
    disconnect_each [of "cjID c" "range_at env (dmTicks m) (dom (nsNetworks ns))" "(set_state ((dmState m)\<lparr>containers :=
        (containers (dmState m))(n := None)\<rparr>) m)\<lparr>dmTicks := dmTicks m + 1\<rparr>"]
  by (simp add: ContainerRemove_def disconnect_fold)

text \<open>A container that is removed right after it was connected leaves the networks as they were.\<close>

lemma detached_with_endpoints:
  assumes "\<And>n x. networks s n = Some x \<Longrightarrow> neContainers x (cjID c) = None" and "A \<subseteq> dom eps"
  shows "detached (cjID c) A (with_endpoints c eps (networks s) A) = networks s"
  using assms by (fastforce simp: detached_def with_endpoints_def fun_eq_iff split: option.split)

text \<open>Detaching one container leaves the entries of the others.\<close>

lemma detached_other:
  assumes "nets n = Some x" and "neContainers x k \<noteq> None" and "k \<noteq> cid"
  shows "\<exists>y. detached cid A nets n = Some y \<and> neContainers y k = neContainers x k"
  using assms by (auto simp: detached_def without_endpoint_def)

lemma with_endpoints_other:
  assumes "nets n = Some x" and "neContainers x k \<noteq> None"
  shows "\<exists>y. with_endpoints c eps nets A n = Some y \<and> neContainers y k \<noteq> None"
  using assms by (auto simp: with_endpoints_def with_endpoint_def split: option.split)

end
