(* ===== verification/Docker_Props.thy ===== *)
theory Docker_Props
  imports Docker_Samples Docker_Service_Facts
begin

text \<open>
  The properties of the Docker mock: its snapshots, the subnets and addresses of its networks, the
  life cycle of its resources and the compose commands.
\<close>

section \<open>Snapshots\<close>

text \<open>
  What may happen between a snapshot \<open>n\<close> and the revert to it: calls of clients, snapshots under
  other names, and reverts to any snapshot.
\<close>

inductive docker_session ::
  "docker_lib \<Rightarrow> docker_env \<Rightarrow> string \<Rightarrow> DockerMockManager \<Rightarrow> DockerMockManager \<Rightarrow> bool"
  for lib env n where
  call: "docker_step lib env m m' \<Longrightarrow> docker_session lib env n m m'"
| take: "k \<noteq> n \<Longrightarrow> docker_session lib env n m (snd (docker_TakeSnapshot lib env k m))"
| revert: "docker_session lib env n m (snd (docker_RevertToSnapshot lib env k m))"

lemma docker_session_step:
  assumes "docker_session lib env n m m'" and ok: "docker_ok lib env m"
  shows "(docker_snapshots.step lib env n)\<^sup>*\<^sup>* m m' \<and> docker_ok lib env m'"
proof -
  from ok have h: "json_faithful lib" "fair_ranges env" "docker_inv m" by (simp_all add: docker_ok_def)
  have "docker_snapshots.step lib env n m m' \<or> m' = m"
    using assms(1)
  proof cases
    case (revert k)
    show ?thesis
    proof (cases "dmSnapshots m k")
      case None
      with revert show ?thesis by (simp add: docker_RevertToSnapshot_none)
    next
      case (Some s)
      then obtain t where "docker_RevertToSnapshot lib env k m = (Ok (), t)"
        using docker_RevertToSnapshot_spec [OF h] by blast
      with revert have "ok_state (docker_RevertToSnapshot lib env k) m = Some m'" by (simp add: ok_state_def)
      then show ?thesis unfolding docker_snapshots.step_def by blast
    qed
  next
    case (take k)
    obtain t where "docker_TakeSnapshot lib env k m = (Ok (), t)"
      using docker_TakeSnapshot_spec [OF h] by blast
    then have "ok_state (docker_TakeSnapshot lib env k) m = Some m'" using take by (simp add: ok_state_def)
    then show ?thesis using take unfolding docker_snapshots.step_def by blast
  qed (auto simp: docker_snapshots.step_def)
  then show ?thesis using ok docker_snapshots.step_inv by blast
qed

lemma docker_sessions_in_locale:
  assumes "(docker_session lib env n)\<^sup>*\<^sup>* m m'" and "docker_ok lib env m"
  shows "(docker_snapshots.step lib env n)\<^sup>*\<^sup>* m m'"
proof -
  from assms have "(docker_snapshots.step lib env n)\<^sup>*\<^sup>* m m' \<and> docker_ok lib env m'"
  proof (induction rule: rtranclp_induct)
    case base
    then show ?case by simp
  next
    case (step t u)
    then show ?case using docker_session_step [OF step.hyps(2)] by (meson rtranclp_trans)
  qed
  then show ?thesis ..
qed

text \<open>C6: whatever happens after a snapshot of the Docker mock is taken, reverting to it brings back
  the containers, volumes, networks and the allocation of subnets and addresses; only the hashes
  of the services are gone.\<close>

theorem docker_snapshot_restores:
  assumes "json_faithful lib" and "fair_ranges env" and "reachable_docker lib env m"
    and "(docker_session lib env n)\<^sup>*\<^sup>* (snd (docker_TakeSnapshot lib env n m)) m'"
  shows "fst (docker_TakeSnapshot lib env n m) = Ok ()
       \<and> fst (docker_RevertToSnapshot lib env n m') = Ok ()
       \<and> dmState (snd (docker_RevertToSnapshot lib env n m')) = (dmState m)\<lparr>serviceHashes := Map.empty\<rparr>"
proof -
  have inv: "docker_inv m" by (rule reachable_docker_inv [OF assms(1-3)])
  then have ok: "docker_ok lib env m" using assms(1,2) by (simp add: docker_ok_def)
  obtain t where take: "docker_TakeSnapshot lib env n m = (Ok (), t)"
    using docker_TakeSnapshot_spec [OF assms(1,2) inv] by blast
  then have taken: "ok_state (docker_TakeSnapshot lib env n) m = Some (snd (docker_TakeSnapshot lib env n m))"
    by (simp add: ok_state_def)
  have "docker_ok lib env (snd (docker_TakeSnapshot lib env n m))"
    by (rule docker_snapshots.take_inv [OF ok taken])
  from docker_snapshots.restore [OF ok taken docker_sessions_in_locale [OF assms(4) this]]
  obtain u where "ok_state (docker_RevertToSnapshot lib env n) m' = Some u"
    and "dmState u = without_hashes (dmState m)" by blast
  then show ?thesis
    by (auto simp: take without_hashes_def ok_state_def split: prod.splits outcome.splits)
qed

text \<open>The witness: a volume whose usage is written through its pointer after the snapshot.\<close>

definition sample_volume :: Volume where
  "sample_volume = \<lparr>voCreatedAt = [], voDriver = [], voLabels = Map.empty, voMountpoint = [], voName = ''v'',
     voScope = [], voOptions = Map.empty, voUsageData = Some \<lparr>udSize = 1, udRefCount = 1\<rparr>\<rparr>"

definition sample_volume_mgr :: DockerMockManager where
  "sample_volume_mgr = snd (Mock_AddVolume sample_volume NewDockerMockManager)"

theorem docker_snapshot_restores_witness:
  "let m = snd (docker_TakeSnapshot sample_dlib sample_env ''a'' sample_volume_mgr);
       m' = snd (Mock_SetVolumeDiskUsage ''v'' 7 m)
   in map_option voUsageData (volumes (dmState m') ''v'') = Some (Some \<lparr>udSize = 7, udRefCount = 1\<rparr>)
      \<and> volumes (dmState (snd (docker_RevertToSnapshot sample_dlib sample_env ''a'' m'))) ''v'' = Some sample_volume"
proof -
  let ?m = "snd (docker_TakeSnapshot sample_dlib sample_env ''a'' sample_volume_mgr)"
  have old: "volumes (dmState sample_volume_mgr) ''v'' = Some sample_volume"
    by (simp add: sample_volume_mgr_def Mock_AddVolume_def newState_def sample_volume_def)
  have reach: "reachable_docker sample_dlib sample_env sample_volume_mgr"
    unfolding sample_volume_mgr_def by (rule reachable_docker.call [OF reachable_docker.new docker_step.add_volume])
  have "(docker_session sample_dlib sample_env ''a'')\<^sup>*\<^sup>* ?m (snd (Mock_SetVolumeDiskUsage ''v'' 7 ?m))"
    by (intro r_into_rtranclp docker_session.call docker_step.set_volume_usage)
  from docker_snapshot_restores [OF sample_json sample_ranges reach this]
  have "volumes (dmState (snd (docker_RevertToSnapshot sample_dlib sample_env ''a''
      (snd (Mock_SetVolumeDiskUsage ''v'' 7 ?m))))) ''v'' = Some sample_volume"
    using old by simp
  moreover obtain t where "docker_TakeSnapshot sample_dlib sample_env ''a'' sample_volume_mgr = (Ok (), t)"
    "dmState t = dmState sample_volume_mgr"
    using docker_TakeSnapshot_spec [OF sample_json sample_ranges reachable_docker_inv [OF sample_json sample_ranges reach]]
    by blast
  then have "map_option voUsageData (volumes (dmState (snd (Mock_SetVolumeDiskUsage ''v'' 7 ?m))) ''v'')
      = Some (Some \<lparr>udSize = 7, udRefCount = 1\<rparr>)"
    using old by (simp add: Mock_SetVolumeDiskUsage_def sample_volume_def)
  ultimately show ?thesis unfolding Let_def by blast
qed

text \<open>After a revert no service counts as unchanged, whatever it was generated from: the next
  \<open>Up\<close> replaces every container of the snapshot instead of starting it.\<close>

theorem revert_forgets_services:
  assumes "docker_RevertToSnapshot lib env n m = (Ok (), m')"
  shows "\<not> unchanged (dmState m') service hash"
proof -
  obtain s where s: "dmSaved m n = Some s"
    using assms by (cases "dmSaved m n") (simp_all add: docker_RevertToSnapshot_def)
  with assms obtain c k where "docker_Clone lib env s m = (Ok c, k)" and m': "m' = k\<lparr>dmLive := c\<rparr>"
    by (auto simp: docker_RevertToSnapshot_def bind_op_Ok)
  then have "dhHashes (dmHeap k) (stHashes c) = Map.empty"
    by (auto simp: docker_Clone_def bind_op_Ok new_struct_def Let_def case_prod_unfold)
  then show ?thesis by (simp add: m' unchanged_def dmState_def contents_def)
qed

theorem revert_forgets_services_witness:
  "\<exists>m'. docker_RevertToSnapshot sample_dlib sample_env ''a''
        (snd (docker_TakeSnapshot sample_dlib sample_env ''a'' NewDockerMockManager)) = (Ok (), m')
      \<and> \<not> unchanged (dmState m') (sample_service ''s'' ''s'') []"
proof -
  let ?m = "snd (docker_TakeSnapshot sample_dlib sample_env ''a'' NewDockerMockManager)"
  have "docker_inv ?m" by (rule docker_snapshots_inv(1) [OF sample_json sample_ranges new_docker_inv])
  moreover obtain v where "dmSnapshots ?m ''a'' = Some v"
    using docker_TakeSnapshot_spec [OF sample_json sample_ranges new_docker_inv, of "''a''"] by force
  ultimately obtain m' where "docker_RevertToSnapshot sample_dlib sample_env ''a'' ?m = (Ok (), m')"
    using docker_RevertToSnapshot_spec [OF sample_json sample_ranges] by blast
  with revert_forgets_services [OF this] show ?thesis by blast
qed

section \<open>Networks\<close>

text \<open>C12: at any time, every network of the mock is on one of the subnets 172.17 to 172.31, with the
  address configuration of its subnet, and no two networks are on the same one.\<close>

theorem networks_never_share_subnets:
  assumes "json_faithful lib" and "fair_ranges env" and "reachable_docker lib env m"
    and "networks (dmState m) k = Some x" and "networks (dmState m) l = Some y"
  shows "(\<exists>r. 17 \<le> r \<and> r \<le> 31 \<and> subnet_of (dmState m) k = r
            \<and> neIPAMConfig x = [\<lparr>ipSubnet = ''172.'' @ FormatUint r @ ''.0.0/16'',
                                 ipGateway = ''172.'' @ FormatUint r @ ''.0.1''\<rparr>])
       \<and> (neIPAMConfig x = neIPAMConfig y \<longrightarrow> k = l)"
proof -
  have inv: "net_inv (dmState m)" "subnets.divided (dmState m)"
    using reachable_docker_inv [OF assms(1-3)] by (simp_all add: docker_inv_def state_inv_def)
  have cfg: "\<exists>r. usedSubnets (dmState m) n = Some r \<and> neIPAMConfig z = subnet_config r"
    if "networks (dmState m) n = Some z" for n z
    using inv(1) that unfolding net_inv_def net_configs_def fun_eq_iff
    by (metis map_option_eq_Some option.simps(9))
  from cfg [OF assms(4)] cfg [OF assms(5)] obtain r q where
    r: "usedSubnets (dmState m) k = Some r" "neIPAMConfig x = subnet_config r"
    and q: "usedSubnets (dmState m) l = Some q" "neIPAMConfig y = subnet_config q" by blast
  have "r \<in> {17..<32}" by (rule subnets.leased_in_pool [OF inv(2) r(1)])
  moreover have "k = l" if "subnet_config r = subnet_config q"
    using that r q by (intro subnets.no_double_lease [OF inv(2)]) (simp_all add: subnet_config_def)
  ultimately show ?thesis using r q by (auto simp: subnet_config_def subnet_of_def)
qed

theorem networks_never_share_subnets_witness:
  "subnet_of (dmState sample_docker1) ''p_net'' = 17"
proof -
  obtain x where x: "networks (dmState sample_docker1) ''p_net'' = Some x"
    and cfg: "neIPAMConfig x = subnet_config 17"
    by (simp add: sample_docker1_eq)
  from networks_never_share_subnets [OF sample_json sample_ranges sample_docker1_reachable x x] cfg
  show ?thesis by (auto simp: subnet_config_def)
qed

text \<open>C36: a network that does not exist yet is created unless the mock has fifteen networks already,
  all it has subnets for; removing it again gives its subnet back, at the end of the line, and
  leaves the networks and the allocation as they were.\<close>

theorem network_create_remove:
  assumes "json_faithful lib" and "fair_ranges env" and "reachable_docker lib env m"
    and "networks (dmState m) (ncName nc) = None"
    and "generateNetwork env nc nameInYaml projectName m = (r, m1)"
  shows "if card (dom (networks (dmState m))) = 15 then r = Err (Errorf ''too many networks'' []) \<and> m1 = m
         else r = Ok () \<and> (\<exists>m2. NetworkRemove (ncName nc) m1 = (Ok (), m2)
                \<and> networks (dmState m2) = networks (dmState m)
                \<and> usedSubnets (dmState m2) = usedSubnets (dmState m)
                \<and> availableSubnets (dmState m2) = rotate1 (availableSubnets (dmState m)))"
proof -
  have inv: "net_inv (dmState m)" "subnets.divided (dmState m)"
    using reachable_docker_inv [OF assms(1-3)] by (simp_all add: docker_inv_def state_inv_def)
  have "dom (networks (dmState m)) = dom (usedSubnets (dmState m))"
    using net_inv_dom [OF inv(1)] by (simp add: dom_def)
  then have full: "card (dom (networks (dmState m))) = 15 \<longleftrightarrow> availableSubnets (dmState m) = []"
    using subnets.exhausted [OF inv(2)] by simp
  have used: "usedSubnets (dmState m) (ncName nc) = None"
    using net_inv_dom [OF inv(1)] assms(4) by simp
  show ?thesis
  proof (cases "availableSubnets (dmState m)")
    case Nil
    then have "card (dom (networks (dmState m))) = 15" by (simp add: full)
    moreover have "(Err (Errorf ''too many networks'' []), m) = (r, m1)"
      using assms(4,5) Nil by (simp add: generateNetwork_def)
    ultimately show ?thesis by simp
  next
    case (Cons s rest)
    then show ?thesis using assms(4,5) used
      by (auto simp: full generateNetwork_def NetworkRemove_def Let_def fun_upd_idem)
  qed
qed

theorem network_create_remove_witness:
  "fst (generateNetwork sample_env (sample_network ''p_net'') ''net'' ''p'' NewDockerMockManager) = Ok ()"
  using network_create_remove [OF sample_json sample_ranges reachable_docker.new _ prod.collapse [symmetric],
      of "sample_network ''p_net''" "''net''" "''p''"]
  by (simp add: newState_def)

section \<open>Addresses\<close>

text \<open>Services attached one after the other to the network \<open>n\<close> of their compose file.\<close>

definition attach_all ::
  "docker_env \<Rightarrow> (string \<rightharpoonup> NetworkConfig) \<Rightarrow> string \<Rightarrow> ServiceConfig list \<Rightarrow> unit dop" where
  "attach_all env pn n services =
     for_each (\<lambda>s. bind_op (service_network env s pn n Map.empty) (\<lambda>_. return_op ())) services"

lemma attach_all_run:
  assumes "networks (dmState m) (ncName (project_network pn n)) = Some x" and "neIPAMConfig x \<noteq> []"
  shows "\<exists>m'. attach_all env pn n ss m = (Ok (), m') \<and> networks (dmState m') = networks (dmState m)
    \<and> usedSubnets (dmState m') = usedSubnets (dmState m)
    \<and> index_of (dmState m') n = index_of (dmState m) n + of_nat (length ss)"
  using assms(1)
proof (induction ss arbitrary: m)
  case Nil
  then show ?case by (simp add: attach_all_def)
next
  case (Cons s ss)
  obtain ipam rest where ip: "neIPAMConfig x = ipam # rest" using assms(2) by (cases "neIPAMConfig x") auto
  let ?m1 = "set_state ((dmState m)\<lparr>networkIndices :=
          (networkIndices (dmState m))(n \<mapsto> index_of (dmState m) n + 1)\<rparr>) (m\<lparr>dmTicks := dmTicks m + 1\<rparr>)"
  obtain ep where "service_network env s pn n Map.empty m =
      (Ok (Map.empty(ncName (project_network pn n) \<mapsto> ep)), ?m1)"
    using service_network_eq [OF Cons.prems ip] by blast
  then have run: "attach_all env pn n (s # ss) m = attach_all env pn n ss ?m1"
    by (simp add: attach_all_def)
  obtain m' where "attach_all env pn n ss ?m1 = (Ok (), m')" "networks (dmState m') = networks (dmState m)"
    "usedSubnets (dmState m') = usedSubnets (dmState m)"
    "index_of (dmState m') n = index_of (dmState ?m1) n + of_nat (length ss)"
    using Cons.IH [of ?m1] Cons.prems by auto
  moreover have "index_of (dmState ?m1) n = index_of (dmState m) n + 1" by (simp add: index_of_def)
  ultimately show ?case unfolding run by (simp add: add.assoc)
qed

text \<open>C37: the services attached one after the other to a new network of a compose file get the
  addresses 2, 3, 4 and so on of the network's subnet, so the first 254 of them differ; the index
  is a byte, and the 255th and 256th get the addresses 0 and 1 of the subnet, the second of which is
  the gateway's.\<close>

theorem endpoint_addresses:
  assumes "networks (dmState m) (ncName nc) = None"
    and "generateNetwork env nc n projectName m = (Ok (), m1)"
    and "ncName (project_network pn n) = ncName nc"
    and "attach_all env pn n ss m1 = (r, m2)"
  shows "r = Ok () \<and> (\<exists>ep m3. service_network env s pn n Map.empty m2 = (Ok [ncName nc \<mapsto> ep], m3)
      \<and> epIPAddress ep = ''172.'' @ FormatUint (hd (availableSubnets (dmState m))) @ ''.0.''
                          @ FormatUint ((2 + length ss) mod 256)
      \<and> (length ss = 255 \<longrightarrow> epIPAddress ep = epGateway ep))"
proof -
  obtain sub rest where avail: "availableSubnets (dmState m) = sub # rest"
    using assms(1,2) by (cases "availableSubnets (dmState m)") (simp_all add: generateNetwork_def)
  let ?cfg = "\<lparr> ipSubnet = ''172.'' @ FormatUint sub @ ''.0.0/16'',
                ipGateway = ''172.'' @ FormatUint sub @ ''.0.1'' \<rparr>"
  obtain x where x: "networks (dmState m1) (ncName nc) = Some x" "neIPAMConfig x = [?cfg]"
    and idx: "index_of (dmState m1) n = 2" and sub: "subnet_of (dmState m1) (ncName nc) = sub"
    using assms(1,2) avail by (auto simp: generateNetwork_def index_of_def subnet_of_def)
  have x1: "networks (dmState m1) (ncName (project_network pn n)) = Some x" using x(1) assms(3) by simp
  have r: "r = Ok ()" "networks (dmState m2) (ncName (project_network pn n)) = Some x"
    "subnet_of (dmState m2) (ncName nc) = sub" "index_of (dmState m2) n = 2 + of_nat (length ss)"
    using attach_all_run [OF x1, of env ss] x assms(3,4) idx sub
    by (auto simp: subnet_of_def)
  obtain ep m3 where ep: "service_network env s pn n Map.empty m2 = (Ok [ncName nc \<mapsto> ep], m3)"
    "epIPAddress ep = endpoint_ip sub (2 + of_nat (length ss))"
    "epGateway ep = ''172.'' @ FormatUint sub @ ''.0.1''"
    using service_network_eq [OF r(2) x(2), of env s Map.empty] r(3,4) assms(3) by auto
  have "unat (2 + of_nat (length ss) :: u8) = (2 + length ss) mod 256"
    by (simp add: unat_word_ariths unat_of_nat take_bit_eq_mod mod_simps)
  moreover have "FormatUint 1 = ''1''" by code_simp
  ultimately show ?thesis using ep r(1) avail
    by (intro conjI exI [of _ ep] exI [of _ m3]) (simp_all add: endpoint_ip_def)
qed

theorem endpoint_addresses_witness:
  "\<exists>ep m3. service_network sample_env (sample_service ''s'' ''c'') sample_project_networks ''net'' Map.empty
      (snd (generateNetwork sample_env (sample_network ''p_net'') ''net'' ''p'' NewDockerMockManager))
      = (Ok [''p_net'' \<mapsto> ep], m3) \<and> epIPAddress ep = ''172.17.0.2''"
proof -
  let ?m1 = "snd (generateNetwork sample_env (sample_network ''p_net'') ''net'' ''p'' NewDockerMockManager)"
  have n: "ncName (sample_network ''p_net'') = ''p_net''" by (simp add: sample_network_def)
  have g: "generateNetwork sample_env (sample_network ''p_net'') ''net'' ''p'' NewDockerMockManager = (Ok (), ?m1)"
    by (simp add: generateNetwork_def newState_def)
  have "FormatUint 2 = ''2''" "FormatUint 17 = ''17''" by code_simp+
  moreover have "attach_all sample_env sample_project_networks ''net'' [] ?m1 = (Ok (), ?m1)"
    by (simp add: attach_all_def)
  moreover have "hd (availableSubnets (dmState NewDockerMockManager)) = 17"
    by (simp add: newState_def)
  ultimately show ?thesis
    using endpoint_addresses [OF _ g, of sample_project_networks "[]" "Ok ()" ?m1 "sample_service ''s'' ''c''"]
    by (simp add: n newState_def)
qed

text \<open>The index is kept by the name a network has in its compose file, and creating another
  project's network of that name resets it: the next service on the first network gets the address
  2 again, which its first service has.\<close>

theorem index_reset_by_other_project:
  assumes "json_faithful lib" and "fair_ranges env" and "reachable_docker lib env m"
    and "networks (dmState m) (ncName (project_network pn n)) = Some x"
    and "networks (dmState m) (ncName other) = None"
    and "generateNetwork env other n otherProject m = (Ok (), m1)"
  shows "\<exists>ep m2. service_network env s pn n Map.empty m1 = (Ok [ncName (project_network pn n) \<mapsto> ep], m2)
     \<and> epIPAddress ep = endpoint_ip (subnet_of (dmState m) (ncName (project_network pn n))) 2"
proof -
  let ?a = "ncName (project_network pn n)"
  have ne: "?a \<noteq> ncName other" using assms(4,5) by auto
  obtain sub rest where avail: "availableSubnets (dmState m) = sub # rest"
    using assms(5,6) by (cases "availableSubnets (dmState m)") (simp_all add: generateNetwork_def)
  have m1: "networks (dmState m1) ?a = Some x" "index_of (dmState m1) n = 2"
    "subnet_of (dmState m1) ?a = subnet_of (dmState m) ?a"
    using assms(4-6) ne avail by (auto simp: generateNetwork_def index_of_def subnet_of_def)
  have "neIPAMConfig x \<noteq> []"
    using networks_ipam [OF reachable_docker_inv [OF assms(1-3)] assms(4)] by simp
  then obtain ipam rest' where "neIPAMConfig x = ipam # rest'" by (cases "neIPAMConfig x") auto
  from service_network_eq [OF m1(1) this, of env s Map.empty] m1 show ?thesis by auto
qed

theorem index_reset_by_other_project_witness:
  "let m1 = snd (generateNetwork sample_env (sample_network ''q_net'') ''net'' ''q'' sample_docker1)
   in \<exists>ep m2. service_network sample_env (sample_service ''s2'' ''c2'') sample_project_networks ''net''
          Map.empty m1 = (Ok [''p_net'' \<mapsto> ep], m2) \<and> epIPAddress ep = endpoint_ip 17 2"
proof -
  let ?m1 = "snd (generateNetwork sample_env (sample_network ''q_net'') ''net'' ''q'' sample_docker1)"
  have n: "ncName (sample_network k) = k" for k by (simp add: sample_network_def)
  obtain x where x: "networks (dmState sample_docker1)
      (ncName (project_network sample_project_networks ''net'')) = Some x"
    by (simp add: n sample_docker1_eq)
  have g: "generateNetwork sample_env (sample_network ''q_net'') ''net'' ''q'' sample_docker1 = (Ok (), ?m1)"
    by (simp add: generateNetwork_def n sample_docker1_eq newState_def)
  show ?thesis
    using index_reset_by_other_project [OF sample_json sample_ranges sample_docker1_reachable x _ g,
        of "sample_service ''s2'' ''c2''"]
    by (simp add: n sample_docker1_eq subnet_of_def)
qed

end
