(* ===== verification/Docker_Service_Props.thy ===== *)
theory Docker_Service_Props
  imports Docker_Samples Docker_Service_Facts
begin

text \<open>
  The properties of the Docker mock's containers: what generating a service adds and removing it
  takes away again, when \<open>Up\<close> starts a service rather than replacing it, starting and stopping,
  and what lists of containers cannot report.
\<close>

section \<open>Generating and removing a service\<close>

text \<open>C13: a generated service has one container under its container name, with an endpoint on every
  network of the service and none other, entered in that network with the endpoint's addresses;
  nothing else changes but the indices. Removing the container takes it away again, from the
  containers and from every network.\<close>

theorem service_create_remove:
  assumes "fair_ranges env" and "finite (dom (seNetworks service))"
    and "generateService lib env service pn pv m = (Ok (), m')"
  shows "\<exists>c ns. containers (dmState m') = (containers (dmState m))(seContainerName service \<mapsto> c)
    \<and> volumes (dmState m') = volumes (dmState m)
    \<and> cjNetworkSettings c = Some ns \<and> cjName c = ''/'' @ seContainerName service
    \<and> dom (nsNetworks ns) = (\<lambda>n. ncName (project_network pn n)) ` dom (seNetworks service)
    \<and> (\<forall>n. networks (dmState m') n =
          (case nsNetworks ns n of
             None \<Rightarrow> networks (dmState m) n
           | Some ep \<Rightarrow> map_option (with_endpoint c ep) (networks (dmState m) n)))
    \<and> ((\<forall>n x. networks (dmState m) n = Some x \<longrightarrow> neContainers x (cjID c) = None) \<longrightarrow>
         (\<exists>m2. ContainerRemove env (seContainerName service) m' = (Ok (), m2)
            \<and> networks (dmState m2) = networks (dmState m)
            \<and> containers (dmState m2) = (containers (dmState m))(seContainerName service := None)))"
proof -
  obtain c ns where conts: "containers (dmState m') = (containers (dmState m))(seContainerName service \<mapsto> c)"
    and nets: "networks (dmState m') = with_endpoints c (nsNetworks ns) (networks (dmState m)) (dom (nsNetworks ns))"
    and vols: "volumes (dmState m') = volumes (dmState m)"
    and c: "cjNetworkSettings c = Some ns" "cjName c = ''/'' @ seContainerName service"
    and d: "dom (nsNetworks ns) = (\<lambda>n. ncName (project_network pn n)) ` dom (seNetworks service)"
      "dom (nsNetworks ns) \<subseteq> dom (networks (dmState m))"
    by (rule generateService_OkE [OF assms]) (rule that, assumption+)
  have entered: "networks (dmState m') n = (case nsNetworks ns n of None \<Rightarrow> networks (dmState m) n
      | Some ep \<Rightarrow> map_option (with_endpoint c ep) (networks (dmState m) n))" for n
    unfolding nets by (auto simp: with_endpoints_def split: option.split)
  have "containers (dmState m') (seContainerName service) = Some c" using conts by simp
  moreover have "finite (dom (nsNetworks ns))" using d(1) assms(2) by simp
  ultimately obtain m2 where m2: "ContainerRemove env (seContainerName service) m' = (Ok (), m2)"
    "dmState m2 = (dmState m')\<lparr>containers := (containers (dmState m'))(seContainerName service := None),
       networks := detached (cjID c) (dom (nsNetworks ns)) (networks (dmState m'))\<rparr>"
    using ContainerRemove_eq [OF assms(1) _ c(1)] by blast
  have "networks (dmState m2) = networks (dmState m)"
    if "\<forall>n x. networks (dmState m) n = Some x \<longrightarrow> neContainers x (cjID c) = None"
    using m2(2) that nets detached_with_endpoints [of "dmState m" c] by simp
  moreover have "containers (dmState m2) = (containers (dmState m))(seContainerName service := None)"
    using m2(2) conts by simp
  ultimately show ?thesis using conts vols c d(1) entered m2(1) by blast
qed

text \<open>Generating a service anew, as \<open>Up\<close> does when its definition changed, replaces its
  container but leaves the old one entered in its networks: even after the new container is
  removed and no container of the service is left, its networks cannot be removed.\<close>

theorem regenerated_service_pins_networks:
  assumes "fair_ranges env" and "finite (dom (seNetworks service))"
    and "generateService lib env service pn pv m = (Ok (), m1)"
    and "generateService lib env service pn pv m1 = (Ok (), m2)"
    and "map_option cjID (containers (dmState m1) (seContainerName service))
         \<noteq> map_option cjID (containers (dmState m2) (seContainerName service))"
    and "n \<in> dom (seNetworks service)"
  shows "\<exists>m3. ContainerRemove env (seContainerName service) m2 = (Ok (), m3)
    \<and> containers (dmState m3) (seContainerName service) = None
    \<and> NetworkRemove (ncName (project_network pn n)) m3
      = (Err (Errorf ''network %s is in use still'' [ncName (project_network pn n)]), m3)"
proof -
  let ?n = "ncName (project_network pn n)"
  obtain c1 ns1 where s1: "containers (dmState m1) = (containers (dmState m))(seContainerName service \<mapsto> c1)"
      "networks (dmState m1) = with_endpoints c1 (nsNetworks ns1) (networks (dmState m)) (dom (nsNetworks ns1))"
      "volumes (dmState m1) = volumes (dmState m)" "serviceHashes (dmState m1) = serviceHashes (dmState m)"
      "cjNetworkSettings c1 = Some ns1" "cjName c1 = ''/'' @ seContainerName service"
    and d1: "dom (nsNetworks ns1) = (\<lambda>n. ncName (project_network pn n)) ` dom (seNetworks service)"
      "dom (nsNetworks ns1) \<subseteq> dom (networks (dmState m))"
    by (rule generateService_OkE [OF assms(1-3)])
  obtain c2 ns2 where s2: "containers (dmState m2) = (containers (dmState m1))(seContainerName service \<mapsto> c2)"
      "networks (dmState m2) = with_endpoints c2 (nsNetworks ns2) (networks (dmState m1)) (dom (nsNetworks ns2))"
      "volumes (dmState m2) = volumes (dmState m1)" "serviceHashes (dmState m2) = serviceHashes (dmState m1)"
      "cjNetworkSettings c2 = Some ns2" "cjName c2 = ''/'' @ seContainerName service"
    and d2: "dom (nsNetworks ns2) = (\<lambda>n. ncName (project_network pn n)) ` dom (seNetworks service)"
      "dom (nsNetworks ns2) \<subseteq> dom (networks (dmState m1))"
    by (rule generateService_OkE [OF assms(1,2,4)])
  have c2: "containers (dmState m2) (seContainerName service) = Some c2" using s2(1) by simp
  have ids: "cjID c1 \<noteq> cjID c2" using assms(5) s1(1) s2(1) by simp
  obtain m3 where m3: "ContainerRemove env (seContainerName service) m2 = (Ok (), m3)"
    "dmState m3 = (dmState m2)\<lparr>containers := (containers (dmState m2))(seContainerName service := None),
       networks := detached (cjID c2) (dom (nsNetworks ns2)) (networks (dmState m2))\<rparr>"
    using ContainerRemove_eq [OF assms(1) c2 s2(5)] d2 assms(2) by auto
  have "?n \<in> dom (nsNetworks ns1)" using d1(1) assms(6) by blast
  then obtain ep x where "nsNetworks ns1 ?n = Some ep" "networks (dmState m) ?n = Some x"
    using d1(2) by blast
  then have "networks (dmState m1) ?n = Some (with_endpoint c1 ep x)"
    unfolding s1(2) by (simp add: with_endpoints_def domI)
  moreover have "neContainers (with_endpoint c1 ep x) (cjID c1) \<noteq> None" by (simp add: with_endpoint_def)
  ultimately obtain y where "networks (dmState m2) ?n = Some y" "neContainers y (cjID c1) \<noteq> None"
    unfolding s2(2) by (blast dest: with_endpoints_other)
  then obtain z where "networks (dmState m3) ?n = Some z" "neContainers z (cjID c1) \<noteq> None"
    using m3(2) detached_other [of "networks (dmState m2)" ?n y "cjID c1" "cjID c2"] ids
    by (metis DockerState.select_convs(3) DockerState.surjective DockerState.update_convs(3))
  then have "NetworkRemove ?n m3 = (Err (Errorf ''network %s is in use still'' [?n]), m3)"
    by (auto simp: NetworkRemove_def)
  with m3 show ?thesis by auto
qed

section \<open>Up, again\<close>

text \<open>C22: a service that \<open>Up\<close> has generated is only started by the next \<open>Up\<close> of the same definition if
  its container is named like the service: the containers are kept by container name and looked
  up by service name, so otherwise an unchanged service is replaced by a new container.\<close>

theorem second_up_of_a_service:
  assumes "fair_ranges env" and "finite (dom (seNetworks service))"
    and "containers (dmState m) (seName service) = None"
    and "up_service lib env project service m = (Ok (), m1)"
  shows "\<exists>hash. serviceHashes (dmState m1) (seName service) = Some hash
    \<and> up_service lib env project service m1 =
    (if seContainerName service = seName service
     then wrap_op ''error starting service [%s]: %w'' [seName service]
            (ContainerStart lib env (seName service)) m1
     else bind_op (generateService lib env service (prNetworks project) (prVolumes project)) (\<lambda>_.
            modify_state (\<lambda>s. s\<lparr>serviceHashes := (serviceHashes s)(seName service \<mapsto> hash)\<rparr>)) m1)"
proof -
  obtain yaml where yaml: "service_Marshal lib service = Inr yaml"
    using assms(4) by (auto simp: up_service_def bind_op_Ok)
  then have up: "up_service lib env project service k =
      (if unchanged (dmState k) service (Sum256 lib yaml)
       then wrap_op ''error starting service [%s]: %w'' [seName service]
              (ContainerStart lib env (seName service)) k
       else bind_op (generateService lib env service (prNetworks project) (prVolumes project)) (\<lambda>_.
         modify_state (\<lambda>s. s\<lparr>serviceHashes := (serviceHashes s)(seName service \<mapsto> Sum256 lib yaml)\<rparr>)) k)"
    for k by (simp add: up_service_def yaml Let_def)
  have "\<not> unchanged (dmState m) service (Sum256 lib yaml)" using assms(3) by (simp add: unchanged_def)
  with assms(4) up obtain m' where
    gen: "generateService lib env service (prNetworks project) (prVolumes project) m = (Ok (), m')"
    and m1: "m1 = set_state ((dmState m')\<lparr>serviceHashes :=
      (serviceHashes (dmState m'))(seName service \<mapsto> Sum256 lib yaml)\<rparr>) m'"
    by (auto simp: bind_op_Ok)
  obtain c where "containers (dmState m') = (containers (dmState m))(seContainerName service \<mapsto> c)"
    by (rule generateService_OkE [OF assms(1,2) gen]) (rule that, assumption+)
  then have "containers (dmState m1) = (containers (dmState m))(seContainerName service \<mapsto> c)"
    using m1 by simp
  then have "unchanged (dmState m1) service (Sum256 lib yaml)
      \<longleftrightarrow> seContainerName service = seName service"
    using assms(3) m1 by (auto simp: unchanged_def)
  then show ?thesis using up [of m1] m1 by (intro exI [of _ "Sum256 lib yaml"]) simp
qed

section \<open>Starting and stopping\<close>

text \<open>
  What the code relies on from the daemon's state type and the clock: starting makes the state a
  running one, stopping ends that with the exit code, both write the time they are given or leave
  the times alone, and a time that was read or parsed is the time its text stands for.
\<close>

definition daemon_laws :: "docker_lib \<Rightarrow> docker_env \<Rightarrow> bool" where
  "daemon_laws lib env \<longleftrightarrow>
     (\<forall>t st. imRunning (State_SetRunning lib t st)
        \<and> imStartedAt (State_SetRunning lib t st) \<in> {imStartedAt st, t}
        \<and> imFinishedAt (State_SetRunning lib t st) \<in> {imFinishedAt st, t})
     \<and> (\<forall>code t st. \<not> imRunning (State_SetStopped lib code t st)
        \<and> imExitCodeValue (State_SetStopped lib code t st) = code
        \<and> imStartedAt (State_SetStopped lib code t st) \<in> {imStartedAt st, t}
        \<and> imFinishedAt (State_SetStopped lib code t st) \<in> {imFinishedAt st, t})
     \<and> (\<forall>k. time_Parse lib (time_Format lib (now_at env k)) = Inr (now_at env k))
     \<and> (\<forall>s t. time_Parse lib s = Inr t \<longrightarrow> time_Parse lib (time_Format lib t) = Inr t)"

definition parsable :: "docker_lib \<Rightarrow> ContainerState \<Rightarrow> bool" where
  "parsable lib cs \<longleftrightarrow> (\<exists>a b. time_Parse lib (csStartedAt cs) = Inr a
     \<and> time_Parse lib (csFinishedAt cs) = Inr b)"

text \<open>The container \<open>n\<close> exists, its state can be read, and it is running or not.\<close>

definition container_is :: "docker_lib \<Rightarrow> string \<Rightarrow> bool \<Rightarrow> DockerMockManager \<Rightarrow> bool" where
  "container_is lib n running m \<longleftrightarrow> (\<exists>c cs. containers (dmState m) n = Some c
     \<and> cjState c = Some cs \<and> parsable lib cs \<and> csRunning cs = running)"

lemma read_state:
  assumes "time_Parse lib (csStartedAt cs) = Inr a" "time_Parse lib (csFinishedAt cs) = Inr b"
  shows "\<exists>st. getStateFromContainerState lib (Some cs) m = (Ok st, m)
    \<and> imStartedAt st = a \<and> imFinishedAt st = b"
  using assms by (simp add: getStateFromContainerState_def)

lemma write_state:
  "\<exists>cs. getContainerStateFromState lib env st m = (Ok cs, m\<lparr>dmTicks := dmTicks m + 1\<rparr>)
     \<and> csRunning cs = imRunning st \<and> csExitCode cs = imExitCodeValue st
     \<and> csStartedAt cs = time_Format lib (imStartedAt st)
     \<and> csFinishedAt cs = time_Format lib (imFinishedAt st)"
  by (simp add: getContainerStateFromState_def)

lemma change_state_eq:
  assumes "containers (dmState m) n = Some c" and "cjState c = Some cs"
    and "time_Parse lib (csStartedAt cs) = Inr a" "time_Parse lib (csFinishedAt cs) = Inr b"
  shows "\<exists>st cs' m'. change_state lib env f n m = (Ok (), m') \<and> dmState m' = (dmState m)\<lparr>containers :=
         (containers (dmState m))(n \<mapsto> c\<lparr>cjState := Some cs'\<rparr>)\<rparr>
    \<and> imStartedAt st = a \<and> imFinishedAt st = b
    \<and> csRunning cs' = imRunning (f (now_at env (dmTicks m)) st)
    \<and> csExitCode cs' = imExitCodeValue (f (now_at env (dmTicks m)) st)
    \<and> csStartedAt cs' = time_Format lib (imStartedAt (f (now_at env (dmTicks m)) st))
    \<and> csFinishedAt cs' = time_Format lib (imFinishedAt (f (now_at env (dmTicks m)) st))"
proof -
  obtain st where st: "getStateFromContainerState lib (Some cs) m = (Ok st, m)"
    "imStartedAt st = a" "imFinishedAt st = b" using read_state [OF assms(3,4)] by blast
  let ?m1 = "m\<lparr>dmTicks := dmTicks m + 1\<rparr>" and ?f = "f (now_at env (dmTicks m)) st"
  obtain cs' where cs': "getContainerStateFromState lib env ?f ?m1 = (Ok cs', ?m1\<lparr>dmTicks := dmTicks ?m1 + 1\<rparr>)"
    "csRunning cs' = imRunning ?f" "csExitCode cs' = imExitCodeValue ?f"
    "csStartedAt cs' = time_Format lib (imStartedAt ?f)" "csFinishedAt cs' = time_Format lib (imFinishedAt ?f)"
    using write_state [of lib env ?f ?m1] by blast
  have "change_state lib env f n m = put_container n (c\<lparr>cjState := Some cs'\<rparr>) (?m1\<lparr>dmTicks := dmTicks ?m1 + 1\<rparr>)"
    using assms(1,2) st(1) cs'(1) by (simp add: change_state_def)
  then show ?thesis using st(2,3) cs'(2-5)
    by (intro exI [of _ st] exI [of _ cs'] exI) (rule conjI, simp, simp)
qed

lemma start_stop_step:
  assumes laws: "daemon_laws lib env" and c: "container_is lib n r m"
  shows "\<exists>m'. ContainerStart lib env n m = (Ok (), m') \<and> container_is lib n True m'"
    and "\<exists>m'. ContainerStop lib env n m = (Ok (), m') \<and> container_is lib n False m'"
proof -
  obtain x cs a b where x: "containers (dmState m) n = Some x" "cjState x = Some cs"
    "time_Parse lib (csStartedAt cs) = Inr a" "time_Parse lib (csFinishedAt cs) = Inr b"
    using c by (auto simp: container_is_def parsable_def)
  have times: "time_Parse lib (time_Format lib t) = Inr t" if "t \<in> {a, b, now_at env (dmTicks m)}" for t
    using that laws x(3,4) unfolding daemon_laws_def by auto
  have step: "\<exists>m'. change_state lib env f n m = (Ok (), m') \<and> container_is lib n v m'"
    if "\<And>st t. imRunning (f t st) = v" "\<And>st t. imStartedAt (f t st) \<in> {imStartedAt st, t}"
      "\<And>st t. imFinishedAt (f t st) \<in> {imFinishedAt st, t}" for f v
  proof -
    obtain st cs' m' where run: "change_state lib env f n m = (Ok (), m')"
      and m': "dmState m' = (dmState m)\<lparr>containers := (containers (dmState m))(n \<mapsto> x\<lparr>cjState := Some cs'\<rparr>)\<rparr>"
      and st: "imStartedAt st = a" "imFinishedAt st = b"
      and cs': "csRunning cs' = imRunning (f (now_at env (dmTicks m)) st)"
        "csStartedAt cs' = time_Format lib (imStartedAt (f (now_at env (dmTicks m)) st))"
        "csFinishedAt cs' = time_Format lib (imFinishedAt (f (now_at env (dmTicks m)) st))"
      using change_state_eq [OF x] by blast
    have "time_Parse lib (csStartedAt cs') = Inr (imStartedAt (f (now_at env (dmTicks m)) st))"
      unfolding cs' using that(2) [of "now_at env (dmTicks m)" st] st by (intro times) auto
    moreover have "time_Parse lib (csFinishedAt cs') = Inr (imFinishedAt (f (now_at env (dmTicks m)) st))"
      unfolding cs' using that(3) [of "now_at env (dmTicks m)" st] st by (intro times) auto
    ultimately have "container_is lib n v m'"
      unfolding container_is_def parsable_def using m' cs'(1) that(1) by simp
    with run show ?thesis by blast
  qed
  show "\<exists>m'. ContainerStart lib env n m = (Ok (), m') \<and> container_is lib n True m'"
    unfolding ContainerStart_def by (rule step) (use laws in \<open>auto simp: daemon_laws_def\<close>)
  show "\<exists>m'. ContainerStop lib env n m = (Ok (), m') \<and> container_is lib n False m'"
    unfolding ContainerStop_def by (rule step) (use laws in \<open>auto simp: daemon_laws_def\<close>)
qed

text \<open>A sequence of starts (\<open>True\<close>) and stops of a container.\<close>

definition start_stop :: "docker_lib \<Rightarrow> docker_env \<Rightarrow> string \<Rightarrow> bool list \<Rightarrow> unit dop" where
  "start_stop lib env n cmds =
     for_each (\<lambda>start. if start then ContainerStart lib env n else ContainerStop lib env n) cmds"

text \<open>C20: starting and stopping a container whose state can be read always succeeds, in any order and
  any number of times, and the last of them says whether the container runs.\<close>

theorem starts_and_stops:
  assumes "daemon_laws lib env" and "container_is lib n r m"
  shows "\<exists>m'. start_stop lib env n cmds m = (Ok (), m')
    \<and> container_is lib n (if cmds = [] then r else last cmds) m'"
  using assms(2)
proof (induction cmds arbitrary: r m)
  case Nil
  then show ?case by (simp add: start_stop_def)
next
  case (Cons start cmds)
  obtain m1 where one: "(if start then ContainerStart lib env n else ContainerStop lib env n) m = (Ok (), m1)"
    "container_is lib n start m1"
    using start_stop_step [OF assms(1) Cons.prems] by (cases start) auto
  from Cons.IH [OF one(2)] obtain m' where "start_stop lib env n cmds m1 = (Ok (), m')"
    "container_is lib n (if cmds = [] then start else last cmds) m'" by blast
  then show ?case using one(1) by (auto simp: start_stop_def split: if_splits)
qed

section \<open>Reports\<close>

lemma collect_Ok_elem:
  "collect f xs m = (Ok ys, m') \<Longrightarrow> x \<in> set xs \<Longrightarrow> \<exists>k y k'. f x k = (Ok y, k')"
  by (induction xs arbitrary: ys m) (auto simp: bind_op_Ok)

lemma convert_Ok_ports:
  assumes env: "fair_ranges env" and fin: "finite (dom (nsPorts ns))"
    and run: "convertContainerJsonToContainer lib env c m = (Ok x, m')"
    and ns: "cjNetworkSettings c = Some ns" and b: "nsPorts ns p = Some bs" "b \<in> set bs"
  shows "\<exists>i. ParseInt0 (HostPort b) 16 = Inr i"
proof -
  from run ns obtain k names k' ports where
    names: "range_over env (nsPorts ns) k = (Ok names, k')"
    and ports: "\<exists>j. collect (\<lambda>port. collect (convert_port lib port) (port_settings (nsPorts ns) port)) names k'
      = (Ok ports, j)"
    unfolding convertContainerJsonToContainer_def by (auto simp: bind_op_Ok)
  from names have "p \<in> set names" using env fin b(1) by (auto simp: fair_ranges_def)
  then obtain k1 y k2 where "collect (convert_port lib p) (port_settings (nsPorts ns) p) k1 = (Ok y, k2)"
    using ports collect_Ok_elem by fastforce
  then obtain j1 z j2 where "convert_port lib p b j1 = (Ok z, j2)"
    using b collect_Ok_elem [of "convert_port lib p"] by (fastforce simp: port_settings_def)
  then show ?thesis by (auto simp: convert_port_def bind_op_Ok)
qed

lemma list_containers_Ok:
  "list_containers lib env True cs names acc m = (Ok xs, m') \<Longrightarrow> n \<in> set names \<Longrightarrow> cs n = Some c
   \<Longrightarrow> \<exists>k x k'. convertContainerJsonToContainer lib env c k = (Ok x, k')"
proof (induction names arbitrary: acc m)
  case Nil
  then show ?case by simp
next
  case (Cons k names)
  then show ?case by (cases "cs k") (auto simp: bind_op_Ok, blast+)
qed

text \<open>One container that publishes a port above 32767 makes the list of all containers and the disk
  usage fail, whatever the other containers: the port is parsed as a signed 16-bit number.\<close>

theorem high_port_breaks_reports:
  assumes "fair_ranges env" and "finite (dom (containers (dmState m)))"
    and "containers (dmState m) n = Some c" and "cjNetworkSettings c = Some ns"
    and "finite (dom (nsPorts ns))" and "nsPorts ns p = Some bs" and "b \<in> set bs"
    and "HostPort b = FormatUint port" and "32767 < port"
  shows "fst (ContainerList lib env True m) \<noteq> Ok xs \<and> fst (DiskUsage lib env m) \<noteq> Ok usage"
proof -
  have bad: "convertContainerJsonToContainer lib env c k \<noteq> (Ok x, k')" for k x k'
  proof
    assume "convertContainerJsonToContainer lib env c k = (Ok x, k')"
    from convert_Ok_ports [OF assms(1,5) this assms(4,6,7)] obtain i where
      "ParseInt0 (FormatUint port) 16 = Inr i" unfolding assms(8) by blast
    then show False using assms(9) by (simp add: ParseInt0_FormatUint split: if_splits)
  qed
  have n: "n \<in> set (range_at env k (dom (containers (dmState m))))" for k
    using assms(1-3) by (auto simp: fair_ranges_def)
  have "ContainerList lib env True m \<noteq> (Ok xs, m')" for m'
  proof
    assume "ContainerList lib env True m = (Ok xs, m')"
    then have "list_containers lib env True (containers (dmState m))
        (range_at env (dmTicks m) (dom (containers (dmState m)))) [] (m\<lparr>dmTicks := dmTicks m + 1\<rparr>) = (Ok xs, m')"
      by (simp add: ContainerList_def)
    from list_containers_Ok [OF this n assms(3)] bad show False by blast
  qed
  moreover have "DiskUsage lib env m \<noteq> (Ok usage, m')" for m'
  proof
    assume "DiskUsage lib env m = (Ok usage, m')"
    then obtain k ys k' where all: "collect (\<lambda>container. wrap_op ''error getting details for [%s]: %w''
        [cjName container] (convertContainerJsonToContainer lib env container))
        (List.map_filter (containers (dmState m)) (range_at env (dmTicks m) (dom (containers (dmState m))))) k
        = (Ok ys, k')"
      unfolding DiskUsage_def by (auto simp: bind_op_Ok)
    have "c \<in> set (List.map_filter (containers (dmState m))
        (range_at env (dmTicks m) (dom (containers (dmState m)))))"
      using n assms(3) by (force simp: List.map_filter_def)
    then show False using collect_Ok_elem [OF all] bad by fastforce
  qed
  ultimately show ?thesis by (metis prod.collapse)
qed

section \<open>Instances\<close>

lemma started_run: "\<exists>st. started_state lib env m = (Ok st, m\<lparr>dmTicks := Suc (Suc (dmTicks m))\<rparr>)"
  by (simp add: started_state_def getContainerStateFromState_def)

lemma sample_host_config:
  "\<exists>hc. fill_host_config lib sample_env (sample_service s cn) sample_project_networks h
      (m\<lparr>dmTicks := k\<rparr>) = (Ok hc, m\<lparr>dmTicks := Suc k\<rparr>)"
  by (simp add: fill_host_config_def default_network_mode_def fill_ulimits_def sample_service_def
      sample_resources_def Let_def)

lemma sample_service_sel [simp]:
  "seVolumes (sample_service s cn) = []" "sePorts (sample_service s cn) = []"
  "seEnvironment (sample_service s cn) = Map.empty" "seNetworks (sample_service s cn) = [''net'' \<mapsto> None]"
  "seName (sample_service s cn) = s" "seContainerName (sample_service s cn) = cn"
  by (simp_all add: sample_service_def)

lemma sample_container:
  assumes x: "networks (dmState m) ''p_net'' = Some x" and "neIPAMConfig x = subnet_config 17"
  shows "\<exists>c m'. service_container lib sample_env (sample_service s cn) sample_project_networks Map.empty m
      = (Ok c, m') \<and> cjID c = EncodeToString (replicate 32 (of_nat (dmTicks m + 5)))
      \<and> dmTicks m' = dmTicks m + 10"
proof -
  let ?v = "sample_service s cn"
  obtain st where st: "started_state lib sample_env m = (Ok st, m\<lparr>dmTicks := Suc (Suc (dmTicks m))\<rparr>)"
    using started_run by blast
  have env: "service_env sample_env ?v k = (Ok [], k\<lparr>dmTicks := Suc (dmTicks k)\<rparr>)" for k
    by (simp add: service_env_def)
  let ?m3 = "m\<lparr>dmTicks := Suc (Suc (Suc (Suc (dmTicks m))))\<rparr>"
  have p: "ncName (sample_network k) = k" for k by (simp add: sample_network_def)
  have x3: "networks (dmState ?m3) (ncName (project_network sample_project_networks ''net'')) = Some x"
    using x by (simp add: p)
  obtain ip where ip: "neIPAMConfig x = [ip]" using assms(2) by (simp add: subnet_config_def)
  obtain eps m4 where nets: "service_networks sample_env ?v sample_project_networks [''net''] Map.empty ?m3
      = (Ok eps, m4)" and ticks: "dmTicks m4 = Suc (dmTicks ?m3)"
    using service_network_eq [OF x3 ip, of sample_env ?v Map.empty] by auto
  obtain hc where hc: "fill_host_config lib sample_env ?v sample_project_networks
      (service_host_config lib ?v [] Map.empty [])
      (m4\<lparr>dmTicks := Suc (Suc (Suc (Suc (dmTicks m4))))\<rparr>)
      = (Ok hc, m4\<lparr>dmTicks := Suc (Suc (Suc (Suc (Suc (dmTicks m4)))))\<rparr>)"
    using sample_host_config by blast
  show ?thesis
    using st env nets ticks hc by (simp add: service_container_def Let_def host_port_map_def add.commute)
qed

text \<open>Generating a service of the sample project, wherever the network of the project is there.\<close>

lemma sample_generates:
  assumes x: "networks (dmState m) ''p_net'' = Some x" and cfg: "neIPAMConfig x = subnet_config 17"
  shows "\<exists>c m' y. generateService lib sample_env (sample_service s cn) sample_project_networks Map.empty m
      = (Ok (), m') \<and> containers (dmState m') = (containers (dmState m))(cn \<mapsto> c)
      \<and> cjID c = EncodeToString (replicate 32 (of_nat (dmTicks m + 5)))
      \<and> networks (dmState m') ''p_net'' = Some y \<and> neIPAMConfig y = subnet_config 17
      \<and> dmTicks m' = dmTicks m + 11"
proof -
  obtain c m1 where c: "service_container lib sample_env (sample_service s cn)
      sample_project_networks Map.empty m = (Ok c, m1)"
    "cjID c = EncodeToString (replicate 32 (of_nat (dmTicks m + 5)))" "dmTicks m1 = dmTicks m + 10"
    using sample_container [OF assms] by blast
  have "finite (dom (seNetworks (sample_service s cn)))" by simp
  from generateService_runs [OF sample_ranges this c(1)] obtain m' where
    m': "generateService lib sample_env (sample_service s cn) sample_project_networks Map.empty m = (Ok (), m')"
    "containers (dmState m') = (containers (dmState m))(cn \<mapsto> c)" "dmTicks m' = dmTicks m1 + 1"
    "networks (dmState m') = with_endpoints c (nsNetworks (the (cjNetworkSettings c))) (networks (dmState m))
        (dom (nsNetworks (the (cjNetworkSettings c))))" by auto
  have "\<exists>y. networks (dmState m') ''p_net'' = Some y \<and> neIPAMConfig y = subnet_config 17"
    unfolding m'(4) using x cfg by (auto simp: with_endpoints_def with_endpoint_def split: option.split)
  with m' c(2,3) show ?thesis by auto
qed

lemma sample_docker1_net:
  "\<exists>x. networks (dmState sample_docker1) ''p_net'' = Some x \<and> neIPAMConfig x = subnet_config 17
     \<and> neContainers x = Map.empty"
  by (simp add: sample_docker1_eq)

text \<open>The manager of the sample project, with the project's service.\<close>

definition sample_docker2 :: "string \<Rightarrow> DockerMockManager" where
  "sample_docker2 cn = snd (generateService sample_dlib sample_env (sample_service ''s'' cn)
     sample_project_networks Map.empty sample_docker1)"

lemma sample_docker2_run:
  "generateService sample_dlib sample_env (sample_service ''s'' cn) sample_project_networks Map.empty
     sample_docker1 = (Ok (), sample_docker2 cn)"
  "\<exists>c y. containers (dmState (sample_docker2 cn)) = [cn \<mapsto> c]
     \<and> cjID c = EncodeToString (replicate 32 10) \<and> dmTicks (sample_docker2 cn) = 16
     \<and> networks (dmState (sample_docker2 cn)) ''p_net'' = Some y \<and> neIPAMConfig y = subnet_config 17"
proof -
  obtain x where "networks (dmState sample_docker1) ''p_net'' = Some x" "neIPAMConfig x = subnet_config 17"
    using sample_docker1_net by blast
  from sample_generates [OF this, of sample_dlib "''s''" cn] obtain c m' y where
    "generateService sample_dlib sample_env (sample_service ''s'' cn) sample_project_networks Map.empty
       sample_docker1 = (Ok (), m')" "containers (dmState m') = (containers (dmState sample_docker1))(cn \<mapsto> c)"
    "cjID c = EncodeToString (replicate 32 (of_nat (dmTicks sample_docker1 + 5)))"
    "networks (dmState m') ''p_net'' = Some y" "neIPAMConfig y = subnet_config 17"
    "dmTicks m' = dmTicks sample_docker1 + 11" by blast
  note run = this
  then show "generateService sample_dlib sample_env (sample_service ''s'' cn) sample_project_networks Map.empty
       sample_docker1 = (Ok (), sample_docker2 cn)"
    by (simp add: sample_docker2_def)
  then have "m' = sample_docker2 cn" using run(1) by simp
  moreover have "containers (dmState sample_docker1) = Map.empty" "dmTicks sample_docker1 = 5"
    by (simp_all add: sample_docker1_eq newState_def)
  ultimately show "\<exists>c y. containers (dmState (sample_docker2 cn)) = [cn \<mapsto> c]
     \<and> cjID c = EncodeToString (replicate 32 10) \<and> dmTicks (sample_docker2 cn) = 16
     \<and> networks (dmState (sample_docker2 cn)) ''p_net'' = Some y \<and> neIPAMConfig y = subnet_config 17"
    using run by (intro exI [of _ c] exI [of _ y]) simp
qed

theorem service_create_remove_witness:
  "\<exists>c m2. containers (dmState (sample_docker2 ''c'')) = [''c'' \<mapsto> c]
     \<and> ContainerRemove sample_env ''c'' (sample_docker2 ''c'') = (Ok (), m2)
     \<and> networks (dmState m2) = networks (dmState sample_docker1)"
proof -
  have "finite (dom (seNetworks (sample_service ''s'' ''c'')))" by simp
  note gen = service_create_remove [OF sample_ranges this sample_docker2_run(1)]
  have "\<forall>n x. networks (dmState sample_docker1) n = Some x \<longrightarrow> neContainers x k = None" for k
    by (simp add: sample_docker1_eq)
  moreover have "containers (dmState sample_docker1) = Map.empty"
    by (simp add: sample_docker1_eq newState_def)
  ultimately show ?thesis using gen by auto
qed

theorem regenerated_service_pins_networks_witness:
  "\<exists>m2 m3. generateService sample_dlib sample_env (sample_service ''s'' ''c'') sample_project_networks
       Map.empty (sample_docker2 ''c'') = (Ok (), m2)
     \<and> ContainerRemove sample_env ''c'' m2 = (Ok (), m3)
     \<and> fst (NetworkRemove ''p_net'' m3) \<noteq> Ok ()"
proof -
  obtain c y where s: "containers (dmState (sample_docker2 ''c'')) = [''c'' \<mapsto> c]"
    "cjID c = EncodeToString (replicate 32 10)" "dmTicks (sample_docker2 ''c'') = 16"
    "networks (dmState (sample_docker2 ''c'')) ''p_net'' = Some y" "neIPAMConfig y = subnet_config 17"
    using sample_docker2_run(2) by blast
  from sample_generates [OF s(4,5), of sample_dlib "''s''" "''c''"] obtain c' m2 where
    m2: "generateService sample_dlib sample_env (sample_service ''s'' ''c'') sample_project_networks
       Map.empty (sample_docker2 ''c'') = (Ok (), m2)"
      "containers (dmState m2) = (containers (dmState (sample_docker2 ''c'')))(''c'' \<mapsto> c')"
      "cjID c' = EncodeToString (replicate 32 (of_nat 21))"
    unfolding s(3) by auto
  have "cjID c \<noteq> cjID c'" unfolding s(2) m2(3) EncodeToString_inject by simp
  then have ids: "map_option cjID (containers (dmState (sample_docker2 ''c'')) ''c'')
      \<noteq> map_option cjID (containers (dmState m2) ''c'')" using s(1) m2(2) by simp
  have "ncName (project_network sample_project_networks ''net'') = ''p_net''"
    by (simp add: sample_network_def)
  then show ?thesis
    using regenerated_service_pins_networks [OF sample_ranges _ sample_docker2_run(1) m2(1), of "''net''"]
      ids m2(1) by auto
qed

text \<open>A project with that network, for \<open>up_service\<close>.\<close>

definition sample_project :: Project where
  "sample_project = \<lparr>prNetworks = sample_project_networks, prVolumes = Map.empty, prServices = Map.empty\<rparr>"

theorem second_up_of_a_service_witness:
  "\<exists>m1. up_service sample_dlib sample_env sample_project (sample_service ''s'' ''s'') sample_docker1 = (Ok (), m1)
     \<and> up_service sample_dlib sample_env sample_project (sample_service ''s'' ''s'') m1
       = wrap_op ''error starting service [%s]: %w'' [''s''] (ContainerStart sample_dlib sample_env ''s'') m1"
proof -
  have none: "containers (dmState sample_docker1) ''s'' = None"
    "serviceHashes (dmState sample_docker1) ''s'' = None" by (simp_all add: sample_docker1_eq newState_def)
  have marshal: "service_Marshal sample_dlib s = Inr (map of_char (seName s @ seImage s))" for s
    by (simp add: sample_dlib_def)
  have "\<exists>m1. up_service sample_dlib sample_env sample_project (sample_service ''s'' ''s'') sample_docker1 = (Ok (), m1)"
    using none sample_docker2_run(1) [of "''s''"]
    by (simp add: up_service_def marshal Let_def unchanged_def sample_project_def)
  moreover have "finite (dom (seNetworks (sample_service ''s'' ''s'')))" by simp
  ultimately show ?thesis
    using second_up_of_a_service [OF sample_ranges, of "sample_service ''s'' ''s''" sample_docker1] none(1)
    by fastforce
qed

lemma sample_laws: "daemon_laws sample_dlib sample_env"
proof -
  have parse: "0 \<le> t \<and> t < 2 ^ 64" if "time_Parse sample_dlib s = Inr t" for s t
    using that ParseUint_bound by (fastforce simp: sample_dlib_def split: sum.splits)
  have now: "time_Parse sample_dlib (time_Format sample_dlib (now_at sample_env k)) = Inr (now_at sample_env k)"
    for k by simp
  have again: "time_Parse sample_dlib s = Inr t \<Longrightarrow>
      time_Parse sample_dlib (time_Format sample_dlib t) = Inr t" for s t
    using parse [of s t] by simp
  show ?thesis
    unfolding daemon_laws_def using now again by (auto simp: sample_dlib_def)
qed

text \<open>A container of a test, stopped, with the times and the published port as texts.\<close>

definition sample_stopped :: "string \<Rightarrow> ContainerJSON" where
  "sample_stopped port =
     \<lparr> cjID = ''id'', cjCreated = ''0'', cjPath = [], cjArgs = [],
       cjState = Some \<lparr> csStatus = [], csRunning = False, csPaused = False, csRestarting = False,
         csOOMKilled = False, csDead = False, csPid = 0, csExitCode = 0, csError = [],
         csStartedAt = ''0'', csFinishedAt = ''0'', csHealth = None \<rparr>,
       cjImage = [], cjResolvConfPath = [], cjHostnamePath = [], cjHostsPath = [], cjLogPath = [],
       cjName = ''/c'', cjRestartCount = 0, cjDriver = [], cjPlatform = [], cjHostConfig = None,
       cjSizeRw = None, cjSizeRootFs = None, cjMounts = [],
       cjNetworkSettings = Some \<lparr> nsBridge = [], nsSandboxID = [], nsSandboxKey = [],
         nsPorts = [''80/tcp'' \<mapsto> [\<lparr> HostIP = [], HostPort = port \<rparr>]], nsNetworks = Map.empty \<rparr>,
       cjConfig = None \<rparr>"

definition sample_docker3 :: "string \<Rightarrow> DockerMockManager" where
  "sample_docker3 port = snd (Mock_AddContainer (sample_stopped port) NewDockerMockManager)"

lemma sample_docker3_container:
  "containers (dmState (sample_docker3 port)) = [''/c'' \<mapsto> sample_stopped port]"
  by (simp add: sample_docker3_def Mock_AddContainer_def newState_def sample_stopped_def)

theorem starts_and_stops_witness:
  "\<exists>m'. start_stop sample_dlib sample_env ''/c'' [True, True, False] (sample_docker3 ''80'') = (Ok (), m')
     \<and> container_is sample_dlib ''/c'' False m'"
proof -
  have "FormatUint 0 = ''0''" by code_simp
  then have "time_Format sample_dlib 0 = ''0''" by (simp add: sample_dlib_def)
  then have "time_Parse sample_dlib ''0'' = Inr 0" using sample_time [of 0] by simp
  then have "container_is sample_dlib ''/c'' False (sample_docker3 ''80'')"
    by (simp add: container_is_def sample_docker3_container parsable_def) (simp add: sample_stopped_def)
  from starts_and_stops [OF sample_laws this, of "[True, True, False]"] show ?thesis by simp
qed

lemma sample_docker3_ports:
  "\<exists>ns. cjNetworkSettings (sample_stopped port) = Some ns \<and> finite (dom (nsPorts ns))
     \<and> nsPorts ns ''80/tcp'' = Some [\<lparr> HostIP = [], HostPort = port \<rparr>]"
  by (simp add: sample_stopped_def)

theorem high_port_breaks_reports_witness:
  "fst (ContainerList sample_dlib sample_env True (sample_docker3 (FormatUint 40000))) \<noteq> Ok []"
proof -
  obtain port where port: "port = FormatUint 40000" by blast
  obtain ns where ns: "cjNetworkSettings (sample_stopped port) = Some ns" "finite (dom (nsPorts ns))"
    "nsPorts ns ''80/tcp'' = Some [\<lparr> HostIP = [], HostPort = port \<rparr>]"
    using sample_docker3_ports by blast
  have fin: "finite (dom (containers (dmState (sample_docker3 port))))"
    by (simp add: sample_docker3_container)
  have at: "containers (dmState (sample_docker3 port)) ''/c'' = Some (sample_stopped port)"
    by (simp add: sample_docker3_container)
  have last: "\<lparr> HostIP = [], HostPort = port \<rparr> \<in> set [\<lparr> HostIP = [], HostPort = port \<rparr>]" by simp
  have high: "HostPort \<lparr> HostIP = [], HostPort = port \<rparr> = FormatUint 40000"
    unfolding port by (rule PortBinding.select_convs(2))
  have big: "(32767 :: nat) < 40000" by simp
  have "fst (ContainerList sample_dlib sample_env True (sample_docker3 port)) \<noteq> Ok []"
    by (rule conjunct1 [OF high_port_breaks_reports [OF sample_ranges fin at ns(1,2,3) last high big]])
  then show ?thesis unfolding port .
qed

text \<open>
  A volume that \<open>Up\<close> made has no usage data, so setting its disk usage goes through a nil pointer;
  only volumes a test added with usage data can be given another.
\<close>

lemma generated_volume_has_no_usage:
  assumes "volumes (dmState m) (vcName vc) = None"
    and "generateVolume lib env vc nameInYaml projectName m = (Ok (), m')"
  shows "Mock_SetVolumeDiskUsage (vcName vc) newSize m' = (Panic NilDereference, m')"
  using assms by (auto simp: generateVolume_def Mock_SetVolumeDiskUsage_def)

end
