(* ===== verification/Docker_Compose_Facts.thy ===== *)
theory Docker_Compose_Facts
  imports Docker_Service_Facts
begin

text \<open>
  What \<open>Up\<close> leaves of a project the mock does not have yet, phase by phase (networks, volumes,
  services), and that \<open>Down\<close> then takes all of it away again. The assertion of each loop speaks of
  the part of the project that is up.
\<close>

section \<open>Projects\<close>

definition network_name :: "Project \<Rightarrow> string \<Rightarrow> string" where
  "network_name p n = ncName (project_network (prNetworks p) n)"

definition volume_name :: "Project \<Rightarrow> string \<Rightarrow> string" where
  "volume_name p n = vcName (project_volume (prVolumes p) n)"

definition project_networks :: "Project \<Rightarrow> string set" where
  "project_networks p = network_name p ` dom (prNetworks p)"

definition project_volumes :: "Project \<Rightarrow> string set" where
  "project_volumes p = volume_name p ` dom (prVolumes p)"

definition project_services :: "Project \<Rightarrow> ServiceConfig set" where
  "project_services p = ran (prServices p)"

definition service_nets :: "Project \<Rightarrow> ServiceConfig \<Rightarrow> string set" where
  "service_nets p v = network_name p ` dom (seNetworks v)"

text \<open>
  A project as compose-go loads it: the services carry the names of their keys and only use networks
  of the project, no container is named like the one of another service, or like another service,
  and no two networks and no two volumes have the same name.
\<close>

definition project_ok :: "Project \<Rightarrow> bool" where
  "project_ok p \<longleftrightarrow>
     finite (dom (prNetworks p)) \<and> finite (dom (prVolumes p)) \<and> finite (dom (prServices p))
     \<and> inj_on (network_name p) (dom (prNetworks p)) \<and> inj_on (volume_name p) (dom (prVolumes p))
     \<and> (\<forall>k v. prServices p k = Some v \<longrightarrow> seName v = k)
     \<and> inj_on seContainerName (project_services p)
     \<and> (\<forall>u\<in>project_services p. \<forall>v\<in>project_services p. seContainerName u = seName v \<longrightarrow> u = v)
     \<and> (\<forall>v\<in>project_services p. finite (dom (seNetworks v)) \<and> dom (seNetworks v) \<subseteq> dom (prNetworks p))"

text \<open>
  The mock has nothing of the project: no network, volume or container of its names. It may have
  the hashes of its services, from an earlier \<open>Up\<close>.
\<close>

definition new_to :: "Project \<Rightarrow> DockerState \<Rightarrow> bool" where
  "new_to p s \<longleftrightarrow>
     (\<forall>n\<in>project_networks p. networks s n = None)
     \<and> (\<forall>n\<in>project_volumes p. volumes s n = None)
     \<and> (\<forall>v\<in>project_services p. containers s (seContainerName v) = None
          \<and> containers s (seName v) = None)"

definition loaded :: "docker_lib \<Rightarrow> string \<Rightarrow> string list \<Rightarrow> Project \<Rightarrow> bool" where
  "loaded lib pn fs p \<longleftrightarrow>
     (\<exists>opts. NewProjectOptions lib fs pn = Inr opts \<and> LoadProject lib opts = Inr p)"

lemma loaded_run: "loaded lib pn fs p \<Longrightarrow> load_project lib pn fs m = (Ok p, m)"
  by (auto simp: loaded_def load_project_def loadComposeProject_def)

lemma range_distinct: "fair_ranges env \<Longrightarrow> finite (dom mp) \<Longrightarrow> distinct (range_at env k (dom mp))"
  by (simp add: fair_ranges_def)

lemma services_of_run:
  assumes env: "fair_ranges env" and p: "project_ok p"
  shows "\<exists>vs. services_of env p m = (Ok vs, m\<lparr>dmTicks := dmTicks m + 1\<rparr>)
    \<and> set vs = project_services p \<and> distinct vs"
proof -
  let ?ks = "range_at env (dmTicks m) (dom (prServices p))"
  have fin: "finite (dom (prServices p))" and key: "\<And>k v. prServices p k = Some v \<Longrightarrow> seName v = k"
    using p by (simp_all add: project_ok_def)
  have ks: "set ?ks = dom (prServices p)" "distinct ?ks"
    using range_set [OF env fin] range_distinct [OF env fin] by simp_all
  have eq: "List.map_filter (prServices p) ?ks = map (\<lambda>k. the (prServices p k)) ?ks"
  proof -
    have "filter (\<lambda>k. prServices p k \<noteq> None) ?ks = ?ks" by (rule filter_True) (use ks(1) in auto)
    then show ?thesis by (simp add: List.map_filter_def comp_def)
  qed
  have "inj_on (\<lambda>k. the (prServices p k)) (dom (prServices p))"
    using key by (auto simp: inj_on_def) metis
  then have "distinct (List.map_filter (prServices p) ?ks)" using ks unfolding eq by (simp add: distinct_map)
  moreover have "set (List.map_filter (prServices p) ?ks) = project_services p"
    unfolding eq set_map ks(1) project_services_def by (auto simp: ran_def image_iff dom_def) force
  ultimately show ?thesis by (simp add: services_of_def)
qed

section \<open>Networks and volumes\<close>

lemma generateNetwork_new:
  assumes "generateNetwork env nc n pn m = (Ok (), m')" and "networks (dmState m) (ncName nc) = None"
  obtains x r where "networks (dmState m') = (networks (dmState m))(ncName nc \<mapsto> x)"
    "neContainers x = Map.empty" "usedSubnets (dmState m') = (usedSubnets (dmState m))(ncName nc \<mapsto> r)"
    "containers (dmState m') = containers (dmState m)" "volumes (dmState m') = volumes (dmState m)"
    "serviceHashes (dmState m') = serviceHashes (dmState m)"
proof (cases "availableSubnets (dmState m)")
  case Nil
  then show thesis using assms by (simp add: generateNetwork_def)
next
  case (Cons r rest)
  then show thesis using assms by (auto simp: generateNetwork_def intro: that)
qed

definition networks_up :: "Project \<Rightarrow> DockerState \<Rightarrow> string set \<Rightarrow> DockerState \<Rightarrow> bool" where
  "networks_up p s0 A s \<longleftrightarrow>
     containers s = containers s0 \<and> volumes s = volumes s0 \<and> serviceHashes s = serviceHashes s0
     \<and> (\<forall>n. n \<notin> network_name p ` A \<longrightarrow> networks s n = networks s0 n \<and> usedSubnets s n = usedSubnets s0 n)
     \<and> (\<forall>n\<in>network_name p ` A. \<exists>x. networks s n = Some x \<and> neContainers x = Map.empty)"

lemma up_network_step:
  assumes up: "networks_up p s0 A (dmState m)" and new: "networks s0 (network_name p n) = None"
    and n: "network_name p n \<notin> network_name p ` A"
    and run: "up_network env pn p n m = (Ok (), m')"
  shows "networks_up p s0 (insert n A) (dmState m')"
proof -
  have "networks (dmState m) (network_name p n) = None" using up new n by (simp add: networks_up_def)
  then obtain x r where "networks (dmState m') = (networks (dmState m))(network_name p n \<mapsto> x)"
    "neContainers x = Map.empty" "usedSubnets (dmState m') = (usedSubnets (dmState m))(network_name p n \<mapsto> r)"
    "containers (dmState m') = containers (dmState m)" "volumes (dmState m') = volumes (dmState m)"
    "serviceHashes (dmState m') = serviceHashes (dmState m)"
    using generateNetwork_new [OF run [unfolded up_network_def]] unfolding network_name_def by metis
  then show ?thesis using up by (auto simp: networks_up_def)
qed

lemma up_networks_Ok:
  assumes env: "fair_ranges env" and p: "project_ok p" and new: "new_to p (dmState m)"
    and run: "up_networks env pn p m = (Ok (), m')"
  shows "networks_up p (dmState m) (dom (prNetworks p)) (dmState m')"
proof -
  let ?names = "range_at env (dmTicks m) (dom (prNetworks p))"
  let ?ext = "\<lambda>n. ncExternal (project_network (prNetworks p) n)"
  let ?xs = "sort (filter ?ext ?names) @ sort (filter (\<lambda>n. \<not> ?ext n) ?names)"
  let ?P = "\<lambda>A m'. networks_up p (dmState m) A (dmState m')"
  have fin: "finite (dom (prNetworks p))" and inj: "inj_on (network_name p) (dom (prNetworks p))"
    using p by (simp_all add: project_ok_def)
  have names: "set ?names = dom (prNetworks p)" "distinct ?names"
    using range_set [OF env fin] range_distinct [OF env fin] by simp_all
  have "for_each (up_network env pn p) ?xs (m\<lparr>dmTicks := dmTicks m + 1\<rparr>) = (Ok (), m')"
    using run unfolding up_networks_def for_each_append by (simp add: Let_def)
  moreover have "distinct ?xs" using names(2) by auto
  moreover have "?P {} (m\<lparr>dmTicks := dmTicks m + 1\<rparr>)" by (simp add: networks_up_def)
  ultimately have "?P (set ?xs) m'"
  proof (rule for_each_inv)
    fix A n s s'
    assume *: "n \<in> set ?xs" "n \<notin> A" "A \<subseteq> set ?xs" "?P A s" "up_network env pn p n s = (Ok (), s')"
    then have n: "n \<in> dom (prNetworks p)" "A \<subseteq> dom (prNetworks p)" using names(1) by auto
    then have "networks (dmState m) (network_name p n) = None"
      using new by (simp add: new_to_def project_networks_def)
    moreover have "network_name p n \<notin> network_name p ` A"
      using inj n *(2) by (auto dest: inj_onD)
    ultimately show "?P (insert n A) s'" using up_network_step *(4,5) by blast
  qed
  moreover have "set ?xs = dom (prNetworks p)" using names(1) by auto
  ultimately show ?thesis by simp
qed

lemma generateVolume_sel:
  assumes "generateVolume lib env vc n pn m = (Ok (), m')"
  shows "\<exists>x. dmState m' = (dmState m)\<lparr>volumes := (volumes (dmState m))(vcName vc \<mapsto> x)\<rparr>"
  using assms by (cases "volumes (dmState m) (vcName vc)") (auto simp: generateVolume_def)

lemma up_volumes_Ok:
  assumes env: "fair_ranges env" and p: "project_ok p"
    and run: "up_volumes lib env pn p m = (Ok (), m')"
  shows "\<exists>vs. dmState m' = (dmState m)\<lparr>volumes := vs\<rparr> \<and> (\<forall>n. n \<notin> project_volumes p \<longrightarrow>
    vs n = volumes (dmState m) n) \<and> project_volumes p \<subseteq> dom vs"
proof -
  let ?names = "range_at env (dmTicks m) (dom (prVolumes p))"
  let ?f = "\<lambda>n. generateVolume lib env (project_volume (prVolumes p) n) n pn"
  let ?P = "\<lambda>A m'. \<exists>vs. dmState m' = (dmState m)\<lparr>volumes := vs\<rparr>
    \<and> (\<forall>n. n \<notin> volume_name p ` A \<longrightarrow> vs n = volumes (dmState m) n) \<and> volume_name p ` A \<subseteq> dom vs"
  have fin: "finite (dom (prVolumes p))" using p by (simp add: project_ok_def)
  have loop: "for_each ?f ?names (m\<lparr>dmTicks := dmTicks m + 1\<rparr>) = (Ok (), m')"
    using run by (simp add: up_volumes_def)
  have "?P {} (m\<lparr>dmTicks := dmTicks m + 1\<rparr>)"
    by (intro exI [of _ "volumes (dmState m)"]) simp
  with loop range_distinct [OF env fin] have "?P (set ?names) m'"
  proof (rule for_each_inv)
    fix A n s s'
    assume "?P A s" and run: "?f n s = (Ok (), s')"
    then obtain vs where vs: "dmState s = (dmState m)\<lparr>volumes := vs\<rparr>"
      "\<forall>n. n \<notin> volume_name p ` A \<longrightarrow> vs n = volumes (dmState m) n" "volume_name p ` A \<subseteq> dom vs" by blast
    from generateVolume_sel [OF run] obtain x where
      "dmState s' = (dmState m)\<lparr>volumes := vs(volume_name p n \<mapsto> x)\<rparr>"
      by (auto simp: vs(1) volume_name_def)
    with vs(2,3) show "?P (insert n A) s'" by (intro exI [of _ "vs(volume_name p n \<mapsto> x)"]) auto
  qed
  then show ?thesis unfolding range_set [OF env fin] project_volumes_def .
qed

section \<open>Services\<close>

definition runs_on :: "Project \<Rightarrow> DockerState \<Rightarrow> ServiceConfig \<Rightarrow> bool" where
  "runs_on p s v \<longleftrightarrow> (\<exists>c ns. containers s (seContainerName v) = Some c
     \<and> cjNetworkSettings c = Some ns \<and> dom (nsNetworks ns) = service_nets p v)"

definition has_id :: "DockerState \<Rightarrow> ServiceConfig \<Rightarrow> string \<Rightarrow> bool" where
  "has_id s v cid \<longleftrightarrow> (\<exists>c. containers s (seContainerName v) = Some c \<and> cjID c = cid)"

text \<open>The service's container is entered in the resource of each of its networks.\<close>

definition pinned :: "DockerState \<Rightarrow> string \<Rightarrow> string \<Rightarrow> bool" where
  "pinned s n cid \<longleftrightarrow> (\<exists>x. networks s n = Some x \<and> neContainers x cid \<noteq> None)"

definition entered :: "Project \<Rightarrow> DockerState \<Rightarrow> ServiceConfig \<Rightarrow> bool" where
  "entered p s v \<longleftrightarrow> (\<forall>cid. has_id s v cid \<longrightarrow> (\<forall>n\<in>service_nets p v. pinned s n cid))"

text \<open>
  The services \<open>A\<close> of the project are up: each has its container, and every entry in a network of
  the project is the one of such a container. The rest of the mock is as in \<open>s0\<close>.
\<close>

definition services_up :: "Project \<Rightarrow> DockerState \<Rightarrow> ServiceConfig set \<Rightarrow> DockerState \<Rightarrow> bool" where
  "services_up p s0 A s \<longleftrightarrow>
     (\<forall>n. n \<notin> seContainerName ` A \<longrightarrow> containers s n = containers s0 n)
     \<and> (\<forall>v\<in>A. runs_on p s v)
     \<and> volumes s = volumes s0 \<and> usedSubnets s = usedSubnets s0
     \<and> (\<forall>n. networks s n = None \<longleftrightarrow> networks s0 n = None)
     \<and> (\<forall>n. n \<notin> project_networks p \<longrightarrow> networks s n = networks s0 n)
     \<and> (\<forall>n\<in>project_networks p. \<forall>x cid. networks s n = Some x \<longrightarrow> neContainers x cid \<noteq> None \<longrightarrow>
          (\<exists>v\<in>A. n \<in> service_nets p v \<and> has_id s v cid))"

lemma services_upD:
  assumes "services_up p s0 A s"
  shows "n \<notin> seContainerName ` A \<Longrightarrow> containers s n = containers s0 n" "v \<in> A \<Longrightarrow> runs_on p s v"
    "volumes s = volumes s0" "usedSubnets s = usedSubnets s0"
    "networks s n = None \<longleftrightarrow> networks s0 n = None"
    "n \<notin> project_networks p \<Longrightarrow> networks s n = networks s0 n"
    "n \<in> project_networks p \<Longrightarrow> networks s n = Some x \<Longrightarrow> neContainers x cid \<noteq> None \<Longrightarrow>
      \<exists>v\<in>A. n \<in> service_nets p v \<and> has_id s v cid"
  using assms by (simp_all add: services_up_def)

lemma service_nets_project:
  assumes "project_ok p" and "v \<in> project_services p"
  shows "service_nets p v \<subseteq> project_networks p" "finite (dom (seNetworks v))"
  using assms unfolding project_ok_def service_nets_def project_networks_def by blast+

text \<open>What a service is up on does not change with the container of another one.\<close>

lemma other_container:
  assumes "containers t = (containers s)(k := x)" and "seContainerName v \<noteq> k"
  shows "runs_on p t v \<longleftrightarrow> runs_on p s v" "has_id t v cid \<longleftrightarrow> has_id s v cid"
  using assms by (simp_all add: runs_on_def has_id_def)

lemma with_endpoints_None [simp]: "with_endpoints c eps nets A n = None \<longleftrightarrow> nets n = None"
  by (auto simp: with_endpoints_def split: option.split)

lemma with_endpoints_entry:
  assumes "with_endpoints c eps nets (dom eps) n = Some y" and "neContainers y cid \<noteq> None"
  shows "(\<exists>x. nets n = Some x \<and> neContainers x cid \<noteq> None) \<or> n \<in> dom eps \<and> cid = cjID c"
  using assms
  by (auto simp: with_endpoints_def with_endpoint_def split: option.splits if_splits)

lemma with_endpoints_pinned:
  assumes "networks t = with_endpoints c eps (networks s) (dom eps)"
  shows "pinned s n cid \<Longrightarrow> pinned t n cid"
    and "n \<in> dom eps \<Longrightarrow> dom eps \<subseteq> dom (networks s) \<Longrightarrow> pinned t n (cjID c)"
proof -
  show "pinned t n cid" if "pinned s n cid"
    using that with_endpoints_other [of "networks s" n _ cid c eps "dom eps"]
    unfolding pinned_def assms by blast
  show "pinned t n (cjID c)" if "n \<in> dom eps" "dom eps \<subseteq> dom (networks s)"
  proof -
    from that obtain ep x where "eps n = Some ep" "networks s n = Some x" by blast
    then show ?thesis by (auto simp: pinned_def assms with_endpoints_def with_endpoint_def)
  qed
qed

lemma generateService_up:
  assumes env: "fair_ranges env" and p: "project_ok p" and v: "v \<in> project_services p"
    and up: "services_up p s0 A (dmState m)" and name: "seContainerName v \<notin> seContainerName ` A"
    and run: "generateService lib env v (prNetworks p) pv m = (Ok (), m')"
  shows "services_up p s0 (insert v A) (dmState m')"
    and "\<exists>c. containers (dmState m') = (containers (dmState m))(seContainerName v \<mapsto> c)"
    and "(\<forall>u\<in>A. entered p (dmState m) u) \<Longrightarrow> \<forall>u\<in>insert v A. entered p (dmState m') u"
proof -
  note nets = service_nets_project [OF p v]
  obtain c ns where
    cs: "containers (dmState m') = (containers (dmState m))(seContainerName v \<mapsto> c)"
    and ns: "networks (dmState m') = with_endpoints c (nsNetworks ns) (networks (dmState m)) (dom (nsNetworks ns))"
    and vs: "volumes (dmState m') = volumes (dmState m)"
    and used: "usedSubnets (dmState m') = usedSubnets (dmState m)"
    and c: "cjNetworkSettings c = Some ns" and dom: "dom (nsNetworks ns) = service_nets p v"
    and there: "dom (nsNetworks ns) \<subseteq> dom (networks (dmState m))"
    using generateService_Ok [OF env nets(2) run] unfolding service_nets_def network_name_def by auto
  from cs show "\<exists>c. containers (dmState m') = (containers (dmState m))(seContainerName v \<mapsto> c)" by blast
  have other: "seContainerName u \<noteq> seContainerName v" if "u \<in> A" for u
    using that name by (metis imageI)
  note keep = other_container [OF cs other]
  have here: "runs_on p (dmState m') v" "has_id (dmState m') v (cjID c)"
    by (simp_all add: runs_on_def has_id_def cs c dom)
  show "\<forall>u\<in>insert v A. entered p (dmState m') u" if old: "\<forall>u\<in>A. entered p (dmState m) u"
  proof
    fix u
    assume u: "u \<in> insert v A"
    show "entered p (dmState m') u"
    proof (cases "u = v")
      case True
      then show ?thesis
        using with_endpoints_pinned(2) [OF ns _ there] by (simp add: entered_def has_id_def cs dom)
    next
      case False
      with u have "u \<in> A" by simp
      with old keep(2) show ?thesis unfolding entered_def by (blast intro: with_endpoints_pinned(1) [OF ns])
    qed
  qed
  have entry: "\<exists>u\<in>insert v A. n \<in> service_nets p u \<and> has_id (dmState m') u cid"
    if "n \<in> project_networks p" "networks (dmState m') n = Some y" "neContainers y cid \<noteq> None" for n y cid
    using with_endpoints_entry [OF that(2) [unfolded ns] that(3)]
  proof
    assume "\<exists>x. networks (dmState m) n = Some x \<and> neContainers x cid \<noteq> None"
    then show ?thesis using services_upD(7) [OF up that(1)] keep(2) by blast
  qed (use here dom in auto)
  have outside: "networks (dmState m') n = networks s0 n" if "n \<notin> project_networks p" for n
    using that nets(1) services_upD(6) [OF up] by (auto simp: ns with_endpoints_def dom)
  show "services_up p s0 (insert v A) (dmState m')"
    unfolding services_up_def
  proof (intro conjI)
    show "\<forall>n. n \<notin> seContainerName ` insert v A \<longrightarrow> containers (dmState m') n = containers s0 n"
      using services_upD(1) [OF up] by (simp add: cs)
    show "\<forall>u\<in>insert v A. runs_on p (dmState m') u" using services_upD(2) [OF up] keep(1) here(1) by simp
    show "\<forall>n. networks (dmState m') n = None \<longleftrightarrow> networks s0 n = None"
      using services_upD(5) [OF up] by (simp add: ns)
  qed (use entry outside vs used services_upD(3,4) [OF up] in simp_all)
qed

lemma up_service_new:
  assumes "up_service lib env p v m = (Ok (), m')" and "containers (dmState m) (seName v) = None"
  obtains m1 h where "generateService lib env v (prNetworks p) (prVolumes p) m = (Ok (), m1)"
    "dmState m' = (dmState m1)\<lparr>serviceHashes := (serviceHashes (dmState m1))(seName v \<mapsto> h)\<rparr>"
  using assms by (auto simp: up_service_def bind_op_Ok Let_def unchanged_def split: if_splits)

lemma services_up_hashes [simp]: "services_up p s0 A (s\<lparr>serviceHashes := h\<rparr>) = services_up p s0 A s"
  by (simp add: services_up_def runs_on_def has_id_def)

lemma entered_hashes [simp]: "entered p (s\<lparr>serviceHashes := h\<rparr>) v = entered p s v"
  by (simp add: entered_def has_id_def pinned_def)

section \<open>Taking a project down\<close>

lemma detached_None [simp]: "detached cid A nets n = None \<longleftrightarrow> nets n = None"
  by (simp add: detached_def)

lemma detached_entry:
  assumes "detached cid A nets n = Some y" and "neContainers y k \<noteq> None"
  shows "\<exists>x. nets n = Some x \<and> neContainers x k \<noteq> None \<and> \<not> (n \<in> A \<and> k = cid)"
  using assms by (auto simp: detached_def without_endpoint_def split: if_splits)

lemma remove_service:
  assumes env: "fair_ranges env" and p: "project_ok p" and A: "A \<subseteq> project_services p" and v: "v \<in> A"
    and up: "services_up p s0 A (dmState m)" and new: "containers s0 (seContainerName v) = None"
  shows "\<exists>m'. ContainerRemove env (seContainerName v) m = (Ok (), m') \<and> services_up p s0 (A - {v}) (dmState m')"
proof -
  have v': "v \<in> project_services p" using A v by blast
  note nets = service_nets_project [OF p v']
  from services_upD(2) [OF up v] obtain c ns where at: "containers (dmState m) (seContainerName v) = Some c"
    and c: "cjNetworkSettings c = Some ns" and dom: "dom (nsNetworks ns) = service_nets p v"
    by (auto simp: runs_on_def)
  have "finite (dom (nsNetworks ns))" unfolding dom service_nets_def using nets(2) by simp
  from ContainerRemove_eq [OF env at c this] obtain m' where
    run: "ContainerRemove env (seContainerName v) m = (Ok (), m')"
    and m': "dmState m' = (dmState m)\<lparr>containers := (containers (dmState m))(seContainerName v := None),
      networks := detached (cjID c) (service_nets p v) (networks (dmState m))\<rparr>" unfolding dom by blast
  then have cs: "containers (dmState m') = (containers (dmState m))(seContainerName v := None)"
    and ns: "networks (dmState m') = detached (cjID c) (service_nets p v) (networks (dmState m))" by simp_all
  have other: "seContainerName u \<noteq> seContainerName v" if "u \<in> A - {v}" for u
    using that A v p by (auto simp: project_ok_def dest: inj_onD)
  note keep = other_container [OF cs other]
  have entry: "\<exists>u\<in>A - {v}. n \<in> service_nets p u \<and> has_id (dmState m') u cid"
    if n: "n \<in> project_networks p" and y: "networks (dmState m') n = Some y" "neContainers y cid \<noteq> None"
    for n y cid
  proof -
    from detached_entry [OF y(1) [unfolded ns] y(2)] obtain x where
      x: "networks (dmState m) n = Some x" "neContainers x cid \<noteq> None"
      and not_v: "\<not> (n \<in> service_nets p v \<and> cid = cjID c)" by blast
    from services_upD(7) [OF up n x] obtain u where
      u: "u \<in> A" "n \<in> service_nets p u" "has_id (dmState m) u cid" by blast
    have "u \<noteq> v" using u not_v at by (auto simp: has_id_def)
    with u keep(2) show ?thesis by blast
  qed
  have outside: "networks (dmState m') n = networks s0 n" if "n \<notin> project_networks p" for n
    using that nets(1) services_upD(6) [OF up] by (auto simp: ns detached_def)
  have "services_up p s0 (A - {v}) (dmState m')"
    unfolding services_up_def
  proof (intro conjI)
    show "\<forall>n. n \<notin> seContainerName ` (A - {v}) \<longrightarrow> containers (dmState m') n = containers s0 n"
      using services_upD(1) [OF up] new by (auto simp: cs)
    show "\<forall>u\<in>A - {v}. runs_on p (dmState m') u" using services_upD(2) [OF up] keep(1) by simp
    show "\<forall>n. networks (dmState m') n = None \<longleftrightarrow> networks s0 n = None"
      using services_upD(5) [OF up] by (simp add: ns)
  qed (use entry outside m' services_upD(3,4) [OF up] in simp_all)
  with run show ?thesis by blast
qed

lemma remove_volumes:
  assumes env: "fair_ranges env" and p: "project_ok p" and vols: "project_volumes p \<subseteq> dom (volumes (dmState m))"
  shows "\<exists>m'. for_each (\<lambda>n. wrap_op w [volume_name p n] (VolumeRemove (volume_name p n)))
      (range_at env k (dom (prVolumes p))) m = (Ok (), m')
    \<and> dmState m' = (dmState m)\<lparr>volumes := (\<lambda>n. if n \<in> project_volumes p then None else volumes (dmState m) n)\<rparr>"
proof -
  let ?P = "\<lambda>A (m' :: DockerMockManager). dmState m' = (dmState m)\<lparr>volumes :=
    (\<lambda>n. if n \<in> volume_name p ` A then None else volumes (dmState m) n)\<rparr>"
  have fin: "finite (dom (prVolumes p))" and inj: "inj_on (volume_name p) (dom (prVolumes p))"
    using p by (simp_all add: project_ok_def)
  have "\<exists>t. for_each (\<lambda>n. wrap_op w [volume_name p n] (VolumeRemove (volume_name p n)))
      (range_at env k (dom (prVolumes p))) m = (Ok (), t) \<and> ?P (set (range_at env k (dom (prVolumes p)))) t"
  proof (rule for_each_total [OF range_distinct [OF env fin]])
    fix A n s
    assume n: "n \<in> set (range_at env k (dom (prVolumes p)))" "n \<notin> A"
      "A \<subseteq> set (range_at env k (dom (prVolumes p)))" and P: "?P A s"
    then have "volume_name p n \<notin> volume_name p ` A"
      using inj range_set [OF env fin] by (auto dest: inj_onD)
    moreover have "volumes (dmState m) (volume_name p n) \<noteq> None"
      using vols n range_set [OF env fin] by (force simp: project_volumes_def)
    ultimately show "\<exists>s'. wrap_op w [volume_name p n] (VolumeRemove (volume_name p n)) s = (Ok (), s')
        \<and> ?P (insert n A) s'"
      using P by (auto simp: VolumeRemove_def fun_eq_iff)
  qed simp
  then show ?thesis unfolding range_set [OF env fin] project_volumes_def .
qed

definition networks_down :: "Project \<Rightarrow> DockerState \<Rightarrow> string set \<Rightarrow> DockerState \<Rightarrow> bool" where
  "networks_down p s A t \<longleftrightarrow> containers t = containers s \<and> volumes t = volumes s
     \<and> networks t = (\<lambda>n. if n \<in> network_name p ` A then None else networks s n)
     \<and> usedSubnets t = (\<lambda>n. if n \<in> network_name p ` A then None else usedSubnets s n)"

lemma NetworkRemove_down:
  assumes "networks_down p s0 A (dmState m)" and "network_name p n \<notin> network_name p ` A"
    and "networks s0 (network_name p n) = Some x" and "neContainers x = Map.empty"
  shows "\<exists>m'. NetworkRemove (network_name p n) m = (Ok (), m') \<and> networks_down p s0 (insert n A) (dmState m')"
  using assms by (auto simp: NetworkRemove_def networks_down_def fun_eq_iff Let_def split: option.split)

lemma remove_networks:
  assumes env: "fair_ranges env" and p: "project_ok p"
    and nets: "\<And>n. n \<in> project_networks p \<Longrightarrow> \<exists>x. networks (dmState m) n = Some x \<and> neContainers x = Map.empty"
  shows "\<exists>m'. for_each (\<lambda>n. wrap_op w [network_name p n] (NetworkRemove (network_name p n)))
      (range_at env k (dom (prNetworks p))) m = (Ok (), m')
    \<and> networks_down p (dmState m) (dom (prNetworks p)) (dmState m')"
proof -
  let ?P = "\<lambda>A (m' :: DockerMockManager). networks_down p (dmState m) A (dmState m')"
  have fin: "finite (dom (prNetworks p))" and inj: "inj_on (network_name p) (dom (prNetworks p))"
    using p by (simp_all add: project_ok_def)
  have "\<exists>t. for_each (\<lambda>n. wrap_op w [network_name p n] (NetworkRemove (network_name p n)))
      (range_at env k (dom (prNetworks p))) m = (Ok (), t) \<and> ?P (set (range_at env k (dom (prNetworks p)))) t"
  proof (rule for_each_total [OF range_distinct [OF env fin]])
    fix A n s
    assume n: "n \<in> set (range_at env k (dom (prNetworks p)))" "n \<notin> A"
      "A \<subseteq> set (range_at env k (dom (prNetworks p)))" and P: "?P A s"
    then have "network_name p n \<notin> network_name p ` A"
      using inj range_set [OF env fin] by (auto dest: inj_onD)
    moreover obtain x where "networks (dmState m) (network_name p n) = Some x" "neContainers x = Map.empty"
    proof -
      have "network_name p n \<in> project_networks p"
        using n(1) unfolding range_set [OF env fin] project_networks_def by (rule imageI)
      then show ?thesis using nets that by blast
    qed
    ultimately obtain s' where "NetworkRemove (network_name p n) s = (Ok (), s')" "?P (insert n A) s'"
      using NetworkRemove_down [OF P] by blast
    then show "\<exists>s'. wrap_op w [network_name p n] (NetworkRemove (network_name p n)) s = (Ok (), s')
        \<and> ?P (insert n A) s'" by auto
  qed (simp add: networks_down_def)
  then show ?thesis unfolding range_set [OF env fin] .
qed

section \<open>Up and Down\<close>

text \<open>
  After \<open>Up\<close>: the services are up over a state that has the networks, without containers, and the
  volumes of the project, and is otherwise the one before.
\<close>

definition prepared :: "Project \<Rightarrow> DockerState \<Rightarrow> DockerState \<Rightarrow> bool" where
  "prepared p s t \<longleftrightarrow> networks_up p (s\<lparr>volumes := volumes t\<rparr>) (dom (prNetworks p)) t
     \<and> (\<forall>n. n \<notin> project_volumes p \<longrightarrow> volumes t n = volumes s n)
     \<and> project_volumes p \<subseteq> dom (volumes t)"

lemma preparedD:
  assumes "prepared p s t"
  shows "containers t = containers s" "serviceHashes t = serviceHashes s"
    "n \<in> project_networks p \<Longrightarrow> \<exists>x. networks t n = Some x \<and> neContainers x = Map.empty"
    "n \<notin> project_networks p \<Longrightarrow> networks t n = networks s n"
    "n \<notin> project_networks p \<Longrightarrow> usedSubnets t n = usedSubnets s n"
    "n \<notin> project_volumes p \<Longrightarrow> volumes t n = volumes s n" "project_volumes p \<subseteq> dom (volumes t)"
  using assms unfolding prepared_def networks_up_def project_networks_def by auto

lemma networks_up_volumes:
  "networks_up p s0 A s \<Longrightarrow> networks_up p (s0\<lparr>volumes := vs\<rparr>) A (s\<lparr>volumes := vs\<rparr>)"
  by (simp add: networks_up_def)

lemma start_services:
  assumes "\<And>n. n \<in> project_networks p \<Longrightarrow> \<exists>x. networks s n = Some x \<and> neContainers x = Map.empty"
  shows "services_up p s {} s"
  using assms by (fastforce simp: services_up_def)

lemma Up_prepared:
  assumes env: "fair_ranges env" and p: "project_ok p" and new: "new_to p (dmState m)"
    and load: "loaded lib pn fs p" and run: "Up lib env pn fs m = (Ok (), m')"
  shows "\<exists>s0. prepared p (dmState m) s0 \<and> services_up p s0 (project_services p) (dmState m')
    \<and> (\<forall>v\<in>project_services p. entered p (dmState m') v)"
proof -
  from run obtain m1 m2 vs m3 where nets: "up_networks env pn p m = (Ok (), m1)"
    and vols: "up_volumes lib env pn p m1 = (Ok (), m2)"
    and svs: "services_of env p m2 = (Ok vs, m3)"
    and loop: "for_each (up_service lib env p) vs m3 = (Ok (), m')"
    by (auto simp: Up_def bind_op_Ok loaded_run [OF load])
  note nets' = up_networks_Ok [OF env p new nets]
  from up_volumes_Ok [OF env p vols] obtain ws where ws: "dmState m2 = (dmState m1)\<lparr>volumes := ws\<rparr>"
    "\<forall>n. n \<notin> project_volumes p \<longrightarrow> ws n = volumes (dmState m1) n" "project_volumes p \<subseteq> dom ws" by blast
  have "volumes (dmState m1) = volumes (dmState m)" using nets' by (simp add: networks_up_def)
  with ws networks_up_volumes [OF nets', of ws] have m2: "prepared p (dmState m) (dmState m2)"
    by (simp add: prepared_def)
  have vs: "dmState m3 = dmState m2" "set vs = project_services p" "distinct vs"
    using services_of_run [OF env p, of m2] svs by auto
  let ?P = "\<lambda>A (s :: DockerMockManager). services_up p (dmState m2) A (dmState s) \<and> (\<forall>v\<in>A. entered p (dmState s) v)
    \<and> (\<forall>v\<in>project_services p - A. containers (dmState s) (seName v) = None)"
  have "services_up p (dmState m2) {} (dmState m2)"
    by (rule start_services) (erule preparedD(3) [OF m2])
  moreover have "containers (dmState m2) (seName v) = None" if "v \<in> project_services p" for v
    using that new by (simp add: preparedD(1) [OF m2] new_to_def)
  ultimately have start: "?P {} m3" by (simp add: vs(1))
  have names: "seContainerName u \<noteq> seName v" "seContainerName u \<noteq> seContainerName v"
    if "u \<in> project_services p" "v \<in> project_services p" "u \<noteq> v" for u v
    using that p unfolding project_ok_def inj_on_def by metis+
  have "?P (set vs) m'"
  proof (rule for_each_inv [OF loop vs(3), where P = ?P, OF start])
    fix A v s s'
    assume v: "v \<in> set vs" "v \<notin> A" "A \<subseteq> set vs" and P: "?P A s" and one: "up_service lib env p v s = (Ok (), s')"
    then have v': "v \<in> project_services p" "A \<subseteq> project_services p" using vs(2) by auto
    have name: "seContainerName v \<notin> seContainerName ` A" using names(2) v v' by blast
    have none: "containers (dmState s) (seName v) = None" using P v(2) v'(1) by simp
    obtain t h where gen: "generateService lib env v (prNetworks p) (prVolumes p) s = (Ok (), t)"
      and s': "dmState s' = (dmState t)\<lparr>serviceHashes := (serviceHashes (dmState t))(seName v \<mapsto> h)\<rparr>"
      by (rule up_service_new [OF one none])
    note up = generateService_up [OF env p v'(1) conjunct1 [OF P] name gen]
    have "containers (dmState t) (seName u) = None" if "u \<in> project_services p - insert v A" for u
      using up(2) P names(1) [OF v'(1)] that by fastforce
    moreover have "\<forall>u\<in>insert v A. entered p (dmState t) u" using up(3) P by blast
    ultimately show "?P (insert v A) s'" using up(1) by (simp add: s')
  qed
  with m2 vs(2) show ?thesis by auto
qed

lemma remove_services:
  assumes env: "fair_ranges env" and p: "project_ok p" and vs: "set vs = project_services p" "distinct vs"
    and new: "\<And>v. v \<in> project_services p \<Longrightarrow> containers s0 (seContainerName v) = None"
    and up: "services_up p s0 (project_services p) (dmState m)"
  shows "\<exists>m'. for_each (\<lambda>v. wrap_op w [seContainerName v] (ContainerRemove env (seContainerName v))) vs m
      = (Ok (), m') \<and> services_up p s0 {} (dmState m')"
proof -
  let ?P = "\<lambda>A (t :: DockerMockManager). services_up p s0 (project_services p - A) (dmState t)"
  have "\<exists>m'. for_each (\<lambda>v. wrap_op w [seContainerName v] (ContainerRemove env (seContainerName v))) vs m
      = (Ok (), m') \<and> ?P (set vs) m'"
  proof (rule for_each_total [OF vs(2)])
    show "?P {} m" using up by simp
    fix A v t
    assume v: "v \<in> set vs" "v \<notin> A" "A \<subseteq> set vs" and P: "?P A t"
    then have "containers s0 (seContainerName v) = None" using new vs(1) by simp
    then obtain t' where "ContainerRemove env (seContainerName v) t = (Ok (), t')"
      "services_up p s0 (project_services p - A - {v}) (dmState t')"
      using remove_service [OF env p _ _ P] v vs(1) by blast
    moreover have "project_services p - A - {v} = project_services p - insert v A" by blast
    ultimately show "\<exists>t'. wrap_op w [seContainerName v] (ContainerRemove env (seContainerName v)) t = (Ok (), t')
        \<and> ?P (insert v A) t'" by auto
  qed
  then show ?thesis by (simp add: vs(1))
qed

lemma Down_prepared:
  assumes env: "fair_ranges env" and p: "project_ok p" and new: "new_to p s"
    and load: "loaded lib pn fs p" and prep: "prepared p s s0"
    and up: "services_up p s0 (project_services p) (dmState m)"
  shows "\<exists>m'. Down lib env pn fs m = (Ok (), m') \<and> containers (dmState m') = containers s
    \<and> volumes (dmState m') = volumes s \<and> networks (dmState m') = networks s
    \<and> (\<forall>n. n \<notin> project_networks p \<longrightarrow> usedSubnets (dmState m') n = usedSubnets s n)
    \<and> (\<forall>n\<in>project_networks p. usedSubnets (dmState m') n = None)"
proof -
  obtain vs m1 where svs: "services_of env p m = (Ok vs, m1)" and m1: "dmState m1 = dmState m"
    and vs: "set vs = project_services p" "distinct vs"
    using services_of_run [OF env p, of m] by auto
  note s0 = preparedD [OF prep]
  have "containers s0 (seContainerName v) = None" if "v \<in> project_services p" for v
    using new that by (simp add: s0(1) new_to_def)
  then obtain m2 where loop1: "for_each (\<lambda>v. wrap_op ''error removing service [%s]: %w'' [seContainerName v]
      (ContainerRemove env (seContainerName v))) vs m1 = (Ok (), m2)" and m2: "services_up p s0 {} (dmState m2)"
    using remove_services [OF env p vs, of s0 m1 "''error removing service [%s]: %w''"] up unfolding m1 by blast
  have vols: "volumes (dmState m2) = volumes s0" and used: "usedSubnets (dmState m2) = usedSubnets s0"
    and cs: "containers (dmState m2) = containers s0"
    using m2 by (auto simp: services_up_def)
  let ?m3 = "m2\<lparr>dmTicks := dmTicks m2 + 1\<rparr>"
  have "project_volumes p \<subseteq> dom (volumes (dmState ?m3))" using s0(7) by (simp add: vols)
  from remove_volumes [OF env p this, of "''error removing volume [%s]: %w''" "dmTicks m2"] obtain m4 where
    loop2: "for_each (\<lambda>n. wrap_op ''error removing volume [%s]: %w'' [volume_name p n]
        (VolumeRemove (volume_name p n))) (range_at env (dmTicks m2) (dom (prVolumes p))) ?m3 = (Ok (), m4)"
    and m4: "dmState m4 = (dmState m2)\<lparr>volumes := (\<lambda>n. if n \<in> project_volumes p then None else volumes s0 n)\<rparr>"
    by (auto simp: vols cong: if_cong)
  let ?m5 = "m4\<lparr>dmTicks := dmTicks m4 + 1\<rparr>"
  have "\<exists>x. networks (dmState ?m5) n = Some x \<and> neContainers x = Map.empty" if n: "n \<in> project_networks p" for n
  proof -
    have "networks s0 n \<noteq> None" using s0(3) [OF n] by auto
    then obtain x where x: "networks (dmState m2) n = Some x" using services_upD(5) [OF m2, of n] by auto
    then have "neContainers x = Map.empty" using services_upD(7) [OF m2 n x] by fastforce
    with x show ?thesis by (simp add: m4)
  qed
  from remove_networks [OF env p this, of "''error removing network [%s]: %w''" "dmTicks m4"] obtain m6 where
    loop3: "for_each (\<lambda>n. wrap_op ''error removing network [%s]: %w'' [network_name p n]
        (NetworkRemove (network_name p n))) (range_at env (dmTicks m4) (dom (prNetworks p))) ?m5 = (Ok (), m6)"
    and m6: "networks_down p (dmState m4) (dom (prNetworks p)) (dmState m6)" by auto
  have "Down lib env pn fs m = (Ok (), m6)"
    using loop1 loop2 loop3
    by (simp add: Down_def loaded_run [OF load] svs Let_def volume_name_def network_name_def)
  moreover note gone = m6 [unfolded networks_down_def, folded project_networks_def]
  have "networks (dmState m6) = networks s"
  proof
    fix n
    have "networks s n = None" if "n \<in> project_networks p" using new that by (simp add: new_to_def)
    then show "networks (dmState m6) n = networks s n"
      using gone s0(4) services_upD(6) [OF m2, of n] by (simp add: m4)
  qed
  moreover have "volumes (dmState m6) = volumes s"
  proof
    fix n
    have "volumes s n = None" if "n \<in> project_volumes p" using new that by (simp add: new_to_def)
    then show "volumes (dmState m6) n = volumes s n" using gone s0(6) by (simp add: m4)
  qed
  moreover have "containers (dmState m6) = containers s" using gone cs s0(1) by (simp add: m4)
  ultimately show ?thesis using gone used s0(5) by (simp add: m4)
qed

end
