(* ===== verification/Docker_Compose_Use.thy ===== *)
theory Docker_Compose_Use
  imports Docker_Compose_Facts
begin

text \<open>
  What a test may do with a project that is up, without making \<open>Down\<close> leave something behind: look
  at the mock, start and stop the project's containers and set their sizes. None of these calls
  changes which containers there are, their identifiers or their networks.
\<close>

section \<open>Calls that only read\<close>

definition same_state :: "DockerMockManager \<Rightarrow> DockerMockManager \<Rightarrow> bool" where
  "same_state m m' \<longleftrightarrow> dmState m' = dmState m"

lemma same_state_preorder [keeps_rules]: "preorder_rel same_state"
  unfolding same_state_def by (rule preorder_eq_on)

lemma same_state_basic [keeps_rules]:
  "keeps same_state (tick g)" "keeps same_state (now env)" "keeps same_state (range_over env mp)"
  "keeps same_state get_state"
  by (simp_all add: keeps_def same_state_def)

lemma same_state_conversions [keeps_rules]:
  "keeps same_state (getStateFromContainerState lib cs)"
  "keeps same_state (getContainerStateFromState lib env st)"
  "keeps same_state (convert_port lib q b)" "keeps same_state (get_container n e)"
  unfolding getStateFromContainerState_def getContainerStateFromState_def convert_port_def
    get_container_def
  by (intro keeps_rules)+

lemma same_state_convert [keeps_rules]: "keeps same_state (convertContainerJsonToContainer lib env c)"
  unfolding convertContainerJsonToContainer_def by (intro keeps_rules)

lemma same_state_list [keeps_rules]: "keeps same_state (list_containers lib env a cs ns acc)"
proof (induction ns arbitrary: acc)
  case Nil
  show ?case unfolding list_containers.simps by (intro keeps_rules)
next
  case (Cons n ns)
  show ?case unfolding list_containers.simps by (intro keeps_rules Cons.IH)
qed

lemma same_state_reports:
  "keeps same_state (ContainerInspect c)" "keeps same_state (ContainerList lib env a)"
  "keeps same_state (DiskUsage lib env)" "keeps same_state (compose_Config lib pn fs fmt)"
  unfolding ContainerInspect_def ContainerList_def DiskUsage_def compose_Config_def
  by (intro keeps_rules)+

lemma same_state_load [keeps_rules]: "keeps same_state (load_project lib pn fs)"
  unfolding load_project_def loadComposeProject_def by (intro keeps_rules)

section \<open>Calls that change a container\<close>

text \<open>What the networks know of a container.\<close>

definition attachment :: "ContainerJSON \<Rightarrow> string \<times> NetworkSettings option" where
  "attachment c = (cjID c, cjNetworkSettings c)"

definition touches :: "string set \<Rightarrow> DockerMockManager \<Rightarrow> DockerMockManager \<Rightarrow> bool" where
  "touches names m m' \<longleftrightarrow>
     (\<exists>cs. dmState m' = (dmState m)\<lparr>containers := cs\<rparr>
        \<and> (\<forall>n. n \<notin> names \<longrightarrow> cs n = containers (dmState m) n)
        \<and> (\<forall>n. map_option attachment (cs n) = map_option attachment (containers (dmState m) n)))"

lemma same_touches: "same_state m m' \<Longrightarrow> touches names m m'"
  unfolding same_state_def touches_def by (rule exI [of _ "containers (dmState m)"]) simp

lemma touches_preorder [keeps_rules]: "preorder_rel (touches names)"
proof -
  have "touches names m m" for m by (rule same_touches) (simp add: same_state_def)
  moreover have "touches names m m''" if "touches names m m'" "touches names m' m''" for m m' m''
    using that by (auto simp: touches_def)
  ultimately show ?thesis unfolding preorder_rel_def by (blast intro: reflpI transpI)
qed

lemma keeps_same_touches: "keeps same_state f \<Longrightarrow> keeps (touches names) f"
  using same_touches by (auto simp: keeps_def)

lemma put_container_touches:
  assumes "containers (dmState m) n = Some c" and "attachment c' = attachment c" and "n \<in> names"
  shows "touches names m (snd (put_container n c' m))"
  using assms by (auto simp: touches_def)

lemma change_state_touches:
  assumes n: "n \<in> names"
  shows "keeps (touches names) (change_state lib env f n)"
  unfolding keeps_def
proof
  fix m
  show "touches names m (snd (change_state lib env f n m))"
  proof (cases "containers (dmState m) n")
    case None
    then show ?thesis by (simp add: change_state_def same_touches same_state_def)
  next
    case (Some c)
    let ?parse = "wrap_op ''error getting details for container [%s]: %w'' [cjName c]
      (getStateFromContainerState lib (cjState c))"
    let ?store = "\<lambda>st. bind_op (now env) (\<lambda>t. bind_op (getContainerStateFromState lib env (f t st))
      (\<lambda>cs. put_container n (c\<lparr>cjState := Some cs\<rparr>)))"
    have step: "change_state lib env f n m = bind_op ?parse ?store m" using Some by (simp add: change_state_def)
    have read: "keeps same_state ?parse" by (intro keeps_rules)
    obtain r t where r: "?parse m = (r, t)" by (cases "?parse m")
    have t: "dmState t = dmState m" using keepsD [OF read r] by (simp add: same_state_def)
    have "touches names m (snd (?store st t))" for st
      using Some n t by (auto simp: getContainerStateFromState_def touches_def attachment_def)
    moreover have "touches names m t" using t by (simp add: same_touches same_state_def)
    ultimately show ?thesis unfolding step using r by (cases r) simp_all
  qed
qed

lemma sizes_touch:
  assumes n: "n \<in> names"
  shows "keeps (touches names) (Mock_SetContainerDiskUsage n x y)"
  unfolding keeps_def
proof
  fix m
  show "touches names m (snd (Mock_SetContainerDiskUsage n x y m))"
  proof (cases "containers (dmState m) n")
    case None
    then show ?thesis by (simp add: Mock_SetContainerDiskUsage_def same_touches same_state_def)
  next
    case (Some c)
    then show ?thesis
    proof (cases "cjSizeRootFs c")
      case None
      with Some show ?thesis by (simp add: Mock_SetContainerDiskUsage_def same_touches same_state_def)
    next
      case (Some x)
      with \<open>containers (dmState m) n = Some c\<close> n show ?thesis
        by (cases "cjSizeRw c") (auto simp: Mock_SetContainerDiskUsage_def touches_def attachment_def)
    qed
  qed
qed

lemma starts_touch:
  assumes "n \<in> names"
  shows "keeps (touches names) (ContainerStart lib env n)"
    "keeps (touches names) (ContainerRestart lib env n)"
    "keeps (touches names) (ContainerStop lib env n)"
  unfolding ContainerRestart_def ContainerStart_def ContainerStop_def
  by (rule change_state_touches [OF assms])+

lemmas use_touches = same_state_reports [THEN keeps_same_touches] sizes_touch starts_touch

section \<open>Running services\<close>

text \<open>The daemon's \<open>SetRunning\<close> makes a state a running one.\<close>

definition marks_running :: "docker_lib \<Rightarrow> bool" where
  "marks_running lib \<longleftrightarrow> (\<forall>t st. imRunning (State_SetRunning lib t st))"

definition is_running :: "DockerState \<Rightarrow> ServiceConfig \<Rightarrow> bool" where
  "is_running s v \<longleftrightarrow> (\<exists>c cs. containers s (seContainerName v) = Some c \<and> cjState c = Some cs \<and> csRunning cs)"

lemma is_running_hashes [simp]: "is_running (s\<lparr>serviceHashes := h\<rparr>) v = is_running s v"
  by (simp add: is_running_def)

lemma generateService_running:
  assumes env: "fair_ranges env" and fin: "finite (dom (seNetworks service))" and lib: "marks_running lib"
    and run: "generateService lib env service pn pv m = (Ok (), m')"
  shows "is_running (dmState m') service"
proof -
  from run obtain c m1 where prefix: "service_container lib env service pn pv m = (Ok c, m1)"
    unfolding generateService_def by (auto simp: bind_op_Ok)
  have "containers (dmState m') (seContainerName service) = Some c"
    using generateService_runs [OF env fin prefix] run by auto
  then show ?thesis using service_container_state [OF prefix] lib by (auto simp: is_running_def marks_running_def)
qed

lemma Up_running:
  assumes env: "fair_ranges env" and p: "project_ok p" and new: "new_to p (dmState m)"
    and load: "loaded lib pn fs p" and lib: "marks_running lib" and run: "Up lib env pn fs m = (Ok (), m')"
  shows "\<forall>v\<in>project_services p. is_running (dmState m') v"
proof -
  from run obtain m1 m2 vs m3 where nets: "up_networks env pn p m = (Ok (), m1)"
    and vols: "up_volumes lib env pn p m1 = (Ok (), m2)"
    and svs: "services_of env p m2 = (Ok vs, m3)"
    and loop: "for_each (up_service lib env p) vs m3 = (Ok (), m')"
    by (auto simp: Up_def bind_op_Ok loaded_run [OF load])
  have "containers (dmState m3) = containers (dmState m)"
    using up_networks_Ok [OF env p new nets] up_volumes_Ok [OF env p vols] services_of_run [OF env p, of m2] svs
    by (auto simp: networks_up_def)
  then have start: "\<forall>v\<in>project_services p. containers (dmState m3) (seName v) = None"
    using new by (simp add: new_to_def)
  have vs: "set vs = project_services p" "distinct vs" using services_of_run [OF env p, of m2] svs by auto
  have names: "seContainerName u \<noteq> seName v" "seContainerName u \<noteq> seContainerName v"
    if "u \<in> project_services p" "v \<in> project_services p" "u \<noteq> v" for u v
    using that p unfolding project_ok_def inj_on_def by metis+
  let ?P = "\<lambda>A (s :: DockerMockManager). (\<forall>v\<in>A. is_running (dmState s) v)
    \<and> (\<forall>v\<in>project_services p - A. containers (dmState s) (seName v) = None)"
  have "?P (set vs) m'"
  proof (rule for_each_inv [OF loop vs(2), where P = ?P])
    show "?P {} m3" using start by simp
    fix A v s s'
    assume v: "v \<in> set vs" "v \<notin> A" "A \<subseteq> set vs" and P: "?P A s" and one: "up_service lib env p v s = (Ok (), s')"
    then have v': "v \<in> project_services p" "A \<subseteq> project_services p" using vs(1) by auto
    have none: "containers (dmState s) (seName v) = None" using P v(2) v'(1) by simp
    obtain t h where gen: "generateService lib env v (prNetworks p) (prVolumes p) s = (Ok (), t)"
      and s': "dmState s' = (dmState t)\<lparr>serviceHashes := (serviceHashes (dmState t))(seName v \<mapsto> h)\<rparr>"
      by (rule up_service_new [OF one none])
    note fin = service_nets_project(2) [OF p v'(1)]
    obtain c where c: "containers (dmState t) = (containers (dmState s))(seContainerName v \<mapsto> c)"
      by (rule generateService_OkE [OF env fin gen])
    have "is_running (dmState t) u" if "u \<in> A" for u
    proof -
      have "seContainerName u \<noteq> seContainerName v" using that names(2) [of u v] v' v(2) by blast
      then show ?thesis using P that by (simp add: is_running_def c)
    qed
    then have "\<forall>u\<in>insert v A. is_running (dmState t) u"
      using generateService_running [OF env fin lib gen] by simp
    moreover have "containers (dmState t) (seName u) = None" if "u \<in> project_services p - insert v A" for u
      using P names(1) [OF v'(1)] that c by fastforce
    ultimately show "?P (insert v A) s'" by (simp add: s')
  qed
  then show ?thesis by (simp add: vs(1))
qed

section \<open>Using a project\<close>

inductive project_use ::
  "docker_lib \<Rightarrow> docker_env \<Rightarrow> string \<Rightarrow> string list \<Rightarrow> Project \<Rightarrow> DockerMockManager \<Rightarrow> DockerMockManager \<Rightarrow> bool"
  for lib env pn fs p where
  inspect: "project_use lib env pn fs p m (snd (ContainerInspect c m))"
| list: "project_use lib env pn fs p m (snd (ContainerList lib env a m))"
| usage: "project_use lib env pn fs p m (snd (DiskUsage lib env m))"
| start: "v \<in> project_services p \<Longrightarrow> project_use lib env pn fs p m (snd (ContainerStart lib env (seContainerName v) m))"
| restart: "v \<in> project_services p \<Longrightarrow> project_use lib env pn fs p m (snd (ContainerRestart lib env (seContainerName v) m))"
| stop: "v \<in> project_services p \<Longrightarrow> project_use lib env pn fs p m (snd (ContainerStop lib env (seContainerName v) m))"
| sizes: "v \<in> project_services p \<Longrightarrow>
    project_use lib env pn fs p m (snd (Mock_SetContainerDiskUsage (seContainerName v) x y m))"
| compose_stop: "project_use lib env pn fs p m (snd (Stop lib env pn fs m))"
| compose_config: "project_use lib env pn fs p m (snd (compose_Config lib pn fs fmt m))"

lemma project_use_call: "project_use lib env pn fs p m m' \<Longrightarrow> docker_step lib env m m'"
  by (induction rule: project_use.induct) (rule docker_step.intros)+

lemma Stop_touches:
  assumes env: "fair_ranges env" and p: "project_ok p" and load: "loaded lib pn fs p"
  shows "touches (seContainerName ` project_services p) m (snd (Stop lib env pn fs m))"
proof -
  let ?R = "touches (seContainerName ` project_services p)"
  obtain vs where vs: "services_of env p m = (Ok vs, m\<lparr>dmTicks := dmTicks m + 1\<rparr>)" "set vs = project_services p"
    using services_of_run [OF env p] by blast
  let ?loop = "for_each (\<lambda>service. wrap_op ''error stopping service [%s]: %w'' [seName service]
    (ContainerStop lib env (seContainerName service))) vs"
  have "keeps ?R ?loop"
    unfolding ContainerStop_def
    by (intro keeps_for_each_on touches_preorder keeps_wrap change_state_touches) (simp add: vs(2))
  then have "?R (m\<lparr>dmTicks := dmTicks m + 1\<rparr>) (snd (?loop (m\<lparr>dmTicks := dmTicks m + 1\<rparr>)))"
    by (rule keeps_snd)
  moreover have "Stop lib env pn fs m = ?loop (m\<lparr>dmTicks := dmTicks m + 1\<rparr>)"
    by (simp add: Stop_def loaded_run [OF load] vs(1))
  ultimately show ?thesis by (simp add: touches_def)
qed

lemma project_use_touches:
  assumes "fair_ranges env" and "project_ok p" and "loaded lib pn fs p" and "project_use lib env pn fs p m m'"
  shows "touches (seContainerName ` project_services p) m m'"
  using assms(4)
  by (induction rule: project_use.induct)
    (rule Stop_touches [OF assms(1-3)] | rule keeps_snd, rule use_touches, (erule imageI)?)+

text \<open>A project that is up stays up.\<close>

lemma touches_up:
  assumes up: "services_up p s0 (project_services p) (dmState m)"
    and t: "touches (seContainerName ` project_services p) m m'"
  shows "services_up p s0 (project_services p) (dmState m')"
proof -
  from t obtain cs where m': "dmState m' = (dmState m)\<lparr>containers := cs\<rparr>"
    and outside: "\<And>n. n \<notin> seContainerName ` project_services p \<Longrightarrow> cs n = containers (dmState m) n"
    and same: "\<And>n. map_option attachment (cs n) = map_option attachment (containers (dmState m) n)"
    by (auto simp: touches_def)
  have ids: "has_id (dmState m') v cid = has_id (dmState m) v cid" for v cid
    using same [of "seContainerName v"] unfolding has_id_def m'
    by (cases "cs (seContainerName v)"; cases "containers (dmState m) (seContainerName v)")
      (simp_all add: attachment_def)
  have runs: "runs_on p (dmState m') v = runs_on p (dmState m) v" for v
    using same [of "seContainerName v"] unfolding runs_on_def m'
    by (cases "cs (seContainerName v)"; cases "containers (dmState m) (seContainerName v)")
      (simp_all add: attachment_def)
  show ?thesis
    using up outside unfolding services_up_def ids runs by (simp add: m')
qed

end
