(* ===== verification/Docker_Compose_Again.thy ===== *)
theory Docker_Compose_Again
  imports Docker_Compose_Use
begin

text \<open>
  A second \<open>Up\<close>: no call of \<open>Up\<close> takes a container out of a network, so the entries of containers
  that it replaces stay, and \<open>Down\<close>, which only takes out the containers that are there, cannot
  remove such a network.
\<close>

section \<open>Up keeps the entries of networks\<close>

definition grows :: "DockerMockManager \<Rightarrow> DockerMockManager \<Rightarrow> bool" where
  "grows m m' \<longleftrightarrow> (\<forall>n cid. pinned (dmState m) n cid \<longrightarrow> pinned (dmState m') n cid)"

lemma grows_preorder [keeps_rules]: "preorder_rel grows"
  by (auto simp: preorder_rel_def reflp_def transp_def grows_def)

lemma grows_same: "networks (dmState m') = networks (dmState m) \<Longrightarrow> grows m m'"
  by (simp add: grows_def pinned_def)

lemma grows_basic [keeps_rules]:
  "keeps grows (tick g)" "keeps grows (now env)" "keeps grows (range_over env mp)"
  "keeps grows (createRandomID env k)" "keeps grows get_state" "keeps grows (get_container n e)"
  "keeps grows (put_container n c)" "keeps grows (new_container n c)"
  by (auto simp: keeps_def get_container_def put_container_def split: option.split
      intro!: grows_same)

lemma grows_modify:
  "(\<And>s. networks (f s) = networks s) \<Longrightarrow> keeps grows (modify_state f)"
  by (simp add: keeps_def grows_same)

lemma grows_upd:
  assumes "networks s n = Some x" and "\<And>cid. neContainers x cid \<noteq> None \<Longrightarrow> neContainers y cid \<noteq> None"
    and "pinned s k cid"
  shows "pinned (s\<lparr>networks := (networks s)(n \<mapsto> y)\<rparr>) k cid"
  using assms by (cases "k = n") (auto simp: pinned_def)

lemma grows_connect [keeps_rules]: "keeps grows (connect c eps n)"
  unfolding keeps_def
proof
  fix m
  show "grows m (snd (connect c eps n m))"
  proof (cases "eps n = None \<or> networks (dmState m) n = None")
    case True
    then show ?thesis by (cases "eps n") (auto simp: connect_def intro!: grows_same)
  next
    case False
    then obtain ep x where ep: "eps n = Some ep" and x: "networks (dmState m) n = Some x" by auto
    have "neContainers x cid \<noteq> None \<Longrightarrow> neContainers (with_endpoint c ep x) cid \<noteq> None" for cid
      by (simp add: with_endpoint_def)
    then show ?thesis using grows_upd [OF x] by (simp add: connect_eq [where eps = eps and n = n, OF ep x] grows_def)
  qed
qed

lemma grows_generateService [keeps_rules]: "keeps grows (generateService lib env v pn pv)"
proof -
  have "keeps grows (service_container lib env v pn pv)"
    unfolding keeps_def
    by (intro allI grows_same only_indices_sel(3) keeps_snd [OF only_indices_container])
  then show ?thesis unfolding generateService_def by (intro keeps_rules)
qed

lemma grows_generateNetwork [keeps_rules]: "keeps grows (generateNetwork env nc n pn)"
  unfolding keeps_def
proof
  fix m
  show "grows m (snd (generateNetwork env nc n pn m))"
  proof (cases "networks (dmState m) (ncName nc)")
    case None
    then show ?thesis
      by (cases "availableSubnets (dmState m)") (auto simp: generateNetwork_def grows_def pinned_def)
  next
    case (Some x)
    then show ?thesis by (auto simp: generateNetwork_def grows_def intro: grows_upd [OF Some])
  qed
qed

lemma grows_generateVolume [keeps_rules]: "keeps grows (generateVolume lib env vc n pn)"
  unfolding generateVolume_def by (intro keeps_rules grows_modify) simp_all

lemma grows_up_service [keeps_rules]: "keeps grows (up_service lib env p v)"
proof -
  have "keeps grows (ContainerStart lib env n)" for n
  proof -
    have "networks (dmState m') = networks (dmState m)" if "touches UNIV m m'" for m m'
      using that by (auto simp: touches_def)
    then show ?thesis
      using starts_touch(1) [of n UNIV lib env] by (auto simp: keeps_def intro!: grows_same)
  qed
  then show ?thesis unfolding up_service_def Let_def by (intro keeps_rules grows_modify) simp_all
qed

lemma grows_Up: "keeps grows (Up lib env pn fs)"
  unfolding Up_def load_project_def loadComposeProject_def up_networks_def up_network_def
    up_volumes_def services_of_def
  by (intro keeps_rules)

section \<open>Down cannot remove such a network\<close>

text \<open>A network with the entry of a container that does not exist.\<close>

definition stuck :: "string \<Rightarrow> string \<Rightarrow> DockerState \<Rightarrow> bool" where
  "stuck n cid s \<longleftrightarrow> pinned s n cid \<and> (\<forall>k c. containers s k = Some c \<longrightarrow> cjID c \<noteq> cid)"

definition stays_stuck :: "string \<Rightarrow> string \<Rightarrow> DockerMockManager \<Rightarrow> DockerMockManager \<Rightarrow> bool" where
  "stays_stuck n cid m m' \<longleftrightarrow> (stuck n cid (dmState m) \<longrightarrow> stuck n cid (dmState m'))"

lemma stays_stuck_preorder [keeps_rules]: "preorder_rel (stays_stuck n cid)"
  unfolding stays_stuck_def by (rule preorder_implies)

lemma stays_stuck_same: "dmState m' = dmState m \<Longrightarrow> stays_stuck n cid m m'"
  by (simp add: stays_stuck_def)

lemma stuck_ContainerRemove [keeps_rules]: "keeps (stays_stuck n cid) (ContainerRemove env k)"
  unfolding keeps_def
proof
  fix m
  show "stays_stuck n cid m (snd (ContainerRemove env k m))"
  proof (cases "containers (dmState m) k")
    case None
    then show ?thesis by (simp add: ContainerRemove_def stays_stuck_same)
  next
    case (Some c)
    have pinned: "pinned (s\<lparr>networks := detached (cjID c) A (networks s)\<rparr>) n cid"
      if "pinned s n cid" "cjID c \<noteq> cid" for s A
      using that detached_other [of "networks s" n _ cid "cjID c" A] by (fastforce simp: pinned_def)
    show ?thesis
      using Some pinned [of "(dmState m)\<lparr>containers := (containers (dmState m))(k := None)\<rparr>"]
      by (cases "cjNetworkSettings c")
        (auto simp: ContainerRemove_def disconnect_fold stays_stuck_def stuck_def pinned_def)
  qed
qed

lemma stuck_VolumeRemove [keeps_rules]: "keeps (stays_stuck n cid) (VolumeRemove v)"
  by (auto simp: keeps_def VolumeRemove_def stays_stuck_def stuck_def pinned_def split: option.split)

lemma stuck_NetworkRemove:
  assumes s: "stuck n cid (dmState m)" and run: "NetworkRemove k m = (Ok (), m')"
  shows "k \<noteq> n" and "stuck n cid (dmState m')"
proof -
  from s obtain x where x: "networks (dmState m) n = Some x" "neContainers x cid \<noteq> None"
    by (auto simp: stuck_def pinned_def)
  then have "neContainers x \<noteq> Map.empty" by auto
  with run x(1) show "k \<noteq> n" by (auto simp: NetworkRemove_def)
  moreover have "containers (dmState m') = containers (dmState m)"
    "networks (dmState m') = (networks (dmState m))(k := None)"
    using run by (auto simp: NetworkRemove_def Let_def split: option.splits if_splits)
  ultimately show "stuck n cid (dmState m')" using s by (simp add: stuck_def pinned_def)
qed

lemma stuck_Down:
  assumes env: "fair_ranges env" and p: "project_ok p" and load: "loaded lib pn fs p"
    and n: "n \<in> project_networks p" and s: "stuck n cid (dmState m)"
  shows "Down lib env pn fs m \<noteq> (Ok (), m')"
proof
  assume "Down lib env pn fs m = (Ok (), m')"
  then obtain m1 m2 m3 m4 m5 vs names where vs: "services_of env p m = (Ok vs, m1)"
    and loop1: "for_each (\<lambda>v. wrap_op ''error removing service [%s]: %w'' [seContainerName v]
         (ContainerRemove env (seContainerName v))) vs m1 = (Ok (), m2)"
    and names: "range_over env (prVolumes p) m2 = (Ok names, m3)"
    and loop2: "for_each (\<lambda>n. wrap_op ''error removing volume [%s]: %w'' [volume_name p n]
         (VolumeRemove (volume_name p n))) names m3 = (Ok (), m4)"
    and loop3: "for_each (\<lambda>n. wrap_op ''error removing network [%s]: %w'' [network_name p n]
         (NetworkRemove (network_name p n))) (range_at env (dmTicks m4) (dom (prNetworks p)))
         (m4\<lparr>dmTicks := dmTicks m4 + 1\<rparr>) = (Ok (), m')"
    by (auto simp: Down_def bind_op_Ok loaded_run [OF load] Let_def network_name_def volume_name_def)
  have fin: "finite (dom (prNetworks p))" using p by (simp add: project_ok_def)
  have "dmState m1 = dmState m" using vs services_of_run [OF env p, of m] by auto
  then have "stuck n cid (dmState m2)"
    using s keepsD [OF keeps_for_each [OF stays_stuck_preorder keeps_wrap [OF stuck_ContainerRemove]] loop1]
    by (simp add: stays_stuck_def)
  moreover have "dmState m3 = dmState m2" using names by auto
  ultimately have s4: "stuck n cid (dmState m4)"
    using keepsD [OF keeps_for_each [OF stays_stuck_preorder keeps_wrap [OF stuck_VolumeRemove]] loop2]
    by (simp add: stays_stuck_def)
  let ?P = "\<lambda>A (t :: DockerMockManager). stuck n cid (dmState t) \<and> n \<notin> network_name p ` A"
  have "?P (set (range_at env (dmTicks m4) (dom (prNetworks p)))) m'"
  proof (rule for_each_inv [OF loop3 range_distinct [OF env fin], where P = ?P])
    fix A k t t'
    assume "?P A t" and "wrap_op ''error removing network [%s]: %w'' [network_name p k]
      (NetworkRemove (network_name p k)) t = (Ok (), t')"
    then show "?P (insert k A) t'" using stuck_NetworkRemove [of n cid t "network_name p k" t'] by simp
  qed (use s4 in simp)
  with n show False by (simp add: range_set [OF env fin] project_networks_def)
qed

end
