(* ===== verification/Docker_Compose_Total.thy ===== *)
theory Docker_Compose_Total
  imports Docker_Compose_Facts Docker_Manager_Inv
begin

text \<open>
  When \<open>Up\<close> succeeds: a new project comes up if the mock has a free subnet for each of its networks
  and its services have what the code takes for granted; with too few subnets the first networks
  are created and nothing else.
\<close>

section \<open>Services that can be generated\<close>

text \<open>
  What \<open>generateService\<close> takes for granted: binds have their options, volumes are volumes of the
  project, ports parse, environment variables and ulimits have values, a health check has its retries.
\<close>

definition service_fine :: "docker_lib \<Rightarrow> Project \<Rightarrow> ServiceConfig \<Rightarrow> bool" where
  "service_fine lib p v \<longleftrightarrow>
     (\<exists>bytes. service_Marshal lib v = Inr bytes)
     \<and> (\<forall>x\<in>set (seVolumes v). if svType x = TypeBind lib then svBindPropagation x \<noteq> None
          else svType x = TypeVolume lib \<and> svSource x \<in> dom (prVolumes p))
     \<and> (\<forall>sp\<in>set (sePorts v). \<exists>port. NewPort lib (spProtocol sp) (FormatUint (spTarget sp)) = Inr port)
     \<and> finite (dom (seEnvironment v)) \<and> (\<forall>k. seEnvironment v k \<noteq> Some None)
     \<and> seHealthCheckRetries v \<noteq> Some None
     \<and> (\<forall>l. seUlimits (seResources v) = Some l \<longrightarrow> finite (dom l) \<and> (\<forall>k. l k \<noteq> Some None))"

text \<open>The networks, with subnets, and the volumes of the project are there.\<close>

definition equipped :: "Project \<Rightarrow> DockerMockManager \<Rightarrow> bool" where
  "equipped p m \<longleftrightarrow> net_inv (dmState m) \<and> project_networks p \<subseteq> dom (networks (dmState m))
     \<and> project_volumes p \<subseteq> dom (volumes (dmState m))"

lemma equipped_tick [gives_rules]:
  "gives (equipped p) (tick f) any" "gives (equipped p) (now env) any"
  "gives (equipped p) (createRandomID env k) any"
  by (auto simp: gives_def equipped_def)

lemma equipped_get:
  assumes "\<And>s. net_inv s \<Longrightarrow> project_networks p \<subseteq> dom (networks s) \<Longrightarrow> project_volumes p \<subseteq> dom (volumes s)
    \<Longrightarrow> gives (equipped p) (g s) R"
  shows "gives (equipped p) (bind_op get_state g) R"
  using assms by (auto simp: gives_def equipped_def)

lemma equipped_range:
  "fair_ranges env \<Longrightarrow> finite (dom mp) \<Longrightarrow> gives (equipped p) (range_over env mp) (\<lambda>ns. set ns = dom mp)"
  by (auto simp: gives_def equipped_def range_set)

lemma equipped_started [gives_rules]: "gives (equipped p) (started_state lib env) any"
  unfolding started_state_def getContainerStateFromState_def by (intro gives_rules)

lemma equipped_mounts:
  assumes "\<forall>x\<in>set vs. if svType x = TypeBind lib then svBindPropagation x \<noteq> None
    else svType x = TypeVolume lib \<and> svSource x \<in> dom (prVolumes p)"
  shows "gives (equipped p) (service_mounts lib (prVolumes p) vs acc) any"
  using assms
proof (induction vs arbitrary: acc)
  case Nil
  show ?case unfolding service_mounts.simps by (intro gives_rules)
next
  case (Cons v vs)
  obtain b h c where acc: "acc = (b, h, c)" by (cases acc)
  have IH: "gives (equipped p) (service_mounts lib (prVolumes p) vs acc) any" for acc
    using Cons by simp
  show ?case unfolding acc service_mounts.simps
  proof (rule gives_if)
    assume "svType v = TypeBind lib"
    with Cons.prems have "svBindPropagation v \<noteq> None" by simp
    then show "gives (equipped p) (bind_op (deref (svBindPropagation v)) (\<lambda>x. service_mounts lib (prVolumes p) vs (f x))) any"
      for f by (intro gives_rules IH)
  next
    assume "svType v \<noteq> TypeBind lib"
    with Cons.prems have v: "svType v = TypeVolume lib" "volume_name p (svSource v) \<in> project_volumes p"
      by (auto simp: project_volumes_def)
    show "gives (equipped p) (if svType v = TypeVolume lib then bind_op get_state (\<lambda>s. let w = project_volume (prVolumes p) (svSource v)
        in bind_op (deref (volumes s (vcName w))) (\<lambda>x. service_mounts lib (prVolumes p) vs (f w x))) else g) any" for f g
    proof -
      have "volumes s (volume_name p (svSource v)) \<noteq> None" if "project_volumes p \<subseteq> dom (volumes s)" for s
        using v(2) that by auto
      then show ?thesis using v(1)
        by (simp add: Let_def volume_name_def) (rule equipped_get, intro gives_rules IH, simp)
    qed
  qed
qed

lemma equipped_ports:
  assumes "\<forall>sp\<in>set ps. \<exists>port. NewPort lib (spProtocol sp) (FormatUint (spTarget sp)) = Inr port"
  shows "gives (equipped p) (service_ports lib n ps acc) any"
  using assms
proof (induction ps arbitrary: acc)
  case Nil
  show ?case unfolding service_ports.simps by (intro gives_rules)
next
  case (Cons q ps)
  obtain a b where acc: "acc = (a, b)" by (cases acc)
  show ?case unfolding acc service_ports.simps Let_def
    using Cons by (intro gives_rules Cons.IH) simp_all
qed

lemma equipped_env:
  assumes "fair_ranges env" and "finite (dom (seEnvironment v))" and "\<forall>k. seEnvironment v k \<noteq> Some None"
  shows "gives (equipped p) (service_env env v) any"
  unfolding service_env_def
proof (rule gives_bind [OF equipped_range [OF assms(1,2)]])
  fix keys
  assume keys: "set keys = dom (seEnvironment v)"
  have "Option.bind (seEnvironment v k) (\<lambda>p. p) \<noteq> None" if "k \<in> set keys" for k
    using that keys spec [OF assms(3), of k] by auto
  then show "gives (equipped p) (bind_op (collect (\<lambda>key. bind_op (deref (Option.bind (seEnvironment v key) (\<lambda>p. p)))
                (\<lambda>val. return_op (key @ ''='' @ val))) keys) (\<lambda>vars. return_op (sort vars))) any"
    by (intro gives_rules gives_collect)
qed

lemma equipped_network:
  assumes "n \<in> dom (prNetworks p)"
  shows "gives (equipped p) (service_network env v (prNetworks p) n acc) any"
  unfolding gives_def
proof (intro allI impI)
  fix m
  assume m: "equipped p m"
  with assms obtain y where y: "networks (dmState m) (ncName (project_network (prNetworks p) n)) = Some y"
    by (force simp: equipped_def project_networks_def network_name_def)
  moreover have "net_configs (dmState m) = (\<lambda>n. map_option subnet_config (usedSubnets (dmState m) n))"
    using m by (simp add: equipped_def net_inv_def)
  from fun_cong [OF this, of "ncName (project_network (prNetworks p) n)"] y
  obtain ipam rest where "neIPAMConfig y = ipam # rest"
    by (cases "usedSubnets (dmState m) (ncName (project_network (prNetworks p) n))")
      (simp_all add: net_configs_def subnet_config_def)
  ultimately obtain ep where "service_network env v (prNetworks p) n acc m =
      (Ok (acc(ncName (project_network (prNetworks p) n) \<mapsto> ep)),
       set_state ((dmState m)\<lparr>networkIndices :=
          (networkIndices (dmState m))(n \<mapsto> index_of (dmState m) n + 1)\<rparr>) (m\<lparr>dmTicks := dmTicks m + 1\<rparr>))"
    using service_network_eq by blast
  moreover have "net_inv (s\<lparr>networkIndices := i\<rparr>) = net_inv s" for s i
    by (simp add: net_inv_def net_configs_def fun_eq_iff)
  ultimately show "\<exists>x t. service_network env v (prNetworks p) n acc m = (Ok x, t) \<and> equipped p t \<and> True"
    using m by (simp add: equipped_def)
qed

lemma equipped_networks:
  "set ns \<subseteq> dom (prNetworks p) \<Longrightarrow> gives (equipped p) (service_networks env v (prNetworks p) ns acc) any"
proof (induction ns arbitrary: acc)
  case Nil
  show ?case unfolding service_networks.simps by (intro gives_rules)
next
  case (Cons n ns)
  then show ?case unfolding service_networks.simps by (intro gives_rules equipped_network Cons.IH) simp_all
qed

lemma equipped_mode:
  assumes "fair_ranges env" and "finite (dom (seNetworks v))"
  shows "gives (equipped p) (default_network_mode env v pn) any"
  unfolding default_network_mode_def
  by (intro gives_rules gives_bind [OF equipped_range [OF assms]])

lemma equipped_ulimits:
  assumes "fair_ranges env"
    and "\<forall>l. seUlimits (seResources v) = Some l \<longrightarrow> finite (dom l) \<and> (\<forall>k. l k \<noteq> Some None)"
  shows "gives (equipped p) (fill_ulimits env v) any"
proof (cases "seUlimits (seResources v)")
  case None
  then show ?thesis unfolding fill_ulimits_def by (simp only: option.case) (intro gives_rules)
next
  case (Some l)
  with assms(2) have fin: "finite (dom l)" and set: "l k \<noteq> Some None" for k by blast+
  have "gives (equipped p) (collect (\<lambda>name. bind_op (deref (Option.bind (l name) (\<lambda>p. p))) (\<lambda>(hard, soft).
      return_op \<lparr>ulName = name, ulHard = hard, ulSoft = soft\<rparr>)) names) any" if names: "set names = dom l" for names
  proof (rule gives_collect)
    fix n
    assume "n \<in> set names"
    then obtain a where "l n = Some (Some a)" using names set [of n] by auto
    then show "gives (equipped p) (bind_op (deref (Option.bind (l n) (\<lambda>p. p))) (\<lambda>(hard, soft).
        return_op \<lparr>ulName = n, ulHard = hard, ulSoft = soft\<rparr>)) any"
      by (intro gives_bind_any) (auto intro: gives_rules)
  qed
  then show ?thesis unfolding fill_ulimits_def Some
    by (simp only: option.case) (rule gives_bind [OF equipped_range [OF assms(1) fin]])
qed

lemma equipped_host_config:
  assumes "fair_ranges env" and "finite (dom (seNetworks v))" and "service_fine lib p v"
  shows "gives (equipped p) (fill_host_config lib env v pn hc) any"
proof -
  have retries: "gives (equipped p) (case seHealthCheckRetries v of None \<Rightarrow> return_op x
      | Some r \<Rightarrow> bind_op (deref r) (\<lambda>n. return_op (sint n))) any" for x
    using assms(3) by (cases "seHealthCheckRetries v") (auto simp: service_fine_def intro: gives_rules)
  have hosts: "gives (equipped p) (case seExtraHosts v of None \<Rightarrow> return_op x
      | Some hosts \<Rightarrow> tick (\<lambda>k. HostsList_AsList lib k hosts '':'')) any" for x
    by (cases "seExtraHosts v") (auto intro: gives_rules)
  have "gives (equipped p) (fill_ulimits env v) any"
    using assms by (intro equipped_ulimits) (auto simp: service_fine_def)
  then show ?thesis unfolding fill_host_config_def Let_def
    by (intro gives_bind_any equipped_mode [OF assms(1,2)] hosts retries gives_rules)
qed

lemma equipped_container:
  assumes env: "fair_ranges env" and p: "project_ok p" and v: "v \<in> project_services p" and fine: "service_fine lib p v"
  shows "gives (equipped p) (service_container lib env v (prNetworks p) (prVolumes p)) any"
proof -
  have nets: "finite (dom (seNetworks v))" "dom (seNetworks v) \<subseteq> dom (prNetworks p)"
    using p v unfolding project_ok_def by blast+
  have split: "gives P (case x of (a, b) \<Rightarrow> f a b) R" if "\<And>a b. gives P (f a b) R" for P x f and R :: "'z \<Rightarrow> bool"
    using that by (cases x) simp
  show ?thesis unfolding service_container_def Let_def
    using fine [unfolded service_fine_def] nets
    by (intro gives_bind_any equipped_started equipped_mounts equipped_ports equipped_env [OF env] split
        gives_bind [OF equipped_range [OF env nets(1)]] equipped_networks equipped_tick
        equipped_host_config [OF env nets(1) fine] gives_simple) blast+
qed

lemma net_rel_net_inv: "net_rel m m' \<Longrightarrow> net_inv (dmState m) \<Longrightarrow> net_inv (dmState m')"
  unfolding net_rel_def
  by (elim conjE, rotate_tac 1, erule rtranclp_induct) (auto intro: net_step_inv)

lemma equipped_generate:
  assumes env: "fair_ranges env" and p: "project_ok p" and v: "v \<in> project_services p" and fine: "service_fine lib p v"
  shows "gives (equipped p) (generateService lib env v (prNetworks p) (prVolumes p)) any"
  unfolding gives_def
proof (intro allI impI)
  fix m
  assume m: "equipped p m"
  note nets = service_nets_project(2) [OF p v]
  from givesD [OF equipped_container [OF assms] m] obtain c m1
    where "service_container lib env v (prNetworks p) (prVolumes p) m = (Ok c, m1)" by blast
  from generateService_runs [OF env nets this] obtain m'
    where run: "generateService lib env v (prNetworks p) (prVolumes p) m = (Ok (), m')" by blast
  have "networks (dmState m') k = None \<longleftrightarrow> networks (dmState m) k = None" "volumes (dmState m') = volumes (dmState m)" for k
    by (rule generateService_OkE [OF env nets run], simp)+
  moreover from this(1) have "dom (networks (dmState m')) = dom (networks (dmState m))" by (simp add: dom_def)
  moreover have "net_rel m m'" using keepsD [OF keeps_generateService run] .
  ultimately have "equipped p m'" using m net_rel_net_inv by (simp add: equipped_def)
  with run show "\<exists>x t. generateService lib env v (prNetworks p) (prVolumes p) m = (Ok x, t) \<and> equipped p t \<and> True"
    by blast
qed

lemma up_service_fresh:
  assumes env: "fair_ranges env" and p: "project_ok p" and v: "v \<in> project_services p" and fine: "service_fine lib p v"
    and m: "equipped p m" and none: "containers (dmState m) (seName v) = None"
  shows "\<exists>t. up_service lib env p v m = (Ok (), t) \<and> equipped p t"
proof -
  from givesD [OF equipped_generate [OF assms(1-4)] m] obtain t
    where t: "generateService lib env v (prNetworks p) (prVolumes p) m = (Ok (), t)" "equipped p t" by auto
  obtain bytes where "service_Marshal lib v = Inr bytes" using fine by (auto simp: service_fine_def)
  moreover have "net_inv (s\<lparr>serviceHashes := h\<rparr>) = net_inv s" for s h
    by (simp add: net_inv_def net_configs_def fun_eq_iff)
  ultimately show ?thesis using t none by (simp add: up_service_def unchanged_def Let_def equipped_def)
qed

text \<open>So all services of the project come up, in whatever order they are visited.\<close>

lemma up_services_total:
  assumes env: "fair_ranges env" and p: "project_ok p" and fine: "\<And>v. v \<in> project_services p \<Longrightarrow> service_fine lib p v"
    and vs: "set vs = project_services p" "distinct vs" and m: "equipped p m"
    and none: "\<And>v. v \<in> project_services p \<Longrightarrow> containers (dmState m) (seName v) = None"
  shows "\<exists>t. for_each (up_service lib env p) vs m = (Ok (), t)"
proof -
  let ?P = "\<lambda>A t. equipped p t \<and> (\<forall>v\<in>project_services p - A. containers (dmState t) (seName v) = None)"
  have "\<exists>t. for_each (up_service lib env p) vs m = (Ok (), t) \<and> ?P (set vs) t"
  proof (rule for_each_total [OF vs(2)])
    show "?P {} m" using m none by simp
    fix A v t
    assume v: "v \<in> set vs" "v \<notin> A" and P: "?P A t"
    then have v': "v \<in> project_services p" using vs(1) by simp
    then have fresh: "containers (dmState t) (seName v) = None" using P v(2) by simp
    from up_service_fresh [OF env p v' fine [OF v'] conjunct1 [OF P] fresh] obtain t'
      where t': "up_service lib env p v t = (Ok (), t')" "equipped p t'" by blast
    obtain t1 h where gen: "generateService lib env v (prNetworks p) (prVolumes p) t = (Ok (), t1)"
      and eq: "dmState t' = (dmState t1)\<lparr>serviceHashes := (serviceHashes (dmState t1))(seName v \<mapsto> h)\<rparr>"
      by (rule up_service_new [OF t'(1) fresh])
    obtain c where "containers (dmState t1) = (containers (dmState t))(seContainerName v \<mapsto> c)"
      by (rule generateService_OkE [OF env service_nets_project(2) [OF p v'] gen])
    moreover have "seName u \<noteq> seContainerName v" if "u \<in> project_services p" "u \<noteq> v" for u
      using that v' p unfolding project_ok_def by metis
    ultimately have "\<forall>u\<in>project_services p - insert v A. containers (dmState t') (seName u) = None"
      using P by (simp add: eq)
    with t' show "\<exists>t'. up_service lib env p v t = (Ok (), t') \<and> ?P (insert v A) t'" by blast
  qed
  then show ?thesis by blast
qed

section \<open>Networks and volumes\<close>

lemma generateVolume_total:
  "\<exists>m' x. generateVolume lib env vc n pn m = (Ok (), m')
     \<and> dmState m' = (dmState m)\<lparr>volumes := (volumes (dmState m))(vcName vc \<mapsto> x)\<rparr>"
  by (cases "volumes (dmState m) (vcName vc)") (auto simp: generateVolume_def)

lemma up_volumes_total: "\<exists>m'. up_volumes lib env pn p m = (Ok (), m')"
proof -
  have "\<exists>m'. for_each (\<lambda>n. generateVolume lib env (project_volume (prVolumes p) n) n pn) ns m = (Ok (), m')" for ns m
  proof (induction ns arbitrary: m)
    case (Cons n ns)
    obtain m1 where "generateVolume lib env (project_volume (prVolumes p) n) n pn m = (Ok (), m1)"
      using generateVolume_total by blast
    with Cons.IH [of m1] show ?case by simp
  qed simp
  then show ?thesis by (simp add: up_volumes_def)
qed

text \<open>
  New networks are created one after the other as long as there are subnets; the first one without a
  subnet is the error, and the ones before it stay.
\<close>

lemma up_network_new:
  assumes "networks (dmState m) (network_name p n) = None"
  shows "availableSubnets (dmState m) = [] \<Longrightarrow> up_network env pn p n m = (Err (Errorf ''too many networks'' []), m)"
    and "availableSubnets (dmState m) = r # rest \<Longrightarrow> \<exists>m' x. up_network env pn p n m = (Ok (), m')
      \<and> networks (dmState m') = (networks (dmState m))(network_name p n \<mapsto> x)
      \<and> availableSubnets (dmState m') = rest \<and> containers (dmState m') = containers (dmState m)
      \<and> volumes (dmState m') = volumes (dmState m)"
  using assms
  by (simp add: up_network_def generateNetwork_def network_name_def)
    (use assms in \<open>simp add: up_network_def generateNetwork_def network_name_def\<close>, rule exI, rule refl)

lemma up_networks_loop:
  assumes "distinct xs" and "inj_on (network_name p) (set xs)"
    and "\<forall>n\<in>set xs. networks (dmState m) (network_name p n) = None"
  shows "\<exists>t. for_each (up_network env pn p) xs m =
      (if length xs \<le> length (availableSubnets (dmState m)) then Ok () else Err (Errorf ''too many networks'' []), t)
    \<and> availableSubnets (dmState t) = drop (length xs) (availableSubnets (dmState m))
    \<and> dom (networks (dmState t)) = dom (networks (dmState m))
        \<union> network_name p ` set (take (length (availableSubnets (dmState m))) xs)
    \<and> (\<forall>n\<in>dom (networks (dmState m)). networks (dmState t) n = networks (dmState m) n)
    \<and> containers (dmState t) = containers (dmState m) \<and> volumes (dmState t) = volumes (dmState m)"
  using assms
proof (induction xs arbitrary: m)
  case Nil
  show ?case by simp
next
  case (Cons n xs)
  then have new: "networks (dmState m) (network_name p n) = None" by simp
  show ?case
  proof (cases "availableSubnets (dmState m)")
    case Nil
    then show ?thesis using up_network_new(1) [OF new] by simp
  next
    case (Cons r rest)
    from up_network_new(2) [OF new this] obtain m' x where step: "up_network env pn p n m = (Ok (), m')"
      "networks (dmState m') = (networks (dmState m))(network_name p n \<mapsto> x)"
      "availableSubnets (dmState m') = rest" "containers (dmState m') = containers (dmState m)"
      "volumes (dmState m') = volumes (dmState m)" by blast
    have "\<forall>k\<in>set xs. networks (dmState m') (network_name p k) = None"
      using Cons.prems step(2) by (auto simp: inj_on_def)
    with Cons.IH [of m'] Cons.prems obtain t where t: "for_each (up_network env pn p) xs m' =
        (if length xs \<le> length rest then Ok () else Err (Errorf ''too many networks'' []), t)"
      "availableSubnets (dmState t) = drop (length xs) rest"
      "dom (networks (dmState t)) = dom (networks (dmState m')) \<union> network_name p ` set (take (length rest) xs)"
      "\<forall>n\<in>dom (networks (dmState m')). networks (dmState t) n = networks (dmState m') n"
      "containers (dmState t) = containers (dmState m')" "volumes (dmState t) = volumes (dmState m')"
      by (auto simp: step(3))
    moreover have "networks (dmState t) k = networks (dmState m) k" if "k \<in> dom (networks (dmState m))" for k
    proof -
      have "k \<noteq> network_name p n" using that new by auto
      with t(4) that step(2) show ?thesis by simp
    qed
    ultimately show ?thesis using step Cons by (intro exI [of _ t]) auto
  qed
qed

section \<open>Up\<close>

text \<open>The networks of a project in the order of their creation.\<close>

lemma up_networks_order:
  assumes env: "fair_ranges env" and p: "project_ok p"
  obtains xs where "up_networks env pn p m = for_each (up_network env pn p) xs (m\<lparr>dmTicks := dmTicks m + 1\<rparr>)"
    "distinct xs" "set xs = dom (prNetworks p)" "length xs = card (dom (prNetworks p))"
proof -
  let ?names = "range_at env (dmTicks m) (dom (prNetworks p))"
  let ?ext = "\<lambda>n. ncExternal (project_network (prNetworks p) n)"
  let ?xs = "sort (filter ?ext ?names) @ sort (filter (\<lambda>n. \<not> ?ext n) ?names)"
  have fin: "finite (dom (prNetworks p))" using p by (simp add: project_ok_def)
  have names: "set ?names = dom (prNetworks p)" "distinct ?names"
    using range_set [OF env fin] range_distinct [OF env fin] by simp_all
  have "up_networks env pn p m = for_each (up_network env pn p) ?xs (m\<lparr>dmTicks := dmTicks m + 1\<rparr>)"
    unfolding up_networks_def for_each_append by (simp add: Let_def)
  moreover have xs: "distinct ?xs" "set ?xs = dom (prNetworks p)" using names by auto
  moreover from this have "length ?xs = card (dom (prNetworks p))" by (metis distinct_card)
  ultimately show thesis by (rule that)
qed

lemma up_networks_cases:
  assumes env: "fair_ranges env" and p: "project_ok p" and new: "new_to p (dmState m)"
  shows "\<exists>t. up_networks env pn p m =
      (if card (dom (prNetworks p)) \<le> length (availableSubnets (dmState m)) then Ok ()
       else Err (Errorf ''too many networks'' []), t)
    \<and> availableSubnets (dmState t) = drop (card (dom (prNetworks p))) (availableSubnets (dmState m))
    \<and> dom (networks (dmState m)) \<subseteq> dom (networks (dmState t))
    \<and> dom (networks (dmState t)) \<subseteq> dom (networks (dmState m)) \<union> project_networks p
    \<and> (\<forall>n\<in>dom (networks (dmState m)). networks (dmState t) n = networks (dmState m) n)
    \<and> containers (dmState t) = containers (dmState m) \<and> volumes (dmState t) = volumes (dmState m)"
proof -
  let ?m = "m\<lparr>dmTicks := dmTicks m + 1\<rparr>"
  obtain xs where xs: "up_networks env pn p m = for_each (up_network env pn p) xs ?m"
    "distinct xs" "set xs = dom (prNetworks p)" "length xs = card (dom (prNetworks p))"
    by (rule up_networks_order [OF env p])
  have inj: "inj_on (network_name p) (set xs)" using p by (simp add: xs(3) project_ok_def)
  have none: "\<forall>n\<in>set xs. networks (dmState ?m) (network_name p n) = None"
    using new by (simp add: xs(3) new_to_def project_networks_def)
  have "network_name p n \<in> project_networks p" if "n \<in> set (take k xs)" for n k
    using in_set_takeD [OF that] by (simp add: project_networks_def xs(3))
  with up_networks_loop [OF xs(2) inj none, of env pn] show ?thesis
    unfolding xs(1) xs(4) by auto
qed

lemma Up_total:
  assumes env: "fair_ranges env" and p: "project_ok p" and new: "new_to p (dmState m)" and load: "loaded lib pn fs p"
    and inv: "net_inv (dmState m)" and fine: "\<And>v. v \<in> project_services p \<Longrightarrow> service_fine lib p v"
    and enough: "card (dom (prNetworks p)) \<le> length (availableSubnets (dmState m))"
  shows "\<exists>m'. Up lib env pn fs m = (Ok (), m')"
proof -
  obtain m1 where nets: "up_networks env pn p m = (Ok (), m1)"
    using up_networks_cases [OF env p new, of pn] enough by auto
  note up = up_networks_Ok [OF env p new nets]
  obtain m2 where vols: "up_volumes lib env pn p m1 = (Ok (), m2)" using up_volumes_total by blast
  from up_volumes_Ok [OF env p vols] obtain ws where ws: "dmState m2 = (dmState m1)\<lparr>volumes := ws\<rparr>"
    "project_volumes p \<subseteq> dom ws" by blast
  obtain vs where vs: "services_of env p m2 = (Ok vs, m2\<lparr>dmTicks := dmTicks m2 + 1\<rparr>)"
    "set vs = project_services p" "distinct vs" using services_of_run [OF env p] by blast
  have "net_inv (dmState m2)"
    using net_rel_net_inv [OF keepsD [OF keeps_up(2) vols] net_rel_net_inv [OF keepsD [OF keeps_up(1) nets] inv]] .
  moreover have "project_networks p \<subseteq> dom (networks (dmState m2))"
    using up ws(1) by (auto simp: networks_up_def project_networks_def)
  ultimately have "equipped p (m2\<lparr>dmTicks := dmTicks m2 + 1\<rparr>)" using ws by (simp add: equipped_def)
  moreover have "containers (dmState (m2\<lparr>dmTicks := dmTicks m2 + 1\<rparr>)) (seName v) = None" if "v \<in> project_services p" for v
    using that up ws(1) new by (simp add: networks_up_def new_to_def)
  ultimately obtain t where "for_each (up_service lib env p) vs (m2\<lparr>dmTicks := dmTicks m2 + 1\<rparr>) = (Ok (), t)"
    using up_services_total [OF env p fine vs(2,3)] by blast
  then have "Up lib env pn fs m = (Ok (), t)" by (simp add: Up_def loaded_run [OF load] nets vols vs(1))
  then show ?thesis by blast
qed

lemma Up_short:
  assumes env: "fair_ranges env" and p: "project_ok p" and new: "new_to p (dmState m)" and load: "loaded lib pn fs p"
    and short: "\<not> card (dom (prNetworks p)) \<le> length (availableSubnets (dmState m))"
  shows "\<exists>t. Up lib env pn fs m = (Err (Errorf ''too many networks'' []), t) \<and> availableSubnets (dmState t) = []
    \<and> dom (networks (dmState m)) \<subseteq> dom (networks (dmState t))
    \<and> dom (networks (dmState t)) \<subseteq> dom (networks (dmState m)) \<union> project_networks p
    \<and> containers (dmState t) = containers (dmState m) \<and> volumes (dmState t) = volumes (dmState m)"
proof -
  from up_networks_cases [OF env p new, of pn] obtain t where
    "up_networks env pn p m = (Err (Errorf ''too many networks'' []), t)"
    "availableSubnets (dmState t) = drop (card (dom (prNetworks p))) (availableSubnets (dmState m))"
    "dom (networks (dmState m)) \<subseteq> dom (networks (dmState t))"
    "dom (networks (dmState t)) \<subseteq> dom (networks (dmState m)) \<union> project_networks p"
    "containers (dmState t) = containers (dmState m)" "volumes (dmState t) = volumes (dmState m)"
    unfolding if_not_P [OF short] by blast
  with short show ?thesis by (intro exI [of _ t]) (simp add: Up_def loaded_run [OF load])
qed

lemma Down_missing:
  assumes env: "fair_ranges env" and p: "project_ok p" and load: "loaded lib pn fs p" and some: "project_services p \<noteq> {}"
    and none: "\<And>v. v \<in> project_services p \<Longrightarrow> containers (dmState m) (seContainerName v) = None"
  shows "\<exists>e t. Down lib env pn fs m = (Err e, t) \<and> dmState t = dmState m"
proof -
  obtain vs where vs: "services_of env p m = (Ok vs, m\<lparr>dmTicks := dmTicks m + 1\<rparr>)" "set vs = project_services p"
    using services_of_run [OF env p] by blast
  with some obtain v ws where cons: "vs = v # ws" by (cases vs) auto
  then have "containers (dmState m) (seContainerName v) = None" using none [of v] vs(2) by auto
  then have "ContainerRemove env (seContainerName v) (m\<lparr>dmTicks := dmTicks m + 1\<rparr>)
      = (Err (no_container (seContainerName v)), m\<lparr>dmTicks := dmTicks m + 1\<rparr>)"
    by (simp add: ContainerRemove_def get_container_def)
  then show ?thesis by (simp add: Down_def loaded_run [OF load] vs(1) cons)
qed

end
