(* ===== verification/Docker_Compose_Props.thy ===== *)
theory Docker_Compose_Props
  imports Docker_Compose_Again Docker_Compose_Total Docker_Service_Props "HOL-Library.Multiset"
begin




text \<open>C11: \<open>Up\<close> of a project the mock does not have, whose services have what the code takes for
  granted, succeeds if the mock can hold its networks, fifteen in all. Otherwise it fails after it
  has created as many of the networks as fit, and they stay: nothing else changed, every subnet is
  taken, and \<open>Down\<close> cannot help, since it fails at the first service and removes nothing.\<close>

theorem up_of_new_project:
  assumes "json_faithful lib" and "fair_ranges env" and "reachable_docker lib env m"
    and "loaded lib pn fs p" and "project_ok p" and "new_to p (dmState m)"
    and "\<forall>v\<in>project_services p. service_fine lib p v"
  shows "if card (dom (networks (dmState m))) + card (dom (prNetworks p)) \<le> 15
    then fst (Up lib env pn fs m) = Ok ()
    else \<exists>m1. Up lib env pn fs m = (Err (Errorf ''too many networks'' []), m1)
      \<and> card (dom (networks (dmState m1))) = 15
      \<and> dom (networks (dmState m)) \<subseteq> dom (networks (dmState m1))
      \<and> dom (networks (dmState m1)) \<subseteq> dom (networks (dmState m)) \<union> project_networks p
      \<and> containers (dmState m1) = containers (dmState m) \<and> volumes (dmState m1) = volumes (dmState m)
      \<and> (project_services p \<noteq> {} \<longrightarrow> (\<exists>e m2. Down lib env pn fs m1 = (Err e, m2) \<and> dmState m2 = dmState m1))"
proof -
  have leases: "net_inv (dmState x)" "length (availableSubnets (dmState x)) + card (dom (networks (dmState x))) = 15"
    if "reachable_docker lib env x" for x
  proof -
    have inv: "net_inv (dmState x)" "subnets.divided (dmState x)"
      using reachable_docker_inv [OF assms(1,2) that] by (simp_all add: docker_inv_def state_inv_def)
    have "dom (networks (dmState x)) = dom (usedSubnets (dmState x))"
      using net_inv_dom [OF inv(1)] by (simp add: dom_def)
    with subnets.count [OF inv(2)] inv(1) show "net_inv (dmState x)"
      "length (availableSubnets (dmState x)) + card (dom (networks (dmState x))) = 15" by simp_all
  qed
  note here = leases [OF assms(3)]
  show ?thesis
  proof (cases "card (dom (prNetworks p)) \<le> length (availableSubnets (dmState m))")
    case True
    then have "card (dom (networks (dmState m))) + card (dom (prNetworks p)) \<le> 15" using here(2) by linarith
    moreover obtain m' where "Up lib env pn fs m = (Ok (), m')"
      using Up_total [OF assms(2,5,6,4) here(1) _ True] assms(7) by blast
    ultimately show ?thesis by simp
  next
    case False
    then have "\<not> card (dom (networks (dmState m))) + card (dom (prNetworks p)) \<le> 15" using here(2) by linarith
    moreover obtain m1 where m1: "Up lib env pn fs m = (Err (Errorf ''too many networks'' []), m1)"
      "availableSubnets (dmState m1) = []" "dom (networks (dmState m)) \<subseteq> dom (networks (dmState m1))"
      "dom (networks (dmState m1)) \<subseteq> dom (networks (dmState m)) \<union> project_networks p"
      "containers (dmState m1) = containers (dmState m)" "volumes (dmState m1) = volumes (dmState m)"
      using Up_short [OF assms(2,5,6,4) False] by blast
    moreover have "reachable_docker lib env m1"
      using reachable_docker.call [OF assms(3) docker_step.up, of pn fs] by (simp add: m1(1))
    from leases(2) [OF this] have "card (dom (networks (dmState m1))) = 15" by (simp add: m1(2))
    moreover have "containers (dmState m1) (seContainerName v) = None" if "v \<in> project_services p" for v
      using that assms(6) by (simp add: m1(5) new_to_def)
    ultimately show ?thesis using Down_missing [OF assms(2,5,4)] by simp
  qed
qed

text \<open>C21: if a second \<open>Up\<close> of a project replaced the container of a service that is on a network (as it
  does for every service whose container is not named like the service), \<open>Down\<close> fails: the entry of
  the first container is still in the network, and nothing takes it out any more.\<close>

theorem up_twice_blocks_down:
  assumes "fair_ranges env" and "loaded lib pn fs p" and "project_ok p" and "new_to p (dmState m)"
    and "Up lib env pn fs m = (Ok (), m1)" and "Up lib env pn fs m1 = (Ok (), m2)"
    and "v \<in> project_services p" and "seNetworks v \<noteq> Map.empty" and "has_id (dmState m1) v cid"
    and "\<forall>k c. containers (dmState m2) k = Some c \<longrightarrow> cjID c \<noteq> cid"
  shows "fst (Down lib env pn fs m2) \<noteq> Ok ()"
proof -
  from Up_prepared [OF assms(1,3,4,2,5)] have entered: "entered p (dmState m1) v" using assms(7) by blast
  obtain k where "k \<in> dom (seNetworks v)" using assms(8) by auto
  then have n: "network_name p k \<in> service_nets p v" by (simp add: service_nets_def)
  then have "pinned (dmState m1) (network_name p k) cid" using entered assms(9) by (simp add: entered_def)
  then have "pinned (dmState m2) (network_name p k) cid"
    using keepsD [OF grows_Up assms(6)] by (simp add: grows_def)
  then have "stuck (network_name p k) cid (dmState m2)" using assms(10) by (simp add: stuck_def)
  from stuck_Down [OF assms(1,3,2) _ this] have "Down lib env pn fs m2 \<noteq> (Ok (), m3)" for m3
    using n service_nets_project(1) [OF assms(3,7)] by blast
  then show ?thesis by (metis prod.collapse)
qed

section \<open>Instances\<close>

text \<open>A project with a network and a service on it, brought up on a new mock.\<close>

definition sample_project_s :: Project where
  "sample_project_s = \<lparr>prNetworks = sample_project_networks, prVolumes = Map.empty,
     prServices = [''s'' \<mapsto> sample_service ''s'' ''p-s-1'']\<rparr>"

definition sample_dlib_s :: docker_lib where
  "sample_dlib_s = sample_dlib\<lparr>LoadProject := (\<lambda>opts. Inr sample_project_s)\<rparr>"

lemma sample_dlib_s_load: "loaded sample_dlib_s pn fs sample_project_s"
  by (simp add: loaded_def sample_dlib_s_def sample_dlib_def)

lemma sample_dlib_s_sel [simp]:
  "json_faithful sample_dlib_s" "service_Marshal sample_dlib_s v = Inr (map of_char (seName v @ seImage v))"
  by (simp_all add: json_faithful_def sample_dlib_s_def sample_dlib_def)


lemma sample_project_s_sel:
  "prNetworks sample_project_s = sample_project_networks" "prVolumes sample_project_s = Map.empty"
  "prServices sample_project_s = [''s'' \<mapsto> sample_service ''s'' ''p-s-1'']"
  by (simp_all add: sample_project_s_def)

lemma sample_project_s_ok: "project_ok sample_project_s" "new_to sample_project_s newState"
  by (simp_all add: project_ok_def new_to_def sample_project_s_def project_services_def newState_def)

lemma sample_project_s_sets:
  "project_services sample_project_s = {sample_service ''s'' ''p-s-1''}"
  by (simp add: sample_project_s_def project_services_def)

text \<open>The networks of the sample project, new and again; then the rest of \<open>Up\<close>.\<close>

lemma sample_networks_up:
  "\<exists>m1 x. up_networks sample_env ''p'' sample_project_s NewDockerMockManager = (Ok (), m1)
     \<and> networks (dmState m1) ''p_net'' = Some x \<and> neIPAMConfig x = subnet_config 17
     \<and> containers (dmState m1) = Map.empty \<and> dmTicks m1 = 3"
  by (simp add: up_networks_def up_network_def sample_project_s_def Let_def sample_network_def
      generateNetwork_def newState_def subnet_config_def)

lemma sample_networks_again:
  assumes "networks (dmState m) ''p_net'' = Some x" and "neIPAMConfig x = subnet_config 17"
  shows "\<exists>m1 y. up_networks sample_env ''p'' sample_project_s m = (Ok (), m1)
     \<and> networks (dmState m1) ''p_net'' = Some y \<and> neIPAMConfig y = subnet_config 17
     \<and> containers (dmState m1) = containers (dmState m) \<and> dmTicks m1 = dmTicks m + 1"
  using assms by (simp add: up_networks_def up_network_def sample_project_s_def Let_def sample_network_def
      generateNetwork_def)

lemma sample_Up_rest:
  assumes nets: "up_networks sample_env ''p'' sample_project_s m = (Ok (), m1)"
    and x: "networks (dmState m1) ''p_net'' = Some x" "neIPAMConfig x = subnet_config 17"
    and cs: "containers (dmState m1) ''s'' = None"
  shows "\<exists>m2 c y. Up sample_dlib_s sample_env ''p'' [] m = (Ok (), m2)
    \<and> containers (dmState m2) = (containers (dmState m1))(''p-s-1'' \<mapsto> c)
    \<and> cjID c = EncodeToString (replicate 32 (of_nat (dmTicks m1 + 7)))
    \<and> networks (dmState m2) ''p_net'' = Some y \<and> neIPAMConfig y = subnet_config 17
    \<and> dmTicks m2 = dmTicks m1 + 13"
proof -
  let ?m3 = "m1\<lparr>dmTicks := dmTicks m1 + 2\<rparr>"
  have "networks (dmState ?m3) ''p_net'' = Some x" using x(1) by simp
  from sample_generates [OF this x(2), of sample_dlib_s "''s''" "''p-s-1''"] obtain c m4 y where
    m4: "generateService sample_dlib_s sample_env (sample_service ''s'' ''p-s-1'') sample_project_networks
       Map.empty ?m3 = (Ok (), m4)" "containers (dmState m4) = (containers (dmState m1))(''p-s-1'' \<mapsto> c)"
      "cjID c = EncodeToString (replicate 32 (of_nat (dmTicks m1 + 7)))"
      "networks (dmState m4) ''p_net'' = Some y" "neIPAMConfig y = subnet_config 17"
      "dmTicks m4 = dmTicks m1 + 13" by auto
  have "\<exists>m5. Up sample_dlib_s sample_env ''p'' [] m = (Ok (), m5) \<and> dmTicks m5 = dmTicks m4
      \<and> containers (dmState m5) = containers (dmState m4) \<and> networks (dmState m5) = networks (dmState m4)"
    using m4(1) cs
    by (simp add: Up_def loaded_run [OF sample_dlib_s_load] nets up_volumes_def services_of_def
        sample_project_s_sel up_service_def unchanged_def map_filter_simps Let_def)
  then obtain m5 where "Up sample_dlib_s sample_env ''p'' [] m = (Ok (), m5)" "dmTicks m5 = dmTicks m4"
    "containers (dmState m5) = containers (dmState m4)" "networks (dmState m5) = networks (dmState m4)"
    by blast
  with m4(2-6) show ?thesis by (intro exI [of _ m5] exI [of _ c] exI [of _ y]) simp
qed

lemma sample_Up:
  "\<exists>m1 c x. Up sample_dlib_s sample_env ''p'' [] NewDockerMockManager = (Ok (), m1)
    \<and> containers (dmState m1) = [''p-s-1'' \<mapsto> c] \<and> cjID c = EncodeToString (replicate 32 10)
    \<and> networks (dmState m1) ''p_net'' = Some x \<and> neIPAMConfig x = subnet_config 17
    \<and> dmTicks m1 = 16"
proof -
  obtain m1 x where m1: "up_networks sample_env ''p'' sample_project_s NewDockerMockManager = (Ok (), m1)"
    "networks (dmState m1) ''p_net'' = Some x" "neIPAMConfig x = subnet_config 17"
    and cs: "containers (dmState m1) = Map.empty" "dmTicks m1 = 3" using sample_networks_up by blast
  then have "containers (dmState m1) ''s'' = None" by simp
  from sample_Up_rest [OF m1 this] cs show ?thesis by simp
qed

text \<open>The second \<open>Up\<close> of the sample project replaces the container.\<close>

lemma sample_Up_again:
  "\<exists>m1 m2 c c'. Up sample_dlib_s sample_env ''p'' [] NewDockerMockManager = (Ok (), m1)
    \<and> Up sample_dlib_s sample_env ''p'' [] m1 = (Ok (), m2)
    \<and> containers (dmState m1) = [''p-s-1'' \<mapsto> c] \<and> containers (dmState m2) = [''p-s-1'' \<mapsto> c']
    \<and> cjID c \<noteq> cjID c'"
proof -
  obtain m1 c x where m1: "Up sample_dlib_s sample_env ''p'' [] NewDockerMockManager = (Ok (), m1)"
    "containers (dmState m1) = [''p-s-1'' \<mapsto> c]" "cjID c = EncodeToString (replicate 32 10)"
    "dmTicks m1 = 16"
    and x: "networks (dmState m1) ''p_net'' = Some x" "neIPAMConfig x = subnet_config 17"
    using sample_Up by blast
  obtain m2 y where m2: "up_networks sample_env ''p'' sample_project_s m1 = (Ok (), m2)"
    "networks (dmState m2) ''p_net'' = Some y" "neIPAMConfig y = subnet_config 17"
    and cs: "containers (dmState m2) = containers (dmState m1)" "dmTicks m2 = 17"
    using sample_networks_again [OF x] m1(4) by auto
  have "containers (dmState m2) ''s'' = None" by (simp add: cs m1(2))
  from sample_Up_rest [OF m2 this] obtain m3 c' where
    m3: "Up sample_dlib_s sample_env ''p'' [] m1 = (Ok (), m3)"
    "containers (dmState m3) = [''p-s-1'' \<mapsto> c']" "cjID c' = EncodeToString (replicate 32 24)"
    by (auto simp: cs m1(2))
  have "cjID c \<noteq> cjID c'" unfolding m1(3) m3(3) EncodeToString_inject by simp
  with m1(1,2) m3(1,2) show ?thesis by blast
qed


theorem up_twice_blocks_down_witness:
  "\<exists>m1 m2. Up sample_dlib_s sample_env ''p'' [] NewDockerMockManager = (Ok (), m1)
     \<and> Up sample_dlib_s sample_env ''p'' [] m1 = (Ok (), m2)
     \<and> fst (Down sample_dlib_s sample_env ''p'' [] m2) \<noteq> Ok ()"
proof -
  obtain m1 m2 c c' where m1: "Up sample_dlib_s sample_env ''p'' [] NewDockerMockManager = (Ok (), m1)"
    and m2: "Up sample_dlib_s sample_env ''p'' [] m1 = (Ok (), m2)"
    and cs: "containers (dmState m1) = [''p-s-1'' \<mapsto> c]" "containers (dmState m2) = [''p-s-1'' \<mapsto> c']"
    and ids: "cjID c \<noteq> cjID c'" using sample_Up_again by blast
  have new: "new_to sample_project_s (dmState NewDockerMockManager)"
    using sample_project_s_ok(2) by simp
  have "sample_service ''s'' ''p-s-1'' \<in> project_services sample_project_s"
    and "seNetworks (sample_service ''s'' ''p-s-1'') \<noteq> Map.empty"
    and "has_id (dmState m1) (sample_service ''s'' ''p-s-1'') (cjID c)"
    and "\<forall>k d. containers (dmState m2) k = Some d \<longrightarrow> cjID d \<noteq> cjID c"
    using cs ids by (auto simp: sample_project_s_sets has_id_def split: if_splits)
  from up_twice_blocks_down [OF sample_ranges sample_dlib_s_load sample_project_s_ok(1) new m1 m2 this]
    m1 m2 show ?thesis by blast
qed

text \<open>A project with one network more than the mock has subnets for.\<close>

definition sample_names :: "string set" where
  "sample_names = (\<lambda>i. replicate i CHR ''n'') ` {..<16}"

definition sample_project_16 :: Project where
  "sample_project_16 = \<lparr>prNetworks = (\<lambda>n. if n \<in> sample_names then Some (sample_network n) else None),
     prVolumes = Map.empty, prServices = [''s'' \<mapsto> (sample_service ''s'' ''p-s-1'')\<lparr>seNetworks := Map.empty\<rparr>]\<rparr>"

definition sample_dlib_16 :: docker_lib where
  "sample_dlib_16 = sample_dlib\<lparr>LoadProject := (\<lambda>opts. Inr sample_project_16)\<rparr>"

lemma sample_project_16_sets:
  "dom (prNetworks sample_project_16) = sample_names" "finite sample_names" "card sample_names = 16"
  "project_services sample_project_16 = {(sample_service ''s'' ''p-s-1'')\<lparr>seNetworks := Map.empty\<rparr>}"
  by (auto simp: sample_project_16_def sample_names_def project_services_def card_image inj_on_def dom_def
      split: if_splits)

lemma sample_project_16_ok: "project_ok sample_project_16" "new_to sample_project_16 (dmState NewDockerMockManager)"
proof -
  have "network_name sample_project_16 n = n" if "n \<in> sample_names" for n
    using that by (simp add: network_name_def project_network_def sample_project_16_def sample_network_def)
  then have "inj_on (network_name sample_project_16) sample_names" by (rule inj_on_inverseI)
  then show "project_ok sample_project_16"
    unfolding project_ok_def sample_project_16_sets
    by (simp add: sample_project_16_sets(2)) (simp add: sample_project_16_def sample_service_def)
  show "new_to sample_project_16 (dmState NewDockerMockManager)"
    by (simp add: new_to_def newState_def)
qed

theorem up_of_new_project_witness:
  "fst (Up sample_dlib_s sample_env ''p'' [] NewDockerMockManager) = Ok ()
   \<and> (\<exists>m1 e. Up sample_dlib_16 sample_env ''p'' [] NewDockerMockManager = (Err (Errorf ''too many networks'' []), m1)
        \<and> card (dom (networks (dmState m1))) = 15 \<and> fst (Down sample_dlib_16 sample_env ''p'' [] m1) = Err e)"
proof
  have new: "new_to sample_project_s (dmState NewDockerMockManager)"
    using sample_project_s_ok(2) by simp
  have "\<forall>v\<in>project_services sample_project_s. service_fine sample_dlib_s sample_project_s v"
    by (simp add: sample_project_s_sets service_fine_def sample_service_def sample_resources_def)
  from up_of_new_project [OF sample_dlib_s_sel(1) sample_ranges reachable_docker.new sample_dlib_s_load
      sample_project_s_ok(1) new this, of "''p''" "[]"]
  show "fst (Up sample_dlib_s sample_env ''p'' [] NewDockerMockManager) = Ok ()"
    by (simp add: newState_def sample_project_s_sel)
next
  have lib: "json_faithful sample_dlib_16" "loaded sample_dlib_16 pn fs sample_project_16" for pn fs
    by (simp_all add: json_faithful_def loaded_def sample_dlib_16_def sample_dlib_def)
  have "\<forall>v\<in>project_services sample_project_16. service_fine sample_dlib_16 sample_project_16 v"
    by (simp add: sample_project_16_sets service_fine_def sample_service_def sample_resources_def
        sample_dlib_16_def sample_dlib_def)
  from up_of_new_project [OF lib(1) sample_ranges reachable_docker.new lib(2) sample_project_16_ok this, of "''p''" "[]"]
  show "\<exists>m1 e. Up sample_dlib_16 sample_env ''p'' [] NewDockerMockManager = (Err (Errorf ''too many networks'' []), m1)
      \<and> card (dom (networks (dmState m1))) = 15 \<and> fst (Down sample_dlib_16 sample_env ''p'' [] m1) = Err e"
    by (auto simp: sample_project_16_sets)
qed

end
