(* ===== verification/Go_Files.thy ===== *)
theory Go_Files
  imports Go_Effects Go_Strings "HOL-Library.AList" "HOL-Library.List_Lexorder" "HOL-Library.Char_ord"
begin

text \<open>
  What the filesystem manager uses of packages \<open>os\<close> and \<open>path/filepath\<close>: a disk is a tree of
  directories and files, a path the list of its components. Every call that reaches the operating
  system may fail for a reason of its own (the environment decides, by the number of the call);
  otherwise it does what it is documented to do. A mode is its nine permission bits; owners, times
  and symbolic links are left out, a link being an irregular file like any other.
\<close>

section \<open>Paths\<close>

type_synonym path = "string list"

text \<open>\<open>filepath.Clean\<close> on the components of an absolute path; the components so far are in reverse.\<close>

fun clean :: "string list \<Rightarrow> string list \<Rightarrow> path" where
  "clean acc [] = rev acc"
| "clean acc (c # cs) =
     (if c = [] \<or> c = ''.'' then clean acc cs
      else if c = ''..'' then clean (tl acc) cs
      else clean (c # acc) cs)"

text \<open>
  \<open>filepath.Join(dir, name)\<close>, resolved against the working directory where it is relative. The
  empty string is \<open>None\<close>.
\<close>

definition Join_path :: "path \<Rightarrow> path option \<Rightarrow> string \<Rightarrow> path option" where
  "Join_path cwd dir name =
     (case dir of
        Some p \<Rightarrow> Some (clean [] (p @ Split name (CHR ''/'')))
      | None \<Rightarrow>
          if name = [] then None
          else if HasPrefix name ''/'' then Some (clean [] (Split name (CHR ''/'')))
          else Some (clean [] (cwd @ Split name (CHR ''/''))))"

definition path_text :: "path \<Rightarrow> string" where
  "path_text p = (if p = [] then ''/'' else concat (map (\<lambda>c. CHR ''/'' # c) p))"

definition dir_text :: "path option \<Rightarrow> string" where
  "dir_text d = (case d of None \<Rightarrow> [] | Some p \<Rightarrow> path_text p)"

text \<open>A path whose components \<open>Clean\<close> leaves alone, and a name that is one such component.\<close>

definition plain_name :: "string \<Rightarrow> bool" where
  "plain_name c \<longleftrightarrow> c \<noteq> [] \<and> c \<noteq> ''.'' \<and> c \<noteq> ''..'' \<and> CHR ''/'' \<notin> set c"

lemma clean_plain: "list_all plain_name p \<Longrightarrow> clean acc p = rev acc @ p"
  by (induction p arbitrary: acc) (auto simp: plain_name_def)

lemma Join_path_plain:
  "list_all plain_name p \<Longrightarrow> plain_name n \<Longrightarrow> Join_path cwd (Some p) n = Some (p @ [n])"
  by (simp add: Join_path_def Split_no_sep clean_plain plain_name_def)

section \<open>The tree\<close>

type_synonym mode = "9 word"

datatype node =
    File mode "u8 list"
  | Dir mode "(string \<times> node) list" \<comment> \<open>its entries in the order of their names\<close>
  | Irregular mode

fun lookup :: "node \<Rightarrow> path \<Rightarrow> node option" where
  "lookup t [] = Some t"
| "lookup (Dir m es) (x # xs) = (case map_of es x of None \<Rightarrow> None | Some u \<Rightarrow> lookup u xs)"
| "lookup t (x # xs) = None"

definition insert_entry :: "string \<Rightarrow> node \<Rightarrow> (string \<times> node) list \<Rightarrow> (string \<times> node) list" where
  "insert_entry x u es =
     (if x \<in> fst ` set es then AList.update x u es else insort_key fst (x, u) es)"

text \<open>Putting a node at a path whose parent exists, or taking the node there away.\<close>

fun put :: "path \<Rightarrow> node option \<Rightarrow> node \<Rightarrow> node" where
  "put [] v t = (case v of None \<Rightarrow> t | Some u \<Rightarrow> u)"
| "put (x # xs) v (Dir m es) =
     (if xs = []
      then Dir m (case v of None \<Rightarrow> AList.delete x es | Some u \<Rightarrow> insert_entry x u es)
      else (case map_of es x of
              None \<Rightarrow> Dir m es
            | Some u \<Rightarrow> Dir m (insert_entry x (put xs v u) es)))"
| "put (x # xs) v t = t"

section \<open>Lemmas on the tree\<close>

lemma update_same: "map_of es x = Some u \<Longrightarrow> AList.update x u es = es"
  by (induction es) auto

lemma update_update: "AList.update x u (AList.update x w es) = AList.update x u es"
  by (induction es) auto

lemma update_insort:
  "x \<notin> fst ` set es \<Longrightarrow> AList.update x u (insort_key fst (x, w) es) = insort_key fst (x, u) es"
  by (induction es) auto

lemma insert_entry_same: "map_of es x = Some u \<Longrightarrow> insert_entry x u es = es"
  by (simp add: insert_entry_def update_same) (metis domI dom_map_of_conv_image_fst)

lemma fst_update [simp]: "fst ` set (AList.update x u es) = insert x (fst ` set es)"
  by (induction es) auto

lemma insert_entry_twice: "insert_entry x u (insert_entry x w es) = insert_entry x u es"
  by (auto simp: insert_entry_def update_update update_insort set_insort_key)

lemma map_of_insort: "x \<notin> fst ` set es \<Longrightarrow> map_of (insort_key fst (x, u) es) = (map_of es)(x \<mapsto> u)"
  by (induction es) (auto simp: fun_eq_iff)

lemma map_of_insert [simp]: "map_of (insert_entry x u es) = (map_of es)(x \<mapsto> u)"
  by (auto simp: insert_entry_def map_of_insort update_conv')

lemma lookup_append: "lookup t (p @ q) = (case lookup t p of None \<Rightarrow> None | Some u \<Rightarrow> lookup u q)"
proof (induction t p rule: lookup.induct)
  case (2 m es x xs)
  then show ?case by (cases "map_of es x") auto
qed auto

lemma put_put: "put p (Some u) (put p (Some w) t) = put p (Some u) t"
proof (induction p "Some u" t rule: put.induct)
  case (2 x xs m es)
  then show ?case by (cases "map_of es x") (auto simp: insert_entry_twice)
qed auto

lemma lookup_put: "lookup t p \<noteq> None \<Longrightarrow> lookup (put p (Some u) t) p = Some u"
proof (induction p "Some u" t rule: put.induct)
  case (2 x xs m es)
  then show ?case by (cases "map_of es x") auto
qed auto

lemma put_self: "lookup t p = Some u \<Longrightarrow> put p (Some u) t = t"
proof (induction p "Some u" t rule: put.induct)
  case (2 x xs m es)
  then show ?case by (cases "map_of es x") (auto simp: insert_entry_same split: if_splits)
qed auto

lemma put_child:
  "lookup t q = Some (Dir m es) \<Longrightarrow> put (q @ [x]) v t = put q (Some (Dir m
     (case v of None \<Rightarrow> AList.delete x es | Some u \<Rightarrow> insert_entry x u es))) t"
proof (induction q arbitrary: t)
  case Nil
  then show ?case by simp
next
  case (Cons y q)
  then show ?case by (cases t) (auto split: option.splits)
qed

text \<open>Two paths that part somewhere.\<close>

definition apart :: "path \<Rightarrow> path \<Rightarrow> bool" where
  "apart p q \<longleftrightarrow> (\<exists>r x xs y ys. p = r @ x # xs \<and> q = r @ y # ys \<and> x \<noteq> y)"

lemma apart_sym: "apart p q \<Longrightarrow> apart q p"
  unfolding apart_def by metis

lemma apart_append: "apart p q \<Longrightarrow> apart (p @ r) (q @ s)"
  unfolding apart_def by force

lemma lookup_put_apart: "apart p q \<Longrightarrow> lookup (put p v t) q = lookup t q"
proof -
  have "lookup (put (r @ x # xs) v t) (r @ y # ys) = lookup t (r @ y # ys)" if "x \<noteq> y" for r x xs y ys
  proof (induction r arbitrary: t)
    case Nil
    then show ?case using that by (cases t) (auto simp: delete_conv' split: option.splits)
  next
    case (Cons z r)
    then show ?case by (cases t) (auto split: option.splits)
  qed
  then show "apart p q \<Longrightarrow> lookup (put p v t) q = lookup t q" by (auto simp: apart_def)
qed

lemma lookup_put_below:
  "lookup t p \<noteq> None \<Longrightarrow> lookup (put p (Some u) t) (p @ q) = lookup u q"
  by (simp add: lookup_append lookup_put)

end
