(* ===== verification/Filesystem.thy ===== *)
theory Filesystem
  imports Go_Files
begin

text \<open>
  \<open>filesystem/manager.go\<close>: the manager of the folder that holds the files of a test, with its
  snapshots, one folder each in a folder of their own. The state is the manager together with the
  disk and the number of calls made to the operating system so far.
\<close>

section \<open>The operating system\<close>

record FilesystemManager =
  fmTestDir :: "path option" \<comment> \<open>\<open>None\<close> for the empty string\<close>
  fmSnapshotDir :: "path option"
  fmDisk :: node
  fmCalls :: nat

type_synonym 'a fop = "(FilesystemManager, 'a) op"

text \<open>
  What the environment decides: the umask, the folder for temporary files, the working directory;
  by number of the call whether it fails, what a failed removal or copy leaves behind, and the
  random part of a temporary name.
\<close>

record fs_env =
  umask :: mode
  temp_dir :: path
  work_dir :: path
  fault_at :: "nat \<Rightarrow> error option"
  left_at :: "nat \<Rightarrow> node \<Rightarrow> node"
  random_at :: "nat \<Rightarrow> string"

definition ErrNotExist :: error where "ErrNotExist = External ''file does not exist''"
definition ErrExist :: error where "ErrExist = External ''file already exists''"
definition ErrNotDir :: error where "ErrNotDir = External ''not a directory''"
definition ErrIsDir :: error where "ErrIsDir = External ''is a directory''"
definition ErrInvalid :: error where "ErrInvalid = External ''invalid argument''"

lemma os_errors_differ [simp]:
  "ErrExist \<noteq> ErrNotExist" "ErrNotDir \<noteq> ErrNotExist" "ErrIsDir \<noteq> ErrNotExist" "ErrInvalid \<noteq> ErrNotExist"
  by (simp_all add: ErrExist_def ErrNotExist_def ErrNotDir_def ErrIsDir_def ErrInvalid_def)

text \<open>One call: \<open>f\<close> is what it does, \<open>broken\<close> what a failure may leave of the disk.\<close>

definition os_call ::
  "fs_env \<Rightarrow> (nat \<Rightarrow> node \<Rightarrow> node) \<Rightarrow> (node \<Rightarrow> error + 'a \<times> node) \<Rightarrow> 'a fop" where
  "os_call env broken f m =
     (let m1 = m\<lparr>fmCalls := fmCalls m + 1\<rparr> in
      case fault_at env (fmCalls m) of
        Some e \<Rightarrow> (Err e, m1\<lparr>fmDisk := broken (fmCalls m) (fmDisk m)\<rparr>)
      | None \<Rightarrow>
          (case f (fmDisk m) of
             Inl e \<Rightarrow> (Err e, m1)
           | Inr (x, d) \<Rightarrow> (Ok x, m1\<lparr>fmDisk := d\<rparr>)))"

definition untouched :: "nat \<Rightarrow> node \<Rightarrow> node" where
  "untouched k d = d"

text \<open>Following a path down the tree.\<close>

fun resolve :: "node \<Rightarrow> path \<Rightarrow> error + node" where
  "resolve t [] = Inr t"
| "resolve (Dir m es) (x # xs) =
     (case map_of es x of None \<Rightarrow> Inl ErrNotExist | Some u \<Rightarrow> resolve u xs)"
| "resolve t (x # xs) = Inl ErrNotDir"

definition resolve_opt :: "node \<Rightarrow> path option \<Rightarrow> error + node" where
  "resolve_opt d p = (case p of None \<Rightarrow> Inl ErrNotExist | Some q \<Rightarrow> resolve d q)"

definition Lstat :: "fs_env \<Rightarrow> path option \<Rightarrow> node fop" where
  "Lstat env p = os_call env untouched (\<lambda>d.
     case resolve_opt d p of Inl e \<Rightarrow> Inl e | Inr t \<Rightarrow> Inr (t, d))"

definition ReadFile :: "fs_env \<Rightarrow> path option \<Rightarrow> u8 list fop" where
  "ReadFile env p = os_call env untouched (\<lambda>d.
     case resolve_opt d p of
       Inl e \<Rightarrow> Inl e
     | Inr (File m c) \<Rightarrow> Inr (c, d)
     | Inr (Dir m es) \<Rightarrow> Inl ErrIsDir
     | Inr (Irregular m) \<Rightarrow> Inl ErrInvalid)"

text \<open>A new directory at a path, if its parent is a directory and has no such entry.\<close>

definition make_dir :: "mode \<Rightarrow> path \<Rightarrow> node \<Rightarrow> error + unit \<times> node" where
  "make_dir mo p d =
     (if p = [] then Inl ErrExist
      else case resolve d (butlast p) of
        Inl e \<Rightarrow> Inl e
      | Inr (Dir m es) \<Rightarrow>
          (if map_of es (last p) = None then Inr ((), put p (Some (Dir mo [])) d) else Inl ErrExist)
      | Inr _ \<Rightarrow> Inl ErrNotDir)"

definition Mkdir :: "fs_env \<Rightarrow> path option \<Rightarrow> mode \<Rightarrow> unit fop" where
  "Mkdir env p mo = os_call env untouched (\<lambda>d.
     case p of None \<Rightarrow> Inl ErrNotExist | Some q \<Rightarrow> make_dir (and mo (not (umask env))) q d)"

definition ensure_dir :: "fs_env \<Rightarrow> mode \<Rightarrow> path \<Rightarrow> unit fop" where
  "ensure_dir env mo q = os_call env untouched (\<lambda>d.
     case resolve d q of
       Inr (Dir m es) \<Rightarrow> Inr ((), d)
     | Inr _ \<Rightarrow> Inl ErrNotDir
     | Inl e \<Rightarrow> make_dir (and mo (not (umask env))) q d)"

definition MkdirAll :: "fs_env \<Rightarrow> path option \<Rightarrow> mode \<Rightarrow> unit fop" where
  "MkdirAll env p mo =
     (case p of
        None \<Rightarrow> fail_op ErrNotExist
      | Some q \<Rightarrow> for_each (ensure_dir env mo) (map (\<lambda>n. take n q) [1..<Suc (length q)]))"

text \<open>\<open>RemoveAll\<close> of the empty string, or of a path that leads nowhere, does nothing.\<close>

definition RemoveAll :: "fs_env \<Rightarrow> path option \<Rightarrow> unit fop" where
  "RemoveAll env p =
     (case p of
        None \<Rightarrow> return_op ()
      | Some q \<Rightarrow> os_call env (left_at env) (\<lambda>d.
          if q = [] then Inl ErrInvalid
          else case resolve d q of
            Inl e \<Rightarrow> if e = ErrNotExist then Inr ((), d) else Inl e
          | Inr _ \<Rightarrow> Inr ((), put q None d)))"

text \<open>\<open>Create\<close> truncates a file that exists, keeping its mode.\<close>

definition Create :: "fs_env \<Rightarrow> path option \<Rightarrow> unit fop" where
  "Create env p = os_call env untouched (\<lambda>d.
     case p of
       None \<Rightarrow> Inl ErrNotExist
     | Some q \<Rightarrow>
         (if q = [] then Inl ErrIsDir
          else case resolve d (butlast q) of
            Inl e \<Rightarrow> Inl e
          | Inr (Dir m es) \<Rightarrow>
              (case map_of es (last q) of
                 None \<Rightarrow> Inr ((), put q (Some (File (and 438 (not (umask env))) [])) d)
               | Some (File fm c) \<Rightarrow> Inr ((), put q (Some (File fm [])) d)
               | Some (Dir dm es') \<Rightarrow> Inl ErrIsDir
               | Some (Irregular im) \<Rightarrow> Inl ErrInvalid)
          | Inr _ \<Rightarrow> Inl ErrNotDir))"

text \<open>Changing an open file: its mode, or its content by \<open>io.Copy\<close>, which may stop half-way.\<close>

definition change_file ::
  "fs_env \<Rightarrow> (nat \<Rightarrow> node \<Rightarrow> node) \<Rightarrow> path option \<Rightarrow> (mode \<Rightarrow> u8 list \<Rightarrow> node) \<Rightarrow> unit fop" where
  "change_file env broken p f = os_call env broken (\<lambda>d.
     case p of
       None \<Rightarrow> Inl ErrInvalid
     | Some q \<Rightarrow>
         (case resolve d q of
            Inr (File m c) \<Rightarrow> Inr ((), put q (Some (f m c)) d)
          | _ \<Rightarrow> Inl ErrInvalid))"

definition Chmod :: "fs_env \<Rightarrow> path option \<Rightarrow> mode \<Rightarrow> unit fop" where
  "Chmod env p mo = change_file env untouched p (\<lambda>m c. File mo c)"

definition io_Copy :: "fs_env \<Rightarrow> path option \<Rightarrow> u8 list \<Rightarrow> unit fop" where
  "io_Copy env p content = change_file env (left_at env) p (\<lambda>m c. File m (c @ content))"

text \<open>\<open>MkdirTemp\<close> tries ten thousand random names.\<close>

fun temp_tries :: "fs_env \<Rightarrow> string \<Rightarrow> nat \<Rightarrow> path fop" where
  "temp_tries env prefix 0 m = (Err ErrExist, m)"
| "temp_tries env prefix (Suc n) m =
     (let p = temp_dir env @ [prefix @ random_at env (fmCalls m)] in
      case Mkdir env (Some p) 448 m of
        (Ok _, m1) \<Rightarrow> (Ok p, m1)
      | (Err e, m1) \<Rightarrow> if e = ErrExist then temp_tries env prefix n m1 else (Err e, m1)
      | (Panic x, m1) \<Rightarrow> (Panic x, m1))"

definition MkdirTemp :: "fs_env \<Rightarrow> string \<Rightarrow> path fop" where
  "MkdirTemp env prefix = temp_tries env prefix 10000"

section \<open>Copying a directory\<close>

text \<open>
  What \<open>filepath.Walk\<close> visits: a directory before its entries, the entries in the order of their
  names, each path with what is there. The names are read while the walk goes on; since the copy
  is written outside the folder that is walked, they can be taken from the tree as it is at the
  start.
\<close>

fun walk_list :: "path \<Rightarrow> node \<Rightarrow> (path \<times> node) list"
  and walk_all :: "path \<Rightarrow> (string \<times> node) list \<Rightarrow> (path \<times> node) list" where
  "walk_list p (File m c) = [(p, File m c)]"
| "walk_list p (Irregular m) = [(p, Irregular m)]"
| "walk_list p (Dir m es) = (p, Dir m es) # walk_all p es"
| "walk_all p [] = []"
| "walk_all p ((x, u) # es) = walk_list (p @ [x]) u @ walk_all p es"

definition target_of :: "fs_env \<Rightarrow> path option \<Rightarrow> path option \<Rightarrow> path \<Rightarrow> path option" where
  "target_of env source target p =
     Join_path (work_dir env) target (TrimPrefix (path_text p) (dir_text source))"

definition walker ::
  "fs_env \<Rightarrow> path option \<Rightarrow> path option \<Rightarrow> path \<Rightarrow> node \<Rightarrow> unit fop" where
  "walker env source target p info =
     (let targetPath = target_of env source target p in
      case info of
        Dir m es \<Rightarrow> MkdirAll env targetPath m
      | Irregular m \<Rightarrow> fail_op (Errorf ''file [%s] is irregular, copying is not supported'' [path_text p])
      | File m c \<Rightarrow>
          bind_op (Lstat env (Some p)) (\<lambda>opened.
          bind_op (Create env targetPath) (\<lambda>_.
          bind_op (wrap_op ''error setting permissions on file [%s]: %w'' [dir_text targetPath]
                     (Chmod env targetPath m)) (\<lambda>_.
          case opened of
            File m' content \<Rightarrow> io_Copy env targetPath content
          | _ \<Rightarrow> fail_op ErrIsDir))))"

text \<open>One step of the walk: everything but the root is looked up first, a directory is read.\<close>

definition walk_step ::
  "fs_env \<Rightarrow> path option \<Rightarrow> path option \<Rightarrow> path \<times> node \<Rightarrow> unit fop" where
  "walk_step env source target = (\<lambda>(p, info).
     bind_op (if Some p = source then return_op () else bind_op (Lstat env (Some p)) (\<lambda>_. return_op ())) (\<lambda>_.
     bind_op (case info of Dir m es \<Rightarrow> bind_op (Lstat env (Some p)) (\<lambda>_. return_op ()) | _ \<Rightarrow> return_op ()) (\<lambda>_.
     walker env source target p info)))"

definition copyDirectory :: "fs_env \<Rightarrow> path option \<Rightarrow> path option \<Rightarrow> unit fop" where
  "copyDirectory env source target =
     bind_op (Lstat env source) (\<lambda>t.
     for_each (walk_step env source target) (walk_list (case source of None \<Rightarrow> [] | Some p \<Rightarrow> p) t))"

section \<open>The manager\<close>

definition set_dirs :: "path option \<Rightarrow> path option \<Rightarrow> FilesystemManager \<Rightarrow> FilesystemManager" where
  "set_dirs test snap m = m\<lparr>fmTestDir := test, fmSnapshotDir := snap\<rparr>"

definition NewFilesystemManager :: "fs_env \<Rightarrow> unit fop" where
  "NewFilesystemManager env =
     bind_op (wrap_op ''error creating test dir: %v'' [] (MkdirTemp env ''osha-'')) (\<lambda>dir.
     bind_op (wrap_op ''error creating snapshot dir: %v'' [] (MkdirTemp env ''osha-snapshots-'')) (\<lambda>snap.
     modify_op (set_dirs (Some dir) (Some snap))))"

definition GetTestDir :: "FilesystemManager \<Rightarrow> string" where
  "GetTestDir m = dir_text (fmTestDir m)"

text \<open>Removing one of the two folders; an error of one that does not exist is ignored.\<close>

definition close_dir :: "fs_env \<Rightarrow> path option \<Rightarrow> unit fop" where
  "close_dir env d m =
     (case d of
        None \<Rightarrow> (Ok (), m)
      | Some p \<Rightarrow>
          (case RemoveAll env d m of
             (Err e, m1) \<Rightarrow>
               if e \<noteq> ErrNotExist
               then (Err (Wrapf ''error removing test dir [%s]: %v'' [dir_text d] e), m1)
               else (Ok (), m1)
           | r \<Rightarrow> r))"

definition fs_Close :: "fs_env \<Rightarrow> unit fop" where
  "fs_Close env =
     bind_op (read_op fmTestDir) (\<lambda>test.
     bind_op (close_dir env test) (\<lambda>_.
     bind_op (modify_op (\<lambda>m. m\<lparr>fmTestDir := None\<rparr>)) (\<lambda>_.
     bind_op (read_op fmSnapshotDir) (\<lambda>snap.
     bind_op (close_dir env snap) (\<lambda>_.
     modify_op (\<lambda>m. m\<lparr>fmSnapshotDir := None\<rparr>))))))"

text \<open>Looking at what a call returned, an error included.\<close>

definition attempt :: "('s, 'a) op \<Rightarrow> ('s, error + 'a) op" where
  "attempt m s =
     (case m s of (Ok x, t) \<Rightarrow> (Ok (Inr x), t) | (Err e, t) \<Rightarrow> (Ok (Inl e), t) | (Panic p, t) \<Rightarrow> (Panic p, t))"

definition fs_TakeSnapshot :: "fs_env \<Rightarrow> string \<Rightarrow> unit fop" where
  "fs_TakeSnapshot env name =
     bind_op (read_op (\<lambda>m. Join_path (work_dir env) (fmSnapshotDir m) name)) (\<lambda>snapshotPath.
     bind_op (attempt (ReadFile env snapshotPath)) (\<lambda>found.
     if found \<noteq> Inl ErrNotExist
     then fail_op (Errorf ''snapshot with name [%s] already exists'' [name])
     else bind_op (wrap_op ''error creating snapshot dir [%s]: %v'' [dir_text snapshotPath]
                     (Mkdir env snapshotPath 493)) (\<lambda>_.
          bind_op (read_op fmTestDir) (\<lambda>testDir.
          wrap_op ''error copying test dir to snapshot dir: %v'' []
            (copyDirectory env testDir snapshotPath)))))"

definition fs_RevertToSnapshot :: "fs_env \<Rightarrow> string \<Rightarrow> unit fop" where
  "fs_RevertToSnapshot env name =
     bind_op (read_op (\<lambda>m. Join_path (work_dir env) (fmSnapshotDir m) name)) (\<lambda>snapshotPath.
     bind_op (attempt (ReadFile env snapshotPath)) (\<lambda>found.
     if found = Inl ErrNotExist
     then fail_op (Errorf ''snapshot with name [%s] doesn't exist'' [name])
     else bind_op (read_op fmTestDir) (\<lambda>testDir.
          bind_op (wrap_op ''error removing test dir [%s]: %v'' [dir_text testDir]
                     (RemoveAll env testDir)) (\<lambda>_.
          bind_op (wrap_op ''error recreating test dir [%s]: %v'' [dir_text testDir]
                     (Mkdir env testDir 493)) (\<lambda>_.
          wrap_op ''error copying snapshot dir to test dir: %v'' []
            (copyDirectory env snapshotPath testDir))))))"

end
