(* ===== verification/Filesystem_Copy.thy ===== *)
theory Filesystem_Copy
  imports Filesystem
begin

text \<open>
  What \<open>copyDirectory\<close> leaves when no call to the operating system fails: below the target the tree
  of the source, every file with its content and mode, every directory with its mode less the
  umask.
\<close>

section \<open>Calls that do not fail\<close>

definition calm :: "fs_env \<Rightarrow> bool" where
  "calm env \<longleftrightarrow> (\<forall>k. fault_at env k = None)"

text \<open>The operation succeeds with a value and leaves the disk \<open>d\<close>; only calls were made.\<close>

definition reaches :: "'a fop \<Rightarrow> FilesystemManager \<Rightarrow> 'a \<Rightarrow> node \<Rightarrow> bool" where
  "reaches f m x d \<longleftrightarrow> (\<exists>k. f m = (Ok x, m\<lparr>fmCalls := k, fmDisk := d\<rparr>))"

lemma os_call_reaches:
  "calm env \<Longrightarrow> f (fmDisk m) = Inr (x, d) \<Longrightarrow> reaches (os_call env b f) m x d"
  by (auto simp: reaches_def os_call_def calm_def Let_def)

lemma os_call_fails:
  "calm env \<Longrightarrow> f (fmDisk m) = Inl e \<Longrightarrow> os_call env b f m = (Err e, m\<lparr>fmCalls := fmCalls m + 1\<rparr>)"
  by (simp add: os_call_def calm_def)

lemma same_manager [simp]: "m\<lparr>fmCalls := fmCalls m, fmDisk := fmDisk m\<rparr> = m"
  by simp

lemma reaches_same: "f m = (Ok x, m) \<Longrightarrow> reaches f m x (fmDisk m)"
  unfolding reaches_def by (metis same_manager)

lemma reaches_return [simp]: "reaches (return_op x) m x (fmDisk m)"
  by (rule reaches_same) simp

lemma reaches_read: "reaches (read_op f) m (f m) (fmDisk m)"
  by (rule reaches_same) simp

lemma reaches_bind:
  assumes "reaches f m x d" and "\<And>k. reaches (g x) (m\<lparr>fmCalls := k, fmDisk := d\<rparr>) y e"
  shows "reaches (bind_op f g) m y e"
  using assms unfolding reaches_def by fastforce

lemma reaches_wrap: "reaches f m x d \<Longrightarrow> reaches (wrap_op fmt args f) m x d"
  by (auto simp: reaches_def)

lemma reaches_for_each_append:
  assumes "reaches (for_each f xs) m () d" and "\<And>k. reaches (for_each f ys) (m\<lparr>fmCalls := k, fmDisk := d\<rparr>) () e"
  shows "reaches (for_each f (xs @ ys)) m () e"
proof -
  have "for_each f (xs @ ys) = bind_op (for_each f xs) (\<lambda>_. for_each f ys)"
    by (rule ext) (simp add: for_each_append)
  then show ?thesis using reaches_bind [OF assms] by simp
qed

lemma reaches_for_each_Cons:
  assumes "reaches (f x) m () d" and "\<And>k. reaches (for_each f xs) (m\<lparr>fmCalls := k, fmDisk := d\<rparr>) () e"
  shows "reaches (for_each f (x # xs)) m () e"
proof -
  have "for_each f (x # xs) = bind_op (f x) (\<lambda>_. for_each f xs)" by (rule ext) simp
  then show ?thesis using reaches_bind [OF assms] by simp
qed

lemma reaches_Nil: "reaches (for_each f []) m () (fmDisk m)"
  by (rule reaches_same) simp

section \<open>Single calls\<close>

lemma resolve_lookup: "resolve t p = Inr u \<longleftrightarrow> lookup t p = Some u"
proof (induction t p rule: resolve.induct)
  case (2 m es x xs)
  then show ?case by (cases "map_of es x") auto
qed auto

lemma Lstat_reaches:
  "calm env \<Longrightarrow> lookup (fmDisk m) p = Some t \<Longrightarrow> reaches (Lstat env (Some p)) m t (fmDisk m)"
  by (simp add: Lstat_def os_call_reaches resolve_opt_def resolve_lookup [symmetric])

lemma make_dir_eq:
  assumes "lookup d q = Some (Dir m es)" and "map_of es x = None"
  shows "make_dir mo (q @ [x]) d = Inr ((), put (q @ [x]) (Some (Dir mo [])) d)"
  using assms resolve_lookup [of d q "Dir m es"] by (simp add: make_dir_def)

lemma Mkdir_reaches:
  assumes "calm env" and "lookup (fmDisk m) q = Some (Dir pm es)" and "map_of es x = None"
  shows "reaches (Mkdir env (Some (q @ [x])) mo) m ()
    (put (q @ [x]) (Some (Dir (and mo (not (umask env))) [])) (fmDisk m))"
  unfolding Mkdir_def by (rule os_call_reaches) (simp_all add: assms make_dir_eq [OF assms(2,3)])

lemma lookup_prefix: "lookup t (p @ x # xs) = Some u \<Longrightarrow> \<exists>m es. lookup t p = Some (Dir m es)"
  by (cases "lookup t p") (auto simp: lookup_append elim: lookup.elims split: option.splits)

lemma ensure_existing:
  "calm env \<Longrightarrow> lookup (fmDisk m) q = Some (Dir dm es) \<Longrightarrow> reaches (ensure_dir env mo q) m () (fmDisk m)"
  by (simp add: ensure_dir_def os_call_reaches resolve_lookup [symmetric])

lemma ensure_all_existing:
  assumes env: "calm env"
  shows "(\<And>p. p \<in> set ps \<Longrightarrow> \<exists>dm es. lookup (fmDisk m) p = Some (Dir dm es))
    \<Longrightarrow> reaches (for_each (ensure_dir env mo) ps) m () (fmDisk m)"
proof (induction ps arbitrary: m)
  case Nil
  show ?case by (rule reaches_Nil)
next
  case (Cons p ps)
  obtain dm es where "lookup (fmDisk m) p = Some (Dir dm es)" using Cons.prems [of p] by auto
  moreover have "reaches (for_each (ensure_dir env mo) ps) (m\<lparr>fmCalls := k, fmDisk := fmDisk m\<rparr>) ()
      (fmDisk (m\<lparr>fmCalls := k, fmDisk := fmDisk m\<rparr>))" for k
    by (rule Cons.IH) (use Cons.prems in auto)
  ultimately show ?case
    by (intro reaches_for_each_Cons [where d = "fmDisk m"] ensure_existing [OF env]) simp_all
qed

lemma MkdirAll_existing:
  assumes "calm env" and "lookup (fmDisk m) q = Some (Dir dm es)"
  shows "reaches (MkdirAll env (Some q) mo) m () (fmDisk m)"
proof -
  have "\<exists>dm es. lookup (fmDisk m) (take n q) = Some (Dir dm es)" for n
  proof (cases "drop n q")
    case Nil
    then show ?thesis using assms(2) by simp
  next
    case (Cons x xs)
    then have "q = take n q @ x # xs" using append_take_drop_id [of n q] by simp
    then show ?thesis using assms(2) lookup_prefix [of _ "take n q" x xs] by metis
  qed
  then show ?thesis
    unfolding MkdirAll_def option.case by (intro ensure_all_existing [OF assms(1)]) (auto simp del: upt_Suc)
qed

lemma MkdirAll_new:
  assumes env: "calm env" and q: "lookup (fmDisk m) q = Some (Dir dm es)" and x: "map_of es x = None"
  shows "reaches (MkdirAll env (Some (q @ [x])) mo) m ()
    (put (q @ [x]) (Some (Dir (and mo (not (umask env))) [])) (fmDisk m))"
proof -
  have split: "map (\<lambda>n. take n (q @ [x])) [1..<Suc (length (q @ [x]))]
      = map (\<lambda>n. take n q) [1..<Suc (length q)] @ [q @ [x]]"
    by (subst length_append_singleton, subst upt_Suc_append) (auto simp del: upt_Suc)
  have "resolve (fmDisk m) (q @ [x]) = Inl e \<or> resolve (fmDisk m) (q @ [x]) = Inr t \<Longrightarrow>
      \<not> (\<exists>t. resolve (fmDisk m) (q @ [x]) = Inr t)" for e t
    using q x by (auto simp: resolve_lookup lookup_append)
  then obtain e where e: "resolve (fmDisk m) (q @ [x]) = Inl e" by (cases "resolve (fmDisk m) (q @ [x])") auto
  have last: "reaches (ensure_dir env mo (q @ [x])) (m\<lparr>fmCalls := k, fmDisk := fmDisk m\<rparr>) ()
      (put (q @ [x]) (Some (Dir (and mo (not (umask env))) [])) (fmDisk m))" for k
    unfolding ensure_dir_def by (rule os_call_reaches) (simp_all add: env e make_dir_eq [OF q x])
  show ?thesis
    unfolding MkdirAll_def option.case split
  proof (rule reaches_for_each_append)
    show "reaches (for_each (ensure_dir env mo) (map (\<lambda>n. take n q) [1..<Suc (length q)])) m () (fmDisk m)"
      using MkdirAll_existing [OF env q, of mo] by (simp add: MkdirAll_def)
    show "reaches (for_each (ensure_dir env mo) [q @ [x]]) (m\<lparr>fmCalls := k, fmDisk := fmDisk m\<rparr>) ()
      (put (q @ [x]) (Some (Dir (and mo (not (umask env))) [])) (fmDisk m))" for k
      by (rule reaches_for_each_Cons, rule last) (auto simp: reaches_def)
  qed
qed

section \<open>Copying a tree\<close>

text \<open>What a copy is: directories lose the bits of the umask.\<close>

fun copied :: "mode \<Rightarrow> node \<Rightarrow> node"
  and copied_all :: "mode \<Rightarrow> (string \<times> node) list \<Rightarrow> (string \<times> node) list" where
  "copied um (File m c) = File m c"
| "copied um (Irregular m) = Irregular m"
| "copied um (Dir m es) = Dir (and m (not um)) (copied_all um es)"
| "copied_all um [] = []"
| "copied_all um ((x, u) # es) = (x, copied um u) # copied_all um es"

text \<open>Trees the walk can copy: proper names in order, no irregular files.\<close>

fun copyable :: "node \<Rightarrow> bool"
  and copyable_all :: "(string \<times> node) list \<Rightarrow> bool" where
  "copyable (File m c) \<longleftrightarrow> True"
| "copyable (Irregular m) \<longleftrightarrow> False"
| "copyable (Dir m es) \<longleftrightarrow> copyable_all es"
| "copyable_all [] \<longleftrightarrow> True"
| "copyable_all ((x, u) # es) \<longleftrightarrow>
     plain_name x \<and> (\<forall>y\<in>fst ` set es. x < y) \<and> copyable u \<and> copyable_all es"

lemma fst_copied_all [simp]: "map fst (copied_all um es) = map fst es"
  by (induction es) auto

lemma insort_last:
  fixes x :: string
  assumes "\<forall>y\<in>fst ` set es. y < x"
  shows "insort_key fst (x, u) es = es @ [(x, u)]"
  using assms by (induction es) (auto simp: not_le)

lemma insert_entry_last: "\<forall>y\<in>fst ` set es. y < x \<Longrightarrow> insert_entry x u es = es @ [(x, u)]"
  by (auto simp: insert_entry_def insort_last)

lemma map_of_last:
  fixes x :: string
  assumes "\<forall>y\<in>fst ` set es. y < x"
  shows "map_of es x = None"
  using assms by (auto simp: map_of_eq_None_iff)

text \<open>The path a copy goes to.\<close>

lemma Split_slashes:
  "list_all plain_name rel \<Longrightarrow> Split (concat (map (\<lambda>c. CHR ''/'' # c) rel)) (CHR ''/'') = [] # rel"
proof (induction rel)
  case Nil
  then show ?case by simp
next
  case (Cons c rel)
  then show ?case
  proof (cases rel)
    case Nil
    with Cons.prems show ?thesis by (simp add: Split_no_sep plain_name_def)
  next
    case (Cons d rel')
    then have "Split (c @ CHR ''/'' # d @ concat (map (\<lambda>c. CHR ''/'' # c) rel')) (CHR ''/'')
        = c # Split (d @ concat (map (\<lambda>c. CHR ''/'' # c) rel')) (CHR ''/'')"
      using \<open>list_all plain_name (c # rel)\<close> by (intro Split_append_sep) (simp add: plain_name_def)
    moreover have "Split (d @ concat (map (\<lambda>c. CHR ''/'' # c) rel')) (CHR ''/'') = rel"
      using Cons.IH Cons.prems Cons by (auto simp: Cons)
    ultimately show ?thesis by (simp add: Cons)
  qed
qed

lemma target_of_eq:
  assumes "src \<noteq> []" and "list_all plain_name tgt" and "list_all plain_name rel"
  shows "target_of env (Some src) (Some tgt) (src @ rel) = Some (tgt @ rel)"
proof -
  have "TrimPrefix (path_text (src @ rel)) (path_text src) = concat (map (\<lambda>c. CHR ''/'' # c) rel)"
    using assms(1) by (simp add: path_text_def)
  moreover have "clean [] (tgt @ [] # rel) = tgt @ rel"
  proof -
    have "clean acc (p @ [] # q) = clean acc (p @ q)" for acc p q by (induction p arbitrary: acc) auto
    then show ?thesis using assms(2,3) by (simp add: clean_plain)
  qed
  ultimately show ?thesis
    by (simp add: target_of_def dir_text_def Join_path_def Split_slashes [OF assms(3)])
qed

lemma change_file_reaches:
  assumes "calm env" and "lookup (fmDisk m) q = Some (File fm c)"
  shows "reaches (change_file env broken (Some q) f) m () (put q (Some (f fm c)) (fmDisk m))"
  unfolding change_file_def using resolve_lookup [of "fmDisk m" q "File fm c"] assms
  by (intro os_call_reaches) auto

lemma Create_reaches:
  assumes "calm env" and "lookup (fmDisk m) q = Some (Dir pm es)" and "map_of es x = None"
  shows "reaches (Create env (Some (q @ [x]))) m ()
    (put (q @ [x]) (Some (File (and 438 (not (umask env))) [])) (fmDisk m))"
  unfolding Create_def using resolve_lookup [of "fmDisk m" q "Dir pm es"] assms
  by (intro os_call_reaches) auto

lemma lookup_put_new:
  "lookup d q = Some (Dir pm es) \<Longrightarrow> lookup (put (q @ [x]) (Some u) d) (q @ [x]) = Some u"
  by (simp add: put_child lookup_append lookup_put)

lemma rewrite_reaches:
  assumes env: "calm env" and d: "fmDisk m = put q (Some (File a b)) d"
    and at: "lookup (fmDisk m) q = Some (File a b)"
  shows "reaches (Chmod env (Some q) mo) m () (put q (Some (File mo b)) d)"
    and "reaches (io_Copy env (Some q) c) m () (put q (Some (File a (b @ c))) d)"
  using change_file_reaches [OF env at, of untouched "\<lambda>m c. File mo c"]
    change_file_reaches [OF env at, of "left_at env" "\<lambda>m' b. File m' (b @ c)"]
  unfolding Chmod_def io_Copy_def d put_put by simp_all

text \<open>One step of the walk, below the root: a file, and a directory.\<close>

lemma file_step:
  assumes env: "calm env" and names: "src \<noteq> []" "list_all plain_name tgt" "list_all plain_name (r @ [x])"
    and here: "lookup (fmDisk m) (src @ r @ [x]) = Some (File fm c)"
    and parent: "lookup (fmDisk m) (tgt @ r) = Some (Dir pm es)" "map_of es x = None"
    and apart: "apart tgt src"
  shows "reaches (walk_step env (Some src) (Some tgt) (src @ r @ [x], File fm c)) m ()
    (put (tgt @ r @ [x]) (Some (File fm c)) (fmDisk m))"
proof -
  let ?d = "fmDisk m" and ?q = "(tgt @ r) @ [x]"
  have target: "target_of env (Some src) (Some tgt) (src @ r @ [x]) = Some ?q"
    using target_of_eq [OF names, of env] by simp
  let ?new = "\<lambda>mo c. put ?q (Some (File mo c)) ?d"
  have at: "lookup (?new mo c') ?q = Some (File mo c')" for mo c' by (rule lookup_put_new [OF parent(1)])
  have "reaches (walker env (Some src) (Some tgt) (src @ r @ [x]) (File fm c)) (m\<lparr>fmCalls := k\<rparr>) ()
      (?new fm c)" for k
    unfolding walker_def Let_def target node.case
  proof (intro reaches_bind)
    show "reaches (Lstat env (Some (src @ r @ [x]))) (m\<lparr>fmCalls := k\<rparr>) (File fm c) ?d"
      using Lstat_reaches [OF env, of "m\<lparr>fmCalls := k\<rparr>"] here by simp
    show "reaches (Create env (Some ?q)) (m\<lparr>fmCalls := k, fmCalls := i, fmDisk := ?d\<rparr>) ()
        (?new (and 438 (not (umask env))) [])" for i
      using Create_reaches [OF env, of "m\<lparr>fmCalls := i\<rparr>" "tgt @ r" pm es x] parent by simp
    show "reaches (wrap_op ''error setting permissions on file [%s]: %w'' [dir_text (Some ?q)]
        (Chmod env (Some ?q) fm))
        (m\<lparr>fmCalls := k, fmCalls := i, fmDisk := ?d, fmCalls := j,
           fmDisk := ?new (and 438 (not (umask env))) []\<rparr>) () (?new fm [])" for i j
      by (intro reaches_wrap rewrite_reaches(1) [OF env, of _ ?q _ "[]"]) (simp_all add: at [simplified])
    show "reaches (case File fm c of File m' content \<Rightarrow> io_Copy env (Some ?q) content | _ \<Rightarrow> fail_op ErrIsDir)
        (m\<lparr>fmCalls := k, fmCalls := i, fmDisk := ?d, fmCalls := j,
           fmDisk := ?new (and 438 (not (umask env))) [], fmCalls := l, fmDisk := ?new fm []\<rparr>) ()
        (?new fm c)" for i j l
      using rewrite_reaches(2) [OF env, of "m\<lparr>fmCalls := l, fmDisk := ?new fm []\<rparr>" ?q fm "[]" ?d c]
      by (simp add: at [simplified])
  qed
  note walker = this
  have "reaches (bind_op (Lstat env (Some (src @ r @ [x]))) (\<lambda>_. return_op ())) (m\<lparr>fmCalls := k\<rparr>) () ?d" for k
    using Lstat_reaches [OF env, of "m\<lparr>fmCalls := k\<rparr>" "src @ r @ [x]"] here
    by (intro reaches_bind [where d = ?d]) (auto simp: reaches_def)
  note first = this [of "fmCalls m", simplified]
  show ?thesis
    unfolding walk_step_def case_prod_conv node.case
    by (rule reaches_bind [where d = ?d], use first in simp, rule reaches_bind [where d = ?d])
      (use walker reaches_return [of "()" "m\<lparr>fmCalls := _\<rparr>"] in auto)
qed

lemma looked_up:
  assumes "calm env" and "lookup (fmDisk m) p = Some t"
  shows "reaches (bind_op (Lstat env (Some p)) (\<lambda>_. return_op ())) m () (fmDisk m)"
  using Lstat_reaches [OF assms] by (intro reaches_bind [where d = "fmDisk m"]) (auto simp: reaches_def)

lemma dir_step:
  assumes env: "calm env" and names: "src \<noteq> []" "list_all plain_name tgt" "list_all plain_name rel"
    and here: "lookup (fmDisk m) (src @ rel) = Some (Dir dm ds)"
    and make: "\<And>k. reaches (MkdirAll env (Some (tgt @ rel)) dm) (m\<lparr>fmCalls := k\<rparr>) () d"
  shows "reaches (walk_step env (Some src) (Some tgt) (src @ rel, Dir dm ds)) m () d"
proof -
  let ?look = "bind_op (Lstat env (Some (src @ rel))) (\<lambda>_. return_op ())"
  have look: "reaches ?look (m\<lparr>fmCalls := k\<rparr>) () (fmDisk m)" for k
    using looked_up [OF env, of "m\<lparr>fmCalls := k\<rparr>"] here by simp
  have first: "reaches (if Some (src @ rel) = Some src then return_op () else ?look) m () (fmDisk m)"
    using looked_up [OF env here] reaches_return by simp
  have target: "target_of env (Some src) (Some tgt) (src @ rel) = Some (tgt @ rel)"
    using target_of_eq [OF names, of env] .
  show ?thesis
    unfolding walk_step_def case_prod_conv node.case walker_def Let_def target
  proof (rule reaches_bind [OF first])
    fix k
    show "reaches (bind_op ?look (\<lambda>_. MkdirAll env (Some (tgt @ rel)) dm))
        (m\<lparr>fmCalls := k, fmDisk := fmDisk m\<rparr>) () d"
      by (rule reaches_bind [where d = "fmDisk m"]) (use look make in simp_all)
  qed
qed

lemma copyable_lookup: "copyable_all es \<Longrightarrow> (x, u) \<in> set es \<Longrightarrow> map_of es x = Some u"
  by (induction es) force+

lemma reaches_done: "fmDisk m = d \<Longrightarrow> reaches (for_each f []) m () d"
  using reaches_Nil by metis

text \<open>The whole walk: below \<open>tgt\<close> grows the copy of the tree at \<open>src\<close>.\<close>

lemma walk_copies:
  assumes env: "calm env" and names: "src \<noteq> []" "list_all plain_name tgt" and apart: "apart tgt src"
  shows "\<And>r x m pm es. p = src @ r @ [x] \<Longrightarrow> list_all plain_name (r @ [x]) \<Longrightarrow> copyable t
      \<Longrightarrow> lookup (fmDisk m) p = Some t \<Longrightarrow> lookup (fmDisk m) (tgt @ r) = Some (Dir pm es)
      \<Longrightarrow> map_of es x = None
      \<Longrightarrow> reaches (for_each (walk_step env (Some src) (Some tgt)) (walk_list p t)) m ()
            (put (tgt @ r @ [x]) (Some (copied (umask env) t)) (fmDisk m))"
    and "\<And>rel m tm ready. p = src @ rel \<Longrightarrow> list_all plain_name rel \<Longrightarrow> copyable_all ts
      \<Longrightarrow> (\<forall>(x, u)\<in>set ts. lookup (fmDisk m) (p @ [x]) = Some u)
      \<Longrightarrow> lookup (fmDisk m) (tgt @ rel) = Some (Dir tm ready)
      \<Longrightarrow> (\<forall>x\<in>fst ` set ready. \<forall>y\<in>fst ` set ts. x < y)
      \<Longrightarrow> reaches (for_each (walk_step env (Some src) (Some tgt)) (walk_all p ts)) m ()
            (put (tgt @ rel) (Some (Dir tm (ready @ copied_all (umask env) ts))) (fmDisk m))"
proof (induction p t and p ts rule: walk_list_walk_all.induct)
  case (1 p fm c)
  have "reaches (walk_step env (Some src) (Some tgt) (src @ r @ [x], File fm c)) m ()
    (put (tgt @ r @ [x]) (Some (File fm c)) (fmDisk m))"
    using 1 by (intro file_step [OF env names]) (simp_all add: apart)
  then show ?case unfolding 1(1) walk_list.simps copied.simps
    by (rule reaches_for_each_Cons) (simp add: reaches_done)
next
  case (2 p m)
  then show ?case by simp
next
  case (3 p dm ds)
  let ?d = "put (tgt @ r @ [x]) (Some (Dir (and dm (not (umask env))) [])) (fmDisk m)"
  have target: "lookup ?d (tgt @ r @ [x]) = Some (Dir (and dm (not (umask env))) [])"
    using lookup_put_new [OF 3(6)] by simp
  have "reaches (MkdirAll env (Some ((tgt @ r) @ [x])) dm) (m\<lparr>fmCalls := k\<rparr>) () ?d" for k
    using MkdirAll_new [OF env, of "m\<lparr>fmCalls := k\<rparr>" "tgt @ r" pm es x dm] 3(6,7) by simp
  then have one: "reaches (walk_step env (Some src) (Some tgt) (src @ r @ [x], Dir dm ds)) m () ?d"
    using 3 by (intro dir_step [OF env names]) simp_all
  have "reaches (for_each (walk_step env (Some src) (Some tgt)) (walk_all p ds))
      (m\<lparr>fmCalls := k, fmDisk := ?d\<rparr>) () (put (tgt @ r @ [x])
        (Some (Dir (and dm (not (umask env))) ([] @ copied_all (umask env) ds)))
        (fmDisk (m\<lparr>fmCalls := k, fmDisk := ?d\<rparr>)))" for k
  proof (rule "3.IH")
    show "p = src @ r @ [x]" "list_all plain_name (r @ [x])" "copyable_all ds"
      using 3 by simp_all
    have "lookup (fmDisk m) (p @ [y]) = Some u" if "(y, u) \<in> set ds" for y u
      using copyable_lookup [OF _ that] 3(4,5) by (simp add: lookup_append)
    moreover have "lookup ?d (p @ [y]) = lookup (fmDisk m) (p @ [y])" for y
      using lookup_put_apart [OF apart_append [OF apart, of "r @ [x]" "r @ [x, y]"]] 3(2) by simp
    ultimately show "\<forall>(y, u)\<in>set ds. lookup (fmDisk (m\<lparr>fmCalls := k, fmDisk := ?d\<rparr>)) (p @ [y]) = Some u"
      by auto
  qed (use target in simp_all)
  then show ?case unfolding 3(2) walk_list.simps copied.simps
    using one by (intro reaches_for_each_Cons [where d = ?d]) (simp_all add: put_put)
next
  case (4 p)
  then show ?case by (simp add: reaches_done put_self del: for_each.simps)
next
  case (5 p x u es)
  let ?c = "copied (umask env) u"
  let ?d = "put (tgt @ rel @ [x]) (Some ?c) (fmDisk m)"
  have ready: "map_of ready x = None" using 5(8) by (intro map_of_last) simp
  have d: "?d = put (tgt @ rel) (Some (Dir tm (ready @ [(x, ?c)]))) (fmDisk m)"
    using put_child [OF 5(7), of x "Some ?c"] 5(8) by (simp add: insert_entry_last)
  have one: "reaches (for_each (walk_step env (Some src) (Some tgt)) (walk_list (p @ [x]) u)) m () ?d"
    using 5(3-7) ready by (intro "5.IH"(1)) simp_all
  have same: "lookup ?d (p @ [y]) = lookup (fmDisk m) (p @ [y])" for y
    using lookup_put_apart [OF apart_append [OF apart, of "rel @ [x]" "rel @ [y]"]] 5(3) by simp
  have "reaches (for_each (walk_step env (Some src) (Some tgt)) (walk_all p es))
      (m\<lparr>fmCalls := k, fmDisk := ?d\<rparr>) () (put (tgt @ rel)
        (Some (Dir tm ((ready @ [(x, ?c)]) @ copied_all (umask env) es)))
        (fmDisk (m\<lparr>fmCalls := k, fmDisk := ?d\<rparr>)))" for k
  proof (rule "5.IH"(2))
    show "lookup (fmDisk (m\<lparr>fmCalls := k, fmDisk := ?d\<rparr>)) (tgt @ rel) = Some (Dir tm (ready @ [(x, ?c)]))"
      unfolding d using lookup_put 5(7) by simp
  qed (use 5(3-8) same in \<open>auto split: prod.splits\<close>)
  then have "reaches (for_each (walk_step env (Some src) (Some tgt)) (walk_all p es))
      (m\<lparr>fmCalls := k, fmDisk := ?d\<rparr>) ()
      (put (tgt @ rel) (Some (Dir tm (ready @ copied_all (umask env) ((x, u) # es)))) (fmDisk m))" for k
    unfolding d by (simp add: put_put)
  then show ?case unfolding walk_all.simps using one by (intro reaches_for_each_append [where d = ?d])
qed

text \<open>Copying into an existing, empty directory.\<close>

theorem copyDirectory_copies:
  assumes env: "calm env" and names: "src \<noteq> []" "list_all plain_name tgt" and apart: "apart tgt src"
    and here: "lookup (fmDisk m) src = Some (Dir sm es)" "copyable (Dir sm es)"
    and there: "lookup (fmDisk m) tgt = Some (Dir tm [])"
  shows "reaches (copyDirectory env (Some src) (Some tgt)) m ()
    (put tgt (Some (Dir tm (copied_all (umask env) es))) (fmDisk m))"
proof -
  have root: "reaches (walk_step env (Some src) (Some tgt) (src, Dir sm es)) (m\<lparr>fmCalls := k\<rparr>) ()
      (fmDisk m)" for k
    using dir_step [OF env names, of "[]" "m\<lparr>fmCalls := k\<rparr>" sm es "fmDisk m"] here(1)
      MkdirAll_existing [OF env, of "m\<lparr>fmCalls := _\<rparr>" tgt] there by simp
  have entries: "reaches (for_each (walk_step env (Some src) (Some tgt)) (walk_all src es))
      (m\<lparr>fmCalls := k\<rparr>) () (put tgt (Some (Dir tm (copied_all (umask env) es))) (fmDisk m))" for k
  proof -
    have "\<forall>(x, u)\<in>set es. lookup (fmDisk m) (src @ [x]) = Some u"
      using copyable_lookup here by (auto simp: lookup_append)
    then show ?thesis
      using walk_copies(2) [OF env names apart, of src "[]" es "m\<lparr>fmCalls := k\<rparr>" tm "[]"] here(2) there
      by simp
  qed
  show ?thesis
    unfolding copyDirectory_def option.case
  proof (rule reaches_bind)
    show "reaches (Lstat env (Some src)) m (Dir sm es) (fmDisk m)" by (rule Lstat_reaches [OF env here(1)])
    show "reaches (for_each (walk_step env (Some src) (Some tgt)) (walk_list src (Dir sm es)))
        (m\<lparr>fmCalls := k, fmDisk := fmDisk m\<rparr>) ()
        (put tgt (Some (Dir tm (copied_all (umask env) es))) (fmDisk m))" for k
      unfolding walk_list.simps
      by (rule reaches_for_each_Cons [where d = "fmDisk m"]) (use root entries in simp_all)
  qed
qed

end
