(* ===== verification/Filesystem_Inv.thy ===== *)
theory Filesystem_Inv
  imports Filesystem_Copy Snapshots
begin

text \<open>
  The invariant of the filesystem manager, what a snapshot and a revert do to the disk under it,
  and the manager as an instance of \<open>snapshotting\<close>.
\<close>

section \<open>The invariant\<close>

text \<open>What a snapshot holds of a folder, and what a revert makes of it again.\<close>

definition restored :: "mode \<Rightarrow> node \<Rightarrow> node" where
  "restored um t = (case t of Dir m es \<Rightarrow> Dir (and 493 (not um)) (copied_all um es) | _ \<Rightarrow> t)"

definition test_tree :: "FilesystemManager \<Rightarrow> node option" where
  "test_tree m = Option.bind (fmTestDir m) (lookup (fmDisk m))"

definition snapshot_tree :: "FilesystemManager \<Rightarrow> string \<Rightarrow> node option" where
  "snapshot_tree m n =
     (if plain_name n then Option.bind (fmSnapshotDir m) (\<lambda>s. lookup (fmDisk m) (s @ [n])) else None)"

text \<open>The two folders exist apart from each other, and hold directories and regular files only.\<close>

definition folders :: "path \<Rightarrow> path \<Rightarrow> bool" where
  "folders t s \<longleftrightarrow> t \<noteq> [] \<and> s \<noteq> [] \<and> list_all plain_name t \<and> list_all plain_name s \<and> apart t s"

definition plain_dir :: "node \<Rightarrow> bool" where
  "plain_dir t \<longleftrightarrow> copyable t \<and> (\<exists>m es. t = Dir m es)"

definition fs_inv :: "fs_env \<Rightarrow> FilesystemManager \<Rightarrow> bool" where
  "fs_inv env m \<longleftrightarrow> calm env \<and>
     (\<exists>t s. fmTestDir m = Some t \<and> fmSnapshotDir m = Some s \<and> folders t s
        \<and> (\<exists>u. lookup (fmDisk m) t = Some u \<and> plain_dir u)
        \<and> (\<exists>sm es. lookup (fmDisk m) s = Some (Dir sm es)))
     \<and> (\<forall>n v. snapshot_tree m n = Some v \<longrightarrow> plain_dir v \<and> restored (umask env) v = v)"

lemma copied_idem: "copied um (copied um t) = copied um t" "copied_all um (copied_all um es) = copied_all um es"
  by (induction um t and um es rule: copied_copied_all.induct)
    (simp_all add: bit_eq_iff bit_and_iff bit_not_iff)

lemma fst_set_copied_all [simp]: "fst ` set (copied_all um es) = fst ` set es"
  by (metis fst_copied_all list.set_map)

lemma copyable_copied: "copyable (copied um t) = copyable t" "copyable_all (copied_all um es) = copyable_all es"
  by (induction um t and um es rule: copied_copied_all.induct) auto

lemma restored_idem [simp]: "restored um (restored um t) = restored um t"
  by (cases t) (simp_all add: restored_def copied_idem)

lemma restored_plain: "plain_dir t \<Longrightarrow> plain_dir (restored um t)"
  by (auto simp: plain_dir_def restored_def copyable_copied)

section \<open>Taking a snapshot\<close>

lemma resolve_append:
  "lookup t p = Some u \<Longrightarrow> resolve t (p @ q) = resolve u q"
proof (induction t p rule: lookup.induct)
  case (2 m es x xs)
  then show ?case by (cases "map_of es x") auto
qed auto

lemma attempt_simps:
  "f m = (Ok x, m') \<Longrightarrow> attempt f m = (Ok (Inr x), m')"
  "f m = (Err e, m') \<Longrightarrow> attempt f m = (Ok (Inl e), m')"
  "f m = (Panic p, m') \<Longrightarrow> attempt f m = (Panic p, m')"
  by (simp_all add: attempt_def)

lemma read_missing:
  assumes "calm env" and "lookup (fmDisk m) s = Some (Dir sm es)" and "map_of es n = None"
  shows "reaches (attempt (ReadFile env (Some (s @ [n])))) m (Inl ErrNotExist) (fmDisk m)"
proof -
  have "ReadFile env (Some (s @ [n])) m = (Err ErrNotExist, m\<lparr>fmCalls := fmCalls m + 1\<rparr>)"
    unfolding ReadFile_def using assms(3) resolve_append [OF assms(2), of "[n]"]
    by (intro os_call_fails [OF assms(1)]) (simp add: resolve_opt_def)
  then show ?thesis unfolding reaches_def by (intro exI [of _ "fmCalls m + 1"]) (simp add: attempt_simps)
qed

lemma read_directory:
  assumes "calm env" and "lookup (fmDisk m) p = Some (Dir dm es)"
  shows "reaches (attempt (ReadFile env (Some p))) m (Inl ErrIsDir) (fmDisk m)"
proof -
  have "ReadFile env (Some p) m = (Err ErrIsDir, m\<lparr>fmCalls := fmCalls m + 1\<rparr>)"
    unfolding ReadFile_def using resolve_append [OF assms(2), of "[]"]
    by (intro os_call_fails [OF assms(1)]) (simp add: resolve_opt_def)
  then show ?thesis unfolding reaches_def by (intro exI [of _ "fmCalls m + 1"]) (simp add: attempt_simps)
qed

lemma fs_invE:
  assumes "fs_inv env m"
  obtains t s dm es sm ss where "calm env" "fmTestDir m = Some t" "fmSnapshotDir m = Some s" "folders t s"
    "lookup (fmDisk m) t = Some (Dir dm es)" "copyable (Dir dm es)"
    "lookup (fmDisk m) s = Some (Dir sm ss)" "test_tree m = Some (Dir dm es)"
    "\<forall>n v. snapshot_tree m n = Some v \<longrightarrow> plain_dir v \<and> restored (umask env) v = v"
proof -
  from assms obtain t s u sm ss where "calm env" "fmTestDir m = Some t" "fmSnapshotDir m = Some s" "folders t s"
    "lookup (fmDisk m) t = Some u" "plain_dir u" "lookup (fmDisk m) s = Some (Dir sm ss)"
    "\<forall>n v. snapshot_tree m n = Some v \<longrightarrow> plain_dir v \<and> restored (umask env) v = v"
    unfolding fs_inv_def by blast
  moreover from this obtain dm es where "u = Dir dm es" "copyable (Dir dm es)" by (auto simp: plain_dir_def)
  ultimately show thesis using that by (simp add: test_tree_def)
qed

lemma snapshot_path:
  "folders t s \<Longrightarrow> plain_name n \<Longrightarrow> Join_path cwd (Some s) n = Some (s @ [n])"
  by (simp add: folders_def Join_path_plain)

lemma fs_TakeSnapshot_reaches:
  assumes inv: "fs_inv env m" and n: "plain_name n" and new: "snapshot_tree m n = None"
    and dirs: "fmTestDir m = Some t" "fmSnapshotDir m = Some s" and u: "test_tree m = Some u"
  shows "reaches (fs_TakeSnapshot env n) m () (put (s @ [n]) (Some (restored (umask env) u)) (fmDisk m))"
proof -
  from inv obtain dm es sm ss where env: "calm env" and f: "folders t s"
    and t: "lookup (fmDisk m) t = Some (Dir dm es)" "copyable (Dir dm es)" "u = Dir dm es"
    and s: "lookup (fmDisk m) s = Some (Dir sm ss)"
    using dirs u by (elim fs_invE) auto
  have free: "map_of ss n = None"
    using new n dirs s by (simp add: snapshot_tree_def lookup_append split: option.splits)
  let ?d = "put (s @ [n]) (Some (Dir (and 493 (not (umask env))) [])) (fmDisk m)"
  let ?e = "put (s @ [n]) (Some (restored (umask env) u)) (fmDisk m)"
  have names: "t \<noteq> []" "list_all plain_name (s @ [n])" "apart (s @ [n]) t" "list_all plain_name s"
    using f n apart_append [OF apart_sym, of t s "[n]" "[]"] by (auto simp: folders_def)
  have copy: "reaches (copyDirectory env (Some t) (Some (s @ [n]))) (m\<lparr>fmCalls := k, fmDisk := ?d\<rparr>) () ?e" for k
    using copyDirectory_copies [OF env names(1-3), of "m\<lparr>fmCalls := k, fmDisk := ?d\<rparr>"]
      lookup_put_apart [OF names(3)] lookup_put_new [OF s] t
    by (simp add: put_put restored_def)
  show ?thesis
    unfolding fs_TakeSnapshot_def
  proof (intro reaches_bind)
    show "reaches (read_op (\<lambda>m. Join_path (work_dir env) (fmSnapshotDir m) n)) m (Some (s @ [n])) (fmDisk m)"
      using reaches_read [of "\<lambda>m. Join_path (work_dir env) (fmSnapshotDir m) n" m] dirs(2) snapshot_path [OF f n]
      by simp
    show "reaches (attempt (ReadFile env (Some (s @ [n])))) (m\<lparr>fmCalls := k, fmDisk := fmDisk m\<rparr>)
        (Inl ErrNotExist) (fmDisk m)" for k
      using read_missing [OF env, of "m\<lparr>fmCalls := k\<rparr>" s sm ss n] s free by simp
    show "reaches
        (if Inl ErrNotExist \<noteq> (Inl ErrNotExist :: error + u8 list)
         then fail_op (Errorf ''snapshot with name [%s] already exists'' [n])
         else bind_op (wrap_op ''error creating snapshot dir [%s]: %v'' [dir_text (Some (s @ [n]))]
                (Mkdir env (Some (s @ [n])) 493)) (\<lambda>_.
              bind_op (read_op fmTestDir) (\<lambda>testDir.
              wrap_op ''error copying test dir to snapshot dir: %v'' []
                (copyDirectory env testDir (Some (s @ [n]))))))
        (m\<lparr>fmCalls := k, fmDisk := fmDisk m, fmCalls := j, fmDisk := fmDisk m\<rparr>) () ?e" for k j
      unfolding if_not_P [OF not_not [THEN iffD2, OF refl]]
    proof (intro reaches_bind reaches_wrap)
      show "reaches (Mkdir env (Some (s @ [n])) 493)
          (m\<lparr>fmCalls := k, fmDisk := fmDisk m, fmCalls := j, fmDisk := fmDisk m\<rparr>) () ?d"
        using Mkdir_reaches [OF env, of "m\<lparr>fmCalls := j\<rparr>" s sm ss n 493] s free by simp
      show "reaches (read_op fmTestDir)
          (m\<lparr>fmCalls := k, fmDisk := fmDisk m, fmCalls := j, fmDisk := fmDisk m, fmCalls := i, fmDisk := ?d\<rparr>)
          (Some t) ?d" for i
        using reaches_read [of fmTestDir "m\<lparr>fmCalls := i, fmDisk := ?d\<rparr>"] dirs(1) by simp
      show "reaches (copyDirectory env (Some t) (Some (s @ [n])))
          (m\<lparr>fmCalls := k, fmDisk := fmDisk m, fmCalls := j, fmDisk := fmDisk m, fmCalls := i, fmDisk := ?d,
             fmCalls := l, fmDisk := ?d\<rparr>) () ?e" for i l
        using copy by simp
    qed
  qed
qed

section \<open>Reverting\<close>

lemma RemoveAll_reaches:
  assumes "calm env" and "lookup (fmDisk m) p = Some u" and "p \<noteq> []"
  shows "reaches (RemoveAll env (Some p)) m () (put p None (fmDisk m))"
  unfolding RemoveAll_def using resolve_lookup [of "fmDisk m" p u] assms
  by (simp add: os_call_reaches)

lemma removed:
  assumes "lookup d (q @ [x]) = Some u"
  shows "\<exists>m es. lookup (put (q @ [x]) None d) q = Some (Dir m es)
     \<and> map_of es x = None"
proof -
  from lookup_prefix [of d q x "[]"] assms obtain m es where q: "lookup d q = Some (Dir m es)" by auto
  then have "put (q @ [x]) None d = put q (Some (Dir m (AList.delete x es))) d" by (simp add: put_child)
  then show ?thesis using lookup_put [of d q] q by (simp add: delete_conv')
qed

lemma fs_RevertToSnapshot_reaches:
  assumes env: "calm env" and dirs: "fmTestDir m = Some t" "fmSnapshotDir m = Some s" and f: "folders t s"
    and t: "lookup (fmDisk m) t = Some w" and v: "snapshot_tree m n = Some v"
    and vs: "plain_dir v" "restored (umask env) v = v"
  shows "reaches (fs_RevertToSnapshot env n) m ()
    (put t (Some v) (put t (Some (Dir (and 493 (not (umask env))) [])) (put t None (fmDisk m))))"
proof -
  from v have n: "plain_name n" and sn: "lookup (fmDisk m) (s @ [n]) = Some v"
    using dirs(2) by (auto simp: snapshot_tree_def split: if_splits)
  from vs obtain ve where ve: "v = Dir (and 493 (not (umask env))) ve" "copyable v"
    "copied_all (umask env) ve = ve" by (auto simp: plain_dir_def restored_def)
  obtain q x where q: "t = q @ [x]" using f by (cases t rule: rev_cases) (auto simp: folders_def)
  let ?gone = "put t None (fmDisk m)"
  let ?empty = "put t (Some (Dir (and 493 (not (umask env))) [])) ?gone"
  let ?e = "put t (Some v) ?empty"
  have names: "s @ [n] \<noteq> []" "list_all plain_name t" "apart t (s @ [n])"
    using f apart_append [of t s "[]" "[n]"] by (auto simp: folders_def)
  obtain gm ge where gone: "lookup ?gone q = Some (Dir gm ge)" "map_of ge x = None"
    using removed [of "fmDisk m" q x] t q by auto
  have source: "lookup ?empty (s @ [n]) = Some v" using sn by (simp add: lookup_put_apart [OF names(3)])
  have target: "lookup ?empty t = Some (Dir (and 493 (not (umask env))) [])"
    unfolding q by (rule lookup_put_new) (use gone q in simp)
  have copy: "reaches (copyDirectory env (Some (s @ [n])) (Some t)) (m\<lparr>fmCalls := k, fmDisk := ?empty\<rparr>) () ?e" for k
    using copyDirectory_copies [OF env names, of "m\<lparr>fmCalls := k, fmDisk := ?empty\<rparr>"] source target ve
    by simp
  show ?thesis
    unfolding fs_RevertToSnapshot_def
  proof (intro reaches_bind)
    show "reaches (read_op (\<lambda>m. Join_path (work_dir env) (fmSnapshotDir m) n)) m (Some (s @ [n])) (fmDisk m)"
      using reaches_read [of "\<lambda>m. Join_path (work_dir env) (fmSnapshotDir m) n" m] dirs(2) snapshot_path [OF f n]
      by simp
    show "reaches (attempt (ReadFile env (Some (s @ [n])))) (m\<lparr>fmCalls := k, fmDisk := fmDisk m\<rparr>)
        (Inl ErrIsDir) (fmDisk m)" for k
      using read_directory [OF env, of "m\<lparr>fmCalls := k\<rparr>"] sn ve(1) by simp
    show "reaches
        (if Inl ErrIsDir = (Inl ErrNotExist :: error + u8 list)
         then fail_op (Errorf ''snapshot with name [%s] doesn't exist'' [n])
         else bind_op (read_op fmTestDir) (\<lambda>testDir.
              bind_op (wrap_op ''error removing test dir [%s]: %v'' [dir_text testDir]
                (RemoveAll env testDir)) (\<lambda>_.
              bind_op (wrap_op ''error recreating test dir [%s]: %v'' [dir_text testDir]
                (Mkdir env testDir 493)) (\<lambda>_.
              wrap_op ''error copying snapshot dir to test dir: %v'' []
                (copyDirectory env (Some (s @ [n])) testDir)))))
        (m\<lparr>fmCalls := k, fmDisk := fmDisk m, fmCalls := j, fmDisk := fmDisk m\<rparr>) () ?e" for k j
      unfolding sum.inject if_not_P [OF os_errors_differ(3)]
    proof (intro reaches_bind reaches_wrap)
      show "reaches (read_op fmTestDir) (m\<lparr>fmCalls := k, fmDisk := fmDisk m, fmCalls := j, fmDisk := fmDisk m\<rparr>)
          (Some t) (fmDisk m)"
        using reaches_read [of fmTestDir "m\<lparr>fmCalls := j, fmDisk := fmDisk m\<rparr>"] dirs(1) by simp
      show "reaches (RemoveAll env (Some t))
          (m\<lparr>fmCalls := k, fmDisk := fmDisk m, fmCalls := j, fmDisk := fmDisk m, fmCalls := i, fmDisk := fmDisk m\<rparr>)
          () ?gone" for i
        using RemoveAll_reaches [OF env, of "m\<lparr>fmCalls := i\<rparr>" t] t f by (simp add: folders_def)
      show "reaches (Mkdir env (Some t) 493)
          (m\<lparr>fmCalls := k, fmDisk := fmDisk m, fmCalls := j, fmDisk := fmDisk m, fmCalls := i, fmDisk := fmDisk m,
             fmCalls := l, fmDisk := ?gone\<rparr>) () ?empty" for i l
        using Mkdir_reaches [OF env, of "m\<lparr>fmCalls := l, fmDisk := ?gone\<rparr>" q gm ge x 493] gone q by simp
      show "reaches (copyDirectory env (Some (s @ [n])) (Some t))
          (m\<lparr>fmCalls := k, fmDisk := fmDisk m, fmCalls := j, fmDisk := fmDisk m, fmCalls := i, fmDisk := fmDisk m,
             fmCalls := l, fmDisk := ?gone, fmCalls := h, fmDisk := ?empty\<rparr>) () ?e" for i l h
        using copy by simp
    qed
  qed
qed

section \<open>The manager as a snapshotting service\<close>

text \<open>
  What a test may do between snapshots: anything outside the snapshot folder, as long as the test
  folder stays a directory of directories and regular files.
\<close>

definition test_writes :: "fs_env \<Rightarrow> FilesystemManager \<Rightarrow> FilesystemManager \<Rightarrow> bool" where
  "test_writes env m m' \<longleftrightarrow> fmTestDir m' = fmTestDir m \<and> fmSnapshotDir m' = fmSnapshotDir m
     \<and> (\<forall>s. fmSnapshotDir m = Some s \<longrightarrow> lookup (fmDisk m') s = lookup (fmDisk m) s)
     \<and> (\<exists>u. test_tree m' = Some u \<and> plain_dir u)"

lemma same_snapshots:
  assumes "fmSnapshotDir m' = fmSnapshotDir m" and "\<And>s. fmSnapshotDir m = Some s \<Longrightarrow> lookup (fmDisk m') s = lookup (fmDisk m) s"
  shows "snapshot_tree m' = snapshot_tree m"
  using assms by (auto simp: snapshot_tree_def lookup_append fun_eq_iff split: bind_split)

lemma test_writes_inv:
  assumes "fs_inv env m" and "test_writes env m m'"
  shows "fs_inv env m'" "snapshot_tree m' = snapshot_tree m"
proof -
  from assms(1) obtain t s where d: "fmTestDir m = Some t" "fmSnapshotDir m = Some s" by (elim fs_invE)
  have "snapshot_tree m' = snapshot_tree m"
    by (rule same_snapshots) (use assms(2) in \<open>auto simp: test_writes_def\<close>)
  then show "snapshot_tree m' = snapshot_tree m" "fs_inv env m'"
    using assms d by (auto simp: fs_inv_def test_writes_def test_tree_def)
qed

text \<open>Taking a snapshot that exists already is refused before anything is written.\<close>

lemma fs_TakeSnapshot_exists:
  assumes inv: "fs_inv env m" and v: "snapshot_tree m n = Some v"
  shows "\<exists>k. fs_TakeSnapshot env n m
    = (Err (Errorf ''snapshot with name [%s] already exists'' [n]), m\<lparr>fmCalls := k\<rparr>)"
proof -
  obtain s where env: "calm env" and s: "fmSnapshotDir m = Some s" and f: "folders (the (fmTestDir m)) s"
    and vs: "plain_dir v" using inv v by (elim fs_invE) auto
  from v have n: "plain_name n" and sn: "lookup (fmDisk m) (s @ [n]) = Some v"
    using s by (auto simp: snapshot_tree_def split: if_splits)
  from vs obtain dm es where "v = Dir dm es" by (auto simp: plain_dir_def)
  from read_directory [OF env sn [unfolded this]] obtain k where
    "attempt (ReadFile env (Some (s @ [n]))) m = (Ok (Inl ErrIsDir), m\<lparr>fmCalls := k\<rparr>)"
    by (auto simp: reaches_def)
  then show ?thesis using s snapshot_path [OF f n] by (auto simp: fs_TakeSnapshot_def)
qed

lemma take_effect:
  assumes inv: "fs_inv env m" and n: "plain_name n"
    and run: "ok_state (fs_TakeSnapshot env n) m = Some m'"
  shows "fs_inv env m'" "test_tree m' = test_tree m"
    "snapshot_tree m' = (snapshot_tree m)(n := map_option (restored (umask env)) (test_tree m))"
proof -
  have new: "snapshot_tree m n = None"
  proof (cases "snapshot_tree m n")
    case (Some v)
    from fs_TakeSnapshot_exists [OF inv this] run show ?thesis by (auto simp: ok_state_def)
  qed
  from inv obtain t s dm es sm ss where i: "calm env" "fmTestDir m = Some t" "fmSnapshotDir m = Some s" "folders t s"
    "lookup (fmDisk m) t = Some (Dir dm es)" "copyable (Dir dm es)"
    "lookup (fmDisk m) s = Some (Dir sm ss)" "test_tree m = Some (Dir dm es)"
    "\<forall>n v. snapshot_tree m n = Some v \<longrightarrow> plain_dir v \<and> restored (umask env) v = v"
    by (rule fs_invE)
  let ?r = "restored (umask env) (Dir dm es)"
  from fs_TakeSnapshot_reaches [OF inv n new i(2,3,8)] run obtain k where
    m': "m' = m\<lparr>fmCalls := k, fmDisk := put (s @ [n]) (Some ?r) (fmDisk m)\<rparr>"
    by (auto simp: reaches_def ok_state_def)
  have ap: "apart (s @ [n]) t"
    using i(4) apart_append [OF apart_sym, of t s "[n]" "[]"] by (simp add: folders_def)
  have t': "lookup (fmDisk m') t = Some (Dir dm es)" using i(5) by (simp add: m' lookup_put_apart [OF ap])
  then show tt: "test_tree m' = test_tree m" using i by (simp add: test_tree_def m')
  have s': "lookup (fmDisk m') s = Some (Dir sm (insert_entry n ?r ss))"
    using i(7) lookup_put [of "fmDisk m" s] by (simp add: m' put_child)
  show st: "snapshot_tree m' = (snapshot_tree m)(n := map_option (restored (umask env)) (test_tree m))"
    using s' i(3,7,8) n by (auto simp: fun_eq_iff snapshot_tree_def m' lookup_append)
  have "plain_dir (Dir dm es)" using i(6) by (simp add: plain_dir_def)
  then have "plain_dir ?r" by (rule restored_plain)
  then show "fs_inv env m'"
    unfolding fs_inv_def st using i s' t' \<open>plain_dir (Dir dm es)\<close> by (auto simp: m')
qed

lemma revert_general:
  assumes env: "calm env" and dirs: "fmTestDir m = Some t" "fmSnapshotDir m = Some s" and f: "folders t s"
    and t: "lookup (fmDisk m) t = Some w" and v: "snapshot_tree m n = Some v"
    and vs: "plain_dir v" "restored (umask env) v = v"
  shows "\<exists>m'. fs_RevertToSnapshot env n m = (Ok (), m') \<and> test_writes env m m' \<and> test_tree m' = Some v"
proof -
  let ?d = "put t (Some v) (put t (Some (Dir (and 493 (not (umask env))) [])) (put t None (fmDisk m)))"
  from fs_RevertToSnapshot_reaches [OF assms] obtain k where
    run: "fs_RevertToSnapshot env n m = (Ok (), m\<lparr>fmCalls := k, fmDisk := ?d\<rparr>)"
    by (auto simp: reaches_def)
  let ?m = "m\<lparr>fmCalls := k, fmDisk := ?d\<rparr>"
  obtain q x where q: "t = q @ [x]" using f by (cases t rule: rev_cases) (auto simp: folders_def)
  obtain gm ge where gone: "lookup (put t None (fmDisk m)) q = Some (Dir gm ge)"
    using removed [of "fmDisk m" q x] t q by auto
  have "lookup ?d t = Some v"
    unfolding put_put unfolding q by (rule lookup_put_new) (use gone q in simp)
  then have tree: "test_tree ?m = Some v" using dirs(1) by (simp add: test_tree_def)
  have ap: "apart t s" using f by (simp add: folders_def)
  have "test_writes env m ?m"
    unfolding test_writes_def using tree vs dirs(2) by (simp add: lookup_put_apart [OF ap])
  with tree run show ?thesis by blast
qed

lemma revert_effect:
  assumes inv: "fs_inv env m" and v: "snapshot_tree m n = Some v"
  shows "\<exists>m'. fs_RevertToSnapshot env n m = (Ok (), m') \<and> fs_inv env m'
    \<and> test_tree m' = Some v \<and> snapshot_tree m' = snapshot_tree m"
proof -
  from inv obtain t s dm es sm ss where i: "calm env" "fmTestDir m = Some t" "fmSnapshotDir m = Some s" "folders t s"
    "lookup (fmDisk m) t = Some (Dir dm es)" "copyable (Dir dm es)"
    "lookup (fmDisk m) s = Some (Dir sm ss)" "test_tree m = Some (Dir dm es)"
    "\<forall>n v. snapshot_tree m n = Some v \<longrightarrow> plain_dir v \<and> restored (umask env) v = v"
    by (rule fs_invE)
  then have "plain_dir v" "restored (umask env) v = v" using v by auto
  from revert_general [OF i(1-5) v this] test_writes_inv [OF inv] show ?thesis by blast
qed

definition take_named :: "fs_env \<Rightarrow> string \<Rightarrow> FilesystemManager \<Rightarrow> FilesystemManager option" where
  "take_named env n m = (if plain_name n then ok_state (fs_TakeSnapshot env n) m else None)"

definition revert_named :: "fs_env \<Rightarrow> string \<Rightarrow> FilesystemManager \<Rightarrow> FilesystemManager option" where
  "revert_named env n m =
     (if snapshot_tree m n \<noteq> None then ok_state (fs_RevertToSnapshot env n) m else None)"

interpretation fs_snapshots: snapshotting "fs_inv env" test_tree "\<lambda>m n. map_option Some (snapshot_tree m n)"
    "take_named env" "revert_named env" "map_option (restored (umask env))" "test_writes env"
  for env
proof
  fix m m' :: FilesystemManager and n :: string and v :: "node option"
  assume inv: "fs_inv env m"
  note take = take_effect [OF inv]
  show "take_named env n m = Some m' \<Longrightarrow> fs_inv env m'"
    and "take_named env n m = Some m' \<Longrightarrow> test_tree m' = test_tree m"
    using take by (auto simp: take_named_def split: if_splits)
  have "test_tree m \<noteq> None" using inv by (elim fs_invE) simp
  then show "take_named env n m = Some m' \<Longrightarrow> (\<lambda>k. map_option Some (snapshot_tree m' k))
      = (\<lambda>k. map_option Some (snapshot_tree m k))(n \<mapsto> map_option (restored (umask env)) (test_tree m))"
    using take(3) by (auto simp: take_named_def fun_eq_iff split: if_splits)
  show "map_option Some (snapshot_tree m n) \<noteq> None \<Longrightarrow> revert_named env n m \<noteq> None"
    using revert_effect [OF inv] by (fastforce simp: revert_named_def ok_state_def)
  show "revert_named env n m = Some m' \<Longrightarrow> fs_inv env m'"
    and "revert_named env n m = Some m' \<Longrightarrow>
      (\<lambda>k. map_option Some (snapshot_tree m' k)) = (\<lambda>k. map_option Some (snapshot_tree m k))"
    using revert_effect [OF inv] by (fastforce simp: revert_named_def ok_state_def split: if_splits)+
  show "revert_named env n m = Some m' \<Longrightarrow> map_option Some (snapshot_tree m n) = Some v
      \<Longrightarrow> test_tree m' = map_option (restored (umask env)) v"
  proof -
    assume run: "revert_named env n m = Some m'" and "map_option Some (snapshot_tree m n) = Some v"
    then obtain u where u: "snapshot_tree m n = Some u" "v = Some u" by auto
    have "restored (umask env) u = u" using inv u(1) by (elim fs_invE) auto
    then show ?thesis using revert_effect [OF inv u(1)] run u by (auto simp: revert_named_def ok_state_def)
  qed
  show "test_writes env m m' \<Longrightarrow> fs_inv env m'" by (rule test_writes_inv(1) [OF inv])
  show "test_writes env m m' \<Longrightarrow>
      (\<lambda>k. map_option Some (snapshot_tree m' k)) = (\<lambda>k. map_option Some (snapshot_tree m k))"
    using test_writes_inv(2) [OF inv] by simp
next
  show "map_option (restored (umask env)) (map_option (restored (umask env)) v)
      = map_option (restored (umask env)) v" for v :: "node option" and env :: fs_env
    by (cases v) simp_all
qed

end
