(* ===== verification/Filesystem_Props.thy ===== *)
theory Filesystem_Props
  imports Filesystem_Inv
begin

text \<open>
  The properties of the filesystem manager: snapshots bring the test folder back, and what a
  snapshot that failed half-way does to a later revert.
\<close>

section \<open>New managers\<close>

text \<open>An environment in which no call fails and temporary names are proper names.\<close>

definition good_env :: "fs_env \<Rightarrow> bool" where
  "good_env env \<longleftrightarrow> calm env \<and> list_all plain_name (temp_dir env)
     \<and> (\<forall>k. CHR ''/'' \<notin> set (random_at env k))"

lemma os_call_Ok:
  "os_call env b f m = (Ok x, m') \<Longrightarrow> \<exists>d. f (fmDisk m) = Inr (x, d) \<and> m' = m\<lparr>fmCalls := fmCalls m + 1, fmDisk := d\<rparr>"
  by (auto simp: os_call_def Let_def split: option.splits sum.splits)

lemma make_dir_Ok:
  assumes "make_dir mo (q @ [x]) d = Inr ((), d')"
  shows "\<exists>m es. lookup d q = Some (Dir m es) \<and> map_of es x = None \<and> d' = put (q @ [x]) (Some (Dir mo [])) d"
  using assms by (auto simp: make_dir_def resolve_lookup split: sum.splits node.splits if_splits)

lemma Mkdir_err:
  assumes "Mkdir env p mo m = (Err e, m')"
  shows "fmDisk m' = fmDisk m"
  using assms by (auto simp: Mkdir_def os_call_def untouched_def Let_def split: option.splits sum.splits)

lemma Mkdir_no_panic: "fst (Mkdir env p mo m) \<noteq> Panic x"
  by (auto simp: Mkdir_def os_call_def Let_def split: option.splits sum.splits)

lemma temp_tries_Err:
  assumes "temp_tries env pre k m = (Err e, m')"
  shows "fmDisk m' = fmDisk m"
  using assms
proof (induction k arbitrary: m)
  case 0
  then show ?case by simp
next
  case (Suc k)
  let ?p = "temp_dir env @ [pre @ random_at env (fmCalls m)]"
  obtain r m1 where r: "Mkdir env (Some ?p) 448 m = (r, m1)" by (cases "Mkdir env (Some ?p) 448 m")
  show ?case
  proof (cases r)
    case (Err e1)
    then have "fmDisk m1 = fmDisk m" using Mkdir_err r by blast
    then show ?thesis using Suc r Err by (auto simp: Let_def split: if_splits)
  qed (use Suc.prems r in \<open>simp_all add: Let_def\<close>)
qed

lemma temp_tries_no_panic: "fst (temp_tries env pre k m) \<noteq> Panic x"
proof (induction k arbitrary: m)
  case (Suc k)
  let ?p = "temp_dir env @ [pre @ random_at env (fmCalls m)]"
  show ?case using Suc Mkdir_no_panic [of env "Some ?p" 448 m]
    by (cases "Mkdir env (Some ?p) 448 m"; cases "fst (Mkdir env (Some ?p) 448 m)") (simp_all add: Let_def)
qed simp

lemma temp_tries_Ok:
  assumes "temp_tries env pre k m = (Ok p, m')"
  shows "\<exists>i dm es. p = temp_dir env @ [pre @ random_at env i]
    \<and> lookup (fmDisk m) (temp_dir env) = Some (Dir dm es) \<and> map_of es (pre @ random_at env i) = None
    \<and> fmDisk m' = put p (Some (Dir (and 448 (not (umask env))) [])) (fmDisk m)"
  using assms
proof (induction k arbitrary: m)
  case 0
  then show ?case by simp
next
  case (Suc k)
  let ?x = "pre @ random_at env (fmCalls m)"
  obtain r m1 where r: "Mkdir env (Some (temp_dir env @ [?x])) 448 m = (r, m1)"
    by (cases "Mkdir env (Some (temp_dir env @ [?x])) 448 m")
  show ?case
  proof (cases r)
    case (Ok u)
    then obtain d where "make_dir (and 448 (not (umask env))) (temp_dir env @ [?x]) (fmDisk m) = Inr ((), d)"
      "m1 = m\<lparr>fmCalls := fmCalls m + 1, fmDisk := d\<rparr>"
      using r by (auto simp: Mkdir_def dest!: os_call_Ok)
    moreover have "p = temp_dir env @ [?x]" "m' = m1" using Suc.prems r Ok by (simp_all add: Let_def)
    ultimately show ?thesis using make_dir_Ok [of _ "temp_dir env" ?x "fmDisk m"] by fastforce
  next
    case (Err e)
    then have "temp_tries env pre k m1 = (Ok p, m')"
      using Suc.prems r by (simp add: Let_def split: if_splits)
    from Suc.IH [OF this] show ?thesis using Mkdir_err r Err by simp
  qed (use Suc.prems r in \<open>simp add: Let_def\<close>)
qed

lemma temp_name_plain:
  assumes "good_env env" and "pre = ''osha-'' \<or> pre = ''osha-snapshots-''"
  shows "plain_name (pre @ random_at env k)"
  using assms by (auto simp: good_env_def plain_name_def)

lemma new_fs_facts:
  assumes env: "good_env env" and run: "NewFilesystemManager env m = (Ok (), m')"
  shows "fs_inv env m' \<and> (\<forall>n. snapshot_tree m' n = None)"
proof -
  have calm: "calm env" using env by (simp add: good_env_def)
  from run obtain t m1 s m2 where
    one: "temp_tries env ''osha-'' 10000 m = (Ok t, m1)" and two: "temp_tries env ''osha-snapshots-'' 10000 m1 = (Ok s, m2)"
    and m': "m' = m2\<lparr>fmTestDir := Some t, fmSnapshotDir := Some s\<rparr>"
    by (auto simp: NewFilesystemManager_def MkdirTemp_def set_dirs_def bind_op_Ok)
  from temp_tries_Ok [OF one] obtain i tm tes where t: "t = temp_dir env @ [''osha-'' @ random_at env i]"
    "lookup (fmDisk m) (temp_dir env) = Some (Dir tm tes)"
    "fmDisk m1 = put t (Some (Dir (and 448 (not (umask env))) [])) (fmDisk m)" by blast
  from temp_tries_Ok [OF two] obtain j sm ses where s: "s = temp_dir env @ [''osha-snapshots-'' @ random_at env j]"
    "lookup (fmDisk m1) (temp_dir env) = Some (Dir sm ses)" "map_of ses (''osha-snapshots-'' @ random_at env j) = None"
    "fmDisk m2 = put s (Some (Dir (and 448 (not (umask env))) [])) (fmDisk m1)" by blast
  have t1: "lookup (fmDisk m1) t = Some (Dir (and 448 (not (umask env))) [])"
    unfolding t(3) unfolding t(1) by (rule lookup_put_new [OF t(2)])
  then have "map_of ses (''osha-'' @ random_at env i) \<noteq> None"
    using s(2) t(1) by (auto simp: lookup_append split: option.splits)
  then have "''osha-'' @ random_at env i \<noteq> ''osha-snapshots-'' @ random_at env j" using s(3) by metis
  then have ap: "apart t s" unfolding t(1) s(1) apart_def by blast
  have s2: "lookup (fmDisk m2) s = Some (Dir (and 448 (not (umask env))) [])"
    unfolding s(4) unfolding s(1) by (rule lookup_put_new [OF s(2)])
  have t2: "lookup (fmDisk m2) t = Some (Dir (and 448 (not (umask env))) [])"
    using t1 unfolding s(4) by (simp add: lookup_put_apart [OF apart_sym [OF ap]])
  have "plain_name (''osha-'' @ random_at env i)" "plain_name (''osha-snapshots-'' @ random_at env j)"
    using temp_name_plain [OF env] by blast+
  then have "folders t s" using env ap unfolding folders_def t(1) s(1) good_env_def by simp
  moreover have "snapshot_tree m' n = None" for n
    using s2 by (simp add: m' snapshot_tree_def lookup_append)
  ultimately show ?thesis
    using calm t2 s2 by (auto simp: fs_inv_def m' plain_dir_def)
qed

lemmas new_fs_inv = new_fs_facts [THEN conjunct1]

section \<open>Closing a new manager\<close>

lemma delete_insert_entry: "map_of es x = None \<Longrightarrow> AList.delete x (insert_entry x u es) = es"
proof -
  assume "map_of es x = None"
  then have "x \<notin> fst ` set es" by (simp add: map_of_eq_None_iff)
  then show ?thesis by (simp add: insert_entry_def) (induction es, auto)
qed

lemma close_dir_reaches:
  assumes "calm env" and "lookup (fmDisk m) p = Some u" and "p \<noteq> []"
  shows "reaches (close_dir env (Some p)) m () (put p None (fmDisk m))"
  using RemoveAll_reaches [OF assms] by (auto simp: reaches_def close_dir_def)

lemma fs_Close_reaches:
  assumes env: "calm env" and dirs: "fmTestDir m = Some t" "fmSnapshotDir m = Some s" and f: "folders t s"
    and there: "lookup (fmDisk m) t = Some u" "lookup (fmDisk m) s = Some v"
  shows "\<exists>m'. fs_Close env m = (Ok (), m') \<and> fmDisk m' = put s None (put t None (fmDisk m))"
proof -
  have names: "t \<noteq> []" "s \<noteq> []" "apart t s" using f by (simp_all add: folders_def)
  from close_dir_reaches [OF env there(1) names(1)] obtain k where
    one: "close_dir env (Some t) m = (Ok (), m\<lparr>fmCalls := k, fmDisk := put t None (fmDisk m)\<rparr>)"
    by (auto simp: reaches_def)
  let ?m = "m\<lparr>fmCalls := k, fmDisk := put t None (fmDisk m), fmTestDir := None\<rparr>"
  have "lookup (fmDisk ?m) s = Some v" using there(2) by (simp add: lookup_put_apart [OF names(3)])
  from close_dir_reaches [OF env this names(2)] obtain j where
    two: "close_dir env (Some s) ?m = (Ok (), ?m\<lparr>fmCalls := j, fmDisk := put s None (fmDisk ?m)\<rparr>)"
    by (auto simp: reaches_def)
  show ?thesis unfolding fs_Close_def using one two dirs by simp
qed

text \<open>Closing a manager that was just made leaves the disk as it was before.\<close>

lemma close_undoes_new:
  assumes env: "good_env env" and run: "NewFilesystemManager env m = (Ok (), m')"
  shows "\<exists>m2. fs_Close env m' = (Ok (), m2) \<and> fmDisk m2 = fmDisk m"
proof -
  have calm: "calm env" using env by (simp add: good_env_def)
  from run obtain t m1 s m2 where
    one: "temp_tries env ''osha-'' 10000 m = (Ok t, m1)" and two: "temp_tries env ''osha-snapshots-'' 10000 m1 = (Ok s, m2)"
    and m': "m' = m2\<lparr>fmTestDir := Some t, fmSnapshotDir := Some s\<rparr>"
    by (auto simp: NewFilesystemManager_def MkdirTemp_def set_dirs_def bind_op_Ok)
  define q where "q = temp_dir env"
  let ?D = "Dir (and 448 (not (umask env))) []"
  from temp_tries_Ok [OF one] obtain x qm es where t: "t = q @ [x]"
    "lookup (fmDisk m) q = Some (Dir qm es)" "map_of es x = None" "fmDisk m1 = put t (Some ?D) (fmDisk m)"
    unfolding q_def by blast
  let ?es = "insert_entry x ?D es"
  have d1: "fmDisk m1 = put q (Some (Dir qm ?es)) (fmDisk m)" unfolding t(1,4) using put_child [OF t(2)] by simp
  then have q1: "lookup (fmDisk m1) q = Some (Dir qm ?es)" using lookup_put [of "fmDisk m" q] t(2) by simp
  from temp_tries_Ok [OF two] q1 obtain y where s: "s = q @ [y]"
    "map_of ?es y = None" "fmDisk m2 = put s (Some ?D) (fmDisk m1)"
    unfolding q_def by fastforce
  have d2: "fmDisk m2 = put q (Some (Dir qm (insert_entry y ?D ?es))) (fmDisk m)"
    unfolding s(1,3) using put_child [OF q1] by (simp add: d1 put_put)
  from new_fs_facts [OF env run] have f: "folders t s" "lookup (fmDisk m') t \<noteq> None" "lookup (fmDisk m') s \<noteq> None"
    by (auto simp: fs_inv_def m')
  then obtain m3 where m3: "fs_Close env m' = (Ok (), m3)" "fmDisk m3 = put s None (put t None (fmDisk m2))"
    using fs_Close_reaches [OF calm, of m' t s] by (auto simp: m')
  have at_q: "lookup (put q (Some (Dir qm zs)) (fmDisk m)) q = Some (Dir qm zs)" for zs
    using lookup_put [of "fmDisk m" q] t(2) by simp
  have "put s None (put t None (fmDisk m2))
      = put q (Some (Dir qm (AList.delete y (AList.delete x (insert_entry y ?D ?es))))) (fmDisk m)"
    unfolding d2 t(1) s(1) by (simp add: put_child [OF at_q] put_put)
  also have "AList.delete y (AList.delete x (insert_entry y ?D ?es)) = es"
    using s(2) t(3) AList.delete_twist by (metis delete_insert_entry)
  also have "put q (Some (Dir qm es)) (fmDisk m) = fmDisk m" by (rule put_self [OF t(2)])
  finally show ?thesis using m3 by simp
qed

section \<open>Snapshots\<close>

text \<open>
  What may happen between a snapshot \<open>n\<close> and the revert to it: the test writes what it likes, and
  snapshots of other names are taken and any of them reverted to, whether that succeeds or not.
\<close>

inductive fs_session :: "fs_env \<Rightarrow> string \<Rightarrow> FilesystemManager \<Rightarrow> FilesystemManager \<Rightarrow> bool" for env n where
  writes: "test_writes env m m' \<Longrightarrow> fs_session env n m m'"
| take: "plain_name k \<Longrightarrow> k \<noteq> n \<Longrightarrow> fs_session env n m (snd (fs_TakeSnapshot env k m))"
| revert: "plain_name k \<Longrightarrow> fs_session env n m (snd (fs_RevertToSnapshot env k m))"

inductive reachable_fs :: "fs_env \<Rightarrow> FilesystemManager \<Rightarrow> bool" for env where
  new: "NewFilesystemManager env m = (Ok (), m') \<Longrightarrow> reachable_fs env m'"
| writes: "reachable_fs env m \<Longrightarrow> test_writes env m m' \<Longrightarrow> reachable_fs env m'"
| take: "reachable_fs env m \<Longrightarrow> plain_name k \<Longrightarrow> reachable_fs env (snd (fs_TakeSnapshot env k m))"
| revert: "reachable_fs env m \<Longrightarrow> plain_name k \<Longrightarrow> reachable_fs env (snd (fs_RevertToSnapshot env k m))"

lemma only_calls: "fs_inv env m \<Longrightarrow> test_writes env m (m\<lparr>fmCalls := k\<rparr>)"
  by (elim fs_invE) (auto simp: test_writes_def test_tree_def plain_dir_def)

lemma revert_missing:
  assumes inv: "fs_inv env m" and n: "plain_name n" and none: "snapshot_tree m n = None"
  shows "\<exists>k. fs_RevertToSnapshot env n m
    = (Err (Errorf ''snapshot with name [%s] doesn't exist'' [n]), m\<lparr>fmCalls := k\<rparr>)"
proof -
  from inv obtain t s dm es sm ss where i: "calm env" "fmTestDir m = Some t" "fmSnapshotDir m = Some s" "folders t s"
    "lookup (fmDisk m) t = Some (Dir dm es)" "copyable (Dir dm es)"
    "lookup (fmDisk m) s = Some (Dir sm ss)" "test_tree m = Some (Dir dm es)"
    "\<forall>n v. snapshot_tree m n = Some v \<longrightarrow> plain_dir v \<and> restored (umask env) v = v"
    by (rule fs_invE)
  have "map_of ss n = None"
    using none n i(3,7) by (simp add: snapshot_tree_def lookup_append split: option.splits)
  from read_missing [OF i(1,7) this] obtain k where
    "attempt (ReadFile env (Some (s @ [n]))) m = (Ok (Inl ErrNotExist), m\<lparr>fmCalls := k\<rparr>)"
    by (auto simp: reaches_def)
  then show ?thesis using i(3) snapshot_path [OF i(4) n] by (auto simp: fs_RevertToSnapshot_def)
qed

text \<open>Each of these is a step of the interface.\<close>

lemma fs_session_step:
  assumes "fs_session env n m m'" and inv: "fs_inv env m"
  shows "fs_snapshots.step env n m m'"
  using assms(1)
proof cases
  case writes
  then show ?thesis by (simp add: fs_snapshots.step_def)
next
  case (take k)
  show ?thesis
  proof (cases "snapshot_tree m k")
    case None
    from inv obtain t s u where "fmTestDir m = Some t" "fmSnapshotDir m = Some s" "test_tree m = Some u"
      by (elim fs_invE) simp
    from fs_TakeSnapshot_reaches [OF inv take(2) None this] take
    have "take_named env k m = Some m'" by (auto simp: take_named_def ok_state_def reaches_def)
    then show ?thesis using take(3) by (auto simp: fs_snapshots.step_def)
  next
    case (Some v)
    from fs_TakeSnapshot_exists [OF inv this] take obtain j where "m' = m\<lparr>fmCalls := j\<rparr>" by auto
    then show ?thesis using only_calls [OF inv] by (simp add: fs_snapshots.step_def)
  qed
next
  case (revert k)
  show ?thesis
  proof (cases "snapshot_tree m k")
    case None
    from revert_missing [OF inv revert(2) this] revert obtain j where "m' = m\<lparr>fmCalls := j\<rparr>" by auto
    then show ?thesis using only_calls [OF inv] by (simp add: fs_snapshots.step_def)
  next
    case (Some v)
    from revert_effect [OF inv this] revert have "revert_named env k m = Some m'"
      using Some by (auto simp: revert_named_def ok_state_def)
    then show ?thesis by (auto simp: fs_snapshots.step_def)
  qed
qed

lemma fs_steps_in_locale:
  assumes "(fs_session env n)\<^sup>*\<^sup>* m m'" and "fs_inv env m"
  shows "(fs_snapshots.step env n)\<^sup>*\<^sup>* m m' \<and> fs_inv env m'"
  using assms
proof (induction rule: rtranclp_induct)
  case base
  then show ?case by simp
next
  case (step k l)
  then have k: "(fs_snapshots.step env n)\<^sup>*\<^sup>* m k" "fs_inv env k" by simp_all
  have "fs_snapshots.step env n k l" by (rule fs_session_step [OF step.hyps(2) k(2)])
  then show ?case using k fs_snapshots.step_inv [OF k(2)] by (meson rtranclp.rtrancl_into_rtrancl)
qed

lemma other_name: "\<exists>n :: string. n \<noteq> k"
  by (metis list.distinct(1))

lemma reachable_fs_inv:
  assumes env: "good_env env" and run: "reachable_fs env m"
  shows "fs_inv env m"
  using run
proof induction
  case (new m m')
  then show ?case by (rule new_fs_inv [OF env])
next
  case (writes m m')
  then show ?case using test_writes_inv(1) by blast
next
  case (take m k)
  obtain n where "k \<noteq> n" using other_name by metis
  with take show ?case by (meson fs_session.take fs_session_step fs_snapshots.step_inv)
next
  case (revert m k)
  then show ?case by (meson fs_session.revert fs_session_step fs_snapshots.step_inv)
qed

text \<open>What a copy has in common with the tree it was made from: every file, whatever its path.\<close>

lemma map_of_copied_all: "map_of (copied_all um es) x = map_option (copied um) (map_of es x)"
  by (induction es) auto

lemma lookup_copied: "lookup (copied um t) p = map_option (copied um) (lookup t p)"
proof (induction t p rule: lookup.induct)
  case (2 m es x xs)
  then show ?case by (cases "map_of es x") (auto simp: map_of_copied_all)
qed auto

lemma restored_file:
  "lookup (restored um t) p = Some (File fm c) \<longleftrightarrow> lookup t p = Some (File fm c)"
proof (cases t)
  case (Dir m es)
  have "lookup (restored um t) p = lookup (copied um t) p" if "p \<noteq> []"
    using that by (cases p) (simp_all add: Dir restored_def)
  moreover have "lookup (restored um t) [] \<noteq> Some (File fm c)" "lookup t [] \<noteq> Some (File fm c)"
    by (simp_all add: Dir restored_def)
  moreover have "map_option (copied um) v = Some (File fm c) \<longleftrightarrow> v = Some (File fm c)" for v
    by (cases v; cases "the v") simp_all
  ultimately show ?thesis by (metis lookup_copied)
qed (simp_all add: restored_def)

text \<open>C7: whatever a test does after a snapshot of its folder, reverting to it succeeds and brings
  back the folder as it was: every file at its path with its mode and content, every directory
  with its mode less the umask, nothing else. The folder itself gets the mode of a new one.\<close>

theorem fs_snapshot_restores:
  assumes "good_env env" and "reachable_fs env m" and "plain_name n" and "snapshot_tree m n = None"
    and "(fs_session env n)\<^sup>*\<^sup>* (snd (fs_TakeSnapshot env n m)) m'"
  shows "fst (fs_TakeSnapshot env n m) = Ok ()
       \<and> fst (fs_RevertToSnapshot env n m') = Ok ()
       \<and> (\<exists>t u. test_tree m = Some t
            \<and> test_tree (snd (fs_RevertToSnapshot env n m')) = Some u
            \<and> u = restored (umask env) t
            \<and> (\<forall>p fm c. lookup u p = Some (File fm c) \<longleftrightarrow> lookup t p = Some (File fm c)))"
proof -
  have inv: "fs_inv env m" by (rule reachable_fs_inv [OF assms(1,2)])
  from inv obtain t s u where dirs: "fmTestDir m = Some t" "fmSnapshotDir m = Some s" "test_tree m = Some u"
    by (elim fs_invE) simp
  from fs_TakeSnapshot_reaches [OF inv assms(3,4) dirs]
  obtain m0 where run: "fs_TakeSnapshot env n m = (Ok (), m0)" by (auto simp: reaches_def)
  then have taken: "take_named env n m = Some m0" using assms(3) by (simp add: take_named_def ok_state_def)
  have "(fs_snapshots.step env n)\<^sup>*\<^sup>* m0 m'"
    using fs_steps_in_locale [OF assms(5)] fs_snapshots.take_inv [OF inv taken] run by simp
  from fs_snapshots.restore [OF inv taken this]
  obtain m1 where rev: "revert_named env n m' = Some m1" "test_tree m1 = map_option (restored (umask env)) (test_tree m)"
    by blast
  then have "fs_RevertToSnapshot env n m' = (Ok (), m1)"
    by (auto simp: revert_named_def ok_state_def split: if_splits prod.splits outcome.splits)
  then show ?thesis using run rev(2) dirs(3) by (simp add: restored_file)
qed

text \<open>A machine with an empty folder for temporary files, and a manager made there.\<close>

definition sample_fs_env :: fs_env where
  "sample_fs_env = \<lparr>umask = 18, temp_dir = [''tmp''], work_dir = [''home''], fault_at = (\<lambda>k. None),
     left_at = (\<lambda>k d. d), random_at = (\<lambda>k. if k = 0 then ''1'' else ''2'')\<rparr>"

definition sample_manager :: "(string \<times> node) list \<Rightarrow> FilesystemManager" where
  "sample_manager es = \<lparr>fmTestDir = Some [''tmp'', ''osha-1''], fmSnapshotDir = Some [''tmp'', ''osha-snapshots-2''],
     fmDisk = Dir 511 [(''tmp'', Dir 511 [(''osha-1'', Dir 448 es), (''osha-snapshots-2'', Dir 448 [])])],
     fmCalls = 2\<rparr>"

definition empty_machine :: FilesystemManager where
  "empty_machine = \<lparr>fmTestDir = None, fmSnapshotDir = None, fmDisk = Dir 511 [(''tmp'', Dir 511 [])], fmCalls = 0\<rparr>"

lemma sample_good_env: "good_env sample_fs_env"
  by (simp add: good_env_def calm_def sample_fs_env_def plain_name_def)

lemma temp_tries_first:
  "0 < k \<Longrightarrow> Mkdir env (Some (temp_dir env @ [pre @ random_at env (fmCalls m)])) 448 m = (Ok (), m1)
    \<Longrightarrow> temp_tries env pre k m = (Ok (temp_dir env @ [pre @ random_at env (fmCalls m)]), m1)"
  by (cases k) (simp_all add: Let_def)

lemma sample_new: "NewFilesystemManager sample_fs_env empty_machine = (Ok (), sample_manager [])"
proof -
  let ?m = "empty_machine\<lparr>fmDisk := Dir 511 [(''tmp'', Dir 511 [(''osha-1'', Dir 448 [])])], fmCalls := Suc 0\<rparr>"
  have one: "MkdirTemp sample_fs_env ''osha-'' empty_machine = (Ok [''tmp'', ''osha-1''], ?m)"
    unfolding MkdirTemp_def
    using temp_tries_first [of 10000 sample_fs_env "''osha-''" empty_machine ?m]
    by (simp add: sample_fs_env_def empty_machine_def Mkdir_def os_call_def make_dir_def insert_entry_def)
  have two: "MkdirTemp sample_fs_env ''osha-snapshots-'' ?m = (Ok [''tmp'', ''osha-snapshots-2''],
      ?m\<lparr>fmDisk := fmDisk (sample_manager []), fmCalls := 2\<rparr>)"
    unfolding MkdirTemp_def
    using temp_tries_first [of 10000 sample_fs_env "''osha-snapshots-''" ?m
        "?m\<lparr>fmDisk := fmDisk (sample_manager []), fmCalls := 2\<rparr>"]
    by (simp add: sample_fs_env_def empty_machine_def sample_manager_def Mkdir_def os_call_def make_dir_def insert_entry_def)
  show ?thesis
    unfolding NewFilesystemManager_def
    by (simp add: one two set_dirs_def) (simp add: sample_manager_def empty_machine_def)
qed

lemma sample_test_tree: "test_tree (sample_manager es) = Some (Dir 448 es)"
  by (simp add: test_tree_def sample_manager_def)

lemma sample_reachable: "copyable (Dir 448 es) \<Longrightarrow> reachable_fs sample_fs_env (sample_manager es)"
  by (rule reachable_fs.writes [OF reachable_fs.new [OF sample_new]])
    (auto simp: test_writes_def sample_test_tree plain_dir_def, auto simp: sample_manager_def)

theorem fs_snapshot_restores_witness:
  "let m = snd (fs_TakeSnapshot sample_fs_env ''a'' (sample_manager [(''f'', File 384 [1, 2])])) in
   \<exists>m' u. test_writes sample_fs_env m m' \<and> test_tree m' = Some (Dir 448 [])
     \<and> test_tree (snd (fs_RevertToSnapshot sample_fs_env ''a'' m')) = Some u
     \<and> lookup u [''f''] = Some (File 384 [1, 2])"
proof -
  let ?m = "sample_manager [(''f'', File 384 [1, 2])]"
  let ?k = "snd (fs_TakeSnapshot sample_fs_env ''a'' ?m)"
  have plain: "plain_name ''f''" "plain_name ''a''" by (simp_all add: plain_name_def)
  have reach: "reachable_fs sample_fs_env ?m" by (rule sample_reachable) (simp add: plain)
  have free: "snapshot_tree ?m ''a'' = None" by (simp add: snapshot_tree_def sample_manager_def)
  have "fs_inv sample_fs_env ?k"
    using reachable_fs_inv [OF sample_good_env reachable_fs.take [OF reach plain(2)]] .
  then obtain t s where k: "fmTestDir ?k = Some t" "fmSnapshotDir ?k = Some s" "apart t s"
    "\<exists>u. lookup (fmDisk ?k) t = Some u"
    by (elim fs_invE) (auto simp: folders_def)
  obtain m' where m': "m' = ?k\<lparr>fmDisk := put t (Some (Dir 448 [])) (fmDisk ?k)\<rparr>" by simp
  have gone: "test_tree m' = Some (Dir 448 [])"
    using k lookup_put [of "fmDisk ?k" t] by (auto simp: m' test_tree_def)
  then have step: "test_writes sample_fs_env ?k m'"
    using k lookup_put_apart [OF k(3)] by (auto simp: test_writes_def plain_dir_def m')
  have "(fs_session sample_fs_env ''a'')\<^sup>*\<^sup>* ?k m'" using step by (intro r_into_rtranclp fs_session.writes)
  from fs_snapshot_restores [OF sample_good_env reach plain(2) free this] obtain t' u where
    "test_tree ?m = Some t'" "test_tree (snd (fs_RevertToSnapshot sample_fs_env ''a'' m')) = Some u"
    "\<forall>p fm c. lookup u p = Some (File fm c) \<longleftrightarrow> lookup t' p = Some (File fm c)" by blast
  then show ?thesis unfolding Let_def using step gone
    by (intro exI [of _ m'] exI [of _ u]) (auto simp: sample_test_tree)
qed

section \<open>A snapshot that fails\<close>

definition errs :: "'a fop \<Rightarrow> FilesystemManager \<Rightarrow> error \<Rightarrow> node \<Rightarrow> bool" where
  "errs f m e d \<longleftrightarrow> (\<exists>k. f m = (Err e, m\<lparr>fmCalls := k, fmDisk := d\<rparr>))"

lemma errs_bind: "errs f m e d \<Longrightarrow> errs (bind_op f g) m e d"
  by (auto simp: errs_def)












end
