(* ===== verification/Test_Manager.thy ===== *)
theory Test_Manager
  imports Beacon_Manager Docker_State Filesystem
begin

text \<open>
  \<open>test-manager.go\<close>, with \<open>types.go\<close>, \<open>module.go\<close> and \<open>snapshot.go\<close>: the manager a test works with.
  It owns the Beacon mock, the Docker mock and the filesystem manager, talks to a Hardhat node over
  RPC, and takes and reverts snapshots of all of them, and of the modules that registered, under
  one name.
\<close>

section \<open>Services\<close>

type_synonym Service = int \<comment> \<open>a Go \<open>int\<close>\<close>

definition Service_EthClients :: Service where "Service_EthClients = 1"
definition Service_Docker :: Service where "Service_Docker = 2"
definition Service_Filesystem :: Service where "Service_Filesystem = 4"

definition Service_All :: Service where
  "Service_All = or (or Service_EthClients Service_Docker) Service_Filesystem"

definition Contains :: "Service \<Rightarrow> Service \<Rightarrow> bool" where
  "Contains s service \<longleftrightarrow> and s service = service"

section \<open>The state\<close>

text \<open>
  The Hardhat node and the modules are code outside the repository: \<open>'w\<close> is the state they keep,
  \<open>'md\<close> a module (an interface value) and \<open>'st\<close> what it gives out as a snapshot of its state.
\<close>

record ('md, 'st) Snapshot =
  snName :: string
  snStates :: "'md \<rightharpoonup> 'st"

record ('w, 'md, 'st) TestManager =
  tmWorld :: 'w
  tmBeacon :: bstate
  tmDocker :: DockerMockManager
  tmFs :: FilesystemManager
  tmBaseline :: string
  tmChainID :: u64
  tmSnapshots :: "string \<rightharpoonup> ('md, 'st) Snapshot"
  tmHardhatMap :: "string \<rightharpoonup> string"
  tmModules :: "string \<rightharpoonup> 'md"
  tmTicks :: nat

type_synonym ('w, 'md, 'st, 'a) top = "(('w, 'md, 'st) TestManager, 'a) op"

text \<open>Arguments and results of JSON-RPC calls, and the header of a block.\<close>

datatype rpc_arg = ArgString string | ArgUint u64 | ArgBool bool

datatype rpc_value = JsonNull | JsonBool bool | JsonNumber int | JsonString string

record BlockHeader =
  bhNumber :: nat
  bhTime :: u64

text \<open>The code outside the repository.\<close>

record ('w, 'md, 'st) test_lib =
  rpc_Dial :: "string \<Rightarrow> error option"
  ethclient_Dial :: "string \<Rightarrow> error option"
  rpc_call :: "string \<Rightarrow> rpc_arg list \<Rightarrow> 'w \<Rightarrow> (error + rpc_value) \<times> 'w"
  HeaderByNumber :: "'w \<Rightarrow> (error + BlockHeader) \<times> 'w"
  eth_ChainID :: "'w \<Rightarrow> (error + nat) \<times> 'w"
  GetModuleName :: "'md \<Rightarrow> string"
  TakeModuleSnapshot :: "'md \<Rightarrow> 'w \<Rightarrow> (error + 'st) \<times> 'w"
  hashable :: "'md \<Rightarrow> bool" \<comment> \<open>whether the dynamic type can be a map key; Go checks it at run time\<close>
  RevertModuleToSnapshot :: "'md \<Rightarrow> 'st \<Rightarrow> 'w \<Rightarrow> (error + unit) \<times> 'w"
  state_text :: "'st \<Rightarrow> string"
  tlConfig :: config_lib
  tlDocker :: docker_lib

text \<open>What the environment decides; \<open>uuid_at\<close> and \<open>module_order\<close> by the number of the choice.\<close>

record test_env =
  HardhatUrl :: "string option"
  start_time :: time
  uuid_at :: "nat \<Rightarrow> string"
  module_order :: "nat \<Rightarrow> string set \<Rightarrow> string list"
  teDocker :: docker_env
  teFiles :: fs_env

section \<open>Calls to the parts\<close>

definition on_world :: "('w \<Rightarrow> (error + 'a) \<times> 'w) \<Rightarrow> ('w, 'md, 'st, 'a) top" where
  "on_world f m =
     (case f (tmWorld m) of
        (Inl e, w) \<Rightarrow> (Err e, m\<lparr>tmWorld := w\<rparr>)
      | (Inr x, w) \<Rightarrow> (Ok x, m\<lparr>tmWorld := w\<rparr>))"

definition on_beacon :: "(bstate, 'a) op \<Rightarrow> ('w, 'md, 'st, 'a) top" where
  "on_beacon f m = (case f (tmBeacon m) of (r, b) \<Rightarrow> (r, m\<lparr>tmBeacon := b\<rparr>))"

definition on_docker :: "'a dop \<Rightarrow> ('w, 'md, 'st, 'a) top" where
  "on_docker f m = (case f (tmDocker m) of (r, d) \<Rightarrow> (r, m\<lparr>tmDocker := d\<rparr>))"

definition on_fs :: "'a fop \<Rightarrow> ('w, 'md, 'st, 'a) top" where
  "on_fs f m = (case f (tmFs m) of (r, k) \<Rightarrow> (r, m\<lparr>tmFs := k\<rparr>))"

text \<open>\<open>Call(nil, method, args...)\<close>, whose result is ignored, and \<open>Call(&s, method, args...)\<close>.\<close>

definition rpc_do ::
  "('w, 'md, 'st) test_lib \<Rightarrow> string \<Rightarrow> rpc_arg list \<Rightarrow> ('w, 'md, 'st, unit) top" where
  "rpc_do lib method args = bind_op (on_world (rpc_call lib method args)) (\<lambda>_. return_op ())"

definition decode_string :: "string \<Rightarrow> rpc_value \<Rightarrow> error + string" where
  "decode_string old v =
     (case v of
        JsonString s \<Rightarrow> Inr s
      | JsonNull \<Rightarrow> Inr old
      | _ \<Rightarrow> Inl (External ''json: cannot unmarshal into Go value of type string''))"

definition rpc_string ::
  "('w, 'md, 'st) test_lib \<Rightarrow> string \<Rightarrow> string \<Rightarrow> rpc_arg list \<Rightarrow> ('w, 'md, 'st, string) top" where
  "rpc_string lib old method args =
     bind_op (on_world (rpc_call lib method args)) (\<lambda>v. lift_op (decode_string old v))"

definition range_modules :: "test_env \<Rightarrow> ('w, 'md, 'st, string list) top" where
  "range_modules env m = (Ok (module_order env (tmTicks m) (dom (tmModules m))), m\<lparr>tmTicks := tmTicks m + 1\<rparr>)"

section \<open>Taking a snapshot\<close>

text \<open>Drawing names until one is not taken yet: the loop ends only if such a name comes.\<close>

partial_function (option) fresh_name ::
  "(nat \<Rightarrow> string) \<Rightarrow> (string \<rightharpoonup> 'x) \<Rightarrow> nat \<Rightarrow> (string \<times> nat) option" where
  "fresh_name uuid taken k =
     (if taken (uuid k) = None then Some (uuid k, k + 1) else fresh_name uuid taken (k + 1))"

text \<open>
  The loop over the registered modules, in the order the runtime chose. The modules are the keys of
  the map of their states, and an interface value of an unhashable type as a key is a panic.
\<close>

fun take_modules ::
  "('w, 'md, 'st) test_lib \<Rightarrow> string list \<Rightarrow> ('md \<rightharpoonup> 'st) \<Rightarrow> ('w, 'md, 'st, 'md \<rightharpoonup> 'st) top" where
  "take_modules lib [] states m = (Ok states, m)"
| "take_modules lib (name # names) states m =
     (case tmModules m name of
        None \<Rightarrow> take_modules lib names states m
      | Some module \<Rightarrow>
          bind_op (wrap_op ''error taking snapshot for module %s: %w'' [GetModuleName lib module]
                     (on_world (TakeModuleSnapshot lib module))) (\<lambda>state.
          if hashable lib module then take_modules lib names (states(module \<mapsto> state))
          else panic_op UnhashableKey) m)"

definition set_hardhat_id :: "string \<Rightarrow> string \<Rightarrow> ('w, 'md, 'st) TestManager \<Rightarrow> ('w, 'md, 'st) TestManager" where
  "set_hardhat_id name i m = m\<lparr>tmHardhatMap := (tmHardhatMap m)(name \<mapsto> i)\<rparr>"

text \<open>The snapshot itself, once it has a name.\<close>

definition take_services ::
  "('w, 'md, 'st) test_lib \<Rightarrow> test_env \<Rightarrow> string \<Rightarrow> ('w, 'md, 'st, string) top" where
  "take_services lib env name =
     bind_op (wrap_op ''error taking snapshot of Hardhat: %w'' []
                (rpc_string lib [] ''evm_snapshot'' [])) (\<lambda>hardhatSnapshotName.
     bind_op (modify_op (set_hardhat_id name hardhatSnapshotName)) (\<lambda>_.
     bind_op (on_beacon (modify_op (TakeSnapshot name))) (\<lambda>_.
     bind_op (wrap_op ''error taking snapshot of Docker: %w'' []
                (on_docker (docker_TakeSnapshot (tlDocker lib) (teDocker env) name))) (\<lambda>_.
     bind_op (wrap_op ''error taking snapshot of the filesystem: %w'' []
                (on_fs (fs_TakeSnapshot (teFiles env) name))) (\<lambda>_.
     bind_op (range_modules env) (\<lambda>names.
     bind_op (take_modules lib names Map.empty) (\<lambda>states.
     bind_op (modify_op (\<lambda>m. m\<lparr>tmSnapshots := (tmSnapshots m)
                (name \<mapsto> \<lparr>snName = name, snStates = states\<rparr>)\<rparr>)) (\<lambda>_.
     return_op name))))))))"

text \<open>\<open>None\<close> stands for a call that does not return.\<close>

definition CreateSnapshot ::
  "('w, 'md, 'st) test_lib \<Rightarrow> test_env \<Rightarrow> ('w, 'md, 'st) TestManager
   \<Rightarrow> (string outcome \<times> ('w, 'md, 'st) TestManager) option" where
  "CreateSnapshot lib env m =
     (case fresh_name (uuid_at env) (tmSnapshots m) (tmTicks m) of
        None \<Rightarrow> None
      | Some (name, k) \<Rightarrow> Some (take_services lib env name (m\<lparr>tmTicks := k\<rparr>)))"

section \<open>Reverting\<close>

fun revert_modules ::
  "('w, 'md, 'st) test_lib \<Rightarrow> ('md \<rightharpoonup> 'st) \<Rightarrow> string list \<Rightarrow> ('w, 'md, 'st, unit) top" where
  "revert_modules lib states [] m = (Ok (), m)"
| "revert_modules lib states (name # names) m =
     (case tmModules m name of
        None \<Rightarrow> revert_modules lib states names m
      | Some module \<Rightarrow>
          (if \<not> hashable lib module then (Panic UnhashableKey, m)
           else case states module of
             None \<Rightarrow> revert_modules lib states names m
           | Some moduleState \<Rightarrow>
               bind_op (wrap_op ''error reverting the module to snapshot %s: %w'' [state_text lib moduleState]
                          (on_world (RevertModuleToSnapshot lib module moduleState))) (\<lambda>_.
               revert_modules lib states names) m))"

text \<open>Reverting Hardhat, which deletes the snapshot it reverts to, so a new one takes its place.\<close>

definition revert_hardhat ::
  "('w, 'md, 'st) test_lib \<Rightarrow> string \<Rightarrow> ('w, 'md, 'st, unit) top" where
  "revert_hardhat lib snapshotName =
     bind_op (read_op (\<lambda>m. tmHardhatMap m snapshotName)) (\<lambda>found.
     case found of
       None \<Rightarrow> fail_op (Errorf ''Hardhat snapshot ID not found for snapshot ID [%s]'' [snapshotName])
     | Some hardhatSnapshotName \<Rightarrow>
         bind_op (wrap_op ''error reverting Hardhat to snapshot %s: %w'' [snapshotName]
                    (rpc_do lib ''evm_revert'' [ArgString hardhatSnapshotName])) (\<lambda>_.
         bind_op (wrap_op ''error regenerating snapshot of Hardhat after revert: Hardhat deletes reverted snapshots. %w'' []
                    (rpc_string lib hardhatSnapshotName ''evm_snapshot'' [])) (\<lambda>newName.
         modify_op (set_hardhat_id snapshotName newName))))"

definition RevertSnapshot ::
  "('w, 'md, 'st) test_lib \<Rightarrow> test_env \<Rightarrow> string \<Rightarrow> ('w, 'md, 'st, unit) top" where
  "RevertSnapshot lib env snapshotName =
     bind_op (read_op (\<lambda>m. tmSnapshots m snapshotName)) (\<lambda>found.
     case found of
       None \<Rightarrow> fail_op (Errorf ''snapshot %s does not exist'' [snapshotName])
     | Some snapshot \<Rightarrow>
         bind_op (revert_hardhat lib snapshotName) (\<lambda>_.
         bind_op (wrap_op ''error reverting the BN to snapshot %s: %w'' [snapshotName]
                    (on_beacon (RevertToSnapshot snapshotName))) (\<lambda>_.
         bind_op (wrap_op ''error reverting Docker to snapshot %s: %w'' [snapshotName]
                    (on_docker (docker_RevertToSnapshot (tlDocker lib) (teDocker env) snapshotName))) (\<lambda>_.
         bind_op (wrap_op ''error reverting the filesystem to snapshot %s: %w'' [snapshotName]
                    (on_fs (fs_RevertToSnapshot (teFiles env) snapshotName))) (\<lambda>_.
         bind_op (range_modules env) (\<lambda>names.
         revert_modules lib (snStates snapshot) names))))))"

definition RevertToBaseline :: "('w, 'md, 'st) test_lib \<Rightarrow> test_env \<Rightarrow> ('w, 'md, 'st, unit) top" where
  "RevertToBaseline lib env =
     bind_op (read_op tmBaseline) (\<lambda>baseline.
     wrap_op ''error reverting to baseline snapshot: %w'' [] (RevertSnapshot lib env baseline))"

text \<open>A test's body is any change of the state; a nil pointer is \<open>None\<close>.\<close>

definition DependsOn ::
  "('w, 'md, 'st) test_lib \<Rightarrow> test_env \<Rightarrow> (('w, 'md, 'st) TestManager \<Rightarrow> ('w, 'md, 'st) TestManager)
   \<Rightarrow> string option \<Rightarrow> ('w, 'md, 'st, unit) top" where
  "DependsOn lib env dependency snapshotName =
     (case snapshotName of
        Some name \<Rightarrow>
          if name \<noteq> []
          then wrap_op ''error reverting to snapshot %s: %v'' [name] (RevertSnapshot lib env name)
          else modify_op dependency
      | None \<Rightarrow> modify_op dependency)"

definition tm_Close :: "('w, 'md, 'st) test_lib \<Rightarrow> test_env \<Rightarrow> ('w, 'md, 'st, unit) top" where
  "tm_Close lib env =
     bind_op (RevertToBaseline lib env) (\<lambda>_.
     on_fs (fs_Close (teFiles env)))"

section \<open>Modules\<close>

definition RegisterModule ::
  "('w, 'md, 'st) test_lib \<Rightarrow> 'md \<Rightarrow> ('w, 'md, 'st) TestManager \<Rightarrow> ('w, 'md, 'st) TestManager" where
  "RegisterModule lib module m = m\<lparr>tmModules := (tmModules m)(GetModuleName lib module \<mapsto> module)\<rparr>"

definition GetRegisteredModules :: "test_env \<Rightarrow> ('w, 'md, 'st, 'md list) top" where
  "GetRegisteredModules env =
     bind_op (range_modules env) (\<lambda>names.
     read_op (\<lambda>m. List.map_filter (tmModules m) names))"

definition tm_GetTestDir :: "('w, 'md, 'st) TestManager \<Rightarrow> string" where
  "tm_GetTestDir m = GetTestDir (tmFs m)"

section \<open>The chain\<close>

definition hardhat_mineBlock :: "('w, 'md, 'st) test_lib \<Rightarrow> ('w, 'md, 'st, unit) top" where
  "hardhat_mineBlock lib = wrap_op ''error mining EL block: %w'' [] (rpc_do lib ''evm_mine'' [])"

definition hardhat_increaseTime :: "('w, 'md, 'st) test_lib \<Rightarrow> u64 \<Rightarrow> ('w, 'md, 'st, unit) top" where
  "hardhat_increaseTime lib seconds =
     wrap_op ''error increasing EL time: %w'' [] (rpc_do lib ''evm_increaseTime'' [ArgUint seconds])"

definition tm_CommitBlock :: "('w, 'md, 'st) test_lib \<Rightarrow> ('w, 'md, 'st, unit) top" where
  "tm_CommitBlock lib =
     bind_op (hardhat_mineBlock lib) (\<lambda>_.
     bind_op (read_op (\<lambda>m. SecondsPerSlot (config (fst (tmBeacon m))))) (\<lambda>secondsPerSlot.
     bind_op (hardhat_increaseTime lib secondsPerSlot) (\<lambda>_.
     on_beacon (modify_op (mgr_CommitBlock True)))))"

definition AdvanceSlots :: "('w, 'md, 'st) test_lib \<Rightarrow> u64 \<Rightarrow> bool \<Rightarrow> ('w, 'md, 'st, unit) top" where
  "AdvanceSlots lib slots includeBlocks =
     (if includeBlocks
      then for_each (\<lambda>i. tm_CommitBlock lib) [0..<unat slots]
      else bind_op (for_each (\<lambda>i. on_beacon (modify_op (mgr_CommitBlock False))) [0..<unat slots]) (\<lambda>_.
           bind_op (read_op (\<lambda>m. SecondsPerSlot (config (fst (tmBeacon m))))) (\<lambda>secondsPerSlot.
           wrap_op ''error advancing time on EL: %w'' []
             (rpc_do lib ''evm_increaseTime'' [ArgUint (secondsPerSlot * slots)]))))"

definition SetBeaconHeadSlot :: "u64 \<Rightarrow> ('w, 'md, 'st, unit) top" where
  "SetBeaconHeadSlot slot = on_beacon (modify_op (mgr_SetHighestSlot slot))"

definition ToggleAutoMine :: "('w, 'md, 'st) test_lib \<Rightarrow> bool \<Rightarrow> ('w, 'md, 'st, unit) top" where
  "ToggleAutoMine lib enabled =
     wrap_op ''error toggling automine: %w'' [] (rpc_do lib ''evm_setAutomine'' [ArgBool enabled])"

definition SetMiningInterval :: "('w, 'md, 'st) test_lib \<Rightarrow> u64 \<Rightarrow> ('w, 'md, 'st, unit) top" where
  "SetMiningInterval lib interval =
     wrap_op ''error setting interval mining: %w'' [] (rpc_do lib ''evm_setIntervalMining'' [ArgUint interval])"

section \<open>Setting up\<close>

text \<open>
  An error after the filesystem manager was made removes its folders; an error of that removal is
  only logged.
\<close>

definition or_close :: "test_env \<Rightarrow> ('w, 'md, 'st, 'a) top \<Rightarrow> ('w, 'md, 'st, 'a) top" where
  "or_close env f m =
     (case f m of
        (Err e, m1) \<Rightarrow>
          (case on_fs (fs_Close (teFiles env)) m1 of
             (Panic p, m2) \<Rightarrow> (Panic p, m2)
           | (_, m2) \<Rightarrow> (Err e, m2))
      | r \<Rightarrow> r)"

definition beacon_config :: "('w, 'md, 'st) test_lib \<Rightarrow> test_env \<Rightarrow> BlockHeader \<Rightarrow> nat \<Rightarrow> Config" where
  "beacon_config lib env header chainID =
     (NewDefaultConfig (tlConfig lib) (start_time env))
       \<lparr> FirstExecutionBlockIndex := of_nat (bhNumber header),
         ChainID := of_nat chainID,
         GenesisTime := sint (bhTime header) * 1000000000 \<rparr>"

definition dial :: "(string \<Rightarrow> error option) \<Rightarrow> string \<Rightarrow> ('w, 'md, 'st, unit) top" where
  "dial f url = (case f url of Some e \<Rightarrow> fail_op e | None \<Rightarrow> return_op ())"

text \<open>Everything up to the baseline snapshot.\<close>

definition connect_services ::
  "('w, 'md, 'st) test_lib \<Rightarrow> test_env \<Rightarrow> string \<Rightarrow> ('w, 'md, 'st, unit) top" where
  "connect_services lib env hardhatUrl =
     bind_op (wrap_op ''error creating FS manager: %w'' []
                (on_fs (NewFilesystemManager (teFiles env)))) (\<lambda>_.
     bind_op (or_close env (wrap_op ''error creating RPC client binding: %w'' []
                (dial (rpc_Dial lib) hardhatUrl))) (\<lambda>_.
     bind_op (or_close env (wrap_op ''error creating primary eth client with URL [%s]: %v'' [hardhatUrl]
                (dial (ethclient_Dial lib) hardhatUrl))) (\<lambda>_.
     bind_op (or_close env (wrap_op ''error getting latest EL block: %v'' []
                (on_world (HeaderByNumber lib)))) (\<lambda>latestBlockHeader.
     bind_op (or_close env (wrap_op ''error getting chain ID: %v'' []
                (on_world (eth_ChainID lib)))) (\<lambda>chainID.
     modify_op (\<lambda>m. m
       \<lparr> tmBeacon := NewBeaconMockManager (beacon_config lib env latestBlockHeader chainID) (snd (tmBeacon m)),
         tmDocker := NewDockerMockManager,
         tmChainID := of_nat chainID,
         tmSnapshots := Map.empty,
         tmHardhatMap := Map.empty,
         tmModules := Map.empty \<rparr>))))))"

definition NewTestManager ::
  "('w, 'md, 'st) test_lib \<Rightarrow> test_env \<Rightarrow> ('w, 'md, 'st) TestManager
   \<Rightarrow> (unit outcome \<times> ('w, 'md, 'st) TestManager) option" where
  "NewTestManager lib env m =
     (case HardhatUrl env of
        None \<Rightarrow> Some (Err (Errorf ''%s env var not set'' [''HARDHAT_URL'']), m)
      | Some hardhatUrl \<Rightarrow>
          (case connect_services lib env hardhatUrl m of
             (Err e, m1) \<Rightarrow> Some (Err e, m1)
           | (Panic p, m1) \<Rightarrow> Some (Panic p, m1)
           | (Ok _, m1) \<Rightarrow>
               (case CreateSnapshot lib env m1 of
                  None \<Rightarrow> None
                | Some (Err e, m2) \<Rightarrow> Some (Err (Wrapf ''error creating baseline snapshot: %w'' [] e), m2)
                | Some (Panic p, m2) \<Rightarrow> Some (Panic p, m2)
                | Some (Ok baselineSnapshotID, m2) \<Rightarrow>
                    Some (Ok (), m2\<lparr>tmBaseline := baselineSnapshotID\<rparr>))))"

end
