(* ===== verification/Test_Manager_Inv.thy ===== *)
theory Test_Manager_Inv
  imports Test_Manager Beacon_Manager_Inv Docker_Manager_Inv Filesystem_Inv
begin

text \<open>
  What the code outside the repository promises to the test manager, the invariant of the
  manager, and the effect of taking and reverting a snapshot under it. The manager's own three
  services implement the interface of \<open>snapshotting\<close>, each through its own instance of it.
\<close>

section \<open>What Hardhat and the modules promise\<close>

text \<open>
  \<open>evm_snapshot\<close> saves the chain under a new identifier; \<open>evm_revert\<close> brings a saved chain back and
  deletes that snapshot and every later one, and gives \<open>false\<close> for one that it does not have.
\<close>

definition hardhat_laws ::
  "('w, 'md, 'st) test_lib \<Rightarrow> ('w \<Rightarrow> 'c) \<Rightarrow> ('w \<Rightarrow> (string \<times> 'c) list) \<Rightarrow> bool" where
  "hardhat_laws lib chain saved \<longleftrightarrow>
     (\<forall>w. \<exists>i w'. rpc_call lib ''evm_snapshot'' [] w = (Inr (JsonString i), w')
        \<and> i \<notin> fst ` set (saved w) \<and> chain w' = chain w \<and> saved w' = saved w @ [(i, chain w)])
   \<and> (\<forall>w i c xs ys. saved w = xs @ (i, c) # ys \<longrightarrow> i \<notin> fst ` set xs \<longrightarrow>
        (\<exists>w'. rpc_call lib ''evm_revert'' [ArgString i] w = (Inr (JsonBool True), w')
           \<and> chain w' = c \<and> saved w' = xs))
   \<and> (\<forall>w i. i \<notin> fst ` set (saved w) \<longrightarrow>
        rpc_call lib ''evm_revert'' [ArgString i] w = (Inr (JsonBool False), w))"

text \<open>
  A module gives out a snapshot of its own state and takes it back, and leaves Hardhat and the other
  modules alone; Hardhat leaves the modules alone. Modules are of types that can be map keys.
\<close>

definition module_laws ::
  "('w, 'md, 'st) test_lib \<Rightarrow> ('w \<Rightarrow> 'c) \<Rightarrow> ('w \<Rightarrow> (string \<times> 'c) list)
   \<Rightarrow> ('w \<Rightarrow> 'md \<Rightarrow> 'v) \<Rightarrow> ('st \<Rightarrow> 'v) \<Rightarrow> bool" where
  "module_laws lib chain saved mview msnap \<longleftrightarrow>
     (\<forall>md w. \<exists>st w'. TakeModuleSnapshot lib md w = (Inr st, w') \<and> msnap st = mview w md
        \<and> mview w' = mview w \<and> chain w' = chain w \<and> saved w' = saved w)
   \<and> (\<forall>md st w. \<exists>w'. RevertModuleToSnapshot lib md st w = (Inr (), w')
        \<and> mview w' = (mview w)(md := msnap st) \<and> chain w' = chain w \<and> saved w' = saved w)
   \<and> (\<forall>method args w. mview (snd (rpc_call lib method args w)) = mview w)
   \<and> (\<forall>md. hashable lib md)"

text \<open>The runtime visits every module once, and UUIDs are plain names.\<close>

definition env_ok :: "test_env \<Rightarrow> bool" where
  "env_ok env \<longleftrightarrow> (\<forall>k A. finite A \<longrightarrow> set (module_order env k A) = A)
     \<and> (\<forall>k. plain_name (uuid_at env k))"

section \<open>The invariant\<close>

definition tm_inv :: "('w, 'md, 'st) test_lib \<Rightarrow> test_env \<Rightarrow> ('w, 'md, 'st) TestManager \<Rightarrow> bool" where
  "tm_inv lib env m \<longleftrightarrow> mgr_inv (tmBeacon m) \<and> docker_ok (tlDocker lib) (teDocker env) (tmDocker m)
     \<and> fs_inv (teFiles env) (tmFs m) \<and> finite (dom (tmModules m))
     \<and> (\<forall>n. tmSnapshots m n \<noteq> None \<longrightarrow> plain_name n \<and> tmHardhatMap m n \<noteq> None
          \<and> mgr_saved (tmBeacon m) n \<noteq> None \<and> dmSnapshots (tmDocker m) n \<noteq> None
          \<and> snapshot_tree (tmFs m) n \<noteq> None)
     \<and> (\<forall>n. snapshot_tree (tmFs m) n \<noteq> None \<longrightarrow> tmSnapshots m n \<noteq> None)"

text \<open>The three services as one, and what their snapshots hold.\<close>

type_synonym services = "adb \<times> DockerState \<times> node option"

definition services_view :: "('w, 'md, 'st) TestManager \<Rightarrow> services" where
  "services_view m = (mgr_view (tmBeacon m), dmState (tmDocker m), test_tree (tmFs m))"

definition services_saved :: "('w, 'md, 'st) TestManager \<Rightarrow> string \<Rightarrow> services option" where
  "services_saved m n =
     (case (mgr_saved (tmBeacon m) n, dmSnapshots (tmDocker m) n, snapshot_tree (tmFs m) n) of
        (Some b, Some d, Some t) \<Rightarrow> if tmSnapshots m n = None then None else Some (b, d, Some t)
      | _ \<Rightarrow> None)"

definition services_norm :: "test_env \<Rightarrow> services \<Rightarrow> services" where
  "services_norm env = (\<lambda>(b, d, t). (without_deposits b, without_hashes d,
     map_option (restored (umask (teFiles env))) t))"

definition live_step ::
  "beacon_lib \<Rightarrow> ('w, 'md, 'st) test_lib \<Rightarrow> test_env
   \<Rightarrow> ('w, 'md, 'st) TestManager \<Rightarrow> ('w, 'md, 'st) TestManager \<Rightarrow> bool" where
  \<comment> \<open>a call on one of the services, a change of the world outside, a new module, or a choice of the runtime\<close>
  "live_step blib lib env m m' \<longleftrightarrow>
     (\<exists>b. client_step blib (tmBeacon m) b \<and> m' = m\<lparr>tmBeacon := b\<rparr>)
   \<or> (\<exists>d. docker_step (tlDocker lib) (teDocker env) (tmDocker m) d \<and> m' = m\<lparr>tmDocker := d\<rparr>)
   \<or> (\<exists>k. test_writes (teFiles env) (tmFs m) k \<and> m' = m\<lparr>tmFs := k\<rparr>)
   \<or> (\<exists>w. m' = m\<lparr>tmWorld := w\<rparr>)
   \<or> (\<exists>md. m' = RegisterModule lib md m)
   \<or> (\<exists>k. m' = m\<lparr>tmTicks := k\<rparr>)"

section \<open>Calls to the parts\<close>

lemma on_parts [simp]:
  "f (tmWorld m) = (Inr x, w) \<Longrightarrow> on_world f m = (Ok x, m\<lparr>tmWorld := w\<rparr>)"
  "g (tmBeacon m) = (r, b) \<Longrightarrow> on_beacon g m = (r, m\<lparr>tmBeacon := b\<rparr>)"
  "h (tmDocker m) = (q, d) \<Longrightarrow> on_docker h m = (q, m\<lparr>tmDocker := d\<rparr>)"
  "l (tmFs m) = (p, k) \<Longrightarrow> on_fs l m = (p, m\<lparr>tmFs := k\<rparr>)"
  by (simp_all add: on_world_def on_beacon_def on_docker_def on_fs_def)

lemma fresh_name_free:
  "fresh_name uuid taken k = Some r \<Longrightarrow> taken (fst r) = None \<and> (\<exists>i. k \<le> i \<and> fst r = uuid i)"
  by (rule fresh_name.raw_induct
      [rotated, where P = "\<lambda>uuid taken k r. taken (fst r) = None \<and> (\<exists>i. k \<le> i \<and> fst r = uuid i)"])
    (fastforce split: if_splits dest: Suc_leD)+

text \<open>The first name from the \<open>k\<close>-th draw on that is not taken; nothing if there is none.\<close>

lemma fresh_name_least:
  assumes "taken (uuid (k + i)) = None" and "\<And>j. j < i \<Longrightarrow> taken (uuid (k + j)) \<noteq> None"
  shows "fresh_name uuid taken k = Some (uuid (k + i), k + i + 1)"
  using assms
proof (induction i arbitrary: k)
  case 0
  then show ?case by (subst fresh_name.simps) simp
next
  case (Suc i)
  have "taken (uuid k) \<noteq> None" using Suc.prems(2) [of 0] by simp
  moreover have "fresh_name uuid taken (k + 1) = Some (uuid (k + 1 + i), k + 1 + i + 1)"
    by (rule Suc.IH) (use Suc.prems in force)+
  ultimately show ?case by (subst fresh_name.simps) simp
qed

lemma fresh_name_Some:
  assumes "taken (uuid (k + i)) = None"
  shows "\<exists>j\<le>i. fresh_name uuid taken k = Some (uuid (k + j), k + j + 1)"
proof -
  obtain j where "taken (uuid (k + j)) = None" "\<And>l. l < j \<Longrightarrow> taken (uuid (k + l)) \<noteq> None"
    using exists_least_iff [of "\<lambda>j. taken (uuid (k + j)) = None"] assms by blast
  moreover from this have "j \<le> i" using assms not_less by blast
  ultimately show ?thesis using fresh_name_least by blast
qed

section \<open>The loops over the modules\<close>

lemma module_lawsE:
  assumes "module_laws lib chain saved mview msnap"
  obtains "\<And>md w. \<exists>st w'. TakeModuleSnapshot lib md w = (Inr st, w') \<and> msnap st = mview w md
        \<and> mview w' = mview w \<and> chain w' = chain w \<and> saved w' = saved w"
    and "\<And>md st w. \<exists>w'. RevertModuleToSnapshot lib md st w = (Inr (), w')
        \<and> mview w' = (mview w)(md := msnap st) \<and> chain w' = chain w \<and> saved w' = saved w"
    and "\<And>method args w. mview (snd (rpc_call lib method args w)) = mview w"
    and "\<And>md. hashable lib md"
  using assms unfolding module_laws_def by blast

lemma take_modules_effect:
  fixes m :: "('w, 'md, 'st) TestManager"
  assumes laws: "module_laws lib chain saved mview msnap"
  shows "\<exists>w st'. take_modules lib names st m = (Ok st', m\<lparr>tmWorld := w\<rparr>)
    \<and> mview w = mview (tmWorld m) \<and> chain w = chain (tmWorld m) \<and> saved w = saved (tmWorld m)
    \<and> (\<forall>md. map_option msnap (st' md) =
         (if \<exists>n\<in>set names. tmModules m n = Some md then Some (mview (tmWorld m) md)
          else map_option msnap (st md)))"
proof (induction names arbitrary: st m)
  case Nil
  show ?case by (intro exI [of _ "tmWorld m"] exI [of _ st]) simp
next
  case (Cons name names)
  show ?case
  proof (cases "tmModules m name")
    case None
    then show ?thesis using Cons.IH [of st m] by simp
  next
    case (Some md)
    from laws obtain s w where t: "TakeModuleSnapshot lib md (tmWorld m) = (Inr s, w)"
      "msnap s = mview (tmWorld m) md" "mview w = mview (tmWorld m)" "chain w = chain (tmWorld m)"
      "saved w = saved (tmWorld m)"
      by (elim module_lawsE) blast
    from Cons.IH [of "st(md \<mapsto> s)" "m\<lparr>tmWorld := w\<rparr>"] obtain w' st' where
      u: "take_modules lib names (st(md \<mapsto> s)) (m\<lparr>tmWorld := w\<rparr>) = (Ok st', m\<lparr>tmWorld := w'\<rparr>)"
      "mview w' = mview w" "chain w' = chain w" "saved w' = saved w"
      "\<forall>md'. map_option msnap (st' md') =
         (if \<exists>n\<in>set names. tmModules m n = Some md' then Some (mview w md')
          else map_option msnap ((st(md \<mapsto> s)) md'))" by (simp del: fun_upd_apply cong: if_cong) blast
    have "hashable lib md" using laws by (elim module_lawsE)
    then have run: "take_modules lib (name # names) st m = (Ok st', m\<lparr>tmWorld := w'\<rparr>)"
      by (simp add: Some t(1) u(1))
    show ?thesis
      by (rule exI [of _ w'], rule exI [of _ st']) (use run t u Some in auto)
  qed
qed

lemma revert_modules_effect:
  fixes m :: "('w, 'md, 'st) TestManager"
  assumes laws: "module_laws lib chain saved mview msnap"
  shows "\<exists>w. revert_modules lib st names m = (Ok (), m\<lparr>tmWorld := w\<rparr>)
    \<and> chain w = chain (tmWorld m) \<and> saved w = saved (tmWorld m)
    \<and> (\<forall>md. mview w md =
         (if (\<exists>n\<in>set names. tmModules m n = Some md) \<and> st md \<noteq> None then msnap (the (st md))
          else mview (tmWorld m) md))"
proof (induction names arbitrary: m)
  case Nil
  show ?case by (intro exI [of _ "tmWorld m"]) simp
next
  case (Cons name names)
  have hash: "hashable lib md" for md using laws by (elim module_lawsE)
  let ?found = "Option.bind (tmModules m name) (\<lambda>module. map_option (Pair module) (st module))"
  show ?case
  proof (cases ?found)
    case None
    then have skip: "revert_modules lib st (name # names) m = revert_modules lib st names m"
      using hash by (cases "tmModules m name") simp_all
    have "(\<exists>n\<in>set (name # names). tmModules m n = Some md) \<and> st md \<noteq> None \<longleftrightarrow>
        (\<exists>n\<in>set names. tmModules m n = Some md) \<and> st md \<noteq> None" for md
      using None by (cases "tmModules m name") auto
    then show ?thesis unfolding skip using Cons.IH [of m] by simp
  next
    case (Some p)
    then obtain md s where md: "tmModules m name = Some md" "st md = Some s" "?found = Some (md, s)"
      by (cases "tmModules m name") auto
    from laws obtain w where t: "RevertModuleToSnapshot lib md s (tmWorld m) = (Inr (), w)"
      "mview w = (mview (tmWorld m))(md := msnap s)" "chain w = chain (tmWorld m)" "saved w = saved (tmWorld m)"
      by (elim module_lawsE) blast
    from Cons.IH [of "m\<lparr>tmWorld := w\<rparr>"] obtain w' where
      u: "revert_modules lib st names (m\<lparr>tmWorld := w\<rparr>) = (Ok (), m\<lparr>tmWorld := w'\<rparr>)"
      "chain w' = chain w" "saved w' = saved w"
      "\<forall>md. mview w' md =
         (if (\<exists>n\<in>set names. tmModules m n = Some md) \<and> st md \<noteq> None then msnap (the (st md))
          else mview w md)" by auto
    have run: "revert_modules lib st (name # names) m = (Ok (), m\<lparr>tmWorld := w'\<rparr>)"
      by (simp add: md t(1) u(1) hash)
    show ?thesis
      by (rule exI [of _ w']) (use run t u md in auto)
  qed
qed

section \<open>The parts\<close>

lemma docker_take:
  assumes "docker_ok dlib denv d"
  shows "\<exists>d'. docker_TakeSnapshot dlib denv n d = (Ok (), d') \<and> docker_ok dlib denv d'
    \<and> dmState d' = dmState d \<and> dmSnapshots d' = (dmSnapshots d)(n \<mapsto> without_hashes (dmState d))"
proof -
  from assms have h: "json_faithful dlib" "fair_ranges denv" "docker_inv d" by (simp_all add: docker_ok_def)
  obtain d' where run: "docker_TakeSnapshot dlib denv n d = (Ok (), d')"
    using docker_TakeSnapshot_spec [OF h] by blast
  then have "ok_state (docker_TakeSnapshot dlib denv n) d = Some d'" by (simp add: ok_state_def)
  with run show ?thesis
    using docker_snapshots.take_inv [OF assms] docker_snapshots.take_view [OF assms]
      docker_snapshots.take_saved [OF assms] by blast
qed

lemma docker_revert:
  assumes "docker_ok dlib denv d" and "dmSnapshots d n = Some s"
  shows "\<exists>d'. docker_RevertToSnapshot dlib denv n d = (Ok (), d') \<and> docker_ok dlib denv d'
    \<and> dmState d' = without_hashes s \<and> dmSnapshots d' = dmSnapshots d"
proof -
  from assms have h: "json_faithful dlib" "fair_ranges denv" "docker_inv d" by (simp_all add: docker_ok_def)
  obtain d' where run: "docker_RevertToSnapshot dlib denv n d = (Ok (), d')"
    using docker_RevertToSnapshot_spec [OF h assms(2)] by blast
  then have "ok_state (docker_RevertToSnapshot dlib denv n) d = Some d'" by (simp add: ok_state_def)
  with run show ?thesis
    using docker_snapshots.revert_inv [OF assms(1)] docker_snapshots.revert_view [OF assms(1) _ assms(2)]
      docker_snapshots.revert_saved [OF assms(1)] by blast
qed

lemma beacon_revert:
  assumes "mgr_inv b" and "mgr_saved b n = Some v"
  shows "\<exists>b'. RevertToSnapshot n b = (Ok (), b') \<and> mgr_inv b'
    \<and> mgr_view b' = without_deposits v \<and> mgr_saved b' = mgr_saved b"
proof -
  from assms(2) obtain c where c: "snapshots (fst b) n = Some c" "v = abs_db (snd b) c"
    by (auto simp: mgr_saved_def)
  note facts = RevertToSnapshot_facts [OF assms(1) c(1)]
  show ?thesis
    by (rule exI [of _ "snd (RevertToSnapshot n b)"]) (use facts c(2) in \<open>simp add: prod_eq_iff\<close>)
qed

lemma fs_take:
  assumes inv: "fs_inv fenv k" and n: "plain_name n" and new: "snapshot_tree k n = None"
  shows "\<exists>k'. fs_TakeSnapshot fenv n k = (Ok (), k') \<and> fs_inv fenv k' \<and> test_tree k' = test_tree k
    \<and> snapshot_tree k' = (snapshot_tree k)(n := map_option (restored (umask fenv)) (test_tree k))
    \<and> test_tree k \<noteq> None"
proof -
  from inv obtain t s u where dirs: "fmTestDir k = Some t" "fmSnapshotDir k = Some s" "test_tree k = Some u"
    by (elim fs_invE) simp
  from fs_TakeSnapshot_reaches [OF inv n new dirs] obtain k' where run: "fs_TakeSnapshot fenv n k = (Ok (), k')"
    by (auto simp: reaches_def)
  then have "ok_state (fs_TakeSnapshot fenv n) k = Some k'" by (simp add: ok_state_def)
  from take_effect [OF inv n this] run dirs(3) show ?thesis by simp
qed

section \<open>Hardhat\<close>

lemma hardhat_lawsD:
  assumes "hardhat_laws lib chain saved"
  shows "\<exists>i w'. rpc_call lib ''evm_snapshot'' [] w = (Inr (JsonString i), w')
        \<and> i \<notin> fst ` set (saved w) \<and> chain w' = chain w \<and> saved w' = saved w @ [(i, chain w)]"
    and "saved w = xs @ (i, c) # ys \<Longrightarrow> i \<notin> fst ` set xs \<Longrightarrow>
        \<exists>w'. rpc_call lib ''evm_revert'' [ArgString i] w = (Inr (JsonBool True), w')
           \<and> chain w' = c \<and> saved w' = xs"
    and "i \<notin> fst ` set (saved w) \<Longrightarrow>
        rpc_call lib ''evm_revert'' [ArgString i] w = (Inr (JsonBool False), w)"
  using assms unfolding hardhat_laws_def by blast+

text \<open>The part of a list of snapshots before one of them.\<close>

definition taken_before :: "string \<Rightarrow> (string \<times> 'c) list \<Rightarrow> (string \<times> 'c) list" where
  "taken_before i xs = takeWhile (\<lambda>p. fst p \<noteq> i) xs"

lemma taken_before_notin: "i \<notin> fst ` set (taken_before i xs)"
  by (auto simp: taken_before_def dest: set_takeWhileD)

lemma map_of_split: "map_of xs i = Some c \<Longrightarrow> \<exists>ys. xs = taken_before i xs @ (i, c) # ys"
  by (induction xs) (auto simp: taken_before_def)

lemma rpc_snapshot:
  assumes laws: "hardhat_laws lib chain saved"
  shows "\<exists>i w. rpc_string lib old ''evm_snapshot'' [] m = (Ok i, m\<lparr>tmWorld := w\<rparr>)
    \<and> i \<notin> fst ` set (saved (tmWorld m)) \<and> chain w = chain (tmWorld m)
    \<and> saved w = saved (tmWorld m) @ [(i, chain (tmWorld m))]
    \<and> w = snd (rpc_call lib ''evm_snapshot'' [] (tmWorld m))"
proof -
  obtain i w where "rpc_call lib ''evm_snapshot'' [] (tmWorld m) = (Inr (JsonString i), w)"
    "i \<notin> fst ` set (saved (tmWorld m))" "chain w = chain (tmWorld m)"
    "saved w = saved (tmWorld m) @ [(i, chain (tmWorld m))]"
    using hardhat_lawsD(1) [OF laws] by blast
  then show ?thesis
    by (intro exI [of _ i] exI [of _ w]) (simp add: rpc_string_def decode_string_def)
qed

text \<open>
  What \<open>RevertSnapshot\<close> does to Hardhat: the chain of the snapshot comes back if Hardhat still has
  the snapshot; if it does not, nothing happens, and the answer \<open>false\<close> is ignored.
\<close>

lemma revert_hardhat_effect:
  assumes laws: "hardhat_laws lib chain saved" and i: "tmHardhatMap m n = Some i"
    and quiet: "\<And>method args w. mview (snd (rpc_call lib method args w)) = mview w"
  shows "\<exists>j w. revert_hardhat lib n m = (Ok (), set_hardhat_id n j (m\<lparr>tmWorld := w\<rparr>))
    \<and> mview w = mview (tmWorld m)
    \<and> (case map_of (saved (tmWorld m)) i of
         Some c \<Rightarrow> chain w = c \<and> saved w = taken_before i (saved (tmWorld m)) @ [(j, c)]
           \<and> j \<notin> fst ` set (taken_before i (saved (tmWorld m)))
       | None \<Rightarrow> chain w = chain (tmWorld m)
           \<and> saved w = saved (tmWorld m) @ [(j, chain (tmWorld m))]
           \<and> j \<notin> fst ` set (saved (tmWorld m)))"
proof -
  have "\<exists>v w1. rpc_call lib ''evm_revert'' [ArgString i] (tmWorld m) = (Inr v, w1)
    \<and> (case map_of (saved (tmWorld m)) i of
         Some c \<Rightarrow> chain w1 = c \<and> saved w1 = taken_before i (saved (tmWorld m))
       | None \<Rightarrow> chain w1 = chain (tmWorld m) \<and> saved w1 = saved (tmWorld m))"
  proof (cases "map_of (saved (tmWorld m)) i")
    case None
    then have "rpc_call lib ''evm_revert'' [ArgString i] (tmWorld m) = (Inr (JsonBool False), tmWorld m)"
      using hardhat_lawsD(3) [OF laws] by (simp add: map_of_eq_None_iff)
    with None show ?thesis by simp
  next
    case (Some c)
    from map_of_split [OF this] obtain ys where
      ys: "saved (tmWorld m) = taken_before i (saved (tmWorld m)) @ (i, c) # ys" by blast
    obtain w' where "rpc_call lib ''evm_revert'' [ArgString i] (tmWorld m) = (Inr (JsonBool True), w')"
      "chain w' = c" "saved w' = taken_before i (saved (tmWorld m))"
      using hardhat_lawsD(2) [OF laws ys taken_before_notin] by blast
    with Some show ?thesis by simp
  qed
  then obtain v w1 where rev: "rpc_call lib ''evm_revert'' [ArgString i] (tmWorld m) = (Inr v, w1)"
    and w1: "case map_of (saved (tmWorld m)) i of
         Some c \<Rightarrow> chain w1 = c \<and> saved w1 = taken_before i (saved (tmWorld m))
       | None \<Rightarrow> chain w1 = chain (tmWorld m) \<and> saved w1 = saved (tmWorld m)" by blast
  then have one: "rpc_do lib ''evm_revert'' [ArgString i] m = (Ok (), m\<lparr>tmWorld := w1\<rparr>)"
    by (simp add: rpc_do_def)
  have "mview w1 = mview (tmWorld m)" using quiet [of "''evm_revert''" "[ArgString i]" "tmWorld m"] rev by simp
  moreover obtain j w where two: "rpc_string lib i ''evm_snapshot'' [] (m\<lparr>tmWorld := w1\<rparr>) = (Ok j, m\<lparr>tmWorld := w\<rparr>)"
    "j \<notin> fst ` set (saved w1)" "chain w = chain w1" "saved w = saved w1 @ [(j, chain w1)]"
    "w = snd (rpc_call lib ''evm_snapshot'' [] w1)"
    using rpc_snapshot [OF laws, of i "m\<lparr>tmWorld := w1\<rparr>"] by auto
  moreover have "mview w = mview w1" using two(5) quiet by simp
  moreover have "revert_hardhat lib n m = (Ok (), set_hardhat_id n j (m\<lparr>tmWorld := w\<rparr>))"
    using i one two(1) by (simp add: revert_hardhat_def)
  ultimately show ?thesis
    using w1 by (intro exI [of _ j] exI [of _ w]) (auto split: option.splits)
qed

section \<open>Snapshots of the whole\<close>

lemma tm_invD:
  assumes "tm_inv lib env m"
  shows "mgr_inv (tmBeacon m)" "docker_ok (tlDocker lib) (teDocker env) (tmDocker m)"
    "fs_inv (teFiles env) (tmFs m)" "finite (dom (tmModules m))"
    "tmSnapshots m n \<noteq> None \<Longrightarrow> plain_name n \<and> tmHardhatMap m n \<noteq> None \<and> mgr_saved (tmBeacon m) n \<noteq> None
       \<and> dmSnapshots (tmDocker m) n \<noteq> None \<and> snapshot_tree (tmFs m) n \<noteq> None"
    "snapshot_tree (tmFs m) n \<noteq> None \<Longrightarrow> tmSnapshots m n \<noteq> None"
  using assms unfolding tm_inv_def by blast+

lemma dom_modules: "md \<in> ran (tmModules m) \<longleftrightarrow> (\<exists>n\<in>dom (tmModules m). tmModules m n = Some md)"
  by (auto simp: ran_def)

lemma range_modules_run:
  assumes "env_ok env" and "finite (dom (tmModules m))"
  shows "\<exists>names. range_modules env m = (Ok names, m\<lparr>tmTicks := tmTicks m + 1\<rparr>) \<and> set names = dom (tmModules m)"
  using assms by (simp add: range_modules_def env_ok_def)

text \<open>Taking one succeeds, and saves every part under the name.\<close>

lemma take_services_run:
  fixes m :: "('w, 'md, 'st) TestManager"
  assumes hl: "hardhat_laws lib chain saved" and ml: "module_laws lib chain saved mview msnap" and env: "env_ok env"
    and inv: "tm_inv lib env m" and n: "plain_name n" and new: "tmSnapshots m n = None"
  shows "\<exists>w i d k t st. take_services lib env n m = (Ok n, m
      \<lparr>tmWorld := w, tmHardhatMap := (tmHardhatMap m)(n \<mapsto> i), tmBeacon := TakeSnapshot n (tmBeacon m),
       tmDocker := d, tmFs := k, tmTicks := t,
       tmSnapshots := (tmSnapshots m)(n \<mapsto> \<lparr>snName = n, snStates = st\<rparr>)\<rparr>)
    \<and> chain w = chain (tmWorld m) \<and> mview w = mview (tmWorld m) \<and> i \<notin> fst ` set (saved (tmWorld m))
    \<and> saved w = saved (tmWorld m) @ [(i, chain (tmWorld m))]
    \<and> docker_ok (tlDocker lib) (teDocker env) d \<and> dmState d = dmState (tmDocker m)
    \<and> dmSnapshots d = (dmSnapshots (tmDocker m))(n \<mapsto> without_hashes (dmState (tmDocker m)))
    \<and> fs_inv (teFiles env) k \<and> test_tree k = test_tree (tmFs m) \<and> test_tree (tmFs m) \<noteq> None
    \<and> snapshot_tree k = (snapshot_tree (tmFs m))
         (n := map_option (restored (umask (teFiles env))) (test_tree (tmFs m)))
    \<and> (\<forall>md. map_option msnap (st md) =
         (if md \<in> ran (tmModules m) then Some (mview (tmWorld m) md) else None))"
proof -
  have quiet: "mview (snd (rpc_call lib rpc args w)) = mview w" for rpc args w
    using ml by (simp add: module_laws_def)
  obtain i w1 where h: "rpc_string lib [] ''evm_snapshot'' [] m = (Ok i, m\<lparr>tmWorld := w1\<rparr>)"
    "i \<notin> fst ` set (saved (tmWorld m))" "chain w1 = chain (tmWorld m)"
    "saved w1 = saved (tmWorld m) @ [(i, chain (tmWorld m))]" "mview w1 = mview (tmWorld m)"
    using rpc_snapshot [OF hl, of "[]" m] quiet by metis
  obtain d where d: "docker_TakeSnapshot (tlDocker lib) (teDocker env) n (tmDocker m) = (Ok (), d)"
    "docker_ok (tlDocker lib) (teDocker env) d" "dmState d = dmState (tmDocker m)"
    "dmSnapshots d = (dmSnapshots (tmDocker m))(n \<mapsto> without_hashes (dmState (tmDocker m)))"
    using docker_take [OF tm_invD(2) [OF inv]] by blast
  have "snapshot_tree (tmFs m) n = None" using new tm_invD(6) [OF inv] by blast
  from fs_take [OF tm_invD(3) [OF inv] n this] obtain k where
    k: "fs_TakeSnapshot (teFiles env) n (tmFs m) = (Ok (), k)" "fs_inv (teFiles env) k"
    "test_tree k = test_tree (tmFs m)" "test_tree (tmFs m) \<noteq> None"
    "snapshot_tree k = (snapshot_tree (tmFs m))(n := map_option (restored (umask (teFiles env))) (test_tree (tmFs m)))"
    by blast
  let ?m = "m\<lparr>tmWorld := w1, tmHardhatMap := (tmHardhatMap m)(n \<mapsto> i),
     tmBeacon := TakeSnapshot n (tmBeacon m), tmDocker := d, tmFs := k\<rparr>"
  obtain names where r: "range_modules env ?m = (Ok names, ?m\<lparr>tmTicks := tmTicks m + 1\<rparr>)"
    "set names = dom (tmModules m)"
    using range_modules_run [OF env, of ?m] tm_invD(4) [OF inv] by auto
  obtain w st where t: "take_modules lib names Map.empty (?m\<lparr>tmTicks := tmTicks m + 1\<rparr>)
      = (Ok st, ?m\<lparr>tmTicks := tmTicks m + 1, tmWorld := w\<rparr>)"
    "mview w = mview w1" "chain w = chain w1" "saved w = saved w1"
    "\<forall>md. map_option msnap (st md) = (if md \<in> ran (tmModules m) then Some (mview w1 md) else None)"
    using take_modules_effect [OF ml, of names Map.empty "?m\<lparr>tmTicks := tmTicks m + 1\<rparr>"] r(2)
    unfolding dom_modules by (simp cong: if_cong) blast
  have run: "take_services lib env n m = (Ok n, m
      \<lparr>tmWorld := w, tmHardhatMap := (tmHardhatMap m)(n \<mapsto> i), tmBeacon := TakeSnapshot n (tmBeacon m),
       tmDocker := d, tmFs := k, tmTicks := tmTicks m + 1,
       tmSnapshots := (tmSnapshots m)(n \<mapsto> \<lparr>snName = n, snStates = st\<rparr>)\<rparr>)"
    using h(1) d(1) k(1) r(1) t(1) by (simp add: take_services_def set_hardhat_id_def)
  show ?thesis
    by (rule exI [of _ w], rule exI [of _ i], rule exI [of _ d], rule exI [of _ k],
        rule exI [of _ "tmTicks m + 1"], rule exI [of _ st]) (use run h d k t in simp)
qed

text \<open>Reverting to one succeeds as well, whatever became of Hardhat's part of it.\<close>

lemma RevertSnapshot_run:
  fixes m :: "('w, 'md, 'st) TestManager"
  assumes hl: "hardhat_laws lib chain saved" and ml: "module_laws lib chain saved mview msnap" and env: "env_ok env"
    and inv: "tm_inv lib env m" and s: "tmSnapshots m n = Some snap" and i: "tmHardhatMap m n = Some i"
    and held: "services_saved m n = Some (bv, dv, tv)"
  shows "\<exists>w j b d k t. RevertSnapshot lib env n m = (Ok (), m
      \<lparr>tmWorld := w, tmHardhatMap := (tmHardhatMap m)(n \<mapsto> j), tmBeacon := b, tmDocker := d, tmFs := k,
       tmTicks := t\<rparr>)
    \<and> mgr_inv b \<and> mgr_view b = without_deposits bv \<and> mgr_saved b = mgr_saved (tmBeacon m)
    \<and> docker_ok (tlDocker lib) (teDocker env) d \<and> dmState d = without_hashes dv
    \<and> dmSnapshots d = dmSnapshots (tmDocker m)
    \<and> fs_inv (teFiles env) k \<and> test_tree k = map_option (restored (umask (teFiles env))) tv
    \<and> snapshot_tree k = snapshot_tree (tmFs m)
    \<and> (case map_of (saved (tmWorld m)) i of
         Some c \<Rightarrow> chain w = c \<and> saved w = taken_before i (saved (tmWorld m)) @ [(j, c)]
           \<and> j \<notin> fst ` set (taken_before i (saved (tmWorld m)))
       | None \<Rightarrow> chain w = chain (tmWorld m)
           \<and> saved w = saved (tmWorld m) @ [(j, chain (tmWorld m))]
           \<and> j \<notin> fst ` set (saved (tmWorld m)))
    \<and> (\<forall>md. mview w md = (if md \<in> ran (tmModules m) \<and> snStates snap md \<noteq> None
         then msnap (the (snStates snap md)) else mview (tmWorld m) md))"
proof -
  have quiet: "mview (snd (rpc_call lib rpc args w)) = mview w" for rpc args w
    using ml by (simp add: module_laws_def)
  obtain tr where h: "mgr_saved (tmBeacon m) n = Some bv" "dmSnapshots (tmDocker m) n = Some dv"
    "snapshot_tree (tmFs m) n = Some tr" "tv = Some tr"
    using held s by (auto simp: services_saved_def split: option.splits)
  obtain j w1 where hh: "revert_hardhat lib n m = (Ok (), set_hardhat_id n j (m\<lparr>tmWorld := w1\<rparr>))"
    "mview w1 = mview (tmWorld m)"
    "case map_of (saved (tmWorld m)) i of
       Some c \<Rightarrow> chain w1 = c \<and> saved w1 = taken_before i (saved (tmWorld m)) @ [(j, c)]
         \<and> j \<notin> fst ` set (taken_before i (saved (tmWorld m)))
     | None \<Rightarrow> chain w1 = chain (tmWorld m) \<and> saved w1 = saved (tmWorld m) @ [(j, chain (tmWorld m))]
         \<and> j \<notin> fst ` set (saved (tmWorld m))"
    using revert_hardhat_effect [where mview = mview, OF hl i quiet] by blast
  obtain b where b: "RevertToSnapshot n (tmBeacon m) = (Ok (), b)" "mgr_inv b"
    "mgr_view b = without_deposits bv" "mgr_saved b = mgr_saved (tmBeacon m)"
    using beacon_revert [OF tm_invD(1) [OF inv] h(1)] by blast
  obtain d where d: "docker_RevertToSnapshot (tlDocker lib) (teDocker env) n (tmDocker m) = (Ok (), d)"
    "docker_ok (tlDocker lib) (teDocker env) d" "dmState d = without_hashes dv"
    "dmSnapshots d = dmSnapshots (tmDocker m)"
    using docker_revert [OF tm_invD(2) [OF inv] h(2)] by blast
  obtain k where k: "fs_RevertToSnapshot (teFiles env) n (tmFs m) = (Ok (), k)" "fs_inv (teFiles env) k"
    "test_tree k = Some tr" "snapshot_tree k = snapshot_tree (tmFs m)"
    using revert_effect [OF tm_invD(3) [OF inv] h(3)] by blast
  have tree: "restored (umask (teFiles env)) tr = tr"
    using tm_invD(3) [OF inv] h(3) by (elim fs_invE) auto
  let ?m = "m\<lparr>tmWorld := w1, tmHardhatMap := (tmHardhatMap m)(n \<mapsto> j), tmBeacon := b, tmDocker := d, tmFs := k\<rparr>"
  obtain names where r: "range_modules env ?m = (Ok names, ?m\<lparr>tmTicks := tmTicks m + 1\<rparr>)"
    "set names = dom (tmModules m)"
    using range_modules_run [OF env, of ?m] tm_invD(4) [OF inv] by auto
  obtain w where t: "revert_modules lib (snStates snap) names (?m\<lparr>tmTicks := tmTicks m + 1\<rparr>)
      = (Ok (), ?m\<lparr>tmTicks := tmTicks m + 1, tmWorld := w\<rparr>)"
    "chain w = chain w1" "saved w = saved w1"
    "\<forall>md. mview w md = (if md \<in> ran (tmModules m) \<and> snStates snap md \<noteq> None
       then msnap (the (snStates snap md)) else mview w1 md)"
    using revert_modules_effect [OF ml, of "snStates snap" names "?m\<lparr>tmTicks := tmTicks m + 1\<rparr>"] r(2)
    unfolding dom_modules by (simp cong: if_cong) blast
  have run: "RevertSnapshot lib env n m = (Ok (), m\<lparr>tmWorld := w, tmHardhatMap := (tmHardhatMap m)(n \<mapsto> j),
      tmBeacon := b, tmDocker := d, tmFs := k, tmTicks := tmTicks m + 1\<rparr>)"
    using s hh(1) b(1) d(1) k(1) r(1) t(1) by (simp add: RevertSnapshot_def set_hardhat_id_def)
  have node: "case map_of (saved (tmWorld m)) i of
       Some c \<Rightarrow> chain w = c \<and> saved w = taken_before i (saved (tmWorld m)) @ [(j, c)]
         \<and> j \<notin> fst ` set (taken_before i (saved (tmWorld m)))
     | None \<Rightarrow> chain w = chain (tmWorld m) \<and> saved w = saved (tmWorld m) @ [(j, chain (tmWorld m))]
         \<and> j \<notin> fst ` set (saved (tmWorld m))"
    using hh(3) t(2,3) by (simp split: option.splits)
  have modules: "\<forall>md. mview w md = (if md \<in> ran (tmModules m) \<and> snStates snap md \<noteq> None
       then msnap (the (snStates snap md)) else mview (tmWorld m) md)"
    using t(4) unfolding hh(2) .
  have "test_tree k = map_option (restored (umask (teFiles env))) tv" using k(3) h(4) tree by simp
  with run b(2-4) d(2-4) k(2,4) node modules show ?thesis by blast
qed

lemma RevertSnapshot_unknown:
  "tmSnapshots m n = None \<Longrightarrow> RevertSnapshot lib env n m = (Err (Errorf ''snapshot %s does not exist'' [n]), m)"
  by (simp add: RevertSnapshot_def)

text \<open>What an operation leaves of the invariant and of the services.\<close>

lemma take_services_facts:
  assumes hl: "hardhat_laws lib chain saved" and ml: "module_laws lib chain saved mview msnap" and env: "env_ok env"
    and inv: "tm_inv lib env m" and n: "plain_name n" and new: "tmSnapshots m n = None"
  shows "\<exists>m'. take_services lib env n m = (Ok n, m') \<and> tm_inv lib env m'
    \<and> services_view m' = services_view m
    \<and> services_saved m' = (services_saved m)(n \<mapsto> services_norm env (services_view m))"
proof -
  from take_services_run [OF assms] obtain w i d k t st where
    run: "take_services lib env n m = (Ok n, m
      \<lparr>tmWorld := w, tmHardhatMap := (tmHardhatMap m)(n \<mapsto> i), tmBeacon := TakeSnapshot n (tmBeacon m),
       tmDocker := d, tmFs := k, tmTicks := t,
       tmSnapshots := (tmSnapshots m)(n \<mapsto> \<lparr>snName = n, snStates = st\<rparr>)\<rparr>)" (is "_ = (_, ?m)")
    and d: "docker_ok (tlDocker lib) (teDocker env) d" "dmState d = dmState (tmDocker m)"
      "dmSnapshots d = (dmSnapshots (tmDocker m))(n \<mapsto> without_hashes (dmState (tmDocker m)))"
    and k: "fs_inv (teFiles env) k" "test_tree k = test_tree (tmFs m)" "test_tree (tmFs m) \<noteq> None"
      "snapshot_tree k = (snapshot_tree (tmFs m))
         (n := map_option (restored (umask (teFiles env))) (test_tree (tmFs m)))" by blast
  note b = TakeSnapshot_facts [OF tm_invD(1) [OF inv], of n]
  note old = tm_invD [OF inv]
  have "tm_inv lib env ?m"
    unfolding tm_inv_def using old b d k n by (auto split: if_splits)
  moreover have "services_view ?m = services_view m"
    using b d k by (simp add: services_view_def)
  moreover have "services_saved ?m = (services_saved m)(n \<mapsto> services_norm env (services_view m))"
    using b d k by (auto simp: services_saved_def services_norm_def services_view_def fun_eq_iff split: option.splits)
  ultimately show ?thesis using run by blast
qed

lemma services_saved_cong:
  assumes "mgr_saved (tmBeacon m') = mgr_saved (tmBeacon m)" "dmSnapshots (tmDocker m') = dmSnapshots (tmDocker m)"
    "snapshot_tree (tmFs m') = snapshot_tree (tmFs m)" "tmSnapshots m' = tmSnapshots m"
  shows "services_saved m' = services_saved m"
  by (rule ext) (simp only: services_saved_def assms)

lemma services_saved_iff:
  "tm_inv lib env m \<Longrightarrow> services_saved m n \<noteq> None \<longleftrightarrow> tmSnapshots m n \<noteq> None"
  using tm_invD(5) [of lib env m n]
  by (cases "tmSnapshots m n") (auto simp: services_saved_def split: option.splits)

lemma RevertSnapshot_facts:
  assumes hl: "hardhat_laws lib chain saved" and ml: "module_laws lib chain saved mview msnap" and env: "env_ok env"
    and inv: "tm_inv lib env m" and held: "services_saved m n = Some v"
  shows "\<exists>m'. RevertSnapshot lib env n m = (Ok (), m') \<and> tm_inv lib env m'
    \<and> services_view m' = services_norm env v \<and> services_saved m' = services_saved m"
proof -
  obtain bv dv tv where v: "v = (bv, dv, tv)" by (cases v)
  have known: "tmSnapshots m n \<noteq> None" using services_saved_iff [OF inv, of n] held by simp
  then obtain snap i where s: "tmSnapshots m n = Some snap" "tmHardhatMap m n = Some i"
    using tm_invD(5) [OF inv] by blast
  from RevertSnapshot_run [OF hl ml env inv s held [unfolded v]] obtain w j b d k t where
    run: "RevertSnapshot lib env n m = (Ok (), m\<lparr>tmWorld := w, tmHardhatMap := (tmHardhatMap m)(n \<mapsto> j),
       tmBeacon := b, tmDocker := d, tmFs := k, tmTicks := t\<rparr>)" (is "_ = (_, ?m)")
    and b: "mgr_inv b" "mgr_view b = without_deposits bv" "mgr_saved b = mgr_saved (tmBeacon m)"
    and d: "docker_ok (tlDocker lib) (teDocker env) d" "dmState d = without_hashes dv"
      "dmSnapshots d = dmSnapshots (tmDocker m)"
    and k: "fs_inv (teFiles env) k" "test_tree k = map_option (restored (umask (teFiles env))) tv"
      "snapshot_tree k = snapshot_tree (tmFs m)" by blast
  have "tm_inv lib env ?m"
    unfolding tm_inv_def using tm_invD [OF inv] b(1,3) d(1,3) k(1,3) by simp
  moreover have "services_view ?m = services_norm env v"
    by (simp add: services_view_def services_norm_def v b d k)
  moreover have "services_saved ?m = services_saved m"
    by (rule services_saved_cong) (simp_all add: b d k)
  ultimately show ?thesis using run by blast
qed

lemma live_step_facts:
  assumes inv: "tm_inv lib env m" and step: "live_step blib lib env m m'"
  shows "tm_inv lib env m' \<and> services_saved m' = services_saved m \<and> tmSnapshots m' = tmSnapshots m"
proof -
  note old = tm_invD [OF inv]
  from step consider
      (beacon) b where "client_step blib (tmBeacon m) b" "m' = m\<lparr>tmBeacon := b\<rparr>"
    | (docker) d where "docker_step (tlDocker lib) (teDocker env) (tmDocker m) d" "m' = m\<lparr>tmDocker := d\<rparr>"
    | (files) k where "test_writes (teFiles env) (tmFs m) k" "m' = m\<lparr>tmFs := k\<rparr>"
    | (other) w md k where "m' = m\<lparr>tmWorld := w\<rparr> \<or> m' = RegisterModule lib md m \<or> m' = m\<lparr>tmTicks := k\<rparr>"
    unfolding live_step_def by blast
  then show ?thesis
  proof cases
    case beacon
    have "mgr_inv b" "mgr_saved b = mgr_saved (tmBeacon m)"
      using client_step_facts [OF beacon(1) old(1)] by simp_all
    then show ?thesis using old beacon(2) services_saved_cong [of m' m] by (simp add: tm_inv_def)
  next
    case docker
    note f = docker_snapshots.live_inv [OF old(2) docker(1)] docker_snapshots.live_saved [OF old(2) docker(1)]
    then show ?thesis using old docker(2) services_saved_cong [of m' m] by (simp add: tm_inv_def)
  next
    case files
    note f = test_writes_inv [OF old(3) files(1)]
    then show ?thesis using old files(2) services_saved_cong [of m' m] by (simp add: tm_inv_def)
  next
    case other
    then show ?thesis using old services_saved_cong [of m' m]
      by (auto simp: tm_inv_def RegisterModule_def)
  qed
qed

text \<open>The operations by name, where the name is a plain one that is not taken.\<close>

definition create_named ::
  "('w, 'md, 'st) test_lib \<Rightarrow> test_env \<Rightarrow> string \<Rightarrow> ('w, 'md, 'st) TestManager
   \<Rightarrow> ('w, 'md, 'st) TestManager option" where
  "create_named lib env n m =
     (if plain_name n \<and> tmSnapshots m n = None then ok_state (take_services lib env n) m else None)"

definition promises ::
  "('w, 'md, 'st) test_lib \<Rightarrow> ('w \<Rightarrow> 'c) \<Rightarrow> ('w \<Rightarrow> (string \<times> 'c) list)
   \<Rightarrow> ('w \<Rightarrow> 'md \<Rightarrow> 'v) \<Rightarrow> ('st \<Rightarrow> 'v) \<Rightarrow> test_env \<Rightarrow> bool" where
  "promises lib chain saved mview msnap env \<longleftrightarrow>
     hardhat_laws lib chain saved \<and> module_laws lib chain saved mview msnap \<and> env_ok env"

interpretation test_snapshots: snapshotting
    "\<lambda>m. promises lib chain saved mview msnap env \<and> tm_inv lib env m"
    services_view services_saved "create_named lib env" "\<lambda>n. ok_state (RevertSnapshot lib env n)"
    "services_norm env" "live_step blib lib env"
  for lib :: "('w, 'md, 'st) test_lib" and chain :: "'w \<Rightarrow> 'c" and saved and mview :: "'w \<Rightarrow> 'md \<Rightarrow> 'v"
    and msnap env blib
proof
  fix m m' :: "('w, 'md, 'st) TestManager" and n :: string and v :: services
  assume "promises lib chain saved mview msnap env \<and> tm_inv lib env m"
  then have p: "promises lib chain saved mview msnap env" and inv: "tm_inv lib env m" by simp_all
  then have laws: "hardhat_laws lib chain saved" "module_laws lib chain saved mview msnap" "env_ok env"
    by (simp_all add: promises_def)
  have take: "tm_inv lib env m' \<and> services_view m' = services_view m
      \<and> services_saved m' = (services_saved m)(n \<mapsto> services_norm env (services_view m))"
    if "create_named lib env n m = Some m'"
    using that take_services_facts [OF laws inv, of n]
    by (auto simp: create_named_def ok_state_def split: if_splits)
  show "create_named lib env n m = Some m' \<Longrightarrow> promises lib chain saved mview msnap env \<and> tm_inv lib env m'"
    "create_named lib env n m = Some m' \<Longrightarrow> services_view m' = services_view m"
    "create_named lib env n m = Some m' \<Longrightarrow>
       services_saved m' = (services_saved m)(n \<mapsto> services_norm env (services_view m))"
    using take p by auto
  show "services_saved m n \<noteq> None \<Longrightarrow> ok_state (RevertSnapshot lib env n) m \<noteq> None"
    using RevertSnapshot_facts [OF laws inv, of n] by (auto simp: ok_state_def)
  have revert: "tm_inv lib env m' \<and> services_saved m' = services_saved m
      \<and> (\<forall>v. services_saved m n = Some v \<longrightarrow> services_view m' = services_norm env v)"
    if run: "ok_state (RevertSnapshot lib env n) m = Some m'"
  proof (cases "services_saved m n")
    case None
    then show ?thesis using run services_saved_iff [OF inv, of n]
      by (auto simp: ok_state_def RevertSnapshot_unknown)
  next
    case (Some u)
    from RevertSnapshot_facts [OF laws inv this] run show ?thesis using Some by (auto simp: ok_state_def)
  qed
  then show "ok_state (RevertSnapshot lib env n) m = Some m' \<Longrightarrow>
      promises lib chain saved mview msnap env \<and> tm_inv lib env m'"
    "ok_state (RevertSnapshot lib env n) m = Some m' \<Longrightarrow> services_saved m' = services_saved m"
    "ok_state (RevertSnapshot lib env n) m = Some m' \<Longrightarrow> services_saved m n = Some v \<Longrightarrow>
       services_view m' = services_norm env v"
    using p by auto
  show "live_step blib lib env m m' \<Longrightarrow> promises lib chain saved mview msnap env \<and> tm_inv lib env m'"
    "live_step blib lib env m m' \<Longrightarrow> services_saved m' = services_saved m"
    using live_step_facts [OF inv] p by auto
next
  show "services_norm env (services_norm env v) = services_norm env v" for v env
    by (cases v; cases "snd (snd v)")
      (auto simp: services_norm_def without_deposits_def without_hashes_def)
qed

end
