(* ===== verification/Test_Manager_Sessions.thy ===== *)
theory Test_Manager_Sessions
  imports Test_Manager_Inv Filesystem_Props Docker_Props
begin

text \<open>
  What a test does with the manager, step by step: that every step is one of the snapshot interface,
  what a new manager looks like, and which of Hardhat's snapshots are still there.
\<close>

section \<open>Sessions\<close>

text \<open>What a test does with the manager.\<close>

inductive test_session ::
  "beacon_lib \<Rightarrow> ('w, 'md, 'st) test_lib \<Rightarrow> test_env
   \<Rightarrow> ('w, 'md, 'st) TestManager \<Rightarrow> ('w, 'md, 'st) TestManager \<Rightarrow> bool"
  for blib lib env where
  live: "live_step blib lib env m m' \<Longrightarrow> test_session blib lib env m m'"
| create: "CreateSnapshot lib env m = Some (r, m') \<Longrightarrow> test_session blib lib env m m'"
| revert: "test_session blib lib env m (snd (RevertSnapshot lib env k m))"
| baseline: "test_session blib lib env m (snd (RevertToBaseline lib env m))"
| commit: "test_session blib lib env m (snd (tm_CommitBlock lib m))"
| advance: "test_session blib lib env m (snd (AdvanceSlots lib slots b m))"
| head_slot: "test_session blib lib env m (snd (SetBeaconHeadSlot slot m))"
| automine: "test_session blib lib env m (snd (ToggleAutoMine lib b m))"
| mining_interval: "test_session blib lib env m (snd (SetMiningInterval lib slot m))"

text \<open>The operations on the chain are made of live steps.\<close>

abbreviation live_steps ::
  "beacon_lib \<Rightarrow> ('w, 'md, 'st) test_lib \<Rightarrow> test_env
   \<Rightarrow> ('w, 'md, 'st) TestManager \<Rightarrow> ('w, 'md, 'st) TestManager \<Rightarrow> bool" where
  "live_steps blib lib env m m' \<equiv> tm_inv lib env m \<longrightarrow> (live_step blib lib env)\<^sup>*\<^sup>* m m' \<and> tm_inv lib env m'"

lemma live_preorder: "preorder_rel (live_steps blib lib env)"
  by (auto simp: preorder_rel_def reflp_def transp_def)

lemma live_one: "(tm_inv lib env m \<Longrightarrow> live_step blib lib env m m') \<Longrightarrow> live_steps blib lib env m m'"
  using live_step_facts by blast

lemma world_step: "live_step blib lib env m (m\<lparr>tmWorld := w\<rparr>)"
  unfolding live_step_def by blast

lemma live_world: "live_steps blib lib env m (m\<lparr>tmWorld := w\<rparr>)"
  by (rule live_one) (rule world_step)

lemma snd_on_world: "snd (on_world f m) = m\<lparr>tmWorld := snd (f (tmWorld m))\<rparr>"
  by (auto simp: on_world_def split: prod.splits sum.splits)

lemma keeps_on_world: "keeps (live_steps blib lib env) (on_world f)"
  unfolding keeps_def snd_on_world by (intro allI live_world)

lemma keeps_rpc: "keeps (live_steps blib lib env) (rpc_do lib' method args)"
  unfolding rpc_do_def by (intro keeps_bind live_preorder keeps_basic keeps_on_world)

lemma keeps_beacon_call:
  fixes lib :: "('w, 'md, 'st) test_lib"
  assumes "\<And>d h. \<exists>h'. f = (\<lambda>s. (fst s, g (database (fst s)) (snd s))) \<and> db_step blib d h (g d h)"
  shows "keeps (live_steps blib lib env) (on_beacon (modify_op f))"
  unfolding keeps_def
proof
  fix m :: "('w, 'md, 'st) TestManager"
  obtain bm h where b: "tmBeacon m = (bm, h)" by (cases "tmBeacon m")
  have f: "f (bm, h) = (bm, g (database bm) h)" using assms [of "database bm" h] by auto
  show "live_steps blib lib env m (snd (on_beacon (modify_op f) m))"
  proof (rule live_one)
    assume "tm_inv lib env m"
    then have "client_db (bm, h) (database bm)" using tm_invD(1) b by (metis mgr_invD(1) fst_conv)
    then have "client_step blib (tmBeacon m) (bm, g (database bm) h)"
      unfolding b using assms [of "database bm" h] by (auto intro: client_step.on_database)
    then show "live_step blib lib env m (snd (on_beacon (modify_op f) m))"
      by (auto simp: live_step_def on_beacon_def b f)
  qed
qed

lemma keeps_commit: "keeps (live_steps blib lib env) (on_beacon (modify_op (mgr_CommitBlock b)))"
  by (rule keeps_beacon_call [where g = "\<lambda>d. CommitBlock d b"])
    (auto simp: mgr_CommitBlock_def fun_eq_iff intro: db_step.commit_block)

lemma keeps_head_slot: "keeps (live_steps blib lib env) (SetBeaconHeadSlot slot)"
  unfolding SetBeaconHeadSlot_def
  by (rule keeps_beacon_call [where g = "\<lambda>d. SetHighestSlot d slot"])
    (auto simp: mgr_SetHighestSlot_def fun_eq_iff intro: db_step.set_highest_slot)

lemma keeps_chain:
  "keeps (live_steps blib lib env) (tm_CommitBlock lib')"
  "keeps (live_steps blib lib env) (AdvanceSlots lib' slots b)"
  "keeps (live_steps blib lib env) (ToggleAutoMine lib' e)"
  "keeps (live_steps blib lib env) (SetMiningInterval lib' i)"
proof -
  show one: "keeps (live_steps blib lib env) (tm_CommitBlock lib')"
    unfolding tm_CommitBlock_def hardhat_mineBlock_def hardhat_increaseTime_def
    by (intro keeps_bind keeps_wrap keeps_rpc keeps_commit keeps_basic live_preorder)
  show "keeps (live_steps blib lib env) (AdvanceSlots lib' slots b)"
    unfolding AdvanceSlots_def
    by (intro keeps_if keeps_bind keeps_wrap keeps_for_each keeps_rpc keeps_commit keeps_basic live_preorder one)
  show "keeps (live_steps blib lib env) (ToggleAutoMine lib' e)"
    "keeps (live_steps blib lib env) (SetMiningInterval lib' i)"
    unfolding ToggleAutoMine_def SetMiningInterval_def by (intro keeps_wrap keeps_rpc)+
qed

lemma live_chain:
  assumes "test_session blib lib env m m'" and inv: "tm_inv lib env m"
  obtains (live) "(live_step blib lib env)\<^sup>*\<^sup>* m m'"
    | (create) n k where "m' = snd (take_services lib env n (m\<lparr>tmTicks := k\<rparr>))" "tmSnapshots m n = None"
        "\<exists>i. n = uuid_at env i"
    | (revert) k where "m' = snd (RevertSnapshot lib env k m)"
  using assms(1)
proof cases
  case (create r)
  then obtain n k where new: "fresh_name (uuid_at env) (tmSnapshots m) (tmTicks m) = Some (n, k)"
    "take_services lib env n (m\<lparr>tmTicks := k\<rparr>) = (r, m')"
    by (auto simp: CreateSnapshot_def split: option.splits)
  show ?thesis by (rule that(2) [of n k]) (use new(2) fresh_name_free [OF new(1)] in auto)
next
  case baseline
  then show ?thesis using that(3) by (simp add: RevertToBaseline_def bind_op_def)
next
  case commit
  then show ?thesis using that(1) keeps_snd [OF keeps_chain(1)] inv by blast
next
  case (advance slots b)
  then show ?thesis using that(1) keeps_snd [OF keeps_chain(2)] inv by blast
next
  case (head_slot slot)
  then show ?thesis using that(1) keeps_snd [OF keeps_head_slot] inv by blast
next
  case (automine b)
  then show ?thesis using that(1) keeps_snd [OF keeps_chain(3)] inv by blast
next
  case (mining_interval slot)
  then show ?thesis using that(1) keeps_snd [OF keeps_chain(4)] inv by blast
qed (use that in blast)+

lemma ticks_step: "live_step blib lib env m (m\<lparr>tmTicks := k\<rparr>)"
  by (auto simp: live_step_def)

lemma promisesD:
  assumes "promises lib chain saved mview msnap env"
  shows "hardhat_laws lib chain saved" "module_laws lib chain saved mview msnap" "env_ok env"
    "plain_name (uuid_at env k)"
  using assms by (simp_all add: promises_def env_ok_def)

lemma ticks_inv: "tm_inv lib env (m\<lparr>tmTicks := k\<rparr>) = tm_inv lib env m"
  by (simp add: tm_inv_def)

lemma session_step_in_locale:
  assumes p: "promises lib chain saved mview msnap env" and inv: "tm_inv lib env m"
    and run: "test_session blib lib env m m'" and held: "services_saved m n = Some v"
  shows "(test_snapshots.step lib env blib n)\<^sup>*\<^sup>* m m'"
  using run inv
proof (cases rule: live_chain)
  case live
  have "live_step blib lib env \<le> test_snapshots.step lib env blib n"
    by (auto simp: test_snapshots.step_def)
  from rtranclp_mono [OF this] live show ?thesis by blast
next
  case (create k j)
  let ?m = "m\<lparr>tmTicks := j\<rparr>"
  have plain: "plain_name k" using create(3) promisesD(4) [OF p] by auto
  from take_services_facts [OF promisesD(1-3) [OF p], of ?m k] inv create(2) plain
  have "create_named lib env k ?m = Some m'"
    by (auto simp: create_named_def ok_state_def ticks_inv create(1))
  moreover have "k \<noteq> n" using create(2) held services_saved_iff [OF inv, of n] by auto
  ultimately have "test_snapshots.step lib env blib n ?m m'" by (auto simp: test_snapshots.step_def)
  moreover have "test_snapshots.step lib env blib n m ?m"
    unfolding test_snapshots.step_def by (intro disjI1 ticks_step)
  ultimately show ?thesis by (meson rtranclp.rtrancl_into_rtrancl rtranclp.rtrancl_refl)
next
  case (revert k)
  show ?thesis
  proof (cases "services_saved m k")
    case None
    then have "m' = m" using services_saved_iff [OF inv, of k] revert by (simp add: RevertSnapshot_unknown)
    then show ?thesis by simp
  next
    case (Some v)
    from RevertSnapshot_facts [OF promisesD(1-3) [OF p] inv Some] revert
    have "ok_state (RevertSnapshot lib env k) m = Some m'" by (auto simp: ok_state_def)
    then show ?thesis by (intro r_into_rtranclp) (auto simp: test_snapshots.step_def)
  qed
qed

lemma sessions_in_locale:
  assumes p: "promises lib chain saved mview msnap env"
    and "(test_session blib lib env)\<^sup>*\<^sup>* m m'" and "tm_inv lib env m" and "services_saved m n = Some v"
  shows "(test_snapshots.step lib env blib n)\<^sup>*\<^sup>* m m' \<and> tm_inv lib env m' \<and> services_saved m' n = Some v"
  using assms(2-4)
proof (induction rule: rtranclp_induct)
  case base
  then show ?case by simp
next
  case (step k l)
  then have k: "(test_snapshots.step lib env blib n)\<^sup>*\<^sup>* m k" "tm_inv lib env k" "services_saved k n = Some v"
    by simp_all
  then have "(test_snapshots.step lib env blib n)\<^sup>*\<^sup>* k l"
    using session_step_in_locale [OF p k(2) step.hyps(2)] by simp
  moreover from test_snapshots.steps_keep [OF this] p k have "tm_inv lib env l" "services_saved l n = Some v"
    by auto
  ultimately show ?case using k(1) by (meson rtranclp_trans)
qed

section \<open>New managers\<close>

definition setup_ok :: "('w, 'md, 'st) test_lib \<Rightarrow> test_env \<Rightarrow> bool" where
  "setup_ok lib env \<longleftrightarrow> good_env (teFiles env) \<and> json_faithful (tlDocker lib) \<and> fair_ranges (teDocker env)"

lemma or_close_Ok: "or_close env f m = (Ok x, m') \<longleftrightarrow> f m = (Ok x, m')"
  by (auto simp: or_close_def split: prod.splits outcome.splits)

lemma on_fs_Ok: "on_fs f m = (Ok x, m') \<longleftrightarrow> (\<exists>k. f (tmFs m) = (Ok x, k) \<and> m' = m\<lparr>tmFs := k\<rparr>)"
  by (auto simp: on_fs_def split: prod.splits)

lemma on_world_Ok: "on_world f m = (Ok x, m') \<longleftrightarrow> (\<exists>w. f (tmWorld m) = (Inr x, w) \<and> m' = m\<lparr>tmWorld := w\<rparr>)"
  by (auto simp: on_world_def split: prod.splits sum.splits)

lemma dial_Ok: "dial f url m = (Ok x, m') \<longleftrightarrow> f url = None \<and> m' = m"
  by (auto simp: dial_def split: option.splits)

lemma connect_services_Ok:
  assumes "connect_services lib env url m = (Ok (), m')"
  shows "\<exists>k w header w' chainID. NewFilesystemManager (teFiles env) (tmFs m) = (Ok (), k)
    \<and> HeaderByNumber lib (tmWorld m) = (Inr header, w) \<and> eth_ChainID lib w = (Inr chainID, w')
    \<and> m' = m\<lparr>tmFs := k, tmWorld := w',
         tmBeacon := NewBeaconMockManager (beacon_config lib env header chainID) (snd (tmBeacon m)),
         tmDocker := NewDockerMockManager, tmChainID := of_nat chainID,
         tmSnapshots := Map.empty, tmHardhatMap := Map.empty, tmModules := Map.empty\<rparr>"
  using assms unfolding connect_services_def
  by (auto simp: bind_op_Ok or_close_Ok on_fs_Ok on_world_Ok dial_Ok)

lemma connected_inv:
  assumes ok: "setup_ok lib env" and run: "connect_services lib env url m = (Ok (), m')"
  shows "tm_inv lib env m' \<and> tmSnapshots m' = Map.empty"
proof -
  from connect_services_Ok [OF run] obtain k cfg h where
    k: "NewFilesystemManager (teFiles env) (tmFs m) = (Ok (), k)" and
    m': "tmFs m' = k" "tmBeacon m' = NewBeaconMockManager cfg h" "tmDocker m' = NewDockerMockManager"
      "tmSnapshots m' = Map.empty" "tmModules m' = Map.empty" by auto
  have "docker_ok (tlDocker lib) (teDocker env) NewDockerMockManager"
    using ok new_docker_inv by (simp add: docker_ok_def setup_ok_def)
  then show ?thesis
    using new_fs_facts [OF _ k] ok NewBeaconMockManager_inv m' by (simp add: tm_inv_def setup_ok_def)
qed

inductive reachable_test ::
  "beacon_lib \<Rightarrow> ('w, 'md, 'st) test_lib \<Rightarrow> test_env \<Rightarrow> ('w, 'md, 'st) TestManager \<Rightarrow> bool"
  for blib lib env where
  new: "NewTestManager lib env m = Some (Ok (), m') \<Longrightarrow> reachable_test blib lib env m'"
| session: "reachable_test blib lib env m \<Longrightarrow> test_session blib lib env m m' \<Longrightarrow> reachable_test blib lib env m'"

lemma NewTestManager_Ok:
  assumes "NewTestManager lib env m = Some (Ok (), m')"
  shows "\<exists>url m1 n m2. connect_services lib env url m = (Ok (), m1) \<and> CreateSnapshot lib env m1 = Some (Ok n, m2)
    \<and> m' = m2\<lparr>tmBaseline := n\<rparr>"
  using assms by (auto simp: NewTestManager_def split: option.splits prod.splits outcome.splits)

lemma CreateSnapshot_facts:
  assumes p: "promises lib chain saved mview msnap env" and inv: "tm_inv lib env m"
    and run: "CreateSnapshot lib env m = Some (r, m')"
  shows "\<exists>n. r = Ok n \<and> tmSnapshots m n = None \<and> plain_name n \<and> tm_inv lib env m'
    \<and> services_view m' = services_view m
    \<and> services_saved m' = (services_saved m)(n \<mapsto> services_norm env (services_view m))"
proof -
  from run obtain n k where fresh: "fresh_name (uuid_at env) (tmSnapshots m) (tmTicks m) = Some (n, k)"
    and take: "take_services lib env n (m\<lparr>tmTicks := k\<rparr>) = (r, m')"
    by (auto simp: CreateSnapshot_def split: option.splits)
  from fresh_name_free [OF fresh] have n: "tmSnapshots m n = None" "plain_name n"
    using promisesD(4) [OF p] by auto
  have same: "services_view (m\<lparr>tmTicks := k\<rparr>) = services_view m"
    "services_saved (m\<lparr>tmTicks := k\<rparr>) = services_saved m"
    by (simp add: services_view_def) (rule services_saved_cong, simp_all)
  obtain m1 where "take_services lib env n (m\<lparr>tmTicks := k\<rparr>) = (Ok n, m1)" "tm_inv lib env m1"
    "services_view m1 = services_view m"
    "services_saved m1 = (services_saved m)(n \<mapsto> services_norm env (services_view m))"
    using take_services_facts [OF promisesD(1-3) [OF p], of "m\<lparr>tmTicks := k\<rparr>" n] inv n
    unfolding ticks_inv same by auto
  then show ?thesis using take n by simp
qed

lemma baseline_inv: "tm_inv lib env (m\<lparr>tmBaseline := n\<rparr>) = tm_inv lib env m"
  by (simp add: tm_inv_def)

lemma reachable_test_inv:
  assumes p: "promises lib chain saved mview msnap env" and ok: "setup_ok lib env"
    and "reachable_test blib lib env m"
  shows "tm_inv lib env m"
  using assms(3)
proof induction
  case (new m m')
  from NewTestManager_Ok [OF new] connected_inv [OF ok] CreateSnapshot_facts [OF p]
  show ?case by (metis baseline_inv)
next
  case (session m m')
  from session.hyps(2) session.IH show ?case
  proof (cases rule: live_chain)
    case live
    then show ?thesis using session.IH
      by (induction rule: rtranclp_induct) (use live_step_facts in blast)+
  next
    case (create n k)
    then show ?thesis
      using take_services_facts [OF promisesD(1-3) [OF p], of "m\<lparr>tmTicks := k\<rparr>" n] session.IH
        promisesD(4) [OF p] by (auto simp: ticks_inv)
  next
    case (revert k)
    then show ?thesis
      using RevertSnapshot_facts [OF promisesD(1-3) [OF p] session.IH, of k] session.IH
        services_saved_iff [OF session.IH, of k]
      by (cases "services_saved m k") (auto simp: RevertSnapshot_unknown)
  qed
qed

text \<open>Enough different names always hold one that is not taken.\<close>

lemma name_to_come:
  fixes uuid :: "nat \<Rightarrow> string"
  assumes "inj uuid" and "finite (dom taken)"
  shows "\<exists>k. t \<le> k \<and> taken (uuid k) = None"
proof -
  have "infinite (uuid ` {t..})"
  proof
    assume "finite (uuid ` {t..})"
    then have "finite {t..}" by (rule finite_imageD) (rule inj_on_subset [OF assms(1)], simp)
    then show False using infinite_Ici [of t] by simp
  qed
  then have "infinite (uuid ` {t..} - dom taken)" by (rule Diff_infinite_finite [OF assms(2)])
  then have "uuid ` {t..} - dom taken \<noteq> {}" by (metis finite.emptyI)
  then show ?thesis by auto
qed

lemma CreateSnapshot_exists:
  assumes "inj (uuid_at env)" and "finite (dom (tmSnapshots m))"
  shows "\<exists>r. CreateSnapshot lib env m = Some r"
proof -
  obtain k where "tmTicks m \<le> k" "tmSnapshots m (uuid_at env k) = None"
    using name_to_come [OF assms] by blast
  with fresh_name_Some [of "tmSnapshots m" "uuid_at env" "tmTicks m" "k - tmTicks m"]
  show ?thesis by (auto simp: CreateSnapshot_def)
qed

section \<open>Hardhat and the modules\<close>

text \<open>
  What Hardhat's documented behaviour allows: a revert to a snapshot deletes it and every later
  one, so the one of \<open>n\<close> is still there unless the test went back past it. Reverting to \<open>n\<close> itself
  is fine, since the manager takes a new one.
\<close>

definition survives ::
  "('w \<Rightarrow> (string \<times> 'c) list) \<Rightarrow> ('w, 'md, 'st) TestManager \<Rightarrow> string \<Rightarrow> string \<Rightarrow> bool" where
  "survives saved m n k \<longleftrightarrow> n = k
     \<or> (\<exists>i j. tmHardhatMap m n = Some i \<and> tmHardhatMap m k = Some j
          \<and> i \<in> fst ` set (taken_before j (saved (tmWorld m))))"

inductive node_session ::
  "beacon_lib \<Rightarrow> ('w, 'md, 'st) test_lib \<Rightarrow> test_env \<Rightarrow> ('w \<Rightarrow> (string \<times> 'c) list) \<Rightarrow> string
   \<Rightarrow> ('w, 'md, 'st) TestManager \<Rightarrow> ('w, 'md, 'st) TestManager \<Rightarrow> bool"
  for blib lib env saved n where
  live: "live_step blib lib env m m' \<Longrightarrow> saved (tmWorld m') = saved (tmWorld m)
     \<Longrightarrow> node_session blib lib env saved n m m'"
| create: "CreateSnapshot lib env m = Some (r, m') \<Longrightarrow> node_session blib lib env saved n m m'"
| revert: "survives saved m n k \<Longrightarrow> node_session blib lib env saved n m (snd (RevertSnapshot lib env k m))"

definition node_has ::
  "('w \<Rightarrow> (string \<times> 'c) list) \<Rightarrow> ('w, 'md, 'st) TestManager \<Rightarrow> string \<Rightarrow> 'c \<Rightarrow> bool" where
  "node_has saved m n c \<longleftrightarrow> (\<exists>i. tmHardhatMap m n = Some i \<and> map_of (saved (tmWorld m)) i = Some c)"

lemma map_of_append_new: "i \<notin> fst ` set xs \<Longrightarrow> map_of (xs @ [(i, c)]) = (map_of xs)(i \<mapsto> c)"
  by (induction xs) (auto simp: fun_eq_iff)

lemma map_of_taken_before: "i \<in> fst ` set (taken_before j xs) \<Longrightarrow> map_of (taken_before j xs) i = map_of xs i"
  unfolding taken_before_def by (induction xs) (auto split: if_splits)

lemma taken_before_order:
  "i \<in> fst ` set (taken_before j xs) \<Longrightarrow> j \<notin> fst ` set (taken_before i xs)"
  unfolding taken_before_def by (induction xs) (auto split: if_splits)

lemma live_hardhat_map: "live_step blib lib env m m' \<Longrightarrow> tmHardhatMap m' = tmHardhatMap m"
  by (auto simp: live_step_def RegisterModule_def)

lemma take_keeps_node:
  assumes p: "promises lib chain saved mview msnap env" and inv: "tm_inv lib env m"
    and k: "plain_name k" "tmSnapshots m k = None" "k \<noteq> n" and has: "node_has saved m n c"
    and run: "take_services lib env k m = (r, m')"
  shows "node_has saved m' n c \<and> tmSnapshots m' n = tmSnapshots m n"
proof -
  from take_services_run [OF promisesD(1-3) [OF p] inv k(1,2)] obtain w i d f t st where
    "take_services lib env k m = (Ok k, m
      \<lparr>tmWorld := w, tmHardhatMap := (tmHardhatMap m)(k \<mapsto> i), tmBeacon := TakeSnapshot k (tmBeacon m),
       tmDocker := d, tmFs := f, tmTicks := t,
       tmSnapshots := (tmSnapshots m)(k \<mapsto> \<lparr>snName = k, snStates = st\<rparr>)\<rparr>)"
    "i \<notin> fst ` set (saved (tmWorld m))" "saved w = saved (tmWorld m) @ [(i, chain (tmWorld m))]" by blast
  then show ?thesis using run k(3) has
    by (auto simp: node_has_def map_of_append_new map_of_eq_None_iff dest: map_of_SomeD intro: rev_image_eqI)
qed

lemma revert_keeps_node:
  assumes p: "promises lib chain saved mview msnap env" and inv: "tm_inv lib env m"
    and ok: "survives saved m n k" and has: "node_has saved m n c"
  shows "node_has saved (snd (RevertSnapshot lib env k m)) n c
    \<and> tmSnapshots (snd (RevertSnapshot lib env k m)) n = tmSnapshots m n"
proof (cases "tmSnapshots m k")
  case None
  then show ?thesis using has by (simp add: RevertSnapshot_unknown)
next
  case (Some snap)
  then obtain j bv dv tv where s: "tmHardhatMap m k = Some j" "services_saved m k = Some (bv, dv, tv)"
    using tm_invD(5) [OF inv, of k] services_saved_iff [OF inv, of k] by auto
  from RevertSnapshot_run [OF promisesD(1-3) [OF p] inv Some s] obtain w l b d f t where
    run: "RevertSnapshot lib env k m = (Ok (), m
      \<lparr>tmWorld := w, tmHardhatMap := (tmHardhatMap m)(k \<mapsto> l), tmBeacon := b, tmDocker := d, tmFs := f,
       tmTicks := t\<rparr>)" and node: "case map_of (saved (tmWorld m)) j of
         Some c \<Rightarrow> chain w = c \<and> saved w = taken_before j (saved (tmWorld m)) @ [(l, c)]
           \<and> l \<notin> fst ` set (taken_before j (saved (tmWorld m)))
       | None \<Rightarrow> chain w = chain (tmWorld m)
           \<and> saved w = saved (tmWorld m) @ [(l, chain (tmWorld m))]
           \<and> l \<notin> fst ` set (saved (tmWorld m))" by blast
  from has obtain i where i: "tmHardhatMap m n = Some i" "map_of (saved (tmWorld m)) i = Some c"
    by (auto simp: node_has_def)
  show ?thesis
  proof (cases "n = k")
    case True
    then have "map_of (saved w) l = Some c"
      using node i s(1) by (simp add: map_of_append_new del: map_of_append)
    then show ?thesis using run True by (simp add: node_has_def)
  next
    case False
    then have before: "i \<in> fst ` set (taken_before j (saved (tmWorld m)))"
      using ok i s(1) by (auto simp: survives_def)
    have "map_of (saved w) i = Some c"
    proof (cases "map_of (saved (tmWorld m)) j")
      case None
      then have "l \<noteq> i" using node i(2) by (force dest: map_of_SomeD)
      then show ?thesis using None node i(2) by (simp add: map_of_append_new)
    next
      case (Some e)
      then have "l \<noteq> i" using node before by auto
      then show ?thesis using Some node i(2) by (simp add: map_of_append_new map_of_taken_before [OF before])
    qed
    then show ?thesis using run i(1) False by (simp add: node_has_def)
  qed
qed

lemma node_session_test:
  assumes "node_session blib lib env saved n m m'"
  shows "test_session blib lib env m m'"
  using assms by cases (auto intro: test_session.intros)

lemma node_sessions_keep:
  assumes p: "promises lib chain saved mview msnap env"
    and "(node_session blib lib env saved n)\<^sup>*\<^sup>* m m'" and "tm_inv lib env m" and "services_saved m n = Some v"
    and "node_has saved m n c"
  shows "tm_inv lib env m' \<and> services_saved m' n = Some v \<and> node_has saved m' n c
    \<and> tmSnapshots m' n = tmSnapshots m n"
  using assms(2-5)
proof (induction rule: rtranclp_induct)
  case base
  then show ?case by simp
next
  case (step k l)
  then have k: "tm_inv lib env k" "services_saved k n = Some v" "node_has saved k n c"
    "tmSnapshots k n = tmSnapshots m n" by simp_all
  have l: "tm_inv lib env l" "services_saved l n = Some v"
    using sessions_in_locale [OF p r_into_rtranclp k(1,2), OF node_session_test [OF step.hyps(2)]] by simp_all
  have "node_has saved l n c \<and> tmSnapshots l n = tmSnapshots k n"
    using step.hyps(2)
  proof cases
    case live
    then show ?thesis using k(3) live_hardhat_map [OF live(1)] live_step_facts [OF k(1) live(1)]
      by (simp add: node_has_def)
  next
    case (create r)
    then obtain nm j where new: "fresh_name (uuid_at env) (tmSnapshots k) (tmTicks k) = Some (nm, j)"
      "take_services lib env nm (k\<lparr>tmTicks := j\<rparr>) = (r, l)"
      by (auto simp: CreateSnapshot_def split: option.splits)
    have "plain_name nm" "tmSnapshots k nm = None" using fresh_name_free [OF new(1)] promisesD(4) [OF p] by auto
    moreover have "nm \<noteq> n" using calculation(2) services_saved_iff [OF k(1), of n] k(2) by auto
    moreover have "node_has saved (k\<lparr>tmTicks := j\<rparr>) n c" using k(3) by (simp add: node_has_def)
    ultimately show ?thesis
      using take_keeps_node [OF p, of "k\<lparr>tmTicks := j\<rparr>" nm n c r l] new(2) k(1) by (simp add: ticks_inv)
  next
    case (revert j)
    then show ?thesis using revert_keeps_node [OF p k(1) _ k(3)] by simp
  qed
  with l k(4) show ?case by simp
qed

lemma create_run:
  fixes m :: "('w, 'md, 'st) TestManager"
  assumes p: "promises lib chain saved mview msnap env" and inv: "tm_inv lib env m"
    and run: "CreateSnapshot lib env m = Some (r, m0)"
  shows "\<exists>n st. r = Ok n \<and> tmSnapshots m0 = (tmSnapshots m)(n \<mapsto> \<lparr>snName = n, snStates = st\<rparr>)
    \<and> chain (tmWorld m0) = chain (tmWorld m) \<and> node_has saved m0 n (chain (tmWorld m))
    \<and> (\<forall>k c. tmSnapshots m k \<noteq> None \<longrightarrow> node_has saved m k c \<longrightarrow>
         node_has saved m0 k c \<and> survives saved m0 k n)
    \<and> (\<forall>md. map_option msnap (st md) =
         (if md \<in> ran (tmModules m) then Some (mview (tmWorld m) md) else None))"
proof -
  from run obtain n k where fresh: "fresh_name (uuid_at env) (tmSnapshots m) (tmTicks m) = Some (n, k)"
    and take: "take_services lib env n (m\<lparr>tmTicks := k\<rparr>) = (r, m0)"
    by (auto simp: CreateSnapshot_def split: option.splits)
  let ?m = "m\<lparr>tmTicks := k\<rparr>"
  have n: "tmSnapshots ?m n = None" "plain_name n" "tm_inv lib env ?m"
    using fresh_name_free [OF fresh] promisesD(4) [OF p] inv by (auto simp: ticks_inv)
  from take_services_run [OF promisesD(1-3) [OF p] n(3,2,1)] obtain w i d f t st where
    run: "take_services lib env n ?m = (Ok n, ?m
      \<lparr>tmWorld := w, tmHardhatMap := (tmHardhatMap ?m)(n \<mapsto> i), tmBeacon := TakeSnapshot n (tmBeacon ?m),
       tmDocker := d, tmFs := f, tmTicks := t,
       tmSnapshots := (tmSnapshots ?m)(n \<mapsto> \<lparr>snName = n, snStates = st\<rparr>)\<rparr>)" (is "_ = (_, ?k)")
    and i: "i \<notin> fst ` set (saved (tmWorld ?m))" "saved w = saved (tmWorld ?m) @ [(i, chain (tmWorld ?m))]"
      "chain w = chain (tmWorld ?m)"
    and st: "\<forall>md. map_option msnap (st md) =
         (if md \<in> ran (tmModules ?m) then Some (mview (tmWorld ?m) md) else None)" by blast
  have m0: "r = Ok n" "m0 = ?k" using take run by simp_all
  have one: "tmSnapshots m0 = (tmSnapshots m)(n \<mapsto> \<lparr>snName = n, snStates = st\<rparr>)" by (simp add: m0)
  have two: "chain (tmWorld m0) = chain (tmWorld m)" using i(3) by (simp add: m0)
  have three: "node_has saved m0 n (chain (tmWorld m))"
    using i by (simp add: m0 node_has_def map_of_append_new del: map_of_append)
  have four: "node_has saved m0 k c \<and> survives saved m0 k n"
    if "tmSnapshots m k \<noteq> None" and has: "node_has saved m k c" for k c
  proof -
    from has obtain j where j: "tmHardhatMap m k = Some j" "map_of (saved (tmWorld m)) j = Some c"
      by (auto simp: node_has_def)
    then have ji: "j \<noteq> i" "j \<in> fst ` set (saved (tmWorld m))" using i(1) by (force dest: map_of_SomeD)+
    have "k \<noteq> n" using that(1) n(1) by auto
    have "taken_before i (saved w) = saved (tmWorld m)"
      using i(1) unfolding i(2) taken_before_def by (subst takeWhile_append2) auto
    then show ?thesis
      using j ji i \<open>k \<noteq> n\<close>
      by (simp add: m0 node_has_def survives_def map_of_append_new del: map_of_append)
  qed
  show ?thesis
    by (rule exI [of _ n], rule exI [of _ st])
      (use m0(1) one two three four st in \<open>simp cong: if_cong\<close>)
qed

text \<open>What a revert leaves of the world outside.\<close>

lemma revert_world:
  assumes "promises lib chain saved mview msnap env" and "tm_inv lib env m"
    and "tmSnapshots m n = Some snap" and "tmHardhatMap m n = Some i" and "services_saved m n = Some v"
  shows "fst (RevertSnapshot lib env n m) = Ok ()
    \<and> chain (tmWorld (snd (RevertSnapshot lib env n m)))
      = (case map_of (saved (tmWorld m)) i of Some c \<Rightarrow> c | None \<Rightarrow> chain (tmWorld m))
    \<and> (\<forall>md. mview (tmWorld (snd (RevertSnapshot lib env n m))) md =
         (if md \<in> ran (tmModules m) \<and> snStates snap md \<noteq> None then msnap (the (snStates snap md))
          else mview (tmWorld m) md))"
proof -
  obtain bv dv tv where v: "v = (bv, dv, tv)" by (cases v)
  from RevertSnapshot_run [OF promisesD(1-3) [OF assms(1)] assms(2-4) assms(5) [unfolded v]]
  show ?thesis by (elim exE conjE) (simp split: option.splits)
qed

end
