(* ===== verification/Test_Manager_Samples.thy ===== *)
theory Test_Manager_Samples
  imports Test_Manager_Inv Filesystem_Props Beacon_Samples Docker_Samples
begin

text \<open>
  A concrete world outside the test manager, for the witnesses: a Hardhat node whose chain is a
  number, which keeps its snapshots in a list, and modules that are names with a number each. It
  fulfils everything the properties ask of that code.
\<close>

type_synonym sample_world = "nat \<times> (string \<times> nat) list \<times> (string \<Rightarrow> nat)"

definition sample_chain :: "sample_world \<Rightarrow> nat" where "sample_chain w = fst w"
definition sample_saved :: "sample_world \<Rightarrow> (string \<times> nat) list" where "sample_saved w = fst (snd w)"
definition sample_mview :: "sample_world \<Rightarrow> string \<Rightarrow> nat" where "sample_mview w = snd (snd w)"
definition sample_msnap :: "nat \<Rightarrow> nat" where "sample_msnap s = s"

definition new_id :: "(string \<times> nat) list \<Rightarrow> string" where
  "new_id sv = replicate (Suc (sum_list (map (length \<circ> fst) sv))) (CHR ''x'')"

definition sample_call ::
  "string \<Rightarrow> rpc_arg list \<Rightarrow> sample_world \<Rightarrow> (error + rpc_value) \<times> sample_world" where
  "sample_call method args = (\<lambda>(c, sv, f).
     if method = ''evm_snapshot'' then (Inr (JsonString (new_id sv)), (c, sv @ [(new_id sv, c)], f))
     else if method = ''evm_revert''
     then (case args of
             [ArgString i] \<Rightarrow>
               (case map_of sv i of
                  None \<Rightarrow> (Inr (JsonBool False), (c, sv, f))
                | Some d \<Rightarrow> (Inr (JsonBool True), (d, taken_before i sv, f)))
           | _ \<Rightarrow> (Inr JsonNull, (c, sv, f)))
     else if method = ''evm_mine'' then (Inr JsonNull, (c + 1, sv, f))
     else (Inr JsonNull, (c, sv, f)))"

definition sample_tlib :: "(sample_world, string, nat) test_lib" where
  "sample_tlib =
     \<lparr> rpc_Dial = (\<lambda>url. None), ethclient_Dial = (\<lambda>url. None), rpc_call = sample_call,
       HeaderByNumber = (\<lambda>w. (Inr \<lparr>bhNumber = 3, bhTime = 1000\<rparr>, w)),
       eth_ChainID = (\<lambda>w. (Inr 31337, w)),
       GetModuleName = (\<lambda>md. md),
       TakeModuleSnapshot = (\<lambda>md (c, sv, f). (Inr (f md), (c, sv, f))),
       hashable = (\<lambda>md. True),
       RevertModuleToSnapshot = (\<lambda>md s (c, sv, f). (Inr (), (c, sv, f(md := s)))),
       state_text = (\<lambda>s. FormatUint s),
       tlConfig = sample_config_lib,
       tlDocker = sample_dlib \<rparr>"

definition sample_tenv :: test_env where
  "sample_tenv =
     \<lparr> HardhatUrl = Some ''http://localhost:8545'', start_time = 0,
       uuid_at = (\<lambda>k. replicate (Suc k) (CHR ''u'')),
       module_order = (\<lambda>k A. sorted_list_of_set A),
       teDocker = sample_env, teFiles = sample_fs_env \<rparr>"

definition sample_start :: "(sample_world, string, nat) TestManager" where
  "sample_start =
     \<lparr> tmWorld = (0, [], \<lambda>md. 0), tmBeacon = sample_mgr, tmDocker = NewDockerMockManager,
       tmFs = empty_machine, tmBaseline = [], tmChainID = 0, tmSnapshots = Map.empty,
       tmHardhatMap = Map.empty, tmModules = Map.empty, tmTicks = 0 \<rparr>"

section \<open>It fulfils the promises\<close>

lemma new_id_fresh: "new_id sv \<notin> fst ` set sv"
proof
  assume "new_id sv \<in> fst ` set sv"
  then obtain c where "(new_id sv, c) \<in> set sv" by auto
  then have "length (new_id sv) \<in> set (map (length \<circ> fst) sv)" by force
  then show False using member_le_sum_list [of "length (new_id sv)" "map (length \<circ> fst) sv"]
    by (simp add: new_id_def)
qed

lemma sample_hardhat: "hardhat_laws sample_tlib sample_chain sample_saved"
proof -
  have "map_of (xs @ (i, c) # ys) i = Some c" "taken_before i (xs @ (i, c) # ys) = xs"
    if "i \<notin> fst ` set xs" for i c and xs ys :: "(string \<times> nat) list"
    using that by (induction xs) (auto simp: taken_before_def)
  then show ?thesis
    using new_id_fresh
    by (auto simp: hardhat_laws_def sample_tlib_def sample_call_def sample_chain_def sample_saved_def
        map_of_eq_None_iff [symmetric] simp del: map_of_append)
qed

lemma sample_modules: "module_laws sample_tlib sample_chain sample_saved sample_mview sample_msnap"
  by (auto simp: module_laws_def sample_tlib_def sample_call_def sample_chain_def sample_saved_def
      sample_mview_def sample_msnap_def split: list.splits rpc_arg.splits option.splits)

lemma sample_names: "env_ok sample_tenv" "inj (uuid_at sample_tenv)"
  by (auto simp: env_ok_def sample_tenv_def plain_name_def inj_def)

lemma sample_promises: "promises sample_tlib sample_chain sample_saved sample_mview sample_msnap sample_tenv"
  by (simp add: promises_def sample_hardhat sample_modules sample_names)

end
