(* ===== verification/Test_Manager_Props.thy ===== *)
theory Test_Manager_Props
  imports Test_Manager_Sessions Test_Manager_Samples Beacon_Props
begin

text \<open>
  The properties of the test manager: what a test can rely on when it takes and reverts snapshots,
  what happens to the Hardhat node when it does not, and how the chain advances.
\<close>

section \<open>A sample manager\<close>

definition sample_test :: "(sample_world, string, nat) TestManager" where
  "sample_test = snd (the (NewTestManager sample_tlib sample_tenv sample_start))"

lemma sample_setup: "setup_ok sample_tlib sample_tenv"
  by (simp add: setup_ok_def sample_tlib_def sample_tenv_def sample_good_env)

lemma sample_connected:
  "\<exists>m1. connect_services sample_tlib sample_tenv ''http://localhost:8545'' sample_start = (Ok (), m1)
     \<and> tmWorld m1 = tmWorld sample_start"
proof -
  have "NewFilesystemManager (teFiles sample_tenv) (tmFs sample_start) = (Ok (), sample_manager [])"
    using sample_new by (simp add: sample_tenv_def sample_start_def)
  moreover have "rpc_Dial sample_tlib u = None" "ethclient_Dial sample_tlib u = None"
    "HeaderByNumber sample_tlib w = (Inr \<lparr>bhNumber = 3, bhTime = 1000\<rparr>, w)"
    "eth_ChainID sample_tlib w = (Inr 31337, w)" for u w
    by (simp_all add: sample_tlib_def)
  ultimately show ?thesis
    by (simp add: connect_services_def bind_op_Ok or_close_Ok on_fs_Ok on_world_Ok dial_Ok)
qed

lemma sample_test_eq:
  "\<exists>m1 n m2. connect_services sample_tlib sample_tenv ''http://localhost:8545'' sample_start = (Ok (), m1)
     \<and> tmWorld m1 = tmWorld sample_start
     \<and> CreateSnapshot sample_tlib sample_tenv m1 = Some (Ok n, m2)
     \<and> NewTestManager sample_tlib sample_tenv sample_start = Some (Ok (), sample_test)
     \<and> sample_test = m2\<lparr>tmBaseline := n\<rparr>"
proof -
  obtain m1 where c: "connect_services sample_tlib sample_tenv ''http://localhost:8545'' sample_start = (Ok (), m1)"
    "tmWorld m1 = tmWorld sample_start" using sample_connected by blast
  from connected_inv [OF sample_setup c(1)] have m1: "tm_inv sample_tlib sample_tenv m1" "tmSnapshots m1 = Map.empty"
    by simp_all
  then obtain r m2 where run: "CreateSnapshot sample_tlib sample_tenv m1 = Some (r, m2)"
    using CreateSnapshot_exists [OF sample_names(2), of m1 sample_tlib] by auto
  from CreateSnapshot_facts [OF sample_promises m1(1) run] obtain n where "r = Ok n" by blast
  moreover have "HardhatUrl sample_tenv = Some ''http://localhost:8545''" by (simp add: sample_tenv_def)
  ultimately have new: "NewTestManager sample_tlib sample_tenv sample_start = Some (Ok (), m2\<lparr>tmBaseline := n\<rparr>)"
    using c(1) run by (simp add: NewTestManager_def)
  then have "sample_test = m2\<lparr>tmBaseline := n\<rparr>" by (simp add: sample_test_def)
  with c run \<open>r = Ok n\<close> new show ?thesis by auto
qed

lemma sample_test_new: "NewTestManager sample_tlib sample_tenv sample_start = Some (Ok (), sample_test)"
  using sample_test_eq by blast

lemma sample_test_reachable: "reachable_test sample_lib sample_tlib sample_tenv sample_test"
  by (rule reachable_test.new [OF sample_test_new])

text \<open>Its one snapshot, the baseline, which Hardhat took at chain 0.\<close>

lemma sample_test_baseline:
  "dom (tmSnapshots sample_test) = {tmBaseline sample_test}"
  "node_has sample_saved sample_test (tmBaseline sample_test) 0"
  "sample_chain (tmWorld sample_test) = 0"
proof -
  obtain m1 n m2 where c: "connect_services sample_tlib sample_tenv ''http://localhost:8545'' sample_start = (Ok (), m1)"
    "tmWorld m1 = tmWorld sample_start" "CreateSnapshot sample_tlib sample_tenv m1 = Some (Ok n, m2)"
    "sample_test = m2\<lparr>tmBaseline := n\<rparr>" using sample_test_eq by blast
  from connected_inv [OF sample_setup c(1)] have m1: "tm_inv sample_tlib sample_tenv m1" "tmSnapshots m1 = Map.empty"
    by simp_all
  have "sample_chain (tmWorld m1) = 0" by (simp add: c(2) sample_start_def sample_chain_def)
  with create_run [OF sample_promises m1(1) c(3)] m1(2)
  show "dom (tmSnapshots sample_test) = {tmBaseline sample_test}"
    "node_has sample_saved sample_test (tmBaseline sample_test) 0"
    "sample_chain (tmWorld sample_test) = 0"
    by (auto simp: c(4) node_has_def split: if_splits)
qed

lemma sample_test_inv: "tm_inv sample_tlib sample_tenv sample_test"
  by (rule reachable_test_inv [OF sample_promises sample_setup sample_test_reachable])

section \<open>Snapshots\<close>



text \<open>C8: a snapshot also brings back Hardhat's chain and the state of every module that was registered
  when it was taken and still is, as long as the test did not in between go back to a snapshot that
  Hardhat took before it.\<close>

theorem snapshot_restores_chain_and_modules:
  fixes m :: "('w, 'md, 'st) TestManager"
  assumes p: "promises lib chain saved mview msnap env" and "setup_ok lib env"
    and "reachable_test blib lib env m" and "CreateSnapshot lib env m = Some (Ok n, m0)"
    and run: "(node_session blib lib env saved n)\<^sup>*\<^sup>* m0 m'"
  shows "fst (RevertSnapshot lib env n m') = Ok ()
       \<and> chain (tmWorld (snd (RevertSnapshot lib env n m'))) = chain (tmWorld m)
       \<and> (\<forall>md\<in>ran (tmModules m) \<inter> ran (tmModules m').
            mview (tmWorld (snd (RevertSnapshot lib env n m'))) md = mview (tmWorld m) md)"
proof -
  have inv: "tm_inv lib env m" by (rule reachable_test_inv [OF assms(1-3)])
  from create_run [OF p inv assms(4)] obtain st where
    c: "tmSnapshots m0 n = Some \<lparr>snName = n, snStates = st\<rparr>" "node_has saved m0 n (chain (tmWorld m))"
    "\<forall>md. map_option msnap (st md) =
         (if md \<in> ran (tmModules m) then Some (mview (tmWorld m) md) else None)" by auto
  from CreateSnapshot_facts [OF p inv assms(4)] have f: "tm_inv lib env m0"
    "services_saved m0 n = Some (services_norm env (services_view m))" by auto
  from node_sessions_keep [OF p run f c(2)] obtain i where
    k: "tm_inv lib env m'" "services_saved m' n = Some (services_norm env (services_view m))"
    "tmHardhatMap m' n = Some i" "map_of (saved (tmWorld m')) i = Some (chain (tmWorld m))"
    "tmSnapshots m' n = Some \<lparr>snName = n, snStates = st\<rparr>"
    using c(1) by (auto simp: node_has_def)
  note w = revert_world [OF p k(1,5,3,2)]
  have "mview (tmWorld (snd (RevertSnapshot lib env n m'))) md = mview (tmWorld m) md"
    if "md \<in> ran (tmModules m)" "md \<in> ran (tmModules m')" for md
    using w c(3) [rule_format, of md] that by (cases "st md") auto
  then show ?thesis using w k(4) by simp
qed

lemma sample_create: "\<exists>n m0. CreateSnapshot sample_tlib sample_tenv sample_test = Some (Ok n, m0)"
proof -
  have "finite (dom (tmSnapshots sample_test))" by (simp add: sample_test_baseline(1))
  then obtain r where run: "CreateSnapshot sample_tlib sample_tenv sample_test = Some r"
    using CreateSnapshot_exists [OF sample_names(2)] by blast
  then show ?thesis using CreateSnapshot_facts [OF sample_promises sample_test_inv] by (cases r) auto
qed

theorem snapshot_restores_chain_and_modules_witness:
  "\<exists>n m0. CreateSnapshot sample_tlib sample_tenv sample_test = Some (Ok n, m0)
     \<and> (let m' = m0\<lparr>tmWorld := (7, sample_saved (tmWorld m0), \<lambda>md. 9)\<rparr> in
        sample_chain (tmWorld (snd (RevertSnapshot sample_tlib sample_tenv n m'))) = 0)"
proof -
  obtain n m0 where run: "CreateSnapshot sample_tlib sample_tenv sample_test = Some (Ok n, m0)"
    using sample_create by blast
  let ?m = "m0\<lparr>tmWorld := (7, sample_saved (tmWorld m0), \<lambda>md. 9)\<rparr>"
  have "node_session sample_lib sample_tlib sample_tenv sample_saved n m0 ?m"
    by (rule node_session.live, rule world_step) (simp add: sample_saved_def)
  from snapshot_restores_chain_and_modules [OF sample_promises sample_setup sample_test_reachable run
      r_into_rtranclp, OF this]
  show ?thesis using run sample_test_baseline(3) unfolding Let_def by auto
qed

text \<open>C9: going back to a snapshot and then forward to a later one does not bring Hardhat forward: the
  second revert reports success, the three services are those of the later snapshot, and the chain
  is still that of the earlier one.\<close>

theorem reverting_forward_leaves_chain_behind:
  assumes p: "promises lib chain saved mview msnap env" and "setup_ok lib env"
    and "reachable_test blib lib env m"
    and a: "tmHardhatMap m a = Some i" "map_of (saved (tmWorld m)) i = Some c" "tmSnapshots m a \<noteq> None"
    and b: "tmHardhatMap m b = Some j" "j \<notin> fst ` set (taken_before i (saved (tmWorld m)))" "a \<noteq> b"
      "services_saved m b = Some v"
  shows "fst (RevertSnapshot lib env b (snd (RevertSnapshot lib env a m))) = Ok ()
       \<and> services_view (snd (RevertSnapshot lib env b (snd (RevertSnapshot lib env a m)))) = services_norm env v
       \<and> chain (tmWorld (snd (RevertSnapshot lib env b (snd (RevertSnapshot lib env a m))))) = c"
proof -
  have inv: "tm_inv lib env m" by (rule reachable_test_inv [OF assms(1-3)])
  note laws = promisesD(1-3) [OF p]
  obtain sa va da ta where sa: "tmSnapshots m a = Some sa" "services_saved m a = Some (va, da, ta)"
    using a(3) services_saved_iff [OF inv, of a] by auto
  let ?m = "snd (RevertSnapshot lib env a m)"
  from RevertSnapshot_run [OF laws inv sa(1) a(1) sa(2)] a(2) obtain w l x d f t where
    ra: "RevertSnapshot lib env a m = (Ok (), m\<lparr>tmWorld := w, tmHardhatMap := (tmHardhatMap m)(a \<mapsto> l),
         tmBeacon := x, tmDocker := d, tmFs := f, tmTicks := t\<rparr>)"
    and w: "chain w = c" "saved w = taken_before i (saved (tmWorld m)) @ [(l, c)]"
      "l \<notin> fst ` set (taken_before i (saved (tmWorld m)))" by auto
  from RevertSnapshot_facts [OF laws inv sa(2)] ra
  have m1: "tm_inv lib env ?m" "services_saved ?m = services_saved m" by simp_all
  have snap: "tmSnapshots ?m b = tmSnapshots m b" "tmHardhatMap ?m b = Some j" "tmWorld ?m = w"
    using ra b(1,3) by simp_all
  obtain sb where sb: "tmSnapshots ?m b = Some sb"
    using services_saved_iff [OF inv, of b] b(4) snap(1) by auto
  have gone: "map_of (saved (tmWorld ?m)) j = (if j = l then Some c else None)"
    using b(2) w(3) by (simp add: snap(3) w(2) map_of_append_new map_of_eq_None_iff del: map_of_append)
  have held: "services_saved ?m b = Some v" using m1(2) b(4) by simp
  have "chain (tmWorld (snd (RevertSnapshot lib env b ?m))) = c"
    using revert_world [OF p m1(1) sb snap(2) held] gone w(1) snap(3) by (simp split: if_splits)
  with RevertSnapshot_facts [OF laws m1(1) held] show ?thesis by auto
qed

theorem reverting_forward_leaves_chain_behind_witness:
  "\<exists>m a b. reachable_test sample_lib sample_tlib sample_tenv m \<and> node_has sample_saved m b 5
     \<and> (let m' = snd (RevertSnapshot sample_tlib sample_tenv b (snd (RevertSnapshot sample_tlib sample_tenv a m)))
        in sample_chain (tmWorld m') = 0)"
proof -
  let ?a = "tmBaseline sample_test"
  let ?m = "sample_test\<lparr>tmWorld := (5, sample_saved (tmWorld sample_test), \<lambda>md. 0)\<rparr>"
  have live: "live_step sample_lib sample_tlib sample_tenv sample_test ?m" by (rule world_step)
  have m: "reachable_test sample_lib sample_tlib sample_tenv ?m" "tm_inv sample_tlib sample_tenv ?m"
    using reachable_test.session [OF sample_test_reachable test_session.live, OF live]
      live_step_facts [OF sample_test_inv live] by blast+
  have has: "tmSnapshots ?m ?a \<noteq> None" "node_has sample_saved ?m ?a 0"
    using sample_test_baseline(1,2) by (auto simp: node_has_def sample_saved_def)
  have "finite (dom (tmSnapshots ?m))" by (simp add: sample_test_baseline(1))
  then obtain r m0 where run: "CreateSnapshot sample_tlib sample_tenv ?m = Some (r, m0)"
    using CreateSnapshot_exists [OF sample_names(2), of ?m sample_tlib] by auto
  from CreateSnapshot_facts [OF sample_promises m(2) run] obtain b where
    b: "r = Ok b" "tmSnapshots ?m b = None" "tm_inv sample_tlib sample_tenv m0"
      "services_saved m0 b = Some (services_norm sample_tenv (services_view ?m))" by auto
  from create_run [OF sample_promises m(2) run] has b(1)
  have c: "node_has sample_saved m0 b (sample_chain (tmWorld ?m))" "node_has sample_saved m0 ?a 0"
    "survives sample_saved m0 ?a b" "tmSnapshots m0 ?a \<noteq> None" by (auto split: if_splits)
  have ab: "?a \<noteq> b" using b(2) has(1) by auto
  from c(2) obtain i where i: "tmHardhatMap m0 ?a = Some i" "map_of (sample_saved (tmWorld m0)) i = Some 0"
    by (auto simp: node_has_def)
  from c(3) ab i(1) obtain j where j: "tmHardhatMap m0 b = Some j"
    "i \<in> fst ` set (taken_before j (sample_saved (tmWorld m0)))" by (auto simp: survives_def)
  have "j \<notin> fst ` set (taken_before i (sample_saved (tmWorld m0)))" using taken_before_order [OF j(2)] .
  from reverting_forward_leaves_chain_behind [OF sample_promises sample_setup
      reachable_test.session [OF m(1) test_session.create, OF run] i c(4) j(1) this ab b(4)]
  show ?thesis using reachable_test.session [OF m(1) test_session.create, OF run] c(1)
    by (intro exI [of _ m0] exI [of _ ?a] exI [of _ b]) (simp add: sample_chain_def Let_def)
qed

text \<open>C29: \<open>CreateSnapshot\<close> returns exactly if one of the names to come is not taken; it always does
  when the names are all different and only finitely many snapshots exist.\<close>

theorem create_snapshot_returns:
  "(CreateSnapshot lib env m \<noteq> None
      \<longleftrightarrow> (\<exists>k. tmTicks m \<le> k \<and> tmSnapshots m (uuid_at env k) = None))
   \<and> (inj (uuid_at env) \<and> finite (dom (tmSnapshots m)) \<longrightarrow> CreateSnapshot lib env m \<noteq> None)"
proof -
  have iff: "CreateSnapshot lib env m \<noteq> None
      \<longleftrightarrow> (\<exists>k. tmTicks m \<le> k \<and> tmSnapshots m (uuid_at env k) = None)"
  proof
    assume "CreateSnapshot lib env m \<noteq> None"
    then obtain r where "fresh_name (uuid_at env) (tmSnapshots m) (tmTicks m) = Some r"
      by (auto simp: CreateSnapshot_def split: option.splits)
    from fresh_name_free [OF this] show "\<exists>k. tmTicks m \<le> k \<and> tmSnapshots m (uuid_at env k) = None"
      by metis
  next
    assume "\<exists>k. tmTicks m \<le> k \<and> tmSnapshots m (uuid_at env k) = None"
    then obtain i where "tmSnapshots m (uuid_at env (tmTicks m + i)) = None" by (metis le_Suc_ex)
    from fresh_name_Some [of "tmSnapshots m" "uuid_at env", OF this]
    show "CreateSnapshot lib env m \<noteq> None" by (auto simp: CreateSnapshot_def)
  qed
  moreover have "CreateSnapshot lib env m \<noteq> None" if inj: "inj (uuid_at env)" and fin: "finite (dom (tmSnapshots m))"
  proof -
    show ?thesis using CreateSnapshot_exists [OF inj fin] by auto
  qed
  ultimately show ?thesis by blast
qed

theorem create_snapshot_returns_witness:
  "CreateSnapshot sample_tlib sample_tenv sample_test \<noteq> None"
proof -
  have "finite (dom (tmSnapshots sample_test))" by (simp add: sample_test_baseline(1))
  with create_snapshot_returns [of sample_tlib sample_tenv sample_test] sample_names(2) show ?thesis by blast
qed

section \<open>Advancing the chain\<close>













section \<open>New test managers\<close>

text \<open>C28: a new test manager satisfies the invariant, its Docker mock is in the initial state, and it has
  no modules and one snapshot, the baseline, of exactly the state it is in. Its Beacon configuration is the default one with
  three fields from Hardhat: the chain ID is what \<open>ChainID\<close> answered, also for the manager itself, and
  the first execution block and the genesis time are number and time of the latest block's header.\<close>

theorem new_test_manager:
  assumes p: "promises lib chain saved mview msnap env" and "setup_ok lib env"
    and run: "NewTestManager lib env m = Some (Ok (), m')"
  shows "tm_inv lib env m' \<and> dmState (tmDocker m') = newState \<and> tmModules m' = Map.empty
       \<and> services_saved m' = [tmBaseline m' \<mapsto> services_norm env (services_view m')]
       \<and> (\<exists>header w chainID. HeaderByNumber lib (tmWorld m) = (Inr header, w)
            \<and> fst (eth_ChainID lib w) = Inr chainID
            \<and> config (fst (tmBeacon m')) = (NewDefaultConfig (tlConfig lib) (start_time env))
                \<lparr> FirstExecutionBlockIndex := of_nat (bhNumber header),
                  ChainID := of_nat chainID,
                  GenesisTime := sint (bhTime header) * 1000000000 \<rparr>
            \<and> tmChainID m' = of_nat chainID)"
proof -
  from NewTestManager_Ok [OF run] obtain url m1 n m2 where
    c: "connect_services lib env url m = (Ok (), m1)" "CreateSnapshot lib env m1 = Some (Ok n, m2)"
      "m' = m2\<lparr>tmBaseline := n\<rparr>" by blast
  from connected_inv [OF assms(2) c(1)] have m1: "tm_inv lib env m1" "tmSnapshots m1 = Map.empty" by simp_all
  from CreateSnapshot_facts [OF p m1(1) c(2)] have m2: "tm_inv lib env m2" "services_view m2 = services_view m1"
    "services_saved m2 = (services_saved m1)(n \<mapsto> services_norm env (services_view m1))" by auto
  have "services_saved m1 k = None" for k
    using services_saved_iff [OF m1(1), of k] m1(2) by (cases "services_saved m1 k") simp_all
  then have "services_saved m1 = Map.empty" by (rule ext)
  moreover have "services_saved m' = services_saved m2" "services_view m' = services_view m2"
    unfolding c(3) by (rule services_saved_cong, simp_all add: services_view_def)
  ultimately have saved: "services_saved m' = [tmBaseline m' \<mapsto> services_norm env (services_view m')]"
    using m2(2,3) c(3) by simp
  from connect_services_Ok [OF c(1)] obtain header w chainID where
    h: "HeaderByNumber lib (tmWorld m) = (Inr header, w)" "fst (eth_ChainID lib w) = Inr chainID"
      "tmBeacon m1 = NewBeaconMockManager (beacon_config lib env header chainID) (snd (tmBeacon m))"
      "tmDocker m1 = NewDockerMockManager" "tmChainID m1 = of_nat chainID" "tmModules m1 = Map.empty" by auto
  from c(2) obtain j k where t: "take_services lib env j (m1\<lparr>tmTicks := k\<rparr>) = (Ok n, m2)"
    "fresh_name (uuid_at env) (tmSnapshots m1) (tmTicks m1) = Some (j, k)"
    by (auto simp: CreateSnapshot_def split: option.splits)
  have "plain_name j" "tm_inv lib env (m1\<lparr>tmTicks := k\<rparr>)"
    using fresh_name_free [OF t(2)] promisesD(4) [OF p] m1(1) by (auto simp: ticks_inv)
  from take_services_run [OF promisesD(1-3) [OF p] this(2,1)] t(1) m1(2)
  have same: "tmModules m2 = tmModules m1" "tmChainID m2 = tmChainID m1"
    "tmBeacon m2 = TakeSnapshot j (tmBeacon m1)" "dmState (tmDocker m2) = dmState (tmDocker m1)" by auto
  have cfg: "config (fst (tmBeacon m2)) = beacon_config lib env header chainID"
    using same(3) h(3) by (simp add: TakeSnapshot_def NewBeaconMockManager_def split: prod.splits)
  then have "config (fst (tmBeacon m')) = (NewDefaultConfig (tlConfig lib) (start_time env))
      \<lparr> FirstExecutionBlockIndex := of_nat (bhNumber header), ChainID := of_nat chainID,
        GenesisTime := sint (bhTime header) * 1000000000 \<rparr>" "tmChainID m' = of_nat chainID"
    using same(2) h(5) c(3) by (simp_all add: beacon_config_def)
  moreover have "tm_inv lib env m'" "dmState (tmDocker m') = newState" "tmModules m' = Map.empty"
    using m2(1) same(1,4) h(4,6) c(3) by (simp_all add: baseline_inv)
  ultimately show ?thesis using saved h(1,2) by blast
qed

theorem new_test_manager_witness:
  "services_saved sample_test
     = [tmBaseline sample_test \<mapsto> services_norm sample_tenv (services_view sample_test)]
   \<and> ChainID (config (fst (tmBeacon sample_test))) = 31337
   \<and> GenesisTime (config (fst (tmBeacon sample_test))) = 1000000000000"
proof -
  have node: "HeaderByNumber sample_tlib w = (Inr \<lparr>bhNumber = 3, bhTime = 1000\<rparr>, w)"
    "eth_ChainID sample_tlib w = (Inr 31337, w)" for w by (simp_all add: sample_tlib_def)
  from new_test_manager [OF sample_promises sample_setup sample_test_new] show ?thesis
    by (auto simp: node)
qed

section \<open>Setting up that fails\<close>














end
