(* ===== verification/Key_Generator.thy ===== *)
theory Key_Generator
  imports Go_Numbers
begin

text \<open>
  \<open>keys/keygen.go\<close> and \<open>keys/settings.go\<close>: private keys for test accounts and validators, derived
  from a mnemonic and kept in a cache. BIP-32, BIP-39 and BLS are code outside the repository;
  what is the repository's is the way from an index to a path, the retry with the next index
  when a child key is invalid, and the caches.
\<close>

section \<open>Settings\<close>

definition DefaultEthDerivationPath :: string where
  "DefaultEthDerivationPath = ''m/44'' @ [CHR 0x27] @ ''/60'' @ [CHR 0x27] @ ''/0'' @ [CHR 0x27] @ ''/0/%d''"

definition DefaultBeaconDerivationPath :: string where
  "DefaultBeaconDerivationPath = ''m/12381/3600/%d/0/0''"

definition DefaultMnemonic :: string where
  "DefaultMnemonic = ''test test test test test test test test test test test junk''"

section \<open>The generator\<close>

text \<open>\<open>'x\<close> is an extended key of \<open>hdkeychain\<close>, \<open>'e\<close> an ECDSA key, \<open>'b\<close> a BLS key.\<close>

record ('x, 'e, 'b) KeyGenerator =
  kgMnemonic :: string
  kgEthPath :: string
  kgBlsPath :: string
  kgSeed :: "u8 list"
  kgMaster :: 'x
  kgEthKeys :: "u64 \<rightharpoonup> 'e"
  kgBlsKeys :: "u64 \<rightharpoonup> 'b"

record ('x, 'e, 'b) key_lib =
  IsMnemonicValid :: "string \<Rightarrow> bool"
  InitializeBls :: "error option"
  NewSeed :: "string \<Rightarrow> string \<Rightarrow> u8 list"
  NewMaster :: "u8 list \<Rightarrow> error + 'x"
  ParseDerivationPath :: "string \<Rightarrow> error + 32 word list"
  Derive :: "'x \<Rightarrow> 32 word \<Rightarrow> error + 'x"
  ErrInvalidChild :: error
  ECPrivKey :: "'x \<Rightarrow> error + 'e"
  PrivateKeyFromSeedAndPath :: "u8 list \<Rightarrow> string \<Rightarrow> error + 'b"
  other_directive :: "string \<Rightarrow> char \<Rightarrow> u64 \<Rightarrow> string"
  other_format :: "string \<Rightarrow> u64 \<Rightarrow> string"

text \<open>
  \<open>fmt.Sprintf(path, index)\<close>: a directive is a percent sign, flags, a width, a precision and a verb.
  The first directive takes the index, a later one finds none, and an index no directive took is
  reported at the end. \<open>%d\<close> and \<open>%v\<close> print it in decimal and \<open>%%\<close> is a percent sign; what other
  directives print is a parameter, and so are formats with argument indexes, \<open>*\<close> or characters that
  are not ASCII.
\<close>

definition is_digit_char :: "char \<Rightarrow> bool" where
  "is_digit_char c \<longleftrightarrow> c \<in> set ''0123456789''"

definition directive_verb :: "string \<Rightarrow> string" where
  \<comment> \<open>the rest of the format from the verb on\<close>
  "directive_verb s =
     (case dropWhile is_digit_char (dropWhile (\<lambda>c. c \<in> set ''+-# 0'') s) of
        [] \<Rightarrow> []
      | c # cs \<Rightarrow> if c = CHR ''.'' then dropWhile is_digit_char cs else c # cs)"

lemma directive_verb_length: "length (directive_verb s) \<le> length s"
proof (cases "dropWhile is_digit_char (dropWhile (\<lambda>c. c \<in> set ''+-# 0'') s)")
  case Nil
  show ?thesis unfolding directive_verb_def Nil list.case by simp
next
  case (Cons c cs)
  then have "length (c # cs) \<le> length s" by (metis length_dropWhile_le order_trans)
  moreover have "length (dropWhile is_digit_char cs) \<le> length cs" by (rule length_dropWhile_le)
  ultimately show ?thesis unfolding directive_verb_def Cons list.case by auto
qed

definition directive_text :: "('x, 'e, 'b) key_lib \<Rightarrow> string \<Rightarrow> char \<Rightarrow> bool \<Rightarrow> u64 \<Rightarrow> string" where
  "directive_text lib flags verb used index =
     (if used then ''%!'' @ [verb] @ ''(MISSING)''
      else if flags = [] \<and> (verb = CHR ''d'' \<or> verb = CHR ''v'') then FormatUint (unat index)
      else other_directive lib flags verb index)"

function Sprintf_from :: "('x, 'e, 'b) key_lib \<Rightarrow> bool \<Rightarrow> string \<Rightarrow> u64 \<Rightarrow> string" where
  "Sprintf_from lib used [] index =
     (if used then [] else ''%!(EXTRA uint='' @ FormatUint (unat index) @ '')'')"
| "Sprintf_from lib used (c # cs) index =
     (if c \<noteq> CHR ''%'' then c # Sprintf_from lib used cs index
      else case directive_verb cs of
        [] \<Rightarrow> ''%!(NOVERB)'' @ Sprintf_from lib used [] index
      | verb # rest \<Rightarrow>
          if verb = CHR ''%'' then CHR ''%'' # Sprintf_from lib used rest index
          else directive_text lib (take (length cs - length (verb # rest)) cs) verb used index
                 @ Sprintf_from lib True rest index)"
  by pat_completeness auto

termination
proof (relation "measure (\<lambda>(lib, used, s, index). length s)", goal_cases)
  case (4 lib used c cs index verb rest)
  then show ?case using directive_verb_length [of cs] by simp
next
  case (5 lib used c cs index verb rest)
  then show ?case using directive_verb_length [of cs] by simp
qed auto

definition Sprintf :: "('x, 'e, 'b) key_lib \<Rightarrow> string \<Rightarrow> u64 \<Rightarrow> string" where
  "Sprintf lib path index =
     (if \<exists>c\<in>set path. c = CHR ''*'' \<or> c = CHR ''['' \<or> 128 \<le> (of_char c :: nat)
      then other_format lib path index
      else Sprintf_from lib False path index)"

definition NewKeyGenerator ::
  "('x, 'e, 'b) key_lib \<Rightarrow> string \<Rightarrow> string \<Rightarrow> string \<Rightarrow> error + ('x, 'e, 'b) KeyGenerator" where
  "NewKeyGenerator lib mnemonic ethDerivationPath blsDerivationPath =
     (if \<not> IsMnemonicValid lib mnemonic
      then Inl (Errorf (''invalid mnemonic '' @ [CHR 0x27] @ ''%s'' @ [CHR 0x27]) [mnemonic])
      else case InitializeBls lib of
        Some err \<Rightarrow> Inl (Wrapf ''error initializing BLS library: %w'' [] err)
      | None \<Rightarrow>
          (case NewMaster lib (NewSeed lib mnemonic []) of
             Inl err \<Rightarrow> Inl (Wrapf ''error creating wallet master key: %w'' [] err)
           | Inr masterKey \<Rightarrow>
               Inr \<lparr> kgMnemonic = mnemonic, kgEthPath = ethDerivationPath,
                     kgBlsPath = blsDerivationPath, kgSeed = NewSeed lib mnemonic [],
                     kgMaster = masterKey, kgEthKeys = Map.empty, kgBlsKeys = Map.empty \<rparr>))"

definition NewKeyGeneratorWithDefaults ::
  "('x, 'e, 'b) key_lib \<Rightarrow> error + ('x, 'e, 'b) KeyGenerator" where
  "NewKeyGeneratorWithDefaults lib =
     NewKeyGenerator lib DefaultMnemonic DefaultEthDerivationPath DefaultBeaconDerivationPath"

section \<open>Deriving keys\<close>

text \<open>Following a path: an invalid child ends it, and the caller starts over.\<close>

datatype 'x followed = Reached 'x | InvalidChild | Failed error

fun follow :: "('x, 'e, 'b) key_lib \<Rightarrow> 'x \<Rightarrow> nat \<Rightarrow> 32 word list \<Rightarrow> 'x followed" where
  "follow lib key i [] = Reached key"
| "follow lib key i (n # path) =
     (case Derive lib key n of
        Inr child \<Rightarrow> follow lib child (i + 1) path
      | Inl err \<Rightarrow>
          if err = ErrInvalidChild lib then InvalidChild
          else Failed (Wrapf ''invalid child key at depth %d: %w'' [FormatUint i] err))"

partial_function (option) getDerivedKey ::
  "('x, 'e, 'b) key_lib \<Rightarrow> 'x \<Rightarrow> string \<Rightarrow> u64 \<Rightarrow> (error + 'x \<times> u64) option" where
  "getDerivedKey lib masterKey derivationPath index =
     (case ParseDerivationPath lib (Sprintf lib derivationPath index) of
        Inl err \<Rightarrow> Some (Inl (Wrapf (''invalid node key derivation path '' @ [CHR 0x27] @ ''%s'' @ [CHR 0x27] @ '': %w'')
                              [Sprintf lib derivationPath index] err))
      | Inr path \<Rightarrow>
          (case follow lib masterKey 0 path of
             Reached key \<Rightarrow> Some (Inr (key, index))
           | Failed err \<Rightarrow> Some (Inl err)
           | InvalidChild \<Rightarrow> getDerivedKey lib masterKey derivationPath (index + 1)))"

text \<open>The result is \<open>None\<close> if the call does not return.\<close>

definition GetEthPrivateKey ::
  "('x, 'e, 'b) key_lib \<Rightarrow> u64 \<Rightarrow> ('x, 'e, 'b) KeyGenerator
   \<Rightarrow> ((error + 'e) \<times> ('x, 'e, 'b) KeyGenerator) option" where
  "GetEthPrivateKey lib index g =
     (case kgEthKeys g index of
        Some key \<Rightarrow> Some (Inr key, g)
      | None \<Rightarrow>
          (case getDerivedKey lib (kgMaster g) (kgEthPath g) index of
             None \<Rightarrow> None
           | Some (Inl err) \<Rightarrow> Some (Inl (Wrapf ''error getting node wallet derived key: %w'' [] err), g)
           | Some (Inr (derivedKey, _)) \<Rightarrow>
               (case ECPrivKey lib derivedKey of
                  Inl err \<Rightarrow> Some (Inl (Wrapf ''error getting node wallet private key: %w'' [] err), g)
                | Inr privateKey \<Rightarrow>
                    Some (Inr privateKey, g\<lparr>kgEthKeys := (kgEthKeys g)(index \<mapsto> privateKey)\<rparr>))))"

definition GetBlsPrivateKey ::
  "('x, 'e, 'b) key_lib \<Rightarrow> u64 \<Rightarrow> ('x, 'e, 'b) KeyGenerator
   \<Rightarrow> (error + 'b) \<times> ('x, 'e, 'b) KeyGenerator" where
  "GetBlsPrivateKey lib index g =
     (case kgBlsKeys g index of
        Some key \<Rightarrow> (Inr key, g)
      | None \<Rightarrow>
          let path = Sprintf lib (kgBlsPath g) index in
          (case PrivateKeyFromSeedAndPath lib (kgSeed g) path of
             Inl err \<Rightarrow> (Inl (Wrapf ''error getting validator private key for [%s]: %w'' [path] err), g)
           | Inr blsKey \<Rightarrow> (Inr blsKey, g\<lparr>kgBlsKeys := (kgBlsKeys g)(index \<mapsto> blsKey)\<rparr>)))"

end
