(* ===== verification/Key_Props.thy ===== *)
theory Key_Props
  imports Key_Generator
begin

text \<open>
  The properties of the key generator: when deriving a key returns, that the caches do not show, and
  what the retry with the next index does to neighbouring indices.
\<close>

section \<open>The retry\<close>

text \<open>An index whose path has an invalid child, and what the other indices give.\<close>

definition retried :: "('x, 'e, 'b) key_lib \<Rightarrow> 'x \<Rightarrow> string \<Rightarrow> u64 \<Rightarrow> bool" where
  "retried lib master path i \<longleftrightarrow>
     (case ParseDerivationPath lib (Sprintf lib path i) of
        Inl err \<Rightarrow> False
      | Inr p \<Rightarrow> follow lib master 0 p = InvalidChild)"

definition derived_at :: "('x, 'e, 'b) key_lib \<Rightarrow> 'x \<Rightarrow> string \<Rightarrow> u64 \<Rightarrow> error + 'x \<times> u64" where
  "derived_at lib master path i =
     (case ParseDerivationPath lib (Sprintf lib path i) of
        Inl err \<Rightarrow> Inl (Wrapf (''invalid node key derivation path '' @ [CHR 0x27] @ ''%s'' @ [CHR 0x27] @ '': %w'')
                          [Sprintf lib path i] err)
      | Inr p \<Rightarrow>
          (case follow lib master 0 p of
             Reached key \<Rightarrow> Inr (key, i)
           | Failed err \<Rightarrow> Inl err
           | InvalidChild \<Rightarrow> undefined))"

lemma getDerivedKey_step:
  "getDerivedKey lib master path i =
     (if retried lib master path i then getDerivedKey lib master path (i + 1)
      else Some (derived_at lib master path i))"
  by (subst getDerivedKey.simps)
    (auto simp: retried_def derived_at_def split: sum.splits followed.splits)

lemma getDerivedKey_retried:
  "(\<And>j. j < n \<Longrightarrow> retried lib master path (i + of_nat j))
    \<Longrightarrow> getDerivedKey lib master path i = getDerivedKey lib master path (i + of_nat n)"
proof (induction n)
  case 0
  then show ?case by simp
next
  case (Suc n)
  then have "getDerivedKey lib master path i = getDerivedKey lib master path (i + of_nat n)" by simp
  also have "\<dots> = getDerivedKey lib master path (i + of_nat n + 1)"
    using Suc.prems [of n] by (subst getDerivedKey_step) simp
  finally show ?case by (simp add: ac_simps)
qed

lemma getDerivedKey_Some:
  assumes "getDerivedKey lib master path i = Some r"
  shows "\<exists>j. \<not> retried lib master path j"
proof (rule getDerivedKey.raw_induct
    [where P = "\<lambda>lib master path i r. \<exists>j. \<not> retried lib master path j", OF _ assms], goal_cases)
  case (1 rec lib master path i r)
  show ?case
  proof (cases "retried lib master path i")
    case True
    then have "rec lib master path (i + 1) = Some r"
      using 1(2) by (auto simp: retried_def split: sum.splits)
    then show ?thesis by (rule 1(1))
  qed blast
qed

text \<open>The indices wrap around, so one valid index anywhere is enough.\<close>

lemma getDerivedKey_returns:
  assumes "\<not> retried lib master path j"
  shows "\<exists>n. getDerivedKey lib master path i = Some (derived_at lib master path (i + of_nat n))
    \<and> \<not> retried lib master path (i + of_nat n) \<and> (\<forall>k<n. retried lib master path (i + of_nat k))"
proof -
  have "\<not> retried lib master path (i + of_nat (unat (j - i)))" using assms by simp
  then obtain n where n: "\<not> retried lib master path (i + of_nat n)"
    "\<forall>k<n. retried lib master path (i + of_nat k)"
    using exists_least_iff [of "\<lambda>n. \<not> retried lib master path (i + of_nat n)"] by blast
  then have "getDerivedKey lib master path i = getDerivedKey lib master path (i + of_nat n)"
    by (intro getDerivedKey_retried) blast
  also have "\<dots> = Some (derived_at lib master path (i + of_nat n))"
    using n(1) by (subst getDerivedKey_step) simp
  finally show ?thesis using n by blast
qed

text \<open>C26: asking for an account key returns exactly if the key is cached or some index at all is free of
  invalid children: the retry goes through the indices in order and wraps around.\<close>

theorem eth_key_returns:
  "GetEthPrivateKey lib index g \<noteq> None \<longleftrightarrow>
     kgEthKeys g index \<noteq> None \<or> (\<exists>i. \<not> retried lib (kgMaster g) (kgEthPath g) i)"
proof (cases "kgEthKeys g index")
  case None
  have "getDerivedKey lib (kgMaster g) (kgEthPath g) index \<noteq> None
      \<longleftrightarrow> (\<exists>i. \<not> retried lib (kgMaster g) (kgEthPath g) i)"
    using getDerivedKey_Some getDerivedKey_returns by (metis not_Some_eq)
  with None show ?thesis by (auto simp: GetEthPrivateKey_def split: option.splits sum.splits)
qed (simp add: GetEthPrivateKey_def)

section \<open>The caches\<close>

inductive key_session ::
  "('x, 'e, 'b) key_lib \<Rightarrow> ('x, 'e, 'b) KeyGenerator \<Rightarrow> ('x, 'e, 'b) KeyGenerator \<Rightarrow> bool" for lib where
  eth: "GetEthPrivateKey lib i g = Some (r, g') \<Longrightarrow> key_session lib g g'"
| bls: "GetBlsPrivateKey lib i g = (r, g') \<Longrightarrow> key_session lib g g'"

text \<open>What a generator gives out without its caches.\<close>

definition uncached :: "('x, 'e, 'b) KeyGenerator \<Rightarrow> ('x, 'e, 'b) KeyGenerator" where
  "uncached g = g\<lparr>kgEthKeys := Map.empty, kgBlsKeys := Map.empty\<rparr>"

definition cache_inv :: "('x, 'e, 'b) key_lib \<Rightarrow> ('x, 'e, 'b) KeyGenerator \<Rightarrow> bool" where
  "cache_inv lib g \<longleftrightarrow>
     (\<forall>i k. kgEthKeys g i = Some k \<longrightarrow> map_option fst (GetEthPrivateKey lib i (uncached g)) = Some (Inr k))
   \<and> (\<forall>i k. kgBlsKeys g i = Some k \<longrightarrow> fst (GetBlsPrivateKey lib i (uncached g)) = Inr k)"

lemma cache_hits:
  "kgEthKeys g i = Some k \<Longrightarrow> GetEthPrivateKey lib i g = Some (Inr k, g)"
  "kgBlsKeys g i = Some b \<Longrightarrow> GetBlsPrivateKey lib i g = (Inr b, g)"
  by (simp_all add: GetEthPrivateKey_def GetBlsPrivateKey_def)

lemma cache_invD:
  assumes "cache_inv lib g"
  shows "kgEthKeys g i = Some k \<Longrightarrow> map_option fst (GetEthPrivateKey lib i (uncached g)) = Some (Inr k)"
    "kgBlsKeys g i = Some b \<Longrightarrow> fst (GetBlsPrivateKey lib i (uncached g)) = Inr b"
  using assms unfolding cache_inv_def by blast+

lemma cached_eth:
  assumes "cache_inv lib g"
  shows "map_option fst (GetEthPrivateKey lib i g) = map_option fst (GetEthPrivateKey lib i (uncached g))"
proof (cases "kgEthKeys g i")
  case None
  then show ?thesis
    by (auto simp: GetEthPrivateKey_def uncached_def split: option.splits sum.splits)
next
  case (Some k)
  show ?thesis unfolding cache_hits(1) [OF Some] cache_invD(1) [OF assms Some] by simp
qed

lemma cached_bls:
  assumes "cache_inv lib g"
  shows "fst (GetBlsPrivateKey lib i g) = fst (GetBlsPrivateKey lib i (uncached g))"
proof (cases "kgBlsKeys g i")
  case None
  then show ?thesis
    by (auto simp: GetBlsPrivateKey_def uncached_def Let_def split: sum.splits)
next
  case (Some k)
  show ?thesis unfolding cache_hits(2) [OF Some] cache_invD(2) [OF assms Some] by simp
qed

lemma eth_state:
  assumes "GetEthPrivateKey lib i g = Some (r, g')"
  shows "g' = g \<or> (\<exists>k. Inr k = r \<and> g' = g\<lparr>kgEthKeys := (kgEthKeys g)(i \<mapsto> k)\<rparr>)"
  using assms by (auto simp: GetEthPrivateKey_def split: option.splits sum.splits)

lemma bls_state:
  assumes "GetBlsPrivateKey lib i g = (r, g')"
  shows "g' = g \<or> (\<exists>k. Inr k = r \<and> g' = g\<lparr>kgBlsKeys := (kgBlsKeys g)(i \<mapsto> k)\<rparr>)"
  using assms by (auto simp: GetBlsPrivateKey_def Let_def split: option.splits sum.splits)

lemma key_session_keeps:
  assumes "key_session lib g g'" and "cache_inv lib g"
  shows "cache_inv lib g' \<and> uncached g' = uncached g"
  using assms(1)
proof cases
  case (eth i r)
  from eth_state [OF eth] show ?thesis
  proof (elim disjE exE conjE)
    fix k
    assume r: "Inr k = r" and g': "g' = g\<lparr>kgEthKeys := (kgEthKeys g)(i \<mapsto> k)\<rparr>"
    then have same: "uncached g' = uncached g" by (simp add: uncached_def)
    have "map_option fst (GetEthPrivateKey lib i (uncached g)) = Some (Inr k)"
      using cached_eth [OF assms(2), of i] unfolding eth r by simp
    with assms(2) show ?thesis unfolding cache_inv_def same by (simp add: g')
  qed (use assms(2) in simp)
next
  case (bls i r)
  from bls_state [OF bls] show ?thesis
  proof (elim disjE exE conjE)
    fix k
    assume r: "Inr k = r" and g': "g' = g\<lparr>kgBlsKeys := (kgBlsKeys g)(i \<mapsto> k)\<rparr>"
    then have same: "uncached g' = uncached g" by (simp add: uncached_def)
    have "fst (GetBlsPrivateKey lib i (uncached g)) = Inr k"
      using cached_bls [OF assms(2), of i] unfolding bls r by simp
    with assms(2) show ?thesis unfolding cache_inv_def same by (simp add: g')
  qed (use assms(2) in simp)
qed

text \<open>A generator for keys that are the last number of their path, where the child 7 is invalid.\<close>

definition sample_klib :: "(32 word, 32 word, string) key_lib" where
  "sample_klib =
     \<lparr> IsMnemonicValid = (\<lambda>s. s \<noteq> []), InitializeBls = None, NewSeed = (\<lambda>s p. map of_char s),
       NewMaster = (\<lambda>bs. Inr 0),
       ParseDerivationPath = (\<lambda>s. case ParseUint s 32 of Inl e \<Rightarrow> Inl e | Inr n \<Rightarrow> Inr [of_nat n]),
       Derive = (\<lambda>x n. if n = 7 then Inl (External ''invalid child'') else Inr n),
       ErrInvalidChild = External ''invalid child'', ECPrivKey = Inr,
       PrivateKeyFromSeedAndPath = (\<lambda>bs s. Inr s),
       other_directive = (\<lambda>fl v i. []), other_format = (\<lambda>s i. []) \<rparr>"

definition sample_keys :: "(32 word, 32 word, string) KeyGenerator" where
  "sample_keys = \<lparr> kgMnemonic = ''test'', kgEthPath = ''%d'', kgBlsPath = DefaultBeaconDerivationPath,
     kgSeed = map of_char ''test'', kgMaster = 0, kgEthKeys = Map.empty, kgBlsKeys = Map.empty \<rparr>"

lemma sample_keys_new:
  "NewKeyGenerator sample_klib ''test'' ''%d'' DefaultBeaconDerivationPath = Inr sample_keys"
  by (simp add: NewKeyGenerator_def sample_klib_def sample_keys_def)

lemma decimal_format: "Sprintf lib ''%d'' i = FormatUint (unat i)"
  by (simp add: Sprintf_def directive_verb_def directive_text_def is_digit_char_def)

lemma sample_retried: "unat i < 2 ^ 32 \<Longrightarrow> retried sample_klib 0 ''%d'' i \<longleftrightarrow> of_nat (unat i) = (7 :: 32 word)"
  by (simp add: retried_def decimal_format) (simp add: sample_klib_def ParseUint_FormatUint)

lemma sample_key:
  "GetEthPrivateKey sample_klib 7 sample_keys = Some (Inr 8, sample_keys\<lparr>kgEthKeys := [7 \<mapsto> 8]\<rparr>)"
proof -
  have "retried sample_klib 0 ''%d'' 7" "\<not> retried sample_klib 0 ''%d'' 8" by (simp_all add: sample_retried)
  then have "getDerivedKey sample_klib 0 ''%d'' 7 = Some (derived_at sample_klib 0 ''%d'' 8)"
    using getDerivedKey_step [of sample_klib 0 "''%d''" 7] getDerivedKey_step [of sample_klib 0 "''%d''" 8] by simp
  moreover have "derived_at sample_klib 0 ''%d'' 8 = Inr (8, 8)"
    by (simp add: derived_at_def decimal_format) (simp add: sample_klib_def ParseUint_FormatUint)
  ultimately show ?thesis by (simp add: GetEthPrivateKey_def sample_keys_def) (simp add: sample_klib_def)
qed

theorem eth_key_returns_witness: "GetEthPrivateKey sample_klib 7 sample_keys \<noteq> None"
proof -
  have "\<not> retried sample_klib (kgMaster sample_keys) (kgEthPath sample_keys) 8"
    by (simp add: sample_keys_def sample_retried)
  then show ?thesis using eth_key_returns [of sample_klib 7 sample_keys] by blast
qed

text \<open>C27: the caches do not show: whatever keys were asked for before, a generator gives the keys and
  errors that a new one made from the same mnemonic and paths gives.\<close>

theorem keys_ignore_history:
  assumes "NewKeyGenerator lib mnemonic ethPath blsPath = Inr g0" and "(key_session lib)\<^sup>*\<^sup>* g0 g"
  shows "map_option fst (GetEthPrivateKey lib i g) = map_option fst (GetEthPrivateKey lib i g0)
       \<and> fst (GetBlsPrivateKey lib i g) = fst (GetBlsPrivateKey lib i g0)"
proof -
  have new: "kgEthKeys g0 = Map.empty" "kgBlsKeys g0 = Map.empty"
    using assms(1) by (auto simp: NewKeyGenerator_def split: if_splits option.splits sum.splits)
  then have "uncached g0 = g0" and "cache_inv lib g0" by (simp_all add: uncached_def cache_inv_def)
  moreover from assms(2) this(2) have "cache_inv lib g \<and> uncached g = uncached g0"
    by (induction rule: rtranclp_induct) (auto dest: key_session_keeps)
  ultimately show ?thesis using cached_eth [of lib g i] cached_bls [of lib g i] by simp
qed

theorem keys_ignore_history_witness:
  "let g = sample_keys\<lparr>kgEthKeys := [7 \<mapsto> 8]\<rparr>
   in key_session sample_klib sample_keys g
      \<and> map_option fst (GetEthPrivateKey sample_klib 7 g) = Some (Inr 8)"
proof -
  have session: "key_session sample_klib sample_keys (sample_keys\<lparr>kgEthKeys := [7 \<mapsto> 8]\<rparr>)"
    by (rule key_session.eth [OF sample_key])
  from keys_ignore_history [OF sample_keys_new r_into_rtranclp, OF session] session sample_key
  show ?thesis unfolding Let_def by simp
qed

section \<open>Neighbouring indices\<close>

text \<open>An index whose path has an invalid child gets the key of the next index: two accounts of the
  generator are then the same.\<close>

theorem invalid_index_shares_key:
  assumes "retried lib (kgMaster g) (kgEthPath g) index"
    and "kgEthKeys g index = None" and "kgEthKeys g (index + 1) = None"
  shows "map_option fst (GetEthPrivateKey lib index g) = map_option fst (GetEthPrivateKey lib (index + 1) g)"
proof -
  have "getDerivedKey lib (kgMaster g) (kgEthPath g) index = getDerivedKey lib (kgMaster g) (kgEthPath g) (index + 1)"
    using assms(1) by (subst getDerivedKey_step) simp
  then show ?thesis
    using assms(2,3) by (auto simp: GetEthPrivateKey_def split: option.splits sum.splits)
qed

theorem invalid_index_shares_key_witness:
  "map_option fst (GetEthPrivateKey sample_klib 8 sample_keys) = Some (Inr 8)
   \<and> map_option fst (GetEthPrivateKey sample_klib 7 sample_keys) = Some (Inr 8)"
proof -
  have "retried sample_klib (kgMaster sample_keys) (kgEthPath sample_keys) 7"
    by (simp add: sample_keys_def sample_retried)
  from invalid_index_shares_key [OF this] sample_key show ?thesis by (simp add: sample_keys_def)
qed

section \<open>The default paths\<close>

lemma default_paths:
  "Sprintf lib DefaultEthDerivationPath i = ''m/44'' @ [CHR 0x27] @ ''/60'' @ [CHR 0x27] @ ''/0'' @ [CHR 0x27] @ ''/0/'' @ FormatUint (unat i)"
  "Sprintf lib DefaultBeaconDerivationPath i = ''m/12381/3600/'' @ FormatUint (unat i) @ ''/0/0''"
  by (simp_all add: Sprintf_def DefaultEthDerivationPath_def DefaultBeaconDerivationPath_def
      directive_verb_def directive_text_def is_digit_char_def)

end
