(* ===== verification/Node_Command.thy ===== *)
theory Node_Command
  imports Beacon_Server
begin

text \<open>
  \<open>beacon/osha-bn.go\<close> and the life cycle of the server in \<open>beacon/server/server.go\<close>: the command that
  runs the Beacon mock on its own. The first part is the way from the flags to a listening server,
  the second the process it then is: the goroutine that serves, the one that waits for a signal and
  the main one that waits for the first, as a step relation over their interleavings. The
  operating system's side of a listener and the parsing of the command line are parameters.
\<close>

section \<open>Network addresses\<close>

text \<open>The longest suffix after the last occurrence of a character, with what comes before it.\<close>

fun split_last :: "char \<Rightarrow> string \<Rightarrow> (string \<times> string) option" where
  "split_last c [] = None"
| "split_last c (x # s) =
     (case split_last c s of
        Some (before, after) \<Rightarrow> Some (x # before, after)
      | None \<Rightarrow> if x = c then Some ([], s) else None)"

text \<open>\<open>net.SplitHostPort\<close>, with the reason as the error.\<close>

definition SplitHostPort :: "string \<Rightarrow> string + string \<times> string" where
  "SplitHostPort hostport =
     (case split_last (CHR '':'') hostport of
        None \<Rightarrow> Inl ''missing port in address''
      | Some (addr, port) \<Rightarrow>
          if HasPrefix hostport ''['' then
            (if CHR '']'' \<notin> set hostport then Inl ''missing ']' in address''
             else
               let host = takeWhile (\<lambda>c. c \<noteq> CHR '']'') (tl hostport);
                   rest = tl (dropWhile (\<lambda>c. c \<noteq> CHR '']'') hostport)
               in if rest = [] then Inl ''missing port in address''
                  else if rest \<noteq> CHR '':'' # port then
                    (if HasPrefix rest '':'' then Inl ''too many colons in address''
                     else Inl ''missing port in address'')
                  else if CHR ''['' \<in> set (tl hostport) then Inl ''unexpected '[' in address''
                  else if CHR '']'' \<in> set rest then Inl ''unexpected ']' in address''
                  else Inr (host, port))
          else if CHR '':'' \<in> set addr then Inl ''too many colons in address''
          else if CHR ''['' \<in> set hostport then Inl ''unexpected '[' in address''
          else if CHR '']'' \<in> set hostport then Inl ''unexpected ']' in address''
          else Inr (addr, port))"

text \<open>
  \<open>net.Listen("tcp", address)\<close>: the operating system gets the host and the port and gives the
  listener's port or an error.
\<close>

type_synonym network = "string \<Rightarrow> string \<Rightarrow> error + int"

definition net_Listen :: "network \<Rightarrow> string \<Rightarrow> error + int" where
  "net_Listen listen address =
     (case SplitHostPort address of
        Inl why \<Rightarrow> Inl (Errorf ''listen tcp: address %s: %s'' [address, why])
      | Inr (host, port) \<Rightarrow> listen host port)"

section \<open>The server\<close>

text \<open>The socket is the TCP port of the listener, or nil.\<close>

record BeaconMockServer =
  srvIp :: string
  srvPort :: u16
  srvSocket :: "int option"
  srvRouter :: "(string \<times> handler) list"
  srvManager :: bstate

definition NewBeaconMockServer ::
  "beacon_lib \<Rightarrow> server_lib \<Rightarrow> string \<Rightarrow> u16 \<Rightarrow> Config \<Rightarrow> heap \<Rightarrow> error + BeaconMockServer" where
  "NewBeaconMockServer lib slib ip port cfg h =
     Inr \<lparr> srvIp = ip, srvPort = port, srvSocket = None, srvRouter = server_routes lib slib,
           srvManager = NewBeaconMockManager cfg h \<rparr>"

definition Start :: "network \<Rightarrow> BeaconMockServer \<Rightarrow> error + BeaconMockServer" where
  "Start listen s =
     (case net_Listen listen (srvIp s @ '':'' @ FormatUint (unat (srvPort s))) of
        Inl err \<Rightarrow> Inl (Wrapf ''error creating socket: %w'' [] err)
      | Inr socketPort \<Rightarrow>
          Inr (s\<lparr> srvSocket := Some socketPort,
                 srvPort := (if srvPort s = 0 then word_of_int socketPort else srvPort s) \<rparr>))"

definition GetPort :: "BeaconMockServer \<Rightarrow> u16" where
  "GetPort s = srvPort s"

section \<open>The command\<close>

text \<open>The flags as the command line package delivers them; the port is a Go \<open>uint\<close>.\<close>

record flags =
  flagIp :: string
  flagPort :: u64
  flagConfigFile :: string

definition default_flags :: flags where
  "default_flags = \<lparr> flagIp = ''127.0.0.1'', flagPort = 48812, flagConfigFile = [] \<rparr>"

text \<open>An error goes to the standard error output, and the process exits with its code.\<close>

datatype launched = Exit nat error | Running BeaconMockServer

definition load_config :: "config_lib \<Rightarrow> file_env \<Rightarrow> string \<Rightarrow> error + Config" where
  "load_config clib env configFile =
     (if configFile = [] then Inr (NewDefaultConfig clib (Now env))
      else LoadFromFile clib env configFile)"

definition launch ::
  "beacon_lib \<Rightarrow> server_lib \<Rightarrow> config_lib \<Rightarrow> file_env \<Rightarrow> network \<Rightarrow> flags \<Rightarrow> heap \<Rightarrow> launched" where
  "launch lib slib clib env listen fl h =
     (case load_config clib env (flagConfigFile fl) of
        Inl err \<Rightarrow> Exit 1 (Wrapf ''Error loading config file: %v'' [] err)
      | Inr cfg \<Rightarrow>
          (case NewBeaconMockServer lib slib (flagIp fl) (ucast (flagPort fl)) cfg h of
             Inl err \<Rightarrow> Exit 1 (Wrapf ''Error creating server: %v'' [] err)
           | Inr server \<Rightarrow>
               (case Start listen server of
                  Inl err \<Rightarrow> Exit 1 (Wrapf ''Error starting server: %v'' [] err)
                | Inr started \<Rightarrow> Running started)))"

section \<open>The process\<close>

text \<open>
  Where the goroutine of the signals is: it waits for one, has received it, has printed its line, is in
  \<open>server.Shutdown\<close> with the listener closed, has printed that the shutdown failed, or is done.
\<close>

datatype signal_state = Waiting | Received | Signalled | ShuttingDown | StopFailed | Stopped

text \<open>The order in which that goroutine goes through its states.\<close>

primrec stage :: "signal_state \<Rightarrow> nat" where
  "stage Waiting = 0"
| "stage Received = 1"
| "stage Signalled = 2"
| "stage ShuttingDown = 3"
| "stage StopFailed = 4"
| "stage Stopped = 5"

lemma stage_inject: "stage s = stage t \<longleftrightarrow> s = t"
  by (cases s; cases t) simp_all

instantiation signal_state :: linorder
begin

definition less_eq_signal_state :: "signal_state \<Rightarrow> signal_state \<Rightarrow> bool" where
  "s \<le> t \<longleftrightarrow> stage s \<le> stage t"

definition less_signal_state :: "signal_state \<Rightarrow> signal_state \<Rightarrow> bool" where
  "s < t \<longleftrightarrow> stage s < stage t"

instance
  by standard (auto simp: less_eq_signal_state_def less_signal_state_def stage_inject)

end

lemmas stage_defs = less_eq_signal_state_def less_signal_state_def

text \<open>
  \<open>prServing\<close> says that \<open>server.Serve\<close> has not returned, \<open>prStopped\<close> that the main goroutine has printed
  its last line. \<open>prIdle\<close> counts the accepted connections that wait for a request, \<open>prOpen\<close> are the
  requests that handlers work on, \<open>prOut\<close> and \<open>prErr\<close> what was printed and logged.
\<close>

record process =
  prServing :: bool
  prStopped :: bool
  prSignal :: signal_state
  prIdle :: nat
  prOpen :: "Request list"
  prAnswered :: "Request list"
  prOut :: "string list"
  prErr :: "error list"
  prExit :: "nat option"

definition new_process :: process where
  "new_process = \<lparr> prServing = True, prStopped = False, prSignal = Waiting, prIdle = 0, prOpen = [],
                   prAnswered = [], prOut = [], prErr = [], prExit = None \<rparr>"

definition println :: "string \<Rightarrow> process \<Rightarrow> process" where
  "println s p = p\<lparr>prOut := prOut p @ [s]\<rparr>"

definition print_error :: "error \<Rightarrow> process \<Rightarrow> process" where
  "print_error e p = p\<lparr>prErr := prErr p @ [e]\<rparr>"

definition ErrServerClosed :: error where
  "ErrServerClosed = External ''http: Server closed''"

text \<open>The goroutine \<open>Start\<close> leaves behind, once \<open>Serve\<close> came back with an error.\<close>

definition serve_ends :: "error \<Rightarrow> process \<Rightarrow> process" where
  "serve_ends err p =
     (if err = ErrServerClosed then p
      else print_error (Wrapf ''error while listening for HTTP requests'' [] err) p)\<lparr>prServing := False\<rparr>"

text \<open>\<open>Stop\<close>, by the result of \<open>Shutdown\<close>.\<close>

definition server_Stop :: "error option \<Rightarrow> error option" where
  "server_Stop shutdown =
     (case shutdown of
        None \<Rightarrow> None
      | Some err \<Rightarrow>
          if err = ErrServerClosed then None
          else Some (Wrapf ''error stopping listener: %w'' [] err))"

text \<open>The goroutine of the signals when \<open>Shutdown\<close> comes back: it is done, or prints the error.\<close>

definition signal_ends :: "error option \<Rightarrow> process \<Rightarrow> process" where
  "signal_ends shutdown p =
     (case server_Stop shutdown of
        None \<Rightarrow> p\<lparr>prSignal := Stopped\<rparr>
      | Some err \<Rightarrow> (print_error (Wrapf ''Error stopping server: %v'' [] err) p)\<lparr>prSignal := StopFailed\<rparr>)"

text \<open>
  One step of any goroutine. \<open>Serve\<close> accepts connections while the listener is open; a connection
  sends one request at a time, and stays for the next one unless the server is shutting down or a side
  closes it. \<open>Shutdown\<close> first closes the listener, so that no connection is accepted any more and
  \<open>Serve\<close> returns \<open>ErrServerClosed\<close>; an accepted connection may still send a request before it is
  closed. \<open>Shutdown\<close> comes back when no connection is left, with the error of closing the listener if
  there was one. \<open>Serve\<close> may also fail on its own. The main goroutine waits for the one that serves
  alone, then prints its line and ends the process. Only the first signal is received. Each receive,
  print and exit is a step of its own, so the lines of the two goroutines may come in either order.
\<close>

inductive process_step :: "process \<Rightarrow> process \<Rightarrow> bool" where
  accept: "prExit p = None \<Longrightarrow> prServing p \<Longrightarrow> prSignal p < ShuttingDown \<Longrightarrow>
             process_step p (p\<lparr>prIdle := prIdle p + 1\<rparr>)"
| arrive: "prExit p = None \<Longrightarrow> prIdle p = Suc n \<Longrightarrow>
             process_step p (p\<lparr>prIdle := n, prOpen := prOpen p @ [r]\<rparr>)"
| close_idle: "prExit p = None \<Longrightarrow> prIdle p = Suc n \<Longrightarrow> process_step p (p\<lparr>prIdle := n\<rparr>)"
| answer: "prExit p = None \<Longrightarrow> prOpen p = rs @ r # rs' \<Longrightarrow>
             process_step p (p\<lparr>prOpen := rs @ rs', prAnswered := prAnswered p @ [r],
               prIdle := (if prSignal p < ShuttingDown then prIdle p + 1 else prIdle p)\<rparr>)"
| serve_fails: "prExit p = None \<Longrightarrow> prServing p \<Longrightarrow> prSignal p < ShuttingDown \<Longrightarrow>
             err \<noteq> ErrServerClosed \<Longrightarrow> process_step p (serve_ends err p)"
| receive: "prExit p = None \<Longrightarrow> prSignal p = Waiting \<Longrightarrow> process_step p (p\<lparr>prSignal := Received\<rparr>)"
| signal: "prExit p = None \<Longrightarrow> prSignal p = Received \<Longrightarrow>
             process_step p (println ''Shutting down...'' (p\<lparr>prSignal := Signalled\<rparr>))"
| close_listener: "prExit p = None \<Longrightarrow> prSignal p = Signalled \<Longrightarrow>
             process_step p (p\<lparr>prSignal := ShuttingDown\<rparr>)"
| serve_returns: "prExit p = None \<Longrightarrow> prServing p \<Longrightarrow> ShuttingDown \<le> prSignal p \<Longrightarrow>
             process_step p (serve_ends ErrServerClosed p)"
| shutdown_returns: "prExit p = None \<Longrightarrow> prSignal p = ShuttingDown \<Longrightarrow> prIdle p = 0 \<Longrightarrow> prOpen p = [] \<Longrightarrow>
             process_step p (signal_ends result p)"
| stop_failed: "prExit p = None \<Longrightarrow> prSignal p = StopFailed \<Longrightarrow> process_step p (p\<lparr>prExit := Some 1\<rparr>)"
| main_prints: "prExit p = None \<Longrightarrow> \<not> prServing p \<Longrightarrow> \<not> prStopped p \<Longrightarrow>
             process_step p (println ''Server stopped.'' (p\<lparr>prStopped := True\<rparr>))"
| main_returns: "prExit p = None \<Longrightarrow> prStopped p \<Longrightarrow> process_step p (p\<lparr>prExit := Some 0\<rparr>)"

inductive_cases process_stepE: "process_step p p'"

definition reachable_process :: "process \<Rightarrow> bool" where
  "reachable_process p \<longleftrightarrow> process_step\<^sup>*\<^sup>* new_process p"

end
