(* ===== verification/Node_Props.thy ===== *)
theory Node_Props
  imports Node_Command Beacon_Samples
begin

text \<open>
  The properties of the command that runs the Beacon mock: which address its server listens on, and
  how the process ends.
\<close>

section \<open>Addresses\<close>

lemma split_last_None: "split_last c s = None \<longleftrightarrow> c \<notin> set s"
  by (induction s) (auto split: option.splits)

lemma split_last_append: "c \<notin> set after \<Longrightarrow> split_last c (before @ c # after) = Some (before, after)"
  by (induction before) (simp_all add: split_last_None [THEN iffD2])

declare split_last.simps [simp del]

lemma port_chars: "c \<in> {CHR '':'', CHR ''['', CHR '']''} \<Longrightarrow> c \<notin> set (FormatUint n)"
  using FormatUint_plain [of n] by (auto simp: list_all_iff is_digit_def)

definition plain_host :: "string \<Rightarrow> bool" where
  "plain_host host \<longleftrightarrow> (\<forall>c\<in>set host. c \<notin> {CHR '':'', CHR ''['', CHR '']''})"

lemma HasPrefix_single: "HasPrefix s [c] \<longleftrightarrow> (\<exists>t. s = c # t)"
  by (cases s) (auto simp: HasPrefix_def)

lemma SplitHostPort_plain:
  assumes "plain_host host"
  shows "SplitHostPort (host @ '':'' @ FormatUint n) = Inr (host, FormatUint n)"
proof -
  have "\<not> HasPrefix (host @ '':'' @ FormatUint n) ''[''"
    using assms by (cases host) (auto simp: HasPrefix_single plain_host_def)
  then show ?thesis
    using assms by (auto simp: SplitHostPort_def split_last_append port_chars plain_host_def)
qed

lemma SplitHostPort_colons:
  assumes "CHR '':'' \<in> set host" and "\<not> HasPrefix host ''[''"
  shows "SplitHostPort (host @ '':'' @ FormatUint n) = Inl ''too many colons in address''"
proof -
  have "\<not> HasPrefix (host @ '':'' @ FormatUint n) ''[''"
    using assms by (cases host) (auto simp: HasPrefix_single)
  then show ?thesis using assms by (simp add: SplitHostPort_def split_last_append port_chars)
qed

lemma SplitHostPort_brackets:
  assumes "CHR ''['' \<notin> set host" and "CHR '']'' \<notin> set host"
  shows "SplitHostPort ((''['' @ host @ '']'') @ '':'' @ FormatUint n) = Inr (host, FormatUint n)"
proof -
  have last: "split_last (CHR '':'') (CHR ''['' # host @ CHR '']'' # CHR '':'' # FormatUint n)
      = Some (CHR ''['' # host @ '']'', FormatUint n)"
    using split_last_append [of "CHR '':''" "FormatUint n" "CHR ''['' # host @ '']''"]
    by (simp add: port_chars)
  have until: "takeWhile (\<lambda>c. c \<noteq> CHR '']'') (host @ CHR '']'' # s) = host"
    "dropWhile (\<lambda>c. c \<noteq> CHR '']'') (host @ CHR '']'' # s) = CHR '']'' # s" for s
    using assms(2) by (auto simp: takeWhile_append dropWhile_append)
  show ?thesis
    using assms by (simp add: SplitHostPort_def last until HasPrefix_single Let_def port_chars)
qed

section \<open>Starting\<close>

text \<open>What \<open>launch\<close> does once it knows the address and has a configuration.\<close>

definition listening ::
  "beacon_lib \<Rightarrow> server_lib \<Rightarrow> flags \<Rightarrow> Config \<Rightarrow> heap \<Rightarrow> int \<Rightarrow> BeaconMockServer" where
  "listening lib slib fl cfg h socket =
     \<lparr> srvIp = flagIp fl,
       srvPort = (if (2 :: nat) ^ 16 dvd unat (flagPort fl) then word_of_int socket
                  else of_nat (unat (flagPort fl) mod 2 ^ 16)),
       srvSocket = Some socket, srvRouter = server_routes lib slib,
       srvManager = NewBeaconMockManager cfg h \<rparr>"

definition not_started :: "error \<Rightarrow> launched" where
  "not_started e =
     Exit 1 (Wrapf ''Error starting server: %v'' [] (Wrapf ''error creating socket: %w'' [] e))"

lemma low_bits: "unat (ucast (p :: u64) :: u16) = unat p mod 2 ^ 16"
  by (simp add: unsigned_ucast_eq take_bit_eq_mod)

lemma low_bits_word: "(ucast (p :: u64) :: u16) = of_nat (unat p mod 2 ^ 16)"
  unfolding low_bits [symmetric] by simp

lemma low_bits_zero: "(ucast (p :: u64) :: u16) = 0 \<longleftrightarrow> (2 :: nat) ^ 16 dvd unat p"
  unfolding dvd_eq_mod_eq_0 low_bits [symmetric] by (simp add: unat_eq_zero)

lemma low_bits_port:
  "(if (ucast (p :: u64) :: u16) = 0 then (x :: u16) else ucast p)
    = (if (2 :: nat) ^ 16 dvd unat p then x else of_nat (unat p mod 2 ^ 16))"
  unfolding low_bits_zero unfolding low_bits_word ..

lemma launch_splits:
  assumes "load_config clib env (flagConfigFile fl) = Inr cfg"
    and "SplitHostPort (flagIp fl @ '':'' @ FormatUint (unat (flagPort fl) mod 2 ^ 16)) = r"
  shows "launch lib slib clib env listen fl h =
    (case r of
       Inl why \<Rightarrow> not_started (Errorf ''listen tcp: address %s: %s''
                      [flagIp fl @ '':'' @ FormatUint (unat (flagPort fl) mod 2 ^ 16), why])
     | Inr (host, port) \<Rightarrow>
         (case listen host port of
            Inl e \<Rightarrow> not_started e
          | Inr socket \<Rightarrow> Running (listening lib slib fl cfg h socket)))"
proof -
  let ?s = "\<lparr> srvIp = flagIp fl, srvPort = ucast (flagPort fl), srvSocket = None,
               srvRouter = server_routes lib slib, srvManager = NewBeaconMockManager cfg h \<rparr>"
  have "Start listen ?s =
    (case net_Listen listen (flagIp fl @ '':'' @ FormatUint (unat (flagPort fl) mod 2 ^ 16)) of
       Inl e \<Rightarrow> Inl (Wrapf ''error creating socket: %w'' [] e)
     | Inr socket \<Rightarrow> Inr (listening lib slib fl cfg h socket))"
    unfolding Start_def listening_def low_bits_port [symmetric] BeaconMockServer.simps low_bits ..
  moreover have "launch lib slib clib env listen fl h =
    (case Start listen ?s of
       Inl e \<Rightarrow> Exit 1 (Wrapf ''Error starting server: %v'' [] e) | Inr s \<Rightarrow> Running s)"
    by (simp add: launch_def NewBeaconMockServer_def assms(1))
  ultimately show ?thesis
    unfolding net_Listen_def assms(2) not_started_def by (auto split: sum.splits)
qed

text \<open>C39: on a host name or an IPv4 address the command asks for the port of the flag modulo 65536, and an
  error of the operating system ends it with code 1. A multiple of 65536 means a port of the
  operating system's choice.\<close>

theorem node_listens:
  assumes "load_config clib env (flagConfigFile fl) = Inr cfg" and "plain_host (flagIp fl)"
  shows "launch lib slib clib env listen fl h =
     (case listen (flagIp fl) (FormatUint (unat (flagPort fl) mod 2 ^ 16)) of
        Inl e \<Rightarrow> not_started e
      | Inr socket \<Rightarrow> Running (listening lib slib fl cfg h socket))"
  by (simp only: launch_splits [OF assms(1) SplitHostPort_plain [OF assms(2)]] sum.case prod.case)

definition sample_network :: network where
  "sample_network host port = (if port = ''0'' then Inr 40001 else case ParseUint port 16 of Inl e \<Rightarrow> Inl e | Inr n \<Rightarrow> Inr (int n))"

definition sample_files :: file_env where
  "sample_files = \<lparr> Stat = (\<lambda>_. NotExist), ReadFile = (\<lambda>_. Inl (External ''no such file'')), Now = 0 \<rparr>"

lemma sample_load_config: "load_config sample_config_lib sample_files [] = Inr (NewDefaultConfig sample_config_lib 0)"
  by (simp add: load_config_def sample_files_def)

theorem node_listens_witness:
  "launch sample_lib sample_slib sample_config_lib sample_files sample_network
     (default_flags\<lparr>flagPort := 70000\<rparr>) sample_heap
   = Running (listening sample_lib sample_slib (default_flags\<lparr>flagPort := 70000\<rparr>)
       (NewDefaultConfig sample_config_lib 0) sample_heap 4464)
   \<and> GetPort (listening sample_lib sample_slib (default_flags\<lparr>flagPort := 70000\<rparr>)
       (NewDefaultConfig sample_config_lib 0) sample_heap 4464) = 4464"
proof -
  let ?fl = "default_flags\<lparr>flagPort := 70000\<rparr>"
  have load: "load_config sample_config_lib sample_files (flagConfigFile ?fl)
      = Inr (NewDefaultConfig sample_config_lib 0)"
    by (simp add: default_flags_def sample_load_config)
  have ip: "plain_host (flagIp ?fl)" by (simp add: default_flags_def plain_host_def)
  have port: "FormatUint (unat (flagPort ?fl) mod 2 ^ 16) = FormatUint 4464" by simp
  have "FormatUint 4464 \<noteq> ''0''" by code_simp
  then have "sample_network host (FormatUint 4464) = Inr 4464" for host
    using ParseUint_FormatUint [of 4464 16] by (simp add: sample_network_def)
  then show ?thesis
    unfolding node_listens [OF load ip] port by (simp add: GetPort_def listening_def)
qed

text \<open>An IPv6 address is refused before the operating system is asked, whatever the port; in
  brackets it is listened on.\<close>

theorem ipv6_needs_brackets:
  assumes "load_config clib env (flagConfigFile fl) = Inr cfg"
    and "CHR '':'' \<in> set host" and "CHR ''['' \<notin> set host" and "CHR '']'' \<notin> set host"
  shows "launch lib slib clib env listen (fl\<lparr>flagIp := host\<rparr>) h =
      not_started (Errorf ''listen tcp: address %s: %s''
        [host @ '':'' @ FormatUint (unat (flagPort fl) mod 2 ^ 16), ''too many colons in address''])
    \<and> launch lib slib clib env listen (fl\<lparr>flagIp := ''['' @ host @ '']''\<rparr>) h =
      (case listen host (FormatUint (unat (flagPort fl) mod 2 ^ 16)) of
         Inl e \<Rightarrow> not_started e
       | Inr socket \<Rightarrow> Running (listening lib slib (fl\<lparr>flagIp := ''['' @ host @ '']''\<rparr>) cfg h socket))"
proof -
  let ?port = "FormatUint (unat (flagPort fl) mod 2 ^ 16)"
  have load: "load_config clib env (flagConfigFile (fl\<lparr>flagIp := ip\<rparr>)) = Inr cfg" for ip
    using assms(1) by simp
  have split: "SplitHostPort (flagIp (fl\<lparr>flagIp := ip\<rparr>) @ '':'' @
      FormatUint (unat (flagPort (fl\<lparr>flagIp := ip\<rparr>)) mod 2 ^ 16)) = r"
    if "SplitHostPort (ip @ '':'' @ ?port) = r" for ip r
    using that by simp
  have "\<not> HasPrefix host ''[''" using assms(3) by (auto simp: HasPrefix_single)
  note bare = launch_splits [OF load split [OF SplitHostPort_colons [OF assms(2) this]]]
  note bracketed = launch_splits [OF load split [OF SplitHostPort_brackets [OF assms(3,4)]]]
  show ?thesis unfolding bare bracketed sum.case prod.case by simp
qed

theorem ipv6_needs_brackets_witness:
  "launch sample_lib sample_slib sample_config_lib sample_files sample_network
     (default_flags\<lparr>flagIp := ''::1''\<rparr>) sample_heap
   = not_started (Errorf ''listen tcp: address %s: %s''
       [''::1:'' @ FormatUint 48812, ''too many colons in address''])"
proof -
  have "load_config sample_config_lib sample_files (flagConfigFile default_flags)
      = Inr (NewDefaultConfig sample_config_lib 0)"
    by (simp add: default_flags_def sample_load_config)
  from ipv6_needs_brackets [OF this, of "''::1''"] show ?thesis by (simp add: default_flags_def)
qed

section \<open>The end of the process\<close>

lemmas process_defs = println_def print_error_def serve_ends_def signal_ends_def server_Stop_def

text \<open>The goroutine of the signals only moves forward.\<close>

lemma signal_forward: "process_step p p' \<Longrightarrow> prSignal p \<le> prSignal p'"
  by (erule process_stepE) (auto simp: process_defs stage_defs split: option.splits)

definition closing :: "process \<Rightarrow> bool" where
  "closing p \<longleftrightarrow> ShuttingDown \<le> prSignal p"

text \<open>How many steps a process that is shutting down can still make.\<close>

definition signal_left :: "signal_state \<Rightarrow> nat" where
  "signal_left s = (case s of ShuttingDown \<Rightarrow> 2 | StopFailed \<Rightarrow> 1 | _ \<Rightarrow> 0)"

definition steps_left :: "process \<Rightarrow> nat" where
  "steps_left p =
     (if prExit p \<noteq> None then 0
      else 2 * prIdle p + length (prOpen p) + (if prServing p then 1 else 0)
             + signal_left (prSignal p) + (if prStopped p then 1 else 2))"

lemma closing_step:
  assumes "process_step p p'" and "closing p"
  shows "closing p' \<and> steps_left p' < steps_left p"
proof
  show "closing p'" using signal_forward [OF assms(1)] assms(2) by (simp add: closing_def)
  from assms(1) show "steps_left p' < steps_left p"
    by (rule process_stepE)
      (use assms(2) in \<open>auto simp: closing_def steps_left_def signal_left_def process_defs stage_defs split: option.splits\<close>)
qed

lemma closing_run:
  assumes "(process_step ^^ n) p p'" and "closing p"
  shows "closing p' \<and> steps_left p' + n \<le> steps_left p"
  using assms
proof (induction n arbitrary: p')
  case (Suc n)
  then obtain q where q: "(process_step ^^ n) p q" "process_step q p'" by auto
  with Suc show ?case using closing_step [OF q(2)] by fastforce
qed simp

lemma not_stuck: "closing p \<Longrightarrow> prExit p = None \<Longrightarrow> \<exists>q. process_step p q"
  by (cases "prServing p"; cases "prStopped p") (auto simp: closing_def intro: serve_returns main_prints main_returns)

text \<open>C23: once the server is shutting down the process ends: however its goroutines interleave, it makes at
  most one step for each open request, two for each connection that waits for one and five more,
  and until it has exited it can always make one.\<close>

theorem shutdown_ends:
  assumes "prSignal p = ShuttingDown" and "(process_step ^^ n) p p'"
  shows "n \<le> 2 * prIdle p + length (prOpen p) + 5 \<and> (prExit p' = None \<longleftrightarrow> (\<exists>q. process_step p' q))"
proof -
  have "closing p" using assms(1) by (simp add: closing_def)
  from closing_run [OF assms(2) this] have "closing p'" and "n \<le> steps_left p" by auto
  moreover have "steps_left p \<le> 2 * prIdle p + length (prOpen p) + 5"
    using assms(1) by (simp add: steps_left_def signal_left_def)
  moreover have "prExit p' = None" if "process_step p' q" for q using that by (rule process_stepE)
  ultimately show ?thesis using not_stuck by auto
qed

definition draining :: "Request \<Rightarrow> process" where
  "draining r = new_process\<lparr>prSignal := ShuttingDown, prOpen := [r]\<rparr>"

theorem shutdown_ends_witness:
  "\<exists>q. process_step (draining \<lparr>Method = ''GET'', Path = [], Query = Map.empty, Body = Inr [], Vars = Map.empty\<rparr>) q"
  using shutdown_ends [of "draining \<lparr>Method = ''GET'', Path = [], Query = Map.empty, Body = Inr [], Vars = Map.empty\<rparr>" 0]
  by (simp add: draining_def new_process_def)

text \<open>Runs to an exit.\<close>

lemma step_then: "process_step p q \<Longrightarrow> process_step\<^sup>*\<^sup>* q r \<Longrightarrow> process_step\<^sup>*\<^sup>* p r"
  by (rule converse_rtranclp_into_rtranclp)

lemma reach_shutdown:
  assumes "prExit p = None"
  shows "\<exists>q. process_step\<^sup>*\<^sup>* p q \<and> closing q \<and> prExit q = None \<and> prOpen q = prOpen p
    \<and> prAnswered q = prAnswered p"
  using assms
proof (induction "3 - stage (prSignal p)" arbitrary: p rule: less_induct)
  case less
  have next_step: ?case
    if "process_step p t" "prExit t = None" "prOpen t = prOpen p" "prAnswered t = prAnswered p"
      "stage (prSignal t) = Suc (stage (prSignal p))" "stage (prSignal p) < 3" for t
    using less.hyps [of t] that step_then [OF that(1)] by fastforce
  show ?case
  proof (cases "prSignal p")
    case Waiting
    then show ?thesis using next_step [OF receive [OF less.prems]] less.prems by simp
  next
    case Received
    then show ?thesis using next_step [OF signal [OF less.prems]] less.prems by (simp add: println_def)
  next
    case Signalled
    then show ?thesis using next_step [OF close_listener [OF less.prems]] less.prems by simp
  qed (use less.prems in \<open>auto simp: closing_def stage_defs\<close>)
qed

lemma reach_exit:
  assumes "closing q" and "prExit q = None"
  shows "\<exists>r. process_step\<^sup>*\<^sup>* q r \<and> prExit r = Some 0 \<and> prOpen r = prOpen q
    \<and> prAnswered r = prAnswered q"
proof -
  have printed: "\<exists>r. process_step\<^sup>*\<^sup>* t r \<and> prExit r = Some 0 \<and> prOpen r = prOpen t
      \<and> prAnswered r = prAnswered t" if "prExit t = None" "prStopped t" for t
    using step_then [OF main_returns [OF that] rtranclp.rtrancl_refl] by (intro exI) auto
  have stopped: "\<exists>r. process_step\<^sup>*\<^sup>* t r \<and> prExit r = Some 0 \<and> prOpen r = prOpen t
      \<and> prAnswered r = prAnswered t" if "prExit t = None" "\<not> prServing t" for t
  proof (cases "prStopped t")
    case False
    let ?u = "println ''Server stopped.'' (t\<lparr>prStopped := True\<rparr>)"
    have "process_step t ?u" by (rule main_prints [OF that False])
    with printed [of ?u] that(1) step_then show ?thesis by (fastforce simp: println_def)
  qed (use printed that in blast)
  show ?thesis
  proof (cases "prServing q")
    case True
    let ?t = "serve_ends ErrServerClosed q"
    have "process_step q ?t" using serve_returns [OF assms(2) True] assms(1) by (simp add: closing_def)
    with stopped [of ?t] assms(2) step_then show ?thesis by (fastforce simp: serve_ends_def)
  qed (use stopped assms(2) in blast)
qed

lemma reach_answered:
  assumes "prExit q = None"
  shows "\<exists>r. process_step\<^sup>*\<^sup>* q r \<and> prSignal r = prSignal q \<and> prExit r = None \<and> prOpen r = []
    \<and> prAnswered r = prAnswered q @ prOpen q"
  using assms
proof (induction "prOpen q" arbitrary: q)
  case Nil
  then show ?case by (metis append_Nil2 rtranclp.rtrancl_refl)
next
  case (Cons r rs)
  let ?t = "q\<lparr>prOpen := rs, prAnswered := prAnswered q @ [r],
      prIdle := (if prSignal q < ShuttingDown then prIdle q + 1 else prIdle q)\<rparr>"
  have "process_step q ?t" using answer [OF Cons.prems, of "[]" r rs] Cons.hyps(2) by simp
  with Cons.hyps(1) [of ?t] Cons.prems Cons.hyps(2) [symmetric] step_then show ?case by fastforce
qed

text \<open>C24: nothing makes the process wait for its requests: from any state in which it runs it can be
  stopped and exit with code 0 with all its open requests answered, and just as well with none of
  them answered.\<close>

theorem shutdown_may_abandon_requests:
  assumes "prExit p = None"
  shows "(\<exists>p'. process_step\<^sup>*\<^sup>* p p' \<and> prExit p' = Some 0 \<and> prOpen p' = []
            \<and> prAnswered p' = prAnswered p @ prOpen p)
       \<and> (\<exists>p'. process_step\<^sup>*\<^sup>* p p' \<and> prExit p' = Some 0 \<and> prOpen p' = prOpen p
            \<and> prAnswered p' = prAnswered p)"
proof -
  have stop: "\<exists>p'. process_step\<^sup>*\<^sup>* q p' \<and> prExit p' = Some 0 \<and> prOpen p' = prOpen q
      \<and> prAnswered p' = prAnswered q" if "prExit q = None" for q
    using reach_shutdown [OF that] reach_exit by (metis rtranclp_trans)
  obtain q where "process_step\<^sup>*\<^sup>* p q" "prExit q = None" "prOpen q = []"
    "prAnswered q = prAnswered p @ prOpen p"
    using reach_answered [OF assms] by blast
  with stop [of q] have "\<exists>p'. process_step\<^sup>*\<^sup>* p p' \<and> prExit p' = Some 0 \<and> prOpen p' = []
      \<and> prAnswered p' = prAnswered p @ prOpen p" by (metis rtranclp_trans)
  with stop [OF assms] show ?thesis by blast
qed

definition sample_request :: Request where
  "sample_request = \<lparr> Method = ''GET'', Path = ''/eth/v1/node/syncing'', Query = Map.empty, Body = Inr [], Vars = Map.empty \<rparr>"

theorem shutdown_may_abandon_requests_witness:
  "\<exists>p'. process_step\<^sup>*\<^sup>* (new_process\<lparr>prOpen := [sample_request]\<rparr>) p' \<and> prExit p' = Some 0
     \<and> prOpen p' = [sample_request] \<and> prAnswered p' = []"
  using shutdown_may_abandon_requests [of "new_process\<lparr>prOpen := [sample_request]\<rparr>"]
  by (simp add: new_process_def)

section \<open>Exit codes\<close>

text \<open>The lines on the standard output, by how far the goroutines of the signals and of the main are.\<close>

definition printed_lines :: "process \<Rightarrow> bool" where
  "printed_lines p \<longleftrightarrow>
     (if prSignal p < Signalled then prOut p = (if prStopped p then [''Server stopped.''] else [])
      else if \<not> prStopped p then prOut p = [''Shutting down...'']
      else prOut p = [''Shutting down...'', ''Server stopped.'']
         \<or> prOut p = [''Server stopped.'', ''Shutting down...''] \<and> prErr p \<noteq> [])"

definition process_inv :: "process \<Rightarrow> bool" where
  "process_inv p \<longleftrightarrow>
     (prServing p \<or> prErr p \<noteq> [] \<or> closing p)
   \<and> (prStopped p \<longrightarrow> \<not> prServing p)
   \<and> (ShuttingDown < prSignal p \<longrightarrow> prOpen p = [] \<and> prIdle p = 0)
   \<and> (prSignal p = StopFailed \<longrightarrow> prErr p \<noteq> [])
   \<and> (prExit p = None \<or> prExit p = Some 0 \<and> prStopped p \<or> prExit p = Some 1 \<and> prSignal p = StopFailed)
   \<and> printed_lines p"

lemma process_inv_step:
  assumes "process_step p p'" and "process_inv p"
  shows "process_inv p'"
  using assms(1)
  by (rule process_stepE)
    (use assms(2) in \<open>auto simp: process_inv_def printed_lines_def closing_def process_defs stage_defs split: option.splits\<close>)

lemma reachable_process_inv:
  assumes "reachable_process p"
  shows "process_inv p"
  using assms unfolding reachable_process_def
proof (induction rule: rtranclp_induct)
  case base
  show ?case by (simp add: process_inv_def printed_lines_def new_process_def stage_defs)
next
  case (step p q)
  then show ?case by (blast intro: process_inv_step)
qed

text \<open>C25: the command exits with 0 or 1. With 0, \<open>Serve\<close> has returned and "Server stopped." has been printed;
  unless the shutdown had begun, an error of \<open>Serve\<close> has been logged. With 1, the shutdown has failed:
  no request is open, no connection is left, "Shutting down..." has been printed and an error too. When both lines are
  printed, "Server stopped." comes first only if an error has been logged.\<close>

theorem process_exit_codes:
  assumes "reachable_process p" and "prExit p = Some code"
  shows "(code = 0 \<and> \<not> prServing p \<and> ''Server stopped.'' \<in> set (prOut p)
            \<and> (prSignal p < ShuttingDown \<longrightarrow> prErr p \<noteq> [])
          \<or> code = 1 \<and> prOpen p = [] \<and> prIdle p = 0 \<and> prErr p \<noteq> [] \<and> ''Shutting down...'' \<in> set (prOut p))
       \<and> (prOut p \<in> {[''Server stopped.''], [''Shutting down...''], [''Shutting down...'', ''Server stopped.'']}
          \<or> prOut p = [''Server stopped.'', ''Shutting down...''] \<and> prErr p \<noteq> [])"
  using reachable_process_inv [OF assms(1)] assms(2)
  by (auto simp: process_inv_def printed_lines_def closing_def stage_defs split: if_splits)

text \<open>The witness: the listener fails, the main goroutine prints its line, a signal arrives and its
  goroutine prints after it, and the process ends.\<close>

definition failed_listener :: process where
  "failed_listener = serve_ends (External ''accept: too many open files'') new_process"

definition late_signal :: process where
  "late_signal = println ''Shutting down...''
     ((println ''Server stopped.'' (failed_listener\<lparr>prStopped := True\<rparr>))\<lparr>prSignal := Received, prSignal := Signalled\<rparr>)"

theorem process_exit_codes_witness:
  "reachable_process (late_signal\<lparr>prExit := Some 0\<rparr>)
   \<and> prOut (late_signal\<lparr>prExit := Some 0\<rparr>) = [''Server stopped.'', ''Shutting down...'']
   \<and> prErr (late_signal\<lparr>prExit := Some 0\<rparr>) \<noteq> []"
proof -
  let ?s = "println ''Server stopped.'' (failed_listener\<lparr>prStopped := True\<rparr>)"
  note defs = failed_listener_def late_signal_def new_process_def process_defs ErrServerClosed_def
  have "process_step new_process failed_listener"
    unfolding failed_listener_def by (rule serve_fails) (simp_all add: new_process_def ErrServerClosed_def stage_defs)
  moreover have "process_step failed_listener ?s" by (rule main_prints) (simp_all add: defs)
  moreover have "process_step ?s (?s\<lparr>prSignal := Received\<rparr>)" by (rule receive) (simp_all add: defs)
  moreover have "process_step (?s\<lparr>prSignal := Received\<rparr>) late_signal"
    unfolding late_signal_def by (rule signal) (simp_all add: defs)
  moreover have "process_step late_signal (late_signal\<lparr>prExit := Some 0\<rparr>)"
    by (rule main_returns) (simp_all add: defs)
  ultimately have reach: "reachable_process (late_signal\<lparr>prExit := Some 0\<rparr>)"
    unfolding reachable_process_def by (blast intro: step_then)
  have out: "prOut (late_signal\<lparr>prExit := Some 0\<rparr>) = [''Server stopped.'', ''Shutting down...'']"
    by (simp add: defs)
  have "prExit (late_signal\<lparr>prExit := Some 0\<rparr>) = Some 0" by simp
  from process_exit_codes [OF reach this] reach out show ?thesis by auto
qed

end
