(* ===== verification/Spec2Isabelle.thy ===== *)
theory Spec2Isabelle
  imports Beacon_Props Beacon_Model_Props Beacon_Fixture Server_Props Docker_Props Docker_Service_Props
    Docker_Compose_Props Filesystem_Props Test_Manager_Props Key_Props Node_Props
begin

text \<open>
  OSHA is the test harness of NodeSet's node software: it stands in for the services a node talks to,
  and takes snapshots of all of them so that tests can start from a known state. This is a model of
  its Go code in HOL with the theorems that say it does what a test relies on, and where it does not.

  \<^bold>\<open>The program.\<close> A \<open>TestManager\<close> (\<open>test-manager.go\<close>) owns a mock of a Beacon node (\<open>beacon/\<close>), a mock of
  a Docker daemon (\<open>docker/\<close>) and a folder of test files (\<open>filesystem/\<close>), and talks to a Hardhat node
  over RPC. \<open>CreateSnapshot\<close> draws a fresh name and takes a snapshot of each of them, and of every
  module that registered (\<open>module.go\<close>), under that name; \<open>RevertSnapshot\<close> goes back to one. The Beacon
  mock can also be reached over HTTP (\<open>beacon/server\<close>, \<open>beacon/api\<close>) and run on its own
  (\<open>beacon/osha-bn.go\<close>). \<open>keys/\<close> derives the keys of test accounts.

  \<^bold>\<open>How the model is written.\<close> A struct is a record, a 64-bit integer a \<open>64 word\<close>, a map a partial
  function, a pointer that may be nil an option. Where the code shares objects through pointers
  (validators, deposits and databases of the Beacon mock) there is an explicit heap of them. A call
  returns an \<open>outcome\<close>: a value, an error with the text and arguments of its \<open>fmt.Errorf\<close>, or a panic.
  A method that holds a mutex for its whole body is one atomic step; where the code makes several
  such calls in a row the calls of other clients may come in between, and the properties say so. What
  the runtime or the operating system decides (the order in which a map is visited, random names, the
  time, whether a system call fails) is an environment the theorems quantify over. Logging is left out.

  \<^bold>\<open>The theories.\<close>
  \<^item> \<open>Osha_Prelude\<close>, \<open>Go_Effects\<close>: outcomes, errors, sequencing of stateful calls and loops.
    \<open>Go_Strings\<close>, \<open>Go_Numbers\<close>, \<open>Go_Hex\<close>, \<open>Go_Files\<close>: what the code uses of packages \<open>strings\<close>,
    \<open>strconv\<close>, \<open>fmt\<close>, \<open>encoding/hex\<close>, \<open>path/filepath\<close>, and the tree of files behind package \<open>os\<close>.
  \<^item> \<open>Snapshots\<close>, \<open>Slot_Clock\<close>, \<open>Lease_Pool\<close>: the interfaces. \<open>snapshotting\<close> is what the Beacon, Docker
    and filesystem managers and the test manager itself promise: whatever happens in between, a
    revert brings back the view the snapshot was taken of. \<open>slot_clock\<close> is what the reader of the two
    slots relies on, \<open>lease_pool\<close> what the networks promise of their subnets. Each is interpreted on the
    model of the code that provides it (\<open>beacon_snapshots\<close>, \<open>docker_snapshots\<close>, \<open>fs_snapshots\<close>,
    \<open>test_snapshots\<close>, \<open>db_clock\<close>, \<open>subnets\<close>).
  \<^item> \<open>Beacon_Validator\<close>, \<open>Beacon_Config\<close>, \<open>Beacon_Database\<close> (\<open>beacon/db\<close>), \<open>Beacon_Manager\<close>
    (\<open>beacon/manager\<close>), \<open>Beacon_Server\<close> (\<open>beacon/server\<close>, \<open>beacon/api\<close>), \<open>Node_Command\<close>
    (\<open>beacon/osha-bn.go\<close> and the start and stop of the server).
    \<open>Beacon_Database_Spec\<close> is the abstract database, without pointers; \<open>Beacon_Database_Refine\<close> shows
    that every operation implements its abstract one, keeps the invariant and leaves the other
    databases alone; \<open>Beacon_Database_Steps\<close> and \<open>Beacon_Manager_Inv\<close> lift this to reachable states.
    \<open>Beacon_Model\<close> is the mock as seen by its clients, sessions of calls on a state without pointers;
    \<open>Beacon_Model_Refine\<close> shows call by call that the mock simulates it, \<open>Beacon_Twins\<close> handler by
    handler that mocks of the same view answer HTTP requests alike. \<open>Beacon_Routes\<close> has the
    templates of paths (\<open>beacon/api/routes.go\<close>) and which route a path reaches.
    \<open>Beacon_Fixture\<close> is the test data of \<open>beacon/internal\<close>.
  \<^item> \<open>Docker_Types\<close>, \<open>Docker_State\<close> (\<open>docker/state.go\<close>, \<open>manager.go\<close>), \<open>Docker_Client\<close> (\<open>client.go\<close>),
    \<open>Docker_Generation\<close> (\<open>generation.go\<close>), \<open>Docker_Compose\<close> (\<open>compose.go\<close>). \<open>Docker_Manager_Inv\<close>,
    \<open>Docker_Networks_Inv\<close> and \<open>Docker_Service_Facts\<close> hold the invariants and the effects of operations;
    \<open>Docker_Compose_Facts\<close>, \<open>Docker_Compose_Use\<close> and \<open>Docker_Compose_Again\<close> what \<open>Up\<close> leaves of a whole
    project, what a test may do with it, and what a second \<open>Up\<close> does; \<open>Docker_Compose_Total\<close> when
    \<open>Up\<close> succeeds and what it leaves when it runs out of subnets.
  \<^item> \<open>Filesystem\<close> (\<open>filesystem/manager.go\<close>), \<open>Filesystem_Copy\<close> for the recursive copy, \<open>Filesystem_Inv\<close>.
  \<^item> \<open>Test_Manager\<close> (\<open>test-manager.go\<close>, \<open>types.go\<close>, \<open>snapshot.go\<close>, \<open>module.go\<close>), \<open>Test_Manager_Inv\<close> and
    \<open>Test_Manager_Sessions\<close>: the composition of everything above.
  \<^item> \<open>Key_Generator\<close> (\<open>keys/\<close>).
  \<^item> \<open>Beacon_Samples\<close>, \<open>Docker_Samples\<close>, \<open>Test_Manager_Samples\<close>: concrete libraries, environments and
    states, on which every property with a hypothesis is applied.
  \<^item> The properties are in \<open>Beacon_Props\<close>, \<open>Beacon_Model_Props\<close>, \<open>Server_Props\<close>, \<open>Node_Props\<close>, \<open>Docker_Props\<close>,
    \<open>Docker_Service_Props\<close>, \<open>Docker_Compose_Props\<close>, \<open>Filesystem_Props\<close>, \<open>Test_Manager_Props\<close> and \<open>Key_Props\<close>.

  \<^bold>\<open>What is shown.\<close> Snapshots: each service, and the test manager over all of them, brings back exactly
  what the snapshot had, save what it is shown to lose (pending deposits, hashes of services, modes
  of directories); reverting past a snapshot and forward again leaves Hardhat behind. Equivalence:
  a client of the Beacon mock cannot tell it from a model that has no pointers, nor a reverted mock
  from the one of the snapshot. Invariants: the two
  lookups of the database agree, no two networks share a subnet, every HTTP request makes at most
  one change, the states of the command's process. Routes: the paths clients make from the templates
  reach the handlers with what was filled in, and no path reaches two. Compose: a new project comes
  up exactly if its networks fit, brought up, used and taken down it leaves the mock as it was, and a
  second \<open>Up\<close> breaks this. Outcomes of operations on all branches, including wrap-around of balances,
  thresholds, addresses and ports; which calls return at all (\<open>CreateSnapshot\<close>, the retry of the key
  generator, the shutdown of the command). Where the code does something its comments or its callers do
  not expect, that is a theorem as well.

  \<^bold>\<open>Bounds and fuel.\<close> \<open>MkdirTemp\<close> makes ten thousand attempts, as package \<open>os\<close> does. The search for a
  free snapshot name and the retry with the next key index may not end: they are partial functions,
  and their properties say exactly when they return. A key index is a 64-bit word that wraps; the
  stack of the recursion of \<open>getDerivedKey\<close> is taken as unbounded.

  \<^bold>\<open>Assumptions.\<close> \<open>hardhat_laws\<close>: snapshots and reverts of Hardhat as it documents them, a revert
  deleting the snapshot and the later ones. \<open>module_laws\<close>: a module's snapshot and revert succeed and
  bring back its state, and touch neither the chain nor other modules. \<open>json_faithful\<close>: decoding what
  was encoded gives it back. \<open>fair_ranges\<close>: ranging over a map visits each key once. \<open>project_ok\<close>: what
  compose-go makes of a project (services under their names, on networks of the project, no name
  given twice). \<open>service_fine\<close>: what
  \<open>generateService\<close> takes for granted of a service. \<open>segment_router\<close>: \<open>gorilla/mux\<close> matches a variable
  with one segment of the path. \<open>good_env\<close>: no system call fails for a reason of its own (used by the
  properties on files that say so). Names of
  snapshots are plain file names, as UUIDs are. Every property whose hypotheses include one of these
  has a witness on a concrete instance.

  \<^bold>\<open>Not modelled.\<close> The files of \<open>hardhat/\<close>, which configure an external program. The libraries the code
  calls (go-ethereum, node-manager-core, the Docker and compose packages, JSON and YAML, BIP-32/39,
  BLS, the command line package) are parameters. Symbolic links, owners, times and permission checks
  of files; a link is an irregular file. TCP connections below the level of requests, and
  the redirect with which \<open>mux\<close> answers a path that is not clean. The fields of the Beacon mock
  manager itself have no lock, so that two of its calls at once may race for its database pointer and
  its map of snapshots; the model takes them one after the other. Getters that only hand out a
  pointer the manager holds are the fields of its record.
\<close>

end
